(* ===== verification/Kkm_Prelude.thy ===== *)
theory Kkm_Prelude
  imports Main "HOL-Library.Word" "HOL-Library.Multiset"
begin

unbundle bit_operations_syntax

section \<open>Prelude: machine words, C constants, byte images, shared automation\<close>

text \<open>
  What every component theory shares: the widths of the C types as word types, the Linux
  error numbers the code returns, little-endian byte images of words (what \<open>memcpy\<close>,
  \<open>copy_to_user\<close> and \<open>copy_from_user\<close> move), bit masks, and the collections of
  rewrite rules the component proofs name.
\<close>

named_theorems kkm_defs \<open>definitions of the operations of the model, for unfolding\<close>
named_theorems kkm_consts \<open>values of the C constants\<close>

type_synonym u8 = "8 word"
type_synonym u16 = "16 word"
type_synonym u32 = "32 word"
type_synonym u64 = "64 word"

subsection \<open>Constants of C and Linux\<close>

text \<open>Kernel functions return negated error numbers as \<open>int\<close>.\<close>

abbreviation (input) EINTR :: int where "EINTR \<equiv> 4"
abbreviation (input) ENOMEM :: int where "ENOMEM \<equiv> 12"
abbreviation (input) EFAULT :: int where "EFAULT \<equiv> 14"
abbreviation (input) EINVAL :: int where "EINVAL \<equiv> 22"
abbreviation (input) EOPNOTSUPP :: int where "EOPNOTSUPP \<equiv> 95"

abbreviation (input) PAGE_SHIFT :: nat where "PAGE_SHIFT \<equiv> 12"
abbreviation (input) PAGE_SIZE :: u64 where "PAGE_SIZE \<equiv> 4096"

subsection \<open>Little-endian byte images\<close>

definition le_bytes :: "nat \<Rightarrow> 'a::len word \<Rightarrow> u8 list" where
  "le_bytes n w = map (\<lambda>i. ucast (drop_bit (8 * i) w)) [0..<n]"

fun of_le :: "u8 list \<Rightarrow> 'a::len word" where
  "of_le [] = 0"
| "of_le (b # bs) = ucast b OR push_bit 8 (of_le bs)"

lemma length_le_bytes [simp]: "length (le_bytes n w) = n"
  by (simp add: le_bytes_def)

lemma nth_le_bytes [simp]: "i < n \<Longrightarrow> le_bytes n w ! i = ucast (drop_bit (8 * i) w)"
  by (simp add: le_bytes_def)

lemma bit_of_le:
  "bit (of_le bs :: 'a::len word) k \<longleftrightarrow>
     k < LENGTH('a) \<and> k div 8 < length bs \<and> bit (bs ! (k div 8)) (k mod 8)"
proof (induction bs arbitrary: k)
  case Nil
  then show ?case by simp
next
  case (Cons b bs)
  show ?case
  proof (cases "k < 8")
    case True
    then show ?thesis
      by (auto simp: bit_or_iff bit_push_bit_iff bit_ucast_iff)
  next
    case False
    then obtain j where k: "k = j + 8"
      by (metis add.commute le_Suc_ex not_le)
    have "\<not> bit b k"
      using False by (auto dest: bit_imp_le_length)
    then show ?thesis
      using k Cons.IH [of j]
      by (auto simp: bit_or_iff bit_push_bit_iff bit_ucast_iff div_add_self2 dest: bit_imp_le_length)
  qed
qed

lemma bit_ucast_byte: "bit (ucast (drop_bit m w :: 'a::len word) :: u8) j \<longleftrightarrow> j < 8 \<and> bit w (m + j)"
  by (simp add: bit_ucast_iff bit_drop_bit_eq)

lemma of_le_le_bytes:
  assumes "LENGTH('a) \<le> 8 * n"
  shows "of_le (le_bytes n (w :: 'a::len word)) = w"
proof (rule bit_word_eqI)
  fix k assume k: "k < LENGTH('a)"
  with assms have "k div 8 < n" by (simp add: less_mult_imp_div_less mult.commute)
  with k show "bit (of_le (le_bytes n w) :: 'a word) k = bit w k"
    by (simp add: bit_of_le bit_ucast_byte)
qed

lemma of_le_u64 [simp]: "of_le (le_bytes 8 (w :: u64)) = w"
  by (rule of_le_le_bytes) simp

lemma of_le_u32 [simp]: "of_le (le_bytes 4 (w :: u32)) = w"
  by (rule of_le_le_bytes) simp

lemma of_le_u16 [simp]: "of_le (le_bytes 2 (w :: u16)) = w"
  by (rule of_le_le_bytes) simp

lemma of_le_u8 [simp]: "of_le [b] = (b :: u8)"
  by (rule bit_word_eqI) (simp add: bit_or_iff bit_ucast_iff)

subsection \<open>Parts of byte buffers\<close>

definition put_bytes :: "nat \<Rightarrow> u8 list \<Rightarrow> u8 list \<Rightarrow> u8 list" where
  "put_bytes off bs text = take off text @ bs @ drop (off + length bs) text"

definition get_bytes :: "nat \<Rightarrow> nat \<Rightarrow> u8 list \<Rightarrow> u8 list" where
  "get_bytes off n buf = take n (drop off buf)"

lemma length_put_bytes: "off + length bs \<le> length text \<Longrightarrow> length (put_bytes off bs text) = length text"
  by (simp add: put_bytes_def)

lemma nth_put_bytes:
  "off + length bs \<le> length text \<Longrightarrow> i < length text \<Longrightarrow>
     put_bytes off bs text ! i = (if off \<le> i \<and> i < off + length bs then bs ! (i - off) else text ! i)"
  by (auto simp: put_bytes_def nth_append min_def)

lemma length_get_bytes [simp]: "off + n \<le> length buf \<Longrightarrow> length (get_bytes off n buf) = n"
  by (simp add: get_bytes_def)

lemma nth_get_bytes: "off + n \<le> length buf \<Longrightarrow> i < n \<Longrightarrow> get_bytes off n buf ! i = buf ! (off + i)"
  by (simp add: get_bytes_def)

lemma get_put_same:
  "off + length bs \<le> length buf \<Longrightarrow> get_bytes off (length bs) (put_bytes off bs buf) = bs"
  by (intro nth_equalityI) (simp_all add: length_put_bytes nth_get_bytes nth_put_bytes)

lemma get_put_other:
  assumes "off + length bs \<le> length buf" "off' + n \<le> length buf" "off' + n \<le> off \<or> off + length bs \<le> off'"
  shows "get_bytes off' n (put_bytes off bs buf) = get_bytes off' n buf"
  using assms by (intro nth_equalityI) (auto simp: length_put_bytes nth_get_bytes nth_put_bytes)

end
