(* ===== verification/Kkm_Types.thy ===== *)
theory Kkm_Types
  imports Kkm_Prelude
begin

section \<open>The data of the module\<close>

text \<open>
  The structures of \<open>kkm_ioctl.h\<close>, \<open>kkm_run.h\<close>, \<open>kkm_mmu.h\<close>, \<open>kkm_kontext.h\<close>,
  \<open>kkm.h\<close> and \<open>kkm_statistics.h\<close>, one record per structure with the source's field
  order. Field names carry a short prefix where the source reuses a name in several
  structures. Pointers are addresses (\<open>u64\<close>, 0 is NULL); arrays are lists whose length is
  part of the well-formedness predicates. Unions: \<open>kkm_run\<close> keeps its \<open>io\<close> and \<open>debug\<close>
  members as separate fields, because the kernel only writes them and the monitor selects
  one by \<open>exit_reason\<close>; the other members are never touched by the module.
\<close>

subsection \<open>Registers (\<open>kkm_ioctl.h\<close>)\<close>

record kkm_regs =
  rax :: u64
  rbx :: u64
  rcx :: u64
  rdx :: u64
  rsi :: u64
  rdi :: u64
  rsp :: u64
  rbp :: u64
  r8 :: u64
  r9 :: u64
  r10 :: u64
  r11 :: u64
  r12 :: u64
  r13 :: u64
  r14 :: u64
  r15 :: u64
  rip :: u64
  rflags :: u64

record kkm_segment =
  seg_base :: u64
  seg_limit :: u32
  seg_selector :: u16
  seg_type :: u8
  seg_present :: u8
  seg_dpl :: u8
  seg_db :: u8
  seg_s :: u8
  seg_l :: u8
  seg_g :: u8
  seg_avl :: u8
  seg_unusable :: u8
  seg_reserved :: u8

record kkm_dtable =
  dt_base :: u64
  dt_limit :: u16
  dt_reserved :: "u16 \<times> u16 \<times> u16"

record kkm_sregs =
  sr_cs :: kkm_segment
  sr_ds :: kkm_segment
  sr_es :: kkm_segment
  sr_fs :: kkm_segment
  sr_gs :: kkm_segment
  sr_ss :: kkm_segment
  sr_tr :: kkm_segment
  sr_ldt :: kkm_segment
  sr_gdt :: kkm_dtable
  sr_idt :: kkm_dtable
  cr0 :: u64
  cr2 :: u64
  cr3 :: u64
  cr4 :: u64
  cr8 :: u64
  efer :: u64
  apic_base :: u64
  intr_bitmap :: "u64 \<times> u64 \<times> u64 \<times> u64"

record kkm_fpu =
  fpr :: "u8 list"
  fcw :: u16
  fsw :: u16
  ftwx :: u8
  pad1 :: u8
  last_opcode :: u16
  last_ip :: u64
  last_dp :: u64
  xmm :: "u8 list"
  mxcsr :: u32
  pad2 :: u32

record kkm_debug =
  dbg_control :: u32
  dbg_reserved :: u32
  dbg_registers :: "u64 list"

record kkm_memory_region =
  mr_slot :: u32
  mr_flags :: u32
  guest_phys_addr :: u64
  memory_size :: u64
  userspace_addr :: u64

datatype fault_reason = FAULT_UNKNOWN | FAULT_HYPER_CALL | FAULT_SYSCALL

fun fault_reason_code :: "fault_reason \<Rightarrow> u32" where
  "fault_reason_code FAULT_UNKNOWN = 0"
| "fault_reason_code FAULT_HYPER_CALL = 1"
| "fault_reason_code FAULT_SYSCALL = 2"

text \<open>The private area is a page the monitor maps too: \<open>reason\<close> is whatever 32 bits it holds.\<close>

record kkm_private_area =
  pa_data :: u32
  pa_reason :: u32

record kkm_save_info =
  si_syscall_pending :: bool
  si_ret_val_mva :: u64
  si_exception_posted :: bool
  si_first_thread :: bool
  si_new_thread :: bool
  si_exception_saved_rax :: u64
  si_exception_saved_rbx :: u64
  si_hypercall_data :: u32
  si_reason :: u32

datatype kkm_xstate_format = KKM_NONE | KKM_XSAVE | KKM_XSAVES

fun xstate_format_code :: "kkm_xstate_format \<Rightarrow> u32" where
  "xstate_format_code KKM_NONE = 0"
| "xstate_format_code KKM_XSAVE = 1"
| "xstate_format_code KKM_XSAVES = 2"

subsection \<open>The run page shared with the monitor (\<open>kkm_run.h\<close>)\<close>

datatype kkm_exit_status =
    KKM_EXIT_UNKNOWN | KKM_EXIT_EXCEPTION | KKM_EXIT_IO | KKM_EXIT_HYPERCALL | KKM_EXIT_DEBUG
  | KKM_EXIT_HLT | KKM_EXIT_MMIO | KKM_EXIT_IRQ_WINDOW_OPEN | KKM_EXIT_SHUTDOWN
  | KKM_EXIT_FAIL_ENTRY | KKM_EXIT_INTR | KKM_EXIT_NMI | KKM_EXIT_INTERNAL_ERROR | KKM_EXIT_OSI
  | KKM_EXIT_PAPR_CALL | KKM_EXIT_WATCHDOG | KKM_EXIT_EPR | KKM_EXIT_SYSTEM_EVENT
  | KKM_EXIT_IOAPIC_EOI

fun exit_code :: "kkm_exit_status \<Rightarrow> u32" where
  "exit_code KKM_EXIT_UNKNOWN = 0"
| "exit_code KKM_EXIT_EXCEPTION = 1"
| "exit_code KKM_EXIT_IO = 2"
| "exit_code KKM_EXIT_HYPERCALL = 3"
| "exit_code KKM_EXIT_DEBUG = 4"
| "exit_code KKM_EXIT_HLT = 5"
| "exit_code KKM_EXIT_MMIO = 6"
| "exit_code KKM_EXIT_IRQ_WINDOW_OPEN = 7"
| "exit_code KKM_EXIT_SHUTDOWN = 8"
| "exit_code KKM_EXIT_FAIL_ENTRY = 9"
| "exit_code KKM_EXIT_INTR = 10"
| "exit_code KKM_EXIT_NMI = 16"
| "exit_code KKM_EXIT_INTERNAL_ERROR = 17"
| "exit_code KKM_EXIT_OSI = 18"
| "exit_code KKM_EXIT_PAPR_CALL = 19"
| "exit_code KKM_EXIT_WATCHDOG = 21"
| "exit_code KKM_EXIT_EPR = 23"
| "exit_code KKM_EXIT_SYSTEM_EVENT = 24"
| "exit_code KKM_EXIT_IOAPIC_EOI = 26"

record kkm_run_io =
  io_direction :: u8
  io_size :: u8
  io_port :: u16
  io_count :: u32
  io_data_offset :: u64

record kkm_debug_exit_arch =
  arch_exception :: u32
  arch_reserved :: u32
  arch_pc :: u64
  arch_dr6 :: u64
  arch_dr7 :: u64

record kkm_run_page =
  immediate_exit :: u8
  exit_reason :: u32
  run_io :: kkm_run_io
  run_debug :: kkm_debug_exit_arch
  kkm_valid_regs :: u64
  kkm_dirty_regs :: u64
  run_regs :: kkm_regs
  run_sregs :: kkm_sregs

subsection \<open>Page tables (\<open>kkm_mmu.h\<close>)\<close>

record kkm_mmu_page_info =
  pi_page :: u64
  pi_va :: u64
  pi_pa :: u64

record kkm_mmu_pml4e =
  pml_pgd_entry :: u64
  pml_pud :: kkm_mmu_page_info
  pml_pmd :: kkm_mmu_page_info
  pml_pt :: kkm_mmu_page_info

definition no_page :: kkm_mmu_page_info where
  "no_page = \<lparr>pi_page = 0, pi_va = 0, pi_pa = 0\<rparr>"

definition no_pml4e :: kkm_mmu_pml4e where
  "no_pml4e = \<lparr>pml_pgd_entry = 0, pml_pud = no_page, pml_pmd = no_page, pml_pt = no_page\<rparr>"

subsection \<open>The guest area (\<open>kkm_kontext.h\<close>)\<close>

record desc_ptr =
  desc_size :: u16
  desc_address :: u64

record kkm_trap_info =
  ti_error :: u64
  ti_rip :: u64
  ti_cs :: u64
  ti_rflags :: u64
  ti_rsp :: u64
  ti_ss :: u64

record kkm_guest_area =
  ga_kkm_kontext :: u64
  ga_guest_area_beg :: u64
  ga_native_kernel_stack :: u64
  ga_guest_kernel_cr3 :: u64
  ga_guest_kernel_cr4 :: u64
  ga_guest_payload_cr3 :: u64
  ga_cpu :: u64
  ga_guest_payload_cs :: u64
  ga_guest_payload_ss :: u64
  ga_native_idt_desc :: desc_ptr
  ga_guest_idt_desc :: desc_ptr
  ga_native_save_tss_sp0 :: u64
  ga_native_save_tss_sp1 :: u64
  ga_native_save_tss_sp2 :: u64
  ga_regs :: kkm_regs
  ga_sregs :: kkm_sregs
  ga_debug :: kkm_debug
  ga_fpu :: kkm_fpu
  ga_trap_info :: kkm_trap_info
  ga_intr_no :: u64
  ga_instruction_decode :: "u8 list"
  ga_redzone_top :: "u8 list"
  ga_redzone_bottom :: "u8 list"

subsection \<open>Kontext and kontainer (\<open>kkm.h\<close>)\<close>

record kkm_kontext_mmap_area =
  ma_page :: u64
  ma_kvaddr :: u64
  ma_offset :: nat

text \<open>The native kernel state saved around a run, fields \<open>native_*\<close> of \<open>struct kkm_kontext\<close>.\<close>

record kkm_native =
  native_kernel_cr3 :: u64
  native_kernel_cr4 :: u64
  native_kernel_ds :: u16
  native_kernel_es :: u16
  native_kernel_fs :: u16
  native_kernel_fs_base :: u64
  native_kernel_gs :: u16
  native_kernel_gs_base :: u64
  native_kernel_gs_kern_base :: u64
  native_kernel_ss :: u16
  native_kernel_entry_syscall_64 :: u64
  native_debug_registers :: "u64 list"

record kkm_kontext =
  kn_id :: u64
  kn_index :: u64
  kn_used :: bool
  kn_first_thread :: bool
  kn_new_thread :: bool
  kn_debug_registers_set :: bool
  kn_kontext_fd :: int
  kn_task :: u64
  kn_kkm :: u64
  kn_mmap_area :: "kkm_kontext_mmap_area list"
  kn_guest_area_page :: u64
  kn_guest_area :: u64
  kn_guest_area_page0_pa :: u64
  kn_guest_area_page1_pa :: u64
  kn_xsave :: kkm_mmu_page_info
  kn_kernel_xsave :: u64
  kn_payload_xsave :: u64
  kn_valid_payload_xsave_area :: bool
  kn_native :: kkm_native
  kn_syscall_pending :: bool
  kn_ret_val_mva :: u64
  kn_exception_posted :: bool
  kn_exception_saved_rax :: u64
  kn_exception_saved_rbx :: u64
  kn_trap_addr :: u64
  kn_error_code :: u64
  kn_prev_trap_no :: u64
  kn_prev_trap_addr :: u64
  kn_prev_error_code :: u64
  kn_trap_repeat_counter :: u64

record kkm_mem_slot =
  ms_used :: bool
  ms_npages :: u64
  ms_user_pfn :: u64
  ms_mr :: kkm_memory_region

record kkm_kontainer =
  km_id :: u64
  km_kontainer_fd :: int
  km_reference_count :: u32
  km_mm :: u64
  km_mem_slot_count :: u32
  km_mem_slot :: "kkm_mem_slot list"
  km_id_map_addr :: u64
  km_kontext_count :: u32
  km_kontext :: "u64 list"
  km_gk_pgd :: kkm_mmu_page_info
  km_gp_pgd :: kkm_mmu_page_info
  km_gk_p4d :: kkm_mmu_page_info
  km_gp_p4d :: kkm_mmu_page_info
  km_low_p4d :: kkm_mmu_page_info
  km_guest_pml4e :: kkm_mmu_pml4e

abbreviation (input) KKM_MAX_CONTEXTS :: nat where "KKM_MAX_CONTEXTS \<equiv> 288"
abbreviation (input) KKM_MAX_MEMORY_SLOTS :: nat where "KKM_MAX_MEMORY_SLOTS \<equiv> 64"
abbreviation (input) KKM_INVALID_ID :: u64 where "KKM_INVALID_ID \<equiv> - 1"
abbreviation (input) KKM_MAX_REPEAT_TRAP :: u64 where "KKM_MAX_REPEAT_TRAP \<equiv> 16"

subsection \<open>Statistics (\<open>kkm_statistics.h\<close>)\<close>

record kkm_statistics =
  st_kontainer_count :: u64
  st_kontext_count :: u64
  st_intr_count :: u64
  st_forwarded_intr_count :: u64
  st_forwarded_intr_time_ns :: u64
  st_page_fault_count :: u64
  st_failed_page_fault_count :: u64
  st_page_fault_time_ns :: u64
  st_system_call_count :: u64

subsection \<open>Zeroed structures\<close>

definition zero_regs :: kkm_regs where
  "zero_regs = \<lparr>rax = 0, rbx = 0, rcx = 0, rdx = 0, rsi = 0, rdi = 0, rsp = 0, rbp = 0, r8 = 0, r9 = 0,
     r10 = 0, r11 = 0, r12 = 0, r13 = 0, r14 = 0, r15 = 0, rip = 0, rflags = 0\<rparr>"

definition zero_segment :: kkm_segment where
  "zero_segment = \<lparr>seg_base = 0, seg_limit = 0, seg_selector = 0, seg_type = 0, seg_present = 0, seg_dpl = 0,
     seg_db = 0, seg_s = 0, seg_l = 0, seg_g = 0, seg_avl = 0, seg_unusable = 0, seg_reserved = 0\<rparr>"

definition zero_dtable :: kkm_dtable where
  "zero_dtable = \<lparr>dt_base = 0, dt_limit = 0, dt_reserved = (0, 0, 0)\<rparr>"

definition zero_sregs :: kkm_sregs where
  "zero_sregs = \<lparr>sr_cs = zero_segment, sr_ds = zero_segment, sr_es = zero_segment, sr_fs = zero_segment,
     sr_gs = zero_segment, sr_ss = zero_segment, sr_tr = zero_segment, sr_ldt = zero_segment,
     sr_gdt = zero_dtable, sr_idt = zero_dtable, cr0 = 0, cr2 = 0, cr3 = 0, cr4 = 0, cr8 = 0, efer = 0,
     apic_base = 0, intr_bitmap = (0, 0, 0, 0)\<rparr>"

definition zero_fpu :: kkm_fpu where
  "zero_fpu = \<lparr>fpr = replicate 128 0, fcw = 0, fsw = 0, ftwx = 0, pad1 = 0, last_opcode = 0, last_ip = 0,
     last_dp = 0, xmm = replicate 256 0, mxcsr = 0, pad2 = 0\<rparr>"

definition zero_guest_area :: kkm_guest_area where
  "zero_guest_area = \<lparr>ga_kkm_kontext = 0, ga_guest_area_beg = 0, ga_native_kernel_stack = 0,
     ga_guest_kernel_cr3 = 0, ga_guest_kernel_cr4 = 0, ga_guest_payload_cr3 = 0, ga_cpu = 0,
     ga_guest_payload_cs = 0, ga_guest_payload_ss = 0,
     ga_native_idt_desc = \<lparr>desc_size = 0, desc_address = 0\<rparr>, ga_guest_idt_desc = \<lparr>desc_size = 0, desc_address = 0\<rparr>,
     ga_native_save_tss_sp0 = 0, ga_native_save_tss_sp1 = 0, ga_native_save_tss_sp2 = 0,
     ga_regs = zero_regs, ga_sregs = zero_sregs,
     ga_debug = \<lparr>dbg_control = 0, dbg_reserved = 0, dbg_registers = replicate 8 0\<rparr>, ga_fpu = zero_fpu,
     ga_trap_info = \<lparr>ti_error = 0, ti_rip = 0, ti_cs = 0, ti_rflags = 0, ti_rsp = 0, ti_ss = 0\<rparr>,
     ga_intr_no = 0, ga_instruction_decode = replicate 128 0, ga_redzone_top = replicate 256 0,
     ga_redzone_bottom = replicate 256 0\<rparr>"

end
