(* ===== verification/Kkm_Kernel.thy ===== *)
theory Kkm_Kernel
  imports Kkm_Types
begin

section \<open>The Linux kernel the module runs in\<close>

text \<open>
  The module calls the Linux kernel, which is not part of this repository. Its answers are a
  parameter: a record \<open>linux\<close> whose components give what each kernel function returns. Every
  call is recorded in the log \<open>klog\<close> of the host state (newest first) and the answers depend on
  that log, so a kernel may answer two equal calls differently. Effects documented by Linux
  that the module relies on are written out: \<open>__GFP_ZERO\<close> pages are zero, \<open>copy_from_user\<close>
  fills the bytes it could not read with zero and reports their number, \<open>copy_to_user\<close> writes a
  prefix.

  The state \<open>host\<close> holds the module's globals and the machine; it is extended with a kontainer
  (\<open>vm\<close>) and a kontext with its pages (\<open>vcpu\<close>), so that an operation of a smaller component
  applies to the larger states unchanged. \<open>printk\<close> output is not modelled.
\<close>

subsection \<open>Kernel calls\<close>

datatype kmutex = Mem_lock | Kontext_lock | Pf_lock

datatype kev =
    Ev_alloc_pages nat u64          \<comment> \<open>order, page returned\<close>
  | Ev_free_pages u64 nat           \<comment> \<open>virtual address, order\<close>
  | Ev_copy_from_user u64 nat
  | Ev_copy_to_user u64 nat
  | Ev_mutex_lock kmutex
  | Ev_mutex_unlock kmutex
  | Ev_invpcid_single_context u64
  | Ev_invpcid_one u64 u64
  | Ev_toggle_cr4_pge
  | Ev_irq_disable
  | Ev_irq_enable
  | Ev_get_cpu nat
  | Ev_put_cpu
  | Ev_signal_pending
  | Ev_schedule
  | Ev_ktime
  | Ev_forward_intr u64
  | Ev_payload u64 u64              \<comment> \<open>the payload ran: kontainer id, guest area\<close>
  | Ev_kzalloc u64
  | Ev_kfree u64
  | Ev_anon_inode_getfd int

text \<open>What the processor knows when it enters the payload, and what it reports at the next trap.\<close>

record payload_entry =
  pe_regs :: kkm_regs
  pe_cs :: u64
  pe_ss :: u64
  pe_cr3 :: u64
  pe_fs_base :: u64
  pe_gs_base :: u64
  pe_xstate :: "u8 list"
  pe_debug_registers :: "u64 list"

record payload_trap =
  pt_vector :: u64
  pt_error :: u64
  pt_regs :: kkm_regs
  pt_cs :: u64
  pt_ss :: u64
  pt_cr0 :: u64
  pt_cr2 :: u64
  pt_cr8 :: u64
  pt_ds :: u16
  pt_es :: u16
  pt_fs :: u16
  pt_gs :: u16
  pt_fs_base :: u64
  pt_gs_base :: u64
  pt_xstate :: "u8 list"
  pt_debug_registers :: "u64 list"

record linux =
  lx_alloc_pages :: "kev list \<Rightarrow> nat \<Rightarrow> u64"
  lx_page_address :: "u64 \<Rightarrow> u64"
  lx_virt_to_phys :: "u64 \<Rightarrow> u64"
  lx_phys_to_virt :: "u64 \<Rightarrow> u64"
  lx_pgtable_l5_enabled :: bool
  lx_pte_pfn_mask :: u64
  lx_copy_from_user :: "kev list \<Rightarrow> u64 \<Rightarrow> nat \<Rightarrow> nat"
  lx_copy_to_user :: "kev list \<Rightarrow> u64 \<Rightarrow> nat \<Rightarrow> nat"
  lx_signal_pending :: "kev list \<Rightarrow> bool"
  lx_get_cpu :: "kev list \<Rightarrow> nat"
  lx_ktime_get_ns :: "kev list \<Rightarrow> u64"
  lx_kzalloc :: "kev list \<Rightarrow> u64"
  lx_anon_inode_getfd :: "kev list \<Rightarrow> int"
  lx_current :: u64
  lx_current_mm :: u64
  lx_pgd_of_mm :: "u64 \<Rightarrow> u64"
  lx_crc32 :: "u8 list \<Rightarrow> u32"
  lx_config_hyperv :: bool
  lx_KERNEL_DS :: u16
  lx_USER_CS :: u64
  lx_USER_DS :: u64
  lx_syscall_entry_addr :: u64
  lx_payload :: "kev list \<Rightarrow> payload_entry \<Rightarrow> payload_trap"

subsection \<open>Host, kontainer and kontext states\<close>

record cpu_state =
  c_cr2 :: u64
  c_cr3 :: u64
  c_cr4 :: u64
  c_ds :: u16
  c_es :: u16
  c_fs :: u16
  c_gs :: u16
  c_ss :: u16
  c_fs_base :: u64
  c_gs_base :: u64
  c_kernel_gs_base :: u64
  c_lstar :: u64
  c_idtr :: desc_ptr
  c_sp0 :: u64
  c_sp1 :: u64
  c_sp2 :: u64
  c_dr :: "u64 list"
  c_xstate :: "u8 list"
  c_irq_enabled :: bool

record host =
  klog :: "kev list"
  um :: "u64 \<Rightarrow> u8"                   \<comment> \<open>memory of the monitor process\<close>
  kmem :: "u64 \<Rightarrow> u64"                \<comment> \<open>page-table memory, by address of the entry\<close>
  kkm_mmu_kx :: kkm_mmu_pml4e
  kkm_cpu_full_tlb_flush :: bool
  lazy_flush_tlb :: bool
  kkm_xs_format :: kkm_xstate_format
  kkm_stat :: kkm_statistics
  kkm_object_id :: u64
  idt_native_desc :: desc_ptr
  idt_guest_desc :: desc_ptr
  idt_last_id :: "nat \<Rightarrow> u64"
  current_kontext :: "nat \<Rightarrow> u64"
  cpu :: cpu_state

record vm = host +
  vm_kkm :: kkm_kontainer

record vcpu = vm +
  vc_kontext :: kkm_kontext
  vc_ga :: kkm_guest_area
  vc_run :: kkm_run_page
  vc_pa :: kkm_private_area
  vc_kernel_xstate :: "u8 list"
  vc_payload_xstate :: "u8 list"

definition kcall :: "kev \<Rightarrow> 'a host_scheme \<Rightarrow> 'a host_scheme" where
  "kcall e s = s\<lparr>klog := e # klog s\<rparr>"

lemma klog_kcall [simp]: "klog (kcall e s) = e # klog s"
  by (simp add: kcall_def)

subsection \<open>Pages\<close>

definition zero_block :: "u64 \<Rightarrow> nat \<Rightarrow> (u64 \<Rightarrow> u64) \<Rightarrow> u64 \<Rightarrow> u64" where
  "zero_block va order m = (\<lambda>a. if unat (a - va) < 4096 * 2 ^ order then 0 else m a)"

text \<open>\<open>alloc_pages(GFP_KERNEL | __GFP_ZERO, order)\<close> and \<open>free_pages\<close>.\<close>

definition alloc_pages :: "linux \<Rightarrow> nat \<Rightarrow> 'a host_scheme \<Rightarrow> u64 \<times> 'a host_scheme" where
  "alloc_pages E order s =
     (let p = lx_alloc_pages E (klog s) order;
          s1 = kcall (Ev_alloc_pages order p) s
      in (p, if p = 0 then s1
             else s1\<lparr>kmem := zero_block (lx_page_address E p) order (kmem s1)\<rparr>))"

definition free_pages :: "u64 \<Rightarrow> nat \<Rightarrow> 'a host_scheme \<Rightarrow> 'a host_scheme" where
  "free_pages va order s = kcall (Ev_free_pages va order) s"

text \<open>
  The blocks a log leaves outstanding, and whether every block it frees was outstanding
  (with the order it was allocated with): \<open>free_pages(0, _)\<close> does nothing.
\<close>

fun outstanding :: "linux \<Rightarrow> kev list \<Rightarrow> (u64 \<times> nat) multiset" where
  "outstanding E [] = {#}"
| "outstanding E (Ev_alloc_pages order p # l) =
     (if p = 0 then outstanding E l else add_mset (lx_page_address E p, order) (outstanding E l))"
| "outstanding E (Ev_free_pages va order # l) = outstanding E l - {#(va, order)#}"
| "outstanding E (_ # l) = outstanding E l"

fun frees_ok :: "linux \<Rightarrow> kev list \<Rightarrow> bool" where
  "frees_ok E [] = True"
| "frees_ok E (Ev_free_pages va order # l) =
     ((va = 0 \<or> (va, order) \<in># outstanding E l) \<and> frees_ok E l)"
| "frees_ok E (_ # l) = frees_ok E l"

subsection \<open>User memory\<close>

definition mem_load :: "(u64 \<Rightarrow> u8) \<Rightarrow> u64 \<Rightarrow> nat \<Rightarrow> u8 list" where
  "mem_load m a n = map (\<lambda>i. m (a + of_nat i)) [0..<n]"

definition mem_store :: "u64 \<Rightarrow> u8 list \<Rightarrow> (u64 \<Rightarrow> u8) \<Rightarrow> u64 \<Rightarrow> u8" where
  "mem_store a bs m = (\<lambda>x. if unat (x - a) < length bs then bs ! unat (x - a) else m x)"

definition copy_from_user ::
  "linux \<Rightarrow> u64 \<Rightarrow> nat \<Rightarrow> 'a host_scheme \<Rightarrow> nat \<times> u8 list \<times> 'a host_scheme" where
  "copy_from_user E src n s =
     (let left = min n (lx_copy_from_user E (klog s) src n)
      in (left, mem_load (um s) src (n - left) @ replicate left 0, kcall (Ev_copy_from_user src n) s))"

definition copy_to_user ::
  "linux \<Rightarrow> u64 \<Rightarrow> u8 list \<Rightarrow> 'a host_scheme \<Rightarrow> nat \<times> 'a host_scheme" where
  "copy_to_user E dest bs s =
     (let n = length bs; left = min n (lx_copy_to_user E (klog s) dest n);
          s1 = kcall (Ev_copy_to_user dest n) s
      in (left, s1\<lparr>um := mem_store dest (take (n - left) bs) (um s1)\<rparr>))"

lemma length_mem_load [simp]: "length (mem_load m a n) = n"
  by (simp add: mem_load_def)

lemma nth_mem_load [simp]: "i < n \<Longrightarrow> mem_load m a n ! i = m (a + of_nat i)"
  by (simp add: mem_load_def)

lemma mem_load_mem_store [simp]:
  assumes "length bs \<le> 2 ^ 64"
  shows "mem_load (mem_store a bs m) a (length bs) = bs"
proof (rule nth_equalityI)
  fix i assume "i < length (mem_load (mem_store a bs m) a (length bs))"
  then have i: "i < length bs" by simp
  with assms have "unat (of_nat i :: u64) = i"
    by (simp add: unat_of_nat take_bit_eq_mod)
  with i show "mem_load (mem_store a bs m) a (length bs) ! i = bs ! i"
    by (simp add: mem_store_def)
qed simp

lemma mem_store_other: "length bs \<le> unat (x - a) \<Longrightarrow> mem_store a bs m x = m x"
  by (simp add: mem_store_def)

lemma mem_store_Nil [simp]: "mem_store a [] m = m"
  by (simp add: mem_store_def)

lemma mem_store_load_same:
  "mem_store a (mem_load m a n) m = m"
  by (rule ext) (simp add: mem_store_def)

lemma copy_from_user_length:
  "copy_from_user E src n s = (left, bs, s') \<Longrightarrow> length bs = n"
  by (auto simp: copy_from_user_def Let_def)

lemma copy_from_user_ok:
  "copy_from_user E src n s = (0, bs, s') \<Longrightarrow> bs = mem_load (um s) src n"
  by (auto simp: copy_from_user_def Let_def)

lemma copy_from_user_state:
  "copy_from_user E src n s = (left, bs, s') \<Longrightarrow> s' = kcall (Ev_copy_from_user src n) s"
  by (auto simp: copy_from_user_def Let_def)

lemma copy_to_user_state:
  "copy_to_user E dest bs s = (left, s') \<Longrightarrow>
     s' = (kcall (Ev_copy_to_user dest (length bs)) s)
            \<lparr>um := mem_store dest (take (length bs - left) bs) (um s)\<rparr>"
  by (auto simp: copy_to_user_def Let_def kcall_def)

text \<open>Arrays of 64-bit words in memory.\<close>

definition words_bytes :: "u64 list \<Rightarrow> u8 list" where
  "words_bytes ws = concat (map (le_bytes 8) ws)"

definition load_words :: "(u64 \<Rightarrow> u8) \<Rightarrow> u64 \<Rightarrow> nat \<Rightarrow> u64 list" where
  "load_words m a n = map (\<lambda>i. of_le (mem_load m (a + 8 * of_nat i) 8)) [0..<n]"

lemma length_words_bytes [simp]: "length (words_bytes ws) = 8 * length ws"
  by (induction ws) (simp_all add: words_bytes_def)

lemma nth_words_bytes:
  "\<lbrakk>i < length ws; j < 8\<rbrakk> \<Longrightarrow> words_bytes ws ! (8 * i + j) = le_bytes 8 (ws ! i) ! j"
proof (induction ws arbitrary: i)
  case (Cons w ws)
  show ?case
  proof (cases i)
    case 0
    then show ?thesis using Cons.prems by (simp add: words_bytes_def nth_append)
  next
    case (Suc k)
    then have "words_bytes (w # ws) ! (8 * i + j) = words_bytes ws ! (8 * k + j)"
      by (simp add: words_bytes_def nth_append)
    then show ?thesis using Cons Suc by simp
  qed
qed simp

lemma load_store_words:
  assumes "8 * length ws \<le> 2 ^ 64"
  shows "load_words (mem_store a (words_bytes ws) m) a (length ws) = ws"
proof (rule nth_equalityI)
  fix i assume "i < length (load_words (mem_store a (words_bytes ws) m) a (length ws))"
  then have i: "i < length ws" by (simp add: load_words_def)
  have "mem_load (mem_store a (words_bytes ws) m) (a + 8 * of_nat i) 8 = le_bytes 8 (ws ! i)"
  proof (rule nth_equalityI)
    fix j assume "j < length (mem_load (mem_store a (words_bytes ws) m) (a + 8 * of_nat i) 8)"
    then have j: "j < 8" by simp
    have off: "unat (8 * of_nat i + of_nat j :: u64) = 8 * i + j"
    proof -
      have "unat (of_nat (8 * i + j) :: u64) = 8 * i + j"
        using assms i j by (simp only: unsigned_of_nat) (simp add: take_bit_eq_mod)
      then show ?thesis by simp
    qed
    have "a + 8 * of_nat i + of_nat j - a = (8 * of_nat i + of_nat j :: u64)" by simp
    with i j show "mem_load (mem_store a (words_bytes ws) m) (a + 8 * of_nat i) 8 ! j = le_bytes 8 (ws ! i) ! j"
      by (simp add: mem_store_def off nth_words_bytes del: nth_le_bytes)
  qed simp
  with i show "load_words (mem_store a (words_bytes ws) m) a (length ws) ! i = ws ! i"
    by (simp add: load_words_def)
qed (simp add: load_words_def)

text \<open>\<open>copy_to_user\<close> of words: when nothing is left over, the process reads the words back.\<close>

lemma copy_to_user_words:
  assumes "copy_to_user E dest (words_bytes ws) s = (0, s')" "8 * length ws \<le> 2 ^ 64"
  shows "load_words (um s') dest (length ws) = ws"
  using copy_to_user_state [OF assms(1)] by (simp add: load_store_words [OF assms(2)])

lemma copy_to_user_frame:
  assumes "copy_to_user E dest bs s = (left, s')"
  shows "kmem s' = kmem s" "kkm_mmu_kx s' = kkm_mmu_kx s" "cpu s' = cpu s"
    "host.more s' = host.more s" "kkm_stat s' = kkm_stat s" "outstanding E (klog s') = outstanding E (klog s)"
    "frees_ok E (klog s') = frees_ok E (klog s)"
  using copy_to_user_state [OF assms] by (simp_all add: kcall_def)

lemma copy_from_user_frame:
  assumes "copy_from_user E src n s = (left, bs, s')"
  shows "um s' = um s" "kmem s' = kmem s" "kkm_mmu_kx s' = kkm_mmu_kx s" "cpu s' = cpu s"
    "host.more s' = host.more s" "kkm_stat s' = kkm_stat s" "outstanding E (klog s') = outstanding E (klog s)"
    "frees_ok E (klog s') = frees_ok E (klog s)"
  using copy_from_user_state [OF assms] by (simp_all add: kcall_def)

subsection \<open>Events that touch no page\<close>

fun page_event :: "kev \<Rightarrow> bool" where
  "page_event (Ev_alloc_pages _ _) = True"
| "page_event (Ev_free_pages _ _) = True"
| "page_event _ = False"

lemma outstanding_event [simp]: "\<not> page_event e \<Longrightarrow> outstanding E (e # l) = outstanding E l"
  by (cases e) simp_all

lemma frees_ok_event [simp]: "\<not> page_event e \<Longrightarrow> frees_ok E (e # l) = frees_ok E l"
  by (cases e) simp_all

lemma kcall_frame [simp]:
  "um (kcall e s) = um s" "kmem (kcall e s) = kmem s" "kkm_mmu_kx (kcall e s) = kkm_mmu_kx s"
  "cpu (kcall e s) = cpu s" "kkm_stat (kcall e s) = kkm_stat s" "host.more (kcall e s) = host.more s"
  "kkm_cpu_full_tlb_flush (kcall e s) = kkm_cpu_full_tlb_flush s"
  "lazy_flush_tlb (kcall e s) = lazy_flush_tlb s" "kkm_object_id (kcall e s) = kkm_object_id s"
  "kkm_xs_format (kcall e s) = kkm_xs_format s" "idt_last_id (kcall e s) = idt_last_id s"
  "current_kontext (kcall e s) = current_kontext s"
  "idt_native_desc (kcall e s) = idt_native_desc s" "idt_guest_desc (kcall e s) = idt_guest_desc s"
  by (simp_all add: kcall_def)

lemma kcall_frame_vm [simp]: "vm_kkm (kcall e s) = vm_kkm s" "vm.more (kcall e s) = vm.more s"
  by (simp_all add: kcall_def)

lemma kcall_frame_vcpu [simp]:
  "vc_kontext (kcall e s) = vc_kontext s" "vc_ga (kcall e s) = vc_ga s"
  "vc_run (kcall e s) = vc_run s" "vc_pa (kcall e s) = vc_pa s"
  "vc_kernel_xstate (kcall e s) = vc_kernel_xstate s"
  "vc_payload_xstate (kcall e s) = vc_payload_xstate s"
  by (simp_all add: kcall_def)

definition ktime_get_ns :: "linux \<Rightarrow> 'a host_scheme \<Rightarrow> u64 \<times> 'a host_scheme" where
  "ktime_get_ns E s = (lx_ktime_get_ns E (klog s), kcall Ev_ktime s)"

text \<open>A host operation that keeps the extension keeps the kontainer and the kontext.\<close>

lemma same_more_vm: "host.more s' = host.more s \<Longrightarrow> vm_kkm s' = vm_kkm (s :: 'a vm_scheme)"
  by (cases s, cases s') simp

lemma same_more_vcpu:
  assumes "host.more s' = host.more (s :: 'a vcpu_scheme)"
  shows "vc_kontext s' = vc_kontext s" "vc_ga s' = vc_ga s" "vc_run s' = vc_run s" "vc_pa s' = vc_pa s"
    "vc_kernel_xstate s' = vc_kernel_xstate s" "vc_payload_xstate s' = vc_payload_xstate s"
  using assms by (cases s, cases s', simp)+

end
