(* ===== verification/Kkm_Mm.thy ===== *)
theory Kkm_Mm
  imports Kkm_Kernel
begin

section \<open>Page allocation (\<open>kkm_mm.c\<close>)\<close>

text \<open>
  The four functions of \<open>kkm_mm.c\<close>. Output pointers become the returned page record; whether
  the caller passed a null pointer is an argument. The block ledger of the log (\<open>outstanding\<close>)
  says what the module still owns; the locale \<open>page_owner\<close> is the contract between a function
  that acquires pages and the one that gives them back.
\<close>

subsection \<open>Operations\<close>

text \<open>Linux's \<open>order_base_2\<close>: the least order whose block holds so many pages.\<close>

fun order_base_2 :: "nat \<Rightarrow> nat" where
  "order_base_2 n = (if n \<le> 1 then 0 else Suc (order_base_2 ((n + 1) div 2)))"

declare order_base_2.simps [simp del]

definition kkm_mm_allocate_pages ::
  "linux \<Rightarrow> bool \<Rightarrow> bool \<Rightarrow> bool \<Rightarrow> nat \<Rightarrow> kkm_mmu_page_info \<Rightarrow> 'a host_scheme
     \<Rightarrow> int \<times> kkm_mmu_page_info \<times> 'a host_scheme" where
  "kkm_mm_allocate_pages E page_ptr va_ptr pa_ptr n pi s =
     (if n = 0 then (- EINVAL, pi, s)
      else if \<not> page_ptr \<or> \<not> va_ptr then (- EINVAL, pi, s)
      else (case alloc_pages E (order_base_2 n) s of
              (p, s1) \<Rightarrow>
                if p = 0 then (- ENOMEM, pi\<lparr>pi_page := 0\<rparr>, s1)
                else (let va = lx_page_address E p
                      in (0, pi\<lparr>pi_page := p, pi_va := va,
                               pi_pa := (if pa_ptr then lx_virt_to_phys E va else pi_pa pi)\<rparr>, s1))))"

definition kkm_mm_allocate_page ::
  "linux \<Rightarrow> bool \<Rightarrow> bool \<Rightarrow> bool \<Rightarrow> kkm_mmu_page_info \<Rightarrow> 'a host_scheme
     \<Rightarrow> int \<times> kkm_mmu_page_info \<times> 'a host_scheme" where
  "kkm_mm_allocate_page E page_ptr va_ptr pa_ptr = kkm_mm_allocate_pages E page_ptr va_ptr pa_ptr 1"

definition kkm_mm_free_pages :: "u64 \<Rightarrow> nat \<Rightarrow> 'a host_scheme \<Rightarrow> 'a host_scheme" where
  "kkm_mm_free_pages va n s = (if n = 0 then s else free_pages va (order_base_2 n) s)"

definition kkm_mm_free_page :: "u64 \<Rightarrow> 'a host_scheme \<Rightarrow> 'a host_scheme" where
  "kkm_mm_free_page va = kkm_mm_free_pages va 1"

subsection \<open>The order of a page count\<close>

lemma order_base_2_small [simp]: "order_base_2 0 = 0" "order_base_2 (Suc 0) = 0"
  by (simp_all add: order_base_2.simps)

lemma order_base_2_step: "1 < n \<Longrightarrow> order_base_2 n = Suc (order_base_2 ((n + 1) div 2))"
  by (simp add: order_base_2.simps)

lemma order_base_2_values [simp]: "order_base_2 2 = 1" "order_base_2 4 = 2"
  by (simp_all add: order_base_2_step)

lemma order_base_2_bounds:
  "0 < n \<Longrightarrow> n \<le> 2 ^ order_base_2 n \<and> 2 ^ order_base_2 n < 2 * n"
proof (induction n rule: order_base_2.induct)
  case (1 n)
  show ?case
  proof (cases "n \<le> 1")
    case True
    with "1.prems" have "n = 1" by simp
    then show ?thesis by simp
  next
    case False
    define m where "m = (n + 1) div 2"
    from False have "0 < m" by (simp add: m_def)
    with "1.IH" False have IH: "m \<le> 2 ^ order_base_2 m" "2 ^ order_base_2 m < 2 * m"
      by (simp_all add: m_def)
    have n: "n \<le> 2 * m" "2 * m \<le> n + 1"
      by (simp_all add: m_def)
    define k where "k = order_base_2 m"
    have "2 ^ k < n"
    proof (cases "even n")
      case True
      then have "2 * m = n" by (auto simp: m_def elim: evenE)
      with IH(2) show ?thesis by (simp add: k_def)
    next
      case odd: False
      have "2 ^ k \<noteq> n"
      proof
        assume "2 ^ k = n"
        with odd have "k = 0" by auto
        with \<open>2 ^ k = n\<close> \<open>\<not> n \<le> 1\<close> show False by simp
      qed
      with IH(2) n show ?thesis by (simp add: k_def)
    qed
    moreover have "order_base_2 n = Suc k"
      using False by (simp add: order_base_2_step k_def m_def)
    ultimately show ?thesis using IH n by (simp add: k_def [symmetric])
  qed
qed

subsection \<open>What allocation and release do to the ledger\<close>

lemma alloc_pages_ledger:
  "alloc_pages E order s = (p, s') \<Longrightarrow>
     outstanding E (klog s') =
       (if p = 0 then outstanding E (klog s)
        else add_mset (lx_page_address E p, order) (outstanding E (klog s)))"
  by (auto simp: alloc_pages_def Let_def split: if_splits)

lemma alloc_pages_frees_ok:
  "alloc_pages E order s = (p, s') \<Longrightarrow> frees_ok E (klog s') = frees_ok E (klog s)"
  by (auto simp: alloc_pages_def Let_def split: if_splits)

lemma allocate_pages_ledger:
  assumes "kkm_mm_allocate_pages E pp vp ap n pi s = (r, pi', s')"
  shows "outstanding E (klog s') =
           (if r = 0 then add_mset (pi_va pi', order_base_2 n) (outstanding E (klog s))
            else outstanding E (klog s))"
    and "frees_ok E (klog s') = frees_ok E (klog s)"
  using assms
  by (auto simp: kkm_mm_allocate_pages_def Let_def alloc_pages_ledger alloc_pages_frees_ok
      split: if_splits prod.splits)

lemma allocate_pages_result:
  "kkm_mm_allocate_pages E True True ap n pi s = (r, pi', s') \<Longrightarrow>
     r = (if n = 0 then - EINVAL else if pi_page pi' = 0 then - ENOMEM else 0)"
  by (auto simp: kkm_mm_allocate_pages_def Let_def split: if_splits prod.splits)

lemma allocate_pages_info:
  assumes "kkm_mm_allocate_pages E pp vp ap n pi s = (0, pi', s')"
  shows "0 < n" and "pi_page pi' \<noteq> 0" and "pi_va pi' = lx_page_address E (pi_page pi')"
    and "ap \<Longrightarrow> pi_pa pi' = lx_virt_to_phys E (pi_va pi')"
  using assms by (auto simp: kkm_mm_allocate_pages_def Let_def split: if_splits prod.splits)

lemma free_pages_ledger:
  "outstanding E (klog (kkm_mm_free_pages va n s)) =
     (if n = 0 then outstanding E (klog s)
      else outstanding E (klog s) - {#(va, order_base_2 n)#})"
  by (simp add: kkm_mm_free_pages_def free_pages_def)

lemma free_pages_frees_ok:
  "frees_ok E (klog (kkm_mm_free_pages va n s)) \<longleftrightarrow>
     frees_ok E (klog s) \<and>
       (n = 0 \<or> va = 0 \<or> (va, order_base_2 n) \<in># outstanding E (klog s))"
  by (auto simp: kkm_mm_free_pages_def free_pages_def)

text \<open>Allocation and release touch nothing of the host but the log and the page memory.\<close>

lemma allocate_pages_frame:
  assumes "kkm_mm_allocate_pages E pp vp ap n pi s = (r, pi', s')"
  shows "um s' = um s" "kkm_mmu_kx s' = kkm_mmu_kx s" "cpu s' = cpu s"
    "kkm_cpu_full_tlb_flush s' = kkm_cpu_full_tlb_flush s"
  using assms
  by (auto simp: kkm_mm_allocate_pages_def alloc_pages_def kcall_def Let_def split: if_splits)

lemma free_pages_frame [simp]:
  "um (kkm_mm_free_pages va n s) = um s" "kmem (kkm_mm_free_pages va n s) = kmem s"
  "kkm_mmu_kx (kkm_mm_free_pages va n s) = kkm_mmu_kx s"
  "cpu (kkm_mm_free_pages va n s) = cpu s"
  "kkm_cpu_full_tlb_flush (kkm_mm_free_pages va n s) = kkm_cpu_full_tlb_flush s"
  by (simp_all add: kkm_mm_free_pages_def free_pages_def kcall_def)

subsection \<open>The contract of an owner of pages\<close>

text \<open>
  A function that acquires pages and one that releases them: a failed acquisition leaves the
  ledger as it was, and releasing after a successful one restores it.
\<close>

locale page_owner =
  fixes ready :: "'s \<Rightarrow> bool"
    and acquire :: "'s \<Rightarrow> int \<times> 's"
    and release :: "'s \<Rightarrow> 's"
    and ledger :: "'s \<Rightarrow> (u64 \<times> nat) multiset"
  assumes acquire_failed: "ready s \<Longrightarrow> acquire s = (r, s') \<Longrightarrow> r \<noteq> 0 \<Longrightarrow> ready s' \<and> ledger s' = ledger s"
    and acquire_keeps: "ready s \<Longrightarrow> acquire s = (0, s') \<Longrightarrow> ledger s \<subseteq># ledger s'"
    and release_acquired:
      "ready s \<Longrightarrow> acquire s = (0, s') \<Longrightarrow> ready (release s') \<and> ledger (release s') = ledger s"
begin

lemma acquire_never_shrinks: "ready s \<Longrightarrow> acquire s = (r, s') \<Longrightarrow> ledger s \<subseteq># ledger s'"
  using acquire_failed [of s r s'] acquire_keeps [of s s'] by (cases "r = 0") auto

definition session :: "'s \<Rightarrow> 's" where
  "session s = (case acquire s of (r, s') \<Rightarrow> if r = 0 then release s' else s')"

lemma session_balanced:
  assumes "ready s" shows "ready (session s) \<and> ledger (session s) = ledger s"
proof (cases "acquire s")
  case (Pair r s')
  with assms show ?thesis
    using acquire_failed [of s r s'] release_acquired [of s s'] by (auto simp: session_def)
qed

lemma sessions_balanced:
  assumes "ready s" shows "ready ((session ^^ n) s) \<and> ledger ((session ^^ n) s) = ledger s"
proof (induction n)
  case (Suc n)
  then show ?case using session_balanced [of "(session ^^ n) s"] by simp
qed (simp add: assms)

end

interpretation mm_pages: page_owner "\<lambda>_. True"
  "\<lambda>(pi, s). case kkm_mm_allocate_pages E True True ap n pi s of (r, pi', s') \<Rightarrow> (r, pi', s')"
  "\<lambda>(pi, s). (pi, kkm_mm_free_pages (pi_va pi) n s)"
  "\<lambda>(pi, s :: 'a host_scheme). outstanding E (klog s)"
  for E ap n
proof unfold_locales
  fix s s' :: "kkm_mmu_page_info \<times> 'a host_scheme" and r
  let ?acq = "\<lambda>(pi, s). case kkm_mm_allocate_pages E True True ap n pi s of (r, pi', s') \<Rightarrow> (r, pi', s')"
  let ?led = "\<lambda>(pi :: kkm_mmu_page_info, s :: 'a host_scheme). outstanding E (klog s)"
  show "True \<and> ?led s' = ?led s" if "?acq s = (r, s')" "r \<noteq> 0"
    using that by (auto simp: allocate_pages_ledger split: prod.splits)
  show "?led s \<subseteq># ?led s'" if "?acq s = (0, s')"
    using that by (auto simp: allocate_pages_ledger split: prod.splits)
  show "True \<and> ?led (case s' of (pi, s) \<Rightarrow> (pi, kkm_mm_free_pages (pi_va pi) n s)) = ?led s"
    if acq: "?acq s = (0, s')"
  proof -
    have "n \<noteq> 0"
      using acq by (cases s, cases s') (auto dest: allocate_pages_info(1) split: prod.splits)
    then show ?thesis
      using acq by (auto simp: allocate_pages_ledger free_pages_ledger split: prod.splits)
  qed
qed

end
