(* ===== verification/Kkm_Examples.thy ===== *)
theory Kkm_Examples
  imports Kkm_Kernel
begin

section \<open>A concrete machine\<close>

text \<open>
  One concrete kernel and one concrete kontext, on which the witnesses of the development evaluate
  the theorems. The allocator hands out the lowest naturally aligned block above every block it ever
  handed out, below \<open>2 ^ 40\<close>; physical and virtual addresses agree; user copies never fail; no
  signal is pending; the payload executes a system call.
\<close>

subsection \<open>The allocator\<close>

fun heap_top :: "kev list \<Rightarrow> nat" where
  "heap_top [] = 0x100000"
| "heap_top (Ev_alloc_pages order p # l) =
     max (heap_top l) (unat (p AND 0xFFFFFFFFF000) + 4096 * 2 ^ order)"
| "heap_top (_ # l) = heap_top l"

definition round_up :: "nat \<Rightarrow> nat \<Rightarrow> nat" where
  "round_up blk n = (n + blk - 1) div blk * blk"

definition example_alloc :: "kev list \<Rightarrow> nat \<Rightarrow> u64" where
  "example_alloc l order =
     (let p = round_up (4096 * 2 ^ order) (heap_top l)
      in if order \<le> 10 \<and> p + 4096 * 2 ^ order \<le> 2 ^ 40 then of_nat p else 0)"

definition example_payload :: "kev list \<Rightarrow> payload_entry \<Rightarrow> payload_trap" where
  "example_payload l pe =
     \<lparr>pt_vector = 511, pt_error = 0, pt_regs = (pe_regs pe)\<lparr>rax := 39, rdi := 7\<rparr>, pt_cs = pe_cs pe, pt_ss = pe_ss pe,
      pt_cr0 = 0x80050033, pt_cr2 = 0, pt_cr8 = 0, pt_ds = 0, pt_es = 0, pt_fs = 0, pt_gs = 0,
      pt_fs_base = pe_fs_base pe, pt_gs_base = pe_gs_base pe, pt_xstate = pe_xstate pe,
      pt_debug_registers = pe_debug_registers pe\<rparr>"

definition example_linux :: linux where
  "example_linux =
     \<lparr>lx_alloc_pages = example_alloc, lx_page_address = (\<lambda>p. p AND 0xFFFFFFFFF000),
      lx_virt_to_phys = (\<lambda>v. v), lx_phys_to_virt = (\<lambda>p. p), lx_pgtable_l5_enabled = False,
      lx_pte_pfn_mask = 0xFFFFFFFFFF000, lx_copy_from_user = (\<lambda>_ _ _. 0), lx_copy_to_user = (\<lambda>_ _ _. 0),
      lx_signal_pending = (\<lambda>_. False), lx_get_cpu = (\<lambda>_. 2), lx_ktime_get_ns = (\<lambda>l. of_nat (length l)),
      lx_kzalloc = (\<lambda>l. 0x800000000000 OR 0x10000 * of_nat (length l)), lx_anon_inode_getfd = (\<lambda>l. 3 + int (length l)),
      lx_current = 1, lx_current_mm = 2, lx_pgd_of_mm = (\<lambda>_. 0xF0000), lx_crc32 = (\<lambda>bs. of_nat (length bs)),
      lx_config_hyperv = False, lx_KERNEL_DS = 0x18, lx_USER_CS = 0x33, lx_USER_DS = 0x2B,
      lx_syscall_entry_addr = 0xFFFFFFFF81000000, lx_payload = example_payload\<rparr>"

lemma round_up_ge: "0 < blk \<Longrightarrow> n \<le> round_up blk n"
proof -
  assume s: "0 < blk"
  have "n + blk - 1 = (n + blk - 1) div blk * blk + (n + blk - 1) mod blk"
    by simp
  moreover have "(n + blk - 1) mod blk < blk"
    using s by simp
  ultimately show ?thesis using s unfolding round_up_def by linarith
qed

lemma round_up_dvd: "blk dvd round_up blk n"
  by (simp add: round_up_def)

text \<open>Every block still outstanding ends at or below the top.\<close>

lemma outstanding_below_top:
  assumes "lx_page_address E = (\<lambda>p. p AND 0xFFFFFFFFF000)" "(va, k) \<in># outstanding E l"
  shows "unat va + 4096 * 2 ^ k \<le> heap_top l"
  using assms(2)
proof (induction l)
  case (Cons e l)
  show ?case
  proof (cases e)
    case (Ev_alloc_pages order p)
    then show ?thesis using Cons assms(1) by (auto split: if_splits)
  next
    case (Ev_free_pages va' order)
    then show ?thesis using Cons by (auto dest: in_diffD)
  qed (use Cons in simp_all)
qed simp

lemma example_alloc_word:
  assumes "example_alloc l order \<noteq> 0"
  defines "p \<equiv> round_up (4096 * 2 ^ order) (heap_top l)"
  shows "example_alloc l order = of_nat p" "unat (example_alloc l order) = p" "p + 4096 * 2 ^ order \<le> 2 ^ 40"
    "example_alloc l order AND 0xFFFFFFFFF000 = example_alloc l order"
proof -
  show e: "example_alloc l order = of_nat p" and b: "p + 4096 * 2 ^ order \<le> 2 ^ 40"
    using assms(1) by (auto simp: example_alloc_def p_def Let_def split: if_splits)
  have "0 < 4096 * (2 :: nat) ^ order" by simp
  with b have lt: "p < 2 ^ 40" by linarith
  then show u: "unat (example_alloc l order) = p"
    by (simp add: e unat_of_nat take_bit_eq_mod)
  have "4096 dvd p"
    using round_up_dvd [of "4096 * 2 ^ order"] unfolding p_def by (rule dvd_mult_left)
  then obtain q where q: "p = 2 ^ 12 * q" by auto
  show "example_alloc l order AND 0xFFFFFFFFF000 = example_alloc l order"
  proof (rule bit_word_eqI)
    fix n assume n: "n < LENGTH(64)"
    have m: "(0xFFFFFFFFF000 :: u64) = push_bit 12 (mask 36)"
      by (simp add: mask_eq_exp_minus_1 push_bit_eq_mult)
    have "bit (example_alloc l order) n \<longleftrightarrow> bit p n"
      by (simp flip: u add: bit_unsigned_iff)
    moreover have "bit p n \<Longrightarrow> 12 \<le> n \<and> n < 40"
    proof -
      assume bp: "bit p n"
      have "p = push_bit 12 q" by (simp add: q push_bit_eq_mult)
      with bp have "12 \<le> n" by (simp add: bit_push_bit_iff)
      moreover have "n < 40"
      proof (rule ccontr)
        assume "\<not> n < 40"
        then have "p < 2 ^ n" using lt by (meson less_le_trans linorder_not_less one_le_numeral power_increasing)
        then show False using bp by (simp add: bit_iff_odd)
      qed
      ultimately show ?thesis by simp
    qed
    ultimately show "bit (example_alloc l order AND 0xFFFFFFFFF000) n = bit (example_alloc l order) n"
      by (auto simp: bit_and_iff m bit_push_bit_iff bit_mask_iff)
  qed
qed

subsection \<open>The states\<close>

definition example_cpu :: cpu_state where
  "example_cpu =
     \<lparr>c_cr2 = 0, c_cr3 = 0x1234000, c_cr4 = 0x3606E0, c_ds = 0, c_es = 0, c_fs = 0, c_gs = 0, c_ss = 0x18,
      c_fs_base = 0x7F0000001740, c_gs_base = 0xFFFF888000000000, c_kernel_gs_base = 0,
      c_lstar = 0xFFFFFFFF81000000, c_idtr = \<lparr>desc_size = 4095, desc_address = 0xFFFFFE0000000000\<rparr>,
      c_sp0 = 0xFFFFFE0000003000, c_sp1 = 0, c_sp2 = 0, c_dr = [0, 0, 0, 0, 0, 0, 0xFFFF0FF0, 0x400],
      c_xstate = replicate 4096 0, c_irq_enabled = True\<rparr>"

definition example_host :: host where
  "example_host =
     \<lparr>klog = [], um = (\<lambda>_. 0), kmem = (\<lambda>_. 0), kkm_mmu_kx = no_pml4e, kkm_cpu_full_tlb_flush = False,
      lazy_flush_tlb = True, kkm_xs_format = KKM_XSAVES,
      kkm_stat = \<lparr>st_kontainer_count = 0, st_kontext_count = 0, st_intr_count = 0, st_forwarded_intr_count = 0,
        st_forwarded_intr_time_ns = 0, st_page_fault_count = 0, st_failed_page_fault_count = 0,
        st_page_fault_time_ns = 0, st_system_call_count = 0\<rparr>,
      kkm_object_id = 1, idt_native_desc = \<lparr>desc_size = 4095, desc_address = 0xFFFFFE0000000000\<rparr>,
      idt_guest_desc = \<lparr>desc_size = 4095, desc_address = 0xFFFFFE8000000000\<rparr>, idt_last_id = (\<lambda>_. - 1),
      current_kontext = (\<lambda>_. 0), cpu = example_cpu\<rparr>"

definition example_slot :: kkm_mem_slot where
  "example_slot = \<lparr>ms_used = False, ms_npages = 0, ms_user_pfn = 0,
     ms_mr = \<lparr>mr_slot = 0, mr_flags = 0, guest_phys_addr = 0, memory_size = 0, userspace_addr = 0\<rparr>\<rparr>"

definition example_kkm :: kkm_kontainer where
  "example_kkm =
     \<lparr>km_id = 5, km_kontainer_fd = 3, km_reference_count = 2, km_mm = 2, km_mem_slot_count = 0,
      km_mem_slot = replicate 64 example_slot, km_id_map_addr = 0, km_kontext_count = 1,
      km_kontext = replicate 288 0, km_gk_pgd = \<lparr>pi_page = 0x10000, pi_va = 0x10000, pi_pa = 0x10000\<rparr>,
      km_gp_pgd = \<lparr>pi_page = 0, pi_va = 0x11000, pi_pa = 0x11000\<rparr>, km_gk_p4d = no_page, km_gp_p4d = no_page,
      km_low_p4d = no_page, km_guest_pml4e = no_pml4e\<rparr>"

definition example_kontext :: kkm_kontext where
  "example_kontext =
     \<lparr>kn_id = 6, kn_index = 0, kn_used = True, kn_first_thread = True, kn_new_thread = False,
      kn_debug_registers_set = False, kn_kontext_fd = 4, kn_task = 1, kn_kkm = 0x900000,
      kn_mmap_area = [], kn_guest_area_page = 0x20000, kn_guest_area = 0x20000,
      kn_guest_area_page0_pa = 0x20000, kn_guest_area_page1_pa = 0x21000,
      kn_xsave = \<lparr>pi_page = 0x22000, pi_va = 0x22000, pi_pa = 0x22000\<rparr>, kn_kernel_xsave = 0x22000,
      kn_payload_xsave = 0x23000, kn_valid_payload_xsave_area = False,
      kn_native = \<lparr>native_kernel_cr3 = 0, native_kernel_cr4 = 0, native_kernel_ds = 0, native_kernel_es = 0,
        native_kernel_fs = 0, native_kernel_fs_base = 0, native_kernel_gs = 0, native_kernel_gs_base = 0,
        native_kernel_gs_kern_base = 0, native_kernel_ss = 0, native_kernel_entry_syscall_64 = 0,
        native_debug_registers = replicate 8 0\<rparr>,
      kn_syscall_pending = False, kn_ret_val_mva = - 1, kn_exception_posted = False, kn_exception_saved_rax = - 1,
      kn_exception_saved_rbx = - 1, kn_trap_addr = 0, kn_error_code = 0, kn_prev_trap_no = - 1,
      kn_prev_trap_addr = - 1, kn_prev_error_code = - 1, kn_trap_repeat_counter = - 1\<rparr>"

text \<open>The payload's stack and its thread block lie in the lower shared window.\<close>

definition example_ga :: kkm_guest_area where
  "example_ga = zero_guest_area
     \<lparr>ga_kkm_kontext := 0x910000, ga_guest_area_beg := 0x20000, ga_guest_kernel_cr3 := 0x1007F,
      ga_guest_payload_cr3 := 0x110FF, ga_cpu := - 1,
      ga_regs := zero_regs\<lparr>rax := 39, rdi := 7, rsp := 0x300000, rip := 0x201000, rflags := 0x202\<rparr>,
      ga_sregs := zero_sregs\<lparr>sr_gs := zero_segment\<lparr>seg_base := 0x400000\<rparr>\<rparr>,
      ga_trap_info := \<lparr>ti_error = 6, ti_rip = 0x201000, ti_cs = 0x33, ti_rflags = 0x202, ti_rsp = 0x300000, ti_ss = 0x2B\<rparr>,
      ga_intr_no := 511\<rparr>"

definition example_run :: kkm_run_page where
  "example_run =
     \<lparr>immediate_exit = 0, exit_reason = 0,
      run_io = \<lparr>io_direction = 0, io_size = 0, io_port = 0, io_count = 0, io_data_offset = 0\<rparr>,
      run_debug = \<lparr>arch_exception = 0, arch_reserved = 0, arch_pc = 0, arch_dr6 = 0, arch_dr7 = 0\<rparr>,
      kkm_valid_regs = 3, kkm_dirty_regs = 0, run_regs = zero_regs, run_sregs = zero_sregs\<rparr>"

definition example_vm :: vm where
  "example_vm = host.extend example_host (vm.fields example_kkm)"

definition example_vcpu :: vcpu where
  "example_vcpu = vm.extend example_vm
     (vcpu.fields example_kontext example_ga example_run \<lparr>pa_data = 0, pa_reason = 0\<rparr>
        (replicate 4096 0) (replicate 4096 0))"

lemmas example_state_defs = example_vcpu_def example_vm_def example_host_def host.defs vm.defs vcpu.defs

lemma example_vcpu_simps [simp]:
  "klog example_vcpu = []" "cpu example_vcpu = example_cpu" "vm_kkm example_vcpu = example_kkm"
  "vc_kontext example_vcpu = example_kontext" "vc_ga example_vcpu = example_ga" "vc_run example_vcpu = example_run"
  "kkm_cpu_full_tlb_flush example_vcpu = False" "lazy_flush_tlb example_vcpu = True" "um example_vcpu = (\<lambda>_. 0)"
  "kmem example_vcpu = (\<lambda>_. 0)" "idt_last_id example_vcpu = (\<lambda>_. - 1)"
  "idt_native_desc example_vcpu = c_idtr example_cpu" "kkm_mmu_kx example_vcpu = no_pml4e"
  "vc_payload_xstate example_vcpu = replicate 4096 0"
  by (simp_all add: example_state_defs example_cpu_def)

lemma example_vm_simps [simp]:
  "klog example_vm = []" "cpu example_vm = example_cpu" "vm_kkm example_vm = example_kkm" "um example_vm = (\<lambda>_. 0)"
  "kmem example_vm = (\<lambda>_. 0)" "kkm_mmu_kx example_vm = no_pml4e" "kkm_cpu_full_tlb_flush example_vm = False"
  by (simp_all add: example_state_defs)

lemma example_linux_simps [simp]:
  "lx_copy_from_user example_linux = (\<lambda>_ _ _. 0)" "lx_copy_to_user example_linux = (\<lambda>_ _ _. 0)"
  "lx_signal_pending example_linux = (\<lambda>_. False)" "lx_pgtable_l5_enabled example_linux = False"
  "lx_alloc_pages example_linux = example_alloc" "lx_page_address example_linux = (\<lambda>p. p AND 0xFFFFFFFFF000)"
  "lx_virt_to_phys example_linux = (\<lambda>v. v)" "lx_phys_to_virt example_linux = (\<lambda>p. p)"
  "lx_payload example_linux = example_payload" "lx_get_cpu example_linux = (\<lambda>_. 2)"
  "lx_pte_pfn_mask example_linux = 0xFFFFFFFFFF000" "lx_KERNEL_DS example_linux = 0x18"
  by (simp_all add: example_linux_def)

end
