(* ===== verification/Kkm_Mmu.thy ===== *)
theory Kkm_Mmu
  imports Kkm_Mm Kkm_Examples
begin

section \<open>Page tables (\<open>kkm_mmu.c\<close>, \<open>kkm_mmu.h\<close>)\<close>

text \<open>
  Every function of \<open>kkm_mmu.c\<close>. A table is named by its virtual address and
  \<open>((uint64_t *)va)[index]\<close> is the cell of \<open>kmem\<close> at \<open>entry_addr va index\<close>. The global
  \<open>kkm_mmu_kx\<close> is a field of the host, so \<open>kkm_create_pml4\<close> is told whether the structure it
  fills is that global. The locale \<open>entry_store\<close> is what the table code needs of memory, and
  \<open>walk_tables\<close> is the processor's own page walk, against which the table updates are checked.
\<close>

subsection \<open>Constants\<close>

abbreviation (input) PCID_MASK :: u64 where "PCID_MASK \<equiv> 0xFFF"
abbreviation (input) GUEST_KERNEL_PCID :: u64 where "GUEST_KERNEL_PCID \<equiv> 0x7F"
abbreviation (input) GUEST_PAYLOAD_PCID :: u64 where "GUEST_PAYLOAD_PCID \<equiv> 0xFF"
abbreviation (input) KKM_PRIVATE_START_VA :: u64 where "KKM_PRIVATE_START_VA \<equiv> 0xFFFFFE8000000000"
abbreviation (input) KKM_KX_PGD_P4D_INDEX :: nat where "KKM_KX_PGD_P4D_INDEX \<equiv> 511"
abbreviation (input) KKM_KX_PGD_INDEX :: nat where "KKM_KX_PGD_INDEX \<equiv> 509"
abbreviation (input) KKM_PTE_INDEX_IDT :: nat where "KKM_PTE_INDEX_IDT \<equiv> 0"
abbreviation (input) KKM_PTE_INDEX_TEXT_0 :: nat where "KKM_PTE_INDEX_TEXT_0 \<equiv> 1"
abbreviation (input) KKM_PTE_INDEX_TEXT_1 :: nat where "KKM_PTE_INDEX_TEXT_1 \<equiv> 2"
abbreviation (input) KKM_PTE_INDEX_KX :: nat where "KKM_PTE_INDEX_KX \<equiv> 3"
abbreviation (input) KKM_CPU_GA_INDEX_START :: nat where "KKM_CPU_GA_INDEX_START \<equiv> 256"
abbreviation (input) KKM_PER_CPU_GA_PAGE_COUNT :: nat where "KKM_PER_CPU_GA_PAGE_COUNT \<equiv> 4"
abbreviation (input) KKM_PAGE_FLAGS_MASK :: u64 where "KKM_PAGE_FLAGS_MASK \<equiv> 0x800000000000001F"
abbreviation (input) KKM_PAGE_PA_MASK :: u64 where "KKM_PAGE_PA_MASK \<equiv> 0xFFFFFFFFF000"
abbreviation (input) KKM_PGD_KERNEL_OFFSET :: u64 where "KKM_PGD_KERNEL_OFFSET \<equiv> 2048"
abbreviation (input) KKM_PGD_KERNEL_SIZE :: nat where "KKM_PGD_KERNEL_SIZE \<equiv> 2048"
abbreviation (input) KKM_PGD_LOW_P4D_ENTRY :: nat where "KKM_PGD_LOW_P4D_ENTRY \<equiv> 0"
abbreviation (input) KKM_PGD_MONITOR_PAYLOAD_ENTRY :: nat where "KKM_PGD_MONITOR_PAYLOAD_ENTRY \<equiv> 0"
abbreviation (input) KKM_PGD_GUEST_PAYLOAD_BOTTOM_ENTRY :: nat where "KKM_PGD_GUEST_PAYLOAD_BOTTOM_ENTRY \<equiv> 0"
abbreviation (input) KKM_PGD_GUEST_PAYLOAD_TOP_ENTRY :: nat where "KKM_PGD_GUEST_PAYLOAD_TOP_ENTRY \<equiv> 255"

text \<open>Page-table bits and index macros of x86 Linux.\<close>

abbreviation (input) PAGE_PRESENT :: u64 where "PAGE_PRESENT \<equiv> 1"
abbreviation (input) PAGE_RW :: u64 where "PAGE_RW \<equiv> 2"
abbreviation (input) PAGE_USER :: u64 where "PAGE_USER \<equiv> 4"
abbreviation (input) PAGE_NX :: u64 where "PAGE_NX \<equiv> 0x8000000000000000"

definition table_index :: "nat \<Rightarrow> u64 \<Rightarrow> nat" where
  "table_index shift a = unat (drop_bit shift a AND 511)"

definition pgd_index :: "linux \<Rightarrow> u64 \<Rightarrow> nat" where
  "pgd_index E a = table_index (if lx_pgtable_l5_enabled E then 48 else 39) a"

definition p4d_index :: "linux \<Rightarrow> u64 \<Rightarrow> nat" where
  "p4d_index E a = (if lx_pgtable_l5_enabled E then table_index 39 a else 0)"

abbreviation pud_index :: "u64 \<Rightarrow> nat" where "pud_index \<equiv> table_index 30"
abbreviation pmd_index :: "u64 \<Rightarrow> nat" where "pmd_index \<equiv> table_index 21"
abbreviation pte_index :: "u64 \<Rightarrow> nat" where "pte_index \<equiv> table_index 12"

subsection \<open>Entries\<close>

definition entry_addr :: "u64 \<Rightarrow> nat \<Rightarrow> u64" where
  "entry_addr va i = va + 8 * of_nat i"

definition read_entry :: "u64 \<Rightarrow> nat \<Rightarrow> 'a host_scheme \<Rightarrow> u64" where
  "read_entry va i s = kmem s (entry_addr va i)"

definition page_entry :: "u64 \<Rightarrow> u64 \<Rightarrow> u64" where
  "page_entry pa flags = (pa AND KKM_PAGE_PA_MASK) OR (flags AND KKM_PAGE_FLAGS_MASK)"

definition kkm_mmu_get_per_cpu_start_index :: "nat \<Rightarrow> nat" where
  "kkm_mmu_get_per_cpu_start_index cpu_index =
     KKM_CPU_GA_INDEX_START + cpu_index * KKM_PER_CPU_GA_PAGE_COUNT"

definition kkm_mmu_set_entry :: "u64 \<Rightarrow> nat \<Rightarrow> u64 \<Rightarrow> 'a host_scheme \<Rightarrow> 'a host_scheme" where
  "kkm_mmu_set_entry pt_va i entry s = s\<lparr>kmem := (kmem s)(entry_addr pt_va i := entry)\<rparr>"

definition kkm_mmu_insert_page ::
  "u64 \<Rightarrow> nat \<Rightarrow> u64 \<Rightarrow> u64 \<Rightarrow> 'a host_scheme \<Rightarrow> 'a host_scheme" where
  "kkm_mmu_insert_page pt_va i pa flags s = kkm_mmu_set_entry pt_va i (page_entry pa flags) s"

definition kkm_mmu_entry_pa :: "linux \<Rightarrow> u64 \<Rightarrow> u64" where
  "kkm_mmu_entry_pa E entry = entry AND lx_pte_pfn_mask E"

definition kkm_mmu_get_table_va ::
  "linux \<Rightarrow> u64 \<Rightarrow> nat \<Rightarrow> 'a host_scheme \<Rightarrow> bool \<times> u64" where
  "kkm_mmu_get_table_va E table_va i s =
     (let entry = read_entry table_va i s;
          entry_pa = kkm_mmu_entry_pa E entry;
          next_table_va = lx_phys_to_virt E entry_pa
      in if entry AND PAGE_PRESENT \<noteq> 0 then (True, next_table_va) else (False, table_va))"

subsection \<open>A private hierarchy: one page each for pud, pmd and pt\<close>

definition kkm_mmu_flush_tlb :: "'a host_scheme \<Rightarrow> 'a host_scheme" where
  "kkm_mmu_flush_tlb s =
     kcall (Ev_invpcid_single_context GUEST_PAYLOAD_PCID)
       (kcall (Ev_invpcid_single_context GUEST_KERNEL_PCID) s)"

definition kkm_mmu_flush_tlb_one_page :: "u64 \<Rightarrow> 'a host_scheme \<Rightarrow> 'a host_scheme" where
  "kkm_mmu_flush_tlb_one_page addr s =
     kcall (Ev_invpcid_one GUEST_PAYLOAD_PCID addr) (kcall (Ev_invpcid_one GUEST_KERNEL_PCID addr) s)"

definition kkm_cleanup_pml4 :: "kkm_mmu_pml4e \<Rightarrow> 'a host_scheme \<Rightarrow> 'a host_scheme" where
  "kkm_cleanup_pml4 kmu s =
     (let s1 = (if pi_page (pml_pud kmu) \<noteq> 0 then kkm_mm_free_page (pi_va (pml_pud kmu)) s else s);
          s2 = (if pi_page (pml_pmd kmu) \<noteq> 0 then kkm_mm_free_page (pi_va (pml_pmd kmu)) s1 else s1)
      in if pi_page (pml_pt kmu) \<noteq> 0 then kkm_mm_free_page (pi_va (pml_pt kmu)) s2 else s2)"

definition kkm_mmu_cleanup :: "'a host_scheme \<Rightarrow> 'a host_scheme" where
  "kkm_mmu_cleanup s =
     (let s1 = (if kkm_cpu_full_tlb_flush s = False then kkm_mmu_flush_tlb s else s)
      in kkm_cleanup_pml4 (kkm_mmu_kx s1) s1)"

text \<open>
  \<open>is_kx\<close> says that the structure passed to \<open>kkm_create_pml4\<close> is the global \<open>kkm_mmu_kx\<close>:
  then what was written to it is visible to \<open>kkm_mmu_cleanup\<close> on the error path.
\<close>

definition store_kx :: "bool \<Rightarrow> kkm_mmu_pml4e \<Rightarrow> 'a host_scheme \<Rightarrow> 'a host_scheme" where
  "store_kx is_kx kmu s = (if is_kx then s\<lparr>kkm_mmu_kx := kmu\<rparr> else s)"

definition kkm_create_pml4 ::
  "linux \<Rightarrow> bool \<Rightarrow> u64 \<Rightarrow> 'a host_scheme \<Rightarrow> int \<times> kkm_mmu_pml4e \<times> 'a host_scheme" where
  "kkm_create_pml4 E is_kx address s =
     (let error = (\<lambda>r kmu s. (r, kmu, kkm_mmu_cleanup (store_kx is_kx kmu s)));
          kmu0 = no_pml4e
      in case kkm_mm_allocate_page E True True True (pml_pud kmu0) s of (r1, pud, s1) \<Rightarrow>
        let kmu1 = kmu0\<lparr>pml_pud := pud\<rparr> in
        if r1 \<noteq> 0 then error r1 kmu1 s1
        else case kkm_mm_allocate_page E True True True (pml_pmd kmu1) s1 of (r2, pmd, s2) \<Rightarrow>
        let kmu2 = kmu1\<lparr>pml_pmd := pmd\<rparr> in
        if r2 \<noteq> 0 then error r2 kmu2 s2
        else case kkm_mm_allocate_page E True True True (pml_pt kmu2) s2 of (r3, pt, s3) \<Rightarrow>
        let kmu3 = kmu2\<lparr>pml_pt := pt\<rparr> in
        if r3 \<noteq> 0 then error r3 kmu3 s3
        else
          let kmu4 = kmu3\<lparr>pml_pgd_entry :=
                 (pi_pa pud AND KKM_PAGE_PA_MASK) OR PAGE_USER OR PAGE_RW OR PAGE_PRESENT\<rparr>;
              s4 = kkm_mmu_insert_page (pi_va pud) (pud_index address) (pi_pa pmd)
                     (PAGE_USER OR PAGE_RW OR PAGE_PRESENT) s3;
              s5 = kkm_mmu_insert_page (pi_va pmd) (pmd_index address) (pi_pa pt)
                     (PAGE_USER OR PAGE_RW OR PAGE_PRESENT) s4
          in (0, kmu4, store_kx is_kx kmu4 s5))"

definition kkm_mmu_init :: "linux \<Rightarrow> 'a host_scheme \<Rightarrow> int \<times> 'a host_scheme" where
  "kkm_mmu_init E s =
     (case kkm_create_pml4 E True KKM_PRIVATE_START_VA s of (r, kmu, s') \<Rightarrow> (r, s'))"

subsection \<open>The kx area\<close>

definition kkm_mmu_set_guest_area ::
  "nat \<Rightarrow> u64 \<Rightarrow> u64 \<Rightarrow> u64 \<Rightarrow> u64 \<Rightarrow> 'a host_scheme \<Rightarrow> 'a host_scheme" where
  "kkm_mmu_set_guest_area cpu_index pa0 pa1 pa2 pa3 s =
     (let page_index = kkm_mmu_get_per_cpu_start_index cpu_index;
          flags = PAGE_NX OR PAGE_RW OR PAGE_PRESENT;
          pt = pi_va (pml_pt (kkm_mmu_kx s));
          s1 = kkm_mmu_insert_page pt page_index pa0 flags s;
          s2 = kkm_mmu_insert_page pt (page_index + 1) pa1 flags s1;
          s3 = kkm_mmu_insert_page pt (page_index + 2) pa2 flags s2
      in kkm_mmu_insert_page pt (page_index + 3) pa3 flags s3)"

definition kkm_mmu_get_cur_cpu_guest_va :: "nat \<Rightarrow> u64" where
  "kkm_mmu_get_cur_cpu_guest_va cpu_index =
     KKM_PRIVATE_START_VA + of_nat (kkm_mmu_get_per_cpu_start_index cpu_index) * PAGE_SIZE"

definition kkm_mmu_get_idt_va :: u64 where
  "kkm_mmu_get_idt_va = KKM_PRIVATE_START_VA"

definition kkm_mmu_set_kx_global_info ::
  "u64 \<Rightarrow> u64 \<Rightarrow> u64 \<Rightarrow> u64 \<Rightarrow> 'a host_scheme \<Rightarrow> 'a host_scheme" where
  "kkm_mmu_set_kx_global_info idt_pa text_page0_pa text_page1_pa kx_global_pa s =
     (let pt = pi_va (pml_pt (kkm_mmu_kx s));
          s1 = kkm_mmu_insert_page pt KKM_PTE_INDEX_IDT idt_pa (PAGE_NX OR PAGE_PRESENT) s;
          s2 = kkm_mmu_insert_page pt KKM_PTE_INDEX_TEXT_0 text_page0_pa (PAGE_RW OR PAGE_PRESENT) s1;
          s3 = kkm_mmu_insert_page pt KKM_PTE_INDEX_TEXT_1 text_page1_pa (PAGE_RW OR PAGE_PRESENT) s2
      in kkm_mmu_insert_page pt KKM_PTE_INDEX_KX kx_global_pa
           (PAGE_NX OR PAGE_RW OR PAGE_PRESENT) s3)"

subsection \<open>The guest's top-level tables\<close>

text \<open>\<open>memcpy\<close> between page tables: whole entries, at entry-aligned offsets.\<close>

definition kkm_mmu_copy_range ::
  "u64 \<Rightarrow> u64 \<Rightarrow> u64 \<Rightarrow> u64 \<Rightarrow> nat \<Rightarrow> 'a host_scheme \<Rightarrow> 'a host_scheme" where
  "kkm_mmu_copy_range src_base src_offset dest_base dest_offset n s =
     s\<lparr>kmem := (\<lambda>a. if unat (a - (dest_base + dest_offset)) < n
                    then kmem s (src_base + src_offset + (a - (dest_base + dest_offset)))
                    else kmem s a)\<rparr>"

definition kkm_mmu_setup_one_pgd ::
  "linux \<Rightarrow> u64 \<Rightarrow> u64 \<Rightarrow> u64 \<Rightarrow> 'a host_scheme \<Rightarrow> 'a host_scheme" where
  "kkm_mmu_setup_one_pgd E kernel_pgd_base pgd_table_base p4d_table_base s =
     (let s1 = kkm_mmu_copy_range kernel_pgd_base KKM_PGD_KERNEL_OFFSET
                 pgd_table_base KKM_PGD_KERNEL_OFFSET KKM_PGD_KERNEL_SIZE s
      in if lx_pgtable_l5_enabled E = True then
           (if p4d_table_base = 0 then s1
            else let p4d_pa = read_entry kernel_pgd_base KKM_KX_PGD_P4D_INDEX s1 AND KKM_PAGE_PA_MASK;
                     p4d_va = lx_phys_to_virt E p4d_pa;
                     s2 = kkm_mmu_copy_range p4d_va 0 p4d_table_base 0 4096 s1;
                     s3 = kkm_mmu_set_entry p4d_table_base KKM_KX_PGD_INDEX
                            (pml_pgd_entry (kkm_mmu_kx s2)) s2
                 in kkm_mmu_insert_page pgd_table_base KKM_KX_PGD_P4D_INDEX
                      (lx_virt_to_phys E p4d_table_base) (PAGE_USER OR PAGE_RW OR PAGE_PRESENT) s3)
         else kkm_mmu_set_entry pgd_table_base KKM_KX_PGD_INDEX (pml_pgd_entry (kkm_mmu_kx s1)) s1)"

definition kkm_mmu_copy_kernel_pgd ::
  "linux \<Rightarrow> u64 \<Rightarrow> u64 \<Rightarrow> u64 \<Rightarrow> u64 \<Rightarrow> u64 \<Rightarrow> 'a host_scheme \<Rightarrow> int \<times> 'a host_scheme" where
  "kkm_mmu_copy_kernel_pgd E current_pgd_base guest_kernel_va guest_payload_va
       kernel_p4d_va payload_p4d_va s =
     (if current_pgd_base = 0 then (- EINVAL, s)
      else let s1 = kkm_mmu_setup_one_pgd E current_pgd_base guest_kernel_va kernel_p4d_va s
           in (0, kkm_mmu_setup_one_pgd E current_pgd_base guest_payload_va payload_p4d_va s1))"

definition kkm_mmu_sync ::
  "linux \<Rightarrow> u64 \<Rightarrow> u64 \<Rightarrow> u64 \<Rightarrow> kkm_mmu_pml4e \<Rightarrow> u64 \<Rightarrow> u64 \<Rightarrow> 'a host_scheme
     \<Rightarrow> int \<times> 'a host_scheme" where
  "kkm_mmu_sync E current_pgd_base guest_kernel_va guest_payload_va guest low_p4d_va low_p4d_pa s =
     (let (native_kernel_entry, guest_payload_entry) =
            (if lx_pgtable_l5_enabled E = True then
               let native_low_pa = read_entry current_pgd_base KKM_PGD_LOW_P4D_ENTRY s AND KKM_PAGE_PA_MASK;
                   native_low_va = lx_phys_to_virt E native_low_pa
               in (read_entry native_low_va KKM_PGD_MONITOR_PAYLOAD_ENTRY s,
                   read_entry low_p4d_va KKM_PGD_GUEST_PAYLOAD_BOTTOM_ENTRY s)
             else (read_entry current_pgd_base KKM_PGD_MONITOR_PAYLOAD_ENTRY s,
                   read_entry guest_payload_va KKM_PGD_GUEST_PAYLOAD_BOTTOM_ENTRY s))
      in if kkm_mmu_entry_pa E native_kernel_entry = kkm_mmu_entry_pa E guest_payload_entry
         then (0, s)
         else let new_guest_entry = native_kernel_entry AND NOT PAGE_NX in
           if lx_pgtable_l5_enabled E = True then
             let s1 = kkm_mmu_insert_page guest_kernel_va KKM_PGD_LOW_P4D_ENTRY low_p4d_pa
                        (PAGE_USER OR PAGE_RW OR PAGE_PRESENT) s;
                 s2 = kkm_mmu_insert_page guest_payload_va KKM_PGD_LOW_P4D_ENTRY low_p4d_pa
                        (PAGE_USER OR PAGE_RW OR PAGE_PRESENT) s1;
                 s3 = kkm_mmu_set_entry low_p4d_va KKM_PGD_GUEST_PAYLOAD_BOTTOM_ENTRY new_guest_entry s2;
                 s4 = kkm_mmu_set_entry low_p4d_va 1 (pml_pgd_entry guest) s3
             in (0, kkm_mmu_set_entry low_p4d_va KKM_PGD_GUEST_PAYLOAD_TOP_ENTRY new_guest_entry s4)
           else
             let s1 = kkm_mmu_set_entry guest_kernel_va KKM_PGD_GUEST_PAYLOAD_BOTTOM_ENTRY new_guest_entry s;
                 s2 = kkm_mmu_set_entry guest_payload_va KKM_PGD_GUEST_PAYLOAD_BOTTOM_ENTRY new_guest_entry s1;
                 s3 = kkm_mmu_set_entry guest_kernel_va 1 (pml_pgd_entry guest) s2;
                 s4 = kkm_mmu_set_entry guest_payload_va 1 (pml_pgd_entry guest) s3;
                 s5 = kkm_mmu_set_entry guest_kernel_va KKM_PGD_GUEST_PAYLOAD_TOP_ENTRY new_guest_entry s4
             in (0, kkm_mmu_set_entry guest_payload_va KKM_PGD_GUEST_PAYLOAD_TOP_ENTRY new_guest_entry s5))"

definition kkm_mmu_update_priv_area ::
  "linux \<Rightarrow> u64 \<Rightarrow> u64 \<Rightarrow> u64 \<Rightarrow> kkm_mmu_pml4e \<Rightarrow> 'a host_scheme \<Rightarrow> bool \<times> 'a host_scheme" where
  "kkm_mmu_update_priv_area E guest_fault_address monitor_fault_address current_pgd_base guest s =
     (let pgd_idx = pgd_index E monitor_fault_address;
          p4d_idx = p4d_index E monitor_fault_address;
          pud_idx = pud_index monitor_fault_address;
          pmd_idx = pmd_index monitor_fault_address;
          pte_idx = pte_index monitor_fault_address;
          gva_pte_idx = pte_index guest_fault_address
      in case kkm_mmu_get_table_va E current_pgd_base pgd_idx s of (ok1, t1) \<Rightarrow>
         if ok1 \<noteq> True then (False, s)
         else case (if lx_pgtable_l5_enabled E = True then kkm_mmu_get_table_va E t1 p4d_idx s
                    else (True, t1)) of (ok2, t2) \<Rightarrow>
         if ok2 \<noteq> True then (False, s)
         else case kkm_mmu_get_table_va E t2 pud_idx s of (ok3, t3) \<Rightarrow>
         if ok3 \<noteq> True then (False, s)
         else case kkm_mmu_get_table_va E t3 pmd_idx s of (ok4, t4) \<Rightarrow>
         if ok4 \<noteq> True then (False, s)
         else (True, kkm_mmu_set_entry (pi_va (pml_pt guest)) gva_pte_idx (read_entry t4 pte_idx s) s))"

subsection \<open>Memory of entries\<close>

locale entry_store =
  fixes rd :: "u64 \<Rightarrow> nat \<Rightarrow> 's \<Rightarrow> u64"
    and wr :: "u64 \<Rightarrow> nat \<Rightarrow> u64 \<Rightarrow> 's \<Rightarrow> 's"
  assumes rd_wr_same: "rd va i (wr va i e s) = e"
    and rd_wr_other: "entry_addr va j \<noteq> entry_addr va' i \<Longrightarrow> rd va j (wr va' i e s) = rd va j s"
begin

lemma rd_wr_outside:
  "entry_addr va j \<notin> (\<lambda>(t, i, _). entry_addr t i) ` set ws \<Longrightarrow>
     rd va j (fold (\<lambda>(t, i, e). wr t i e) ws s) = rd va j s"
  by (induction ws arbitrary: s) (auto simp: rd_wr_other)

end

lemma entry_addr_inj:
  assumes "i < 2 ^ 61" "j < 2 ^ 61"
  shows "entry_addr va i = entry_addr va j \<longleftrightarrow> i = j"
proof
  assume "entry_addr va i = entry_addr va j"
  then have "(of_nat (8 * i) :: u64) = of_nat (8 * j)"
    by (simp add: entry_addr_def)
  then have "take_bit 64 (8 * i) = take_bit 64 (8 * j)"
    by (simp only: word_of_nat_eq_iff) simp
  with assms show "i = j"
    by (simp add: take_bit_eq_mod)
qed simp

lemma page_aligned_unat:
  assumes "(va :: u64) AND 4095 = 0"
  shows "4096 dvd unat va"
proof -
  have "va AND 4095 = take_bit 12 va"
    by (simp add: take_bit_eq_mask mask_eq_exp_minus_1)
  with assms have "unat (take_bit 12 va) = 0" by simp
  then have "take_bit 12 (unat va) = 0" by (simp only: unsigned_take_bit_eq)
  then show ?thesis by (simp add: take_bit_eq_mod mod_eq_0_iff_dvd)
qed

lemma unat_entry_addr:
  assumes "(va :: u64) AND 4095 = 0" "i < 512"
  shows "unat (entry_addr va i) = unat va + 8 * i"
proof -
  obtain k where k: "unat va = 4096 * k"
    using page_aligned_unat [OF assms(1)] by (auto elim: dvdE)
  have "unat va < 2 ^ 64" using unsigned_less [of va] by simp
  with k assms(2) have "unat va + 8 * i < 2 ^ 64" by simp
  moreover have "unat (of_nat (8 * i) :: u64) = 8 * i"
    using assms(2) by (simp only: unsigned_of_nat) (simp add: take_bit_eq_mod)
  ultimately show ?thesis
    by (simp add: entry_addr_def unat_word_ariths)
qed

lemma entry_addr_pages:
  assumes "(va :: u64) AND 4095 = 0" "(va' :: u64) AND 4095 = 0" "i < 512" "j < 512"
  shows "entry_addr va i = entry_addr va' j \<longleftrightarrow> va = va' \<and> i = j"
proof
  assume eq: "entry_addr va i = entry_addr va' j"
  obtain k k' where k: "unat va = 4096 * k" "unat va' = 4096 * k'"
    using page_aligned_unat [OF assms(1)] page_aligned_unat [OF assms(2)] by (auto elim!: dvdE)
  have "4096 * k + 8 * i = 4096 * k' + 8 * j"
    using eq k unat_entry_addr [OF assms(1,3)] unat_entry_addr [OF assms(2,4)] by simp
  with assms(3,4) have "(4096 * k + 8 * i) div 4096 = (4096 * k' + 8 * j) div 4096"
      "8 * i < 4096" "8 * j < 4096"
    by simp_all
  then have "k = k'" by simp
  with k have "va = va'" by (simp add: word_unat_eq_iff)
  with eq assms show "va = va' \<and> i = j"
    by (simp add: entry_addr_inj)
qed simp

interpretation kmem_entries: entry_store read_entry kkm_mmu_set_entry
  by unfold_locales (simp_all add: read_entry_def kkm_mmu_set_entry_def)

lemma page_entry_pa:
  "page_entry pa flags AND KKM_PAGE_PA_MASK = pa AND KKM_PAGE_PA_MASK"
  by (simp add: page_entry_def bit.conj_disj_distrib2 and.assoc)

lemma page_entry_flags:
  "page_entry pa flags AND KKM_PAGE_FLAGS_MASK = flags AND KKM_PAGE_FLAGS_MASK"
  by (simp add: page_entry_def bit.conj_disj_distrib2 and.assoc)

subsection \<open>Whose translations a processor may hold\<close>

text \<open>
  A reading of the log: the processor the module is on (the last \<open>get_cpu\<close>), and for every
  processor the kontainers whose payload ran there, with the payload's process context, since that
  context was last flushed.
\<close>

fun tlb_event :: "kev \<Rightarrow> bool" where
  "tlb_event (Ev_get_cpu c) = True"
| "tlb_event (Ev_invpcid_single_context p) = True"
| "tlb_event Ev_toggle_cr4_pge = True"
| "tlb_event (Ev_payload k g) = True"
| "tlb_event _ = False"

fun tlb :: "kev list \<Rightarrow> nat \<times> (nat \<Rightarrow> u64 set)" where
  "tlb [] = (0, \<lambda>_. {})"
| "tlb (e # l) =
     (case tlb l of (c, m) \<Rightarrow>
      (case e of Ev_get_cpu c' \<Rightarrow> (c', m)
       | Ev_invpcid_single_context p \<Rightarrow> (c, if p = GUEST_PAYLOAD_PCID then m(c := {}) else m)
       | Ev_toggle_cr4_pge \<Rightarrow> (c, m(c := {}))
       | Ev_payload k g \<Rightarrow> (c, m(c := insert k (m c)))
       | _ \<Rightarrow> (c, m)))"

lemma tlb_other_event: "\<not> tlb_event e \<Longrightarrow> tlb (e # l) = tlb l"
  by (cases e; cases "tlb l") simp_all

lemma tlb_flush: "tlb (klog (kkm_mmu_flush_tlb s)) = (fst (tlb (klog s)), (snd (tlb (klog s)))(fst (tlb (klog s)) := {}))"
  by (simp add: kkm_mmu_flush_tlb_def case_prod_unfold)

declare tlb.simps(2) [simp del] tlb_other_event [simp]

lemma tlb_flush_one [simp]: "tlb (klog (kkm_mmu_flush_tlb_one_page a s)) = tlb (klog s)"
  by (simp add: kkm_mmu_flush_tlb_one_page_def)

subsection \<open>What the module relies on in Linux's paging\<close>

text \<open>
  The mask of page frame bits in an entry covers the frame bits the module keeps and none of
  its flag bits; pages are page aligned, and their addresses convert to physical ones and back.
\<close>

definition lx_paging_ok :: "linux \<Rightarrow> bool" where
  "lx_paging_ok E \<longleftrightarrow>
     lx_pte_pfn_mask E AND KKM_PAGE_PA_MASK = KKM_PAGE_PA_MASK \<and>
     lx_pte_pfn_mask E AND KKM_PAGE_FLAGS_MASK = 0 \<and>
     (\<forall>p. lx_page_address E p AND 4095 = 0 \<and>
        lx_virt_to_phys E (lx_page_address E p) AND KKM_PAGE_PA_MASK
          = lx_virt_to_phys E (lx_page_address E p) \<and>
        lx_phys_to_virt E (lx_virt_to_phys E (lx_page_address E p)) = lx_page_address E p)"

lemma page_entry_pfn:
  assumes "lx_paging_ok E"
  shows "kkm_mmu_entry_pa E (page_entry pa flags) = pa AND KKM_PAGE_PA_MASK"
proof -
  let ?M = "lx_pte_pfn_mask E"
  have "?M AND KKM_PAGE_PA_MASK = KKM_PAGE_PA_MASK" "?M AND KKM_PAGE_FLAGS_MASK = 0"
    using assms by (simp_all add: lx_paging_ok_def)
  moreover have "(pa AND KKM_PAGE_PA_MASK) AND ?M = pa AND (?M AND KKM_PAGE_PA_MASK)"
    "(flags AND KKM_PAGE_FLAGS_MASK) AND ?M = flags AND (?M AND KKM_PAGE_FLAGS_MASK)"
    by (simp_all only: ac_simps)
  ultimately have "(pa AND KKM_PAGE_PA_MASK) AND ?M = pa AND KKM_PAGE_PA_MASK"
    "(flags AND KKM_PAGE_FLAGS_MASK) AND ?M = 0"
    by (simp_all only: and_zero_eq)
  then show ?thesis
    by (simp add: kkm_mmu_entry_pa_def page_entry_def bit.conj_disj_distrib2)
qed

lemma page_entry_frame:
  assumes "lx_paging_ok E" "pa = lx_virt_to_phys E (lx_page_address E p)"
  shows "lx_phys_to_virt E (kkm_mmu_entry_pa E (page_entry pa flags)) = lx_page_address E p"
  using assms by (simp add: page_entry_pfn lx_paging_ok_def)

lemma page_entry_present:
  "flags AND PAGE_PRESENT \<noteq> 0 \<Longrightarrow> page_entry pa flags AND PAGE_PRESENT \<noteq> 0"
  by (simp add: page_entry_def bit.conj_disj_distrib2 and.assoc)

text \<open>Linux hands out a block only while it overlaps no block still allocated.\<close>

definition blocks_disjoint :: "u64 \<times> nat \<Rightarrow> u64 \<times> nat \<Rightarrow> bool" where
  "blocks_disjoint b c \<longleftrightarrow>
     4096 * 2 ^ snd b \<le> unat (fst c - fst b) \<and> 4096 * 2 ^ snd c \<le> unat (fst b - fst c)"

definition lx_alloc_fresh :: "linux \<Rightarrow> bool" where
  "lx_alloc_fresh E \<longleftrightarrow>
     (\<forall>l order. lx_alloc_pages E l order \<noteq> 0 \<longrightarrow>
        (\<forall>b \<in># outstanding E l. blocks_disjoint b (lx_page_address E (lx_alloc_pages E l order), order)))"

lemma blocks_disjoint_neq: "blocks_disjoint (va, o1) (va', o2) \<Longrightarrow> va \<noteq> va'"
  by (auto simp: blocks_disjoint_def)

lemma allocate_page_fresh:
  assumes "lx_alloc_fresh E" "kkm_mm_allocate_page E pp vp ap pi s = (0, pi', s')"
    and "(va, k) \<in># outstanding E (klog s)"
  shows "blocks_disjoint (va, k) (pi_va pi', 0)"
  using assms
  by (fastforce simp: kkm_mm_allocate_page_def kkm_mm_allocate_pages_def alloc_pages_def lx_alloc_fresh_def
      Let_def split: if_splits)

subsection \<open>The processor's page walk\<close>

fun walk_tables :: "linux \<Rightarrow> nat list \<Rightarrow> u64 \<Rightarrow> 'a host_scheme \<Rightarrow> u64 option" where
  "walk_tables E [] t s = Some t"
| "walk_tables E (i # is) t s =
     (let e = read_entry t i s
      in if e AND PAGE_PRESENT = 0 then None
         else walk_tables E is (lx_phys_to_virt E (kkm_mmu_entry_pa E e)) s)"

definition walk_levels :: "linux \<Rightarrow> u64 \<Rightarrow> nat list" where
  "walk_levels E a =
     (if lx_pgtable_l5_enabled E then [table_index 48 a, table_index 39 a, pud_index a, pmd_index a]
      else [table_index 39 a, pud_index a, pmd_index a])"

lemma get_table_va_walk:
  "walk_tables E (i # is) t s =
     (case kkm_mmu_get_table_va E t i s of (ok, t') \<Rightarrow> if ok then walk_tables E is t' s else None)"
  by (simp add: kkm_mmu_get_table_va_def Let_def)

theorem update_priv_area_walks:
  "kkm_mmu_update_priv_area E gva mva pgd guest s =
     (case walk_tables E (walk_levels E mva) pgd s of
        None \<Rightarrow> (False, s)
      | Some t \<Rightarrow> (True, kkm_mmu_set_entry (pi_va (pml_pt guest)) (pte_index gva)
                         (read_entry t (pte_index mva) s) s))"
  by (simp add: kkm_mmu_update_priv_area_def walk_levels_def get_table_va_walk pgd_index_def
      p4d_index_def Let_def del: walk_tables.simps(2) split: prod.splits)

lemma table_index_less: "table_index k a < 512"
proof -
  have "drop_bit k a AND 511 = take_bit 9 (drop_bit k a)"
    by (simp add: take_bit_eq_mask mask_eq_exp_minus_1)
  then have "unat (drop_bit k a AND 511) = take_bit 9 (unat (drop_bit k a))"
    by (simp only: unsigned_take_bit_eq)
  also have "\<dots> < 512" by (simp add: take_bit_eq_mod)
  finally show ?thesis by (simp add: table_index_def)
qed

subsection \<open>Ownership of a private hierarchy\<close>

definition page_block :: "kkm_mmu_page_info \<Rightarrow> (u64 \<times> nat) multiset" where
  "page_block pi = (if pi_page pi = 0 then {#} else {#(pi_va pi, 0)#})"

definition pml4e_blocks :: "kkm_mmu_pml4e \<Rightarrow> (u64 \<times> nat) multiset" where
  "pml4e_blocks kmu = page_block (pml_pud kmu) + page_block (pml_pmd kmu) + page_block (pml_pt kmu)"

lemma pml4e_blocks_none [simp]: "pml4e_blocks no_pml4e = {#}"
  by (simp add: pml4e_blocks_def page_block_def no_pml4e_def no_page_def)

lemma allocate_page_ledger:
  assumes "kkm_mm_allocate_page E True True ap pi s = (r, pi', s')"
  shows "outstanding E (klog s') = page_block pi' + outstanding E (klog s)"
    and "r = (if pi_page pi' = 0 then - ENOMEM else 0)"
    and "kkm_mmu_kx s' = kkm_mmu_kx s"
    and "kkm_cpu_full_tlb_flush s' = kkm_cpu_full_tlb_flush s"
    and "frees_ok E (klog s') = frees_ok E (klog s)"
proof -
  from assms have a: "kkm_mm_allocate_pages E True True ap 1 pi s = (r, pi', s')"
    by (simp add: kkm_mm_allocate_page_def)
  show r: "r = (if pi_page pi' = 0 then - ENOMEM else 0)"
    using allocate_pages_result [OF a] by simp
  show "outstanding E (klog s') = page_block pi' + outstanding E (klog s)"
    using allocate_pages_ledger [OF a] r by (simp add: page_block_def)
  show "kkm_mmu_kx s' = kkm_mmu_kx s" "kkm_cpu_full_tlb_flush s' = kkm_cpu_full_tlb_flush s"
    by (rule allocate_pages_frame [OF a])+
  show "frees_ok E (klog s') = frees_ok E (klog s)"
    by (rule allocate_pages_ledger(2) [OF a])
qed

lemma free_page_ledger:
  "outstanding E (klog (kkm_mm_free_page va s)) = outstanding E (klog s) - {#(va, 0)#}"
  by (simp add: kkm_mm_free_page_def free_pages_ledger)

lemma cleanup_pml4_ledger:
  "outstanding E (klog (kkm_cleanup_pml4 kmu s)) = outstanding E (klog s) - pml4e_blocks kmu"
  by (simp add: kkm_cleanup_pml4_def pml4e_blocks_def page_block_def free_page_ledger Let_def)

lemma flush_tlb_ledger [simp]:
  "outstanding E (klog (kkm_mmu_flush_tlb s)) = outstanding E (klog s)"
  "kkm_mmu_kx (kkm_mmu_flush_tlb s) = kkm_mmu_kx s"
  by (simp_all add: kkm_mmu_flush_tlb_def kcall_def)

lemma mmu_cleanup_ledger:
  "outstanding E (klog (kkm_mmu_cleanup s)) = outstanding E (klog s) - pml4e_blocks (kkm_mmu_kx s)"
  by (simp add: kkm_mmu_cleanup_def cleanup_pml4_ledger Let_def)

lemma insert_page_frame [simp]:
  "klog (kkm_mmu_insert_page va i pa f s) = klog s"
  "kkm_mmu_kx (kkm_mmu_insert_page va i pa f s) = kkm_mmu_kx s"
  "klog (kkm_mmu_set_entry va i e s) = klog s"
  "kkm_mmu_kx (kkm_mmu_set_entry va i e s) = kkm_mmu_kx s"
  by (simp_all add: kkm_mmu_insert_page_def kkm_mmu_set_entry_def)

lemma store_kx_frame [simp]:
  "klog (store_kx b kmu s) = klog s" "kmem (store_kx b kmu s) = kmem s"
  "kkm_mmu_kx (store_kx b kmu s) = (if b then kmu else kkm_mmu_kx s)"
  by (simp_all add: store_kx_def)

lemma no_pml4e_sel [simp]:
  "pml_pud no_pml4e = no_page" "pml_pmd no_pml4e = no_page" "pml_pt no_pml4e = no_page"
  by (simp_all add: no_pml4e_def)

lemma page_block_no_page [simp]: "page_block no_page = {#}"
  by (simp add: page_block_def no_page_def)

lemma page_block_null: "pi_page pi = 0 \<Longrightarrow> page_block pi = {#}"
  by (simp add: page_block_def)

text \<open>The four ways through \<open>kkm_create_pml4\<close>: which page allocation failed, if any.\<close>

lemma create_pml4_cases:
  assumes "kkm_create_pml4 E is_kx address s = (r, kmu, s')"
  obtains (no_pud) pud s1 where
      "kkm_mm_allocate_page E True True True no_page s = (r, pud, s1)" "r \<noteq> 0"
      "kmu = no_pml4e\<lparr>pml_pud := pud\<rparr>" "s' = kkm_mmu_cleanup (store_kx is_kx kmu s1)"
  | (no_pmd) pud s1 pmd s2 where
      "kkm_mm_allocate_page E True True True no_page s = (0, pud, s1)"
      "kkm_mm_allocate_page E True True True no_page s1 = (r, pmd, s2)" "r \<noteq> 0"
      "kmu = no_pml4e\<lparr>pml_pud := pud, pml_pmd := pmd\<rparr>"
      "s' = kkm_mmu_cleanup (store_kx is_kx kmu s2)"
  | (no_pt) pud s1 pmd s2 pt s3 where
      "kkm_mm_allocate_page E True True True no_page s = (0, pud, s1)"
      "kkm_mm_allocate_page E True True True no_page s1 = (0, pmd, s2)"
      "kkm_mm_allocate_page E True True True no_page s2 = (r, pt, s3)" "r \<noteq> 0"
      "kmu = no_pml4e\<lparr>pml_pud := pud, pml_pmd := pmd, pml_pt := pt\<rparr>"
      "s' = kkm_mmu_cleanup (store_kx is_kx kmu s3)"
  | (ok) pud s1 pmd s2 pt s3 where
      "kkm_mm_allocate_page E True True True no_page s = (0, pud, s1)"
      "kkm_mm_allocate_page E True True True no_page s1 = (0, pmd, s2)"
      "kkm_mm_allocate_page E True True True no_page s2 = (0, pt, s3)" "r = 0"
      "kmu = \<lparr>pml_pgd_entry = (pi_pa pud AND KKM_PAGE_PA_MASK) OR PAGE_USER OR PAGE_RW OR PAGE_PRESENT,
              pml_pud = pud, pml_pmd = pmd, pml_pt = pt\<rparr>"
      "s' = store_kx is_kx kmu
              (kkm_mmu_insert_page (pi_va pmd) (pmd_index address) (pi_pa pt)
                 (PAGE_USER OR PAGE_RW OR PAGE_PRESENT)
              (kkm_mmu_insert_page (pi_va pud) (pud_index address) (pi_pa pmd)
                 (PAGE_USER OR PAGE_RW OR PAGE_PRESENT) s3))"
proof -
  obtain r1 pud s1 where a1: "kkm_mm_allocate_page E True True True no_page s = (r1, pud, s1)"
    by (rule prod_cases3)
  obtain r2 pmd s2 where a2: "kkm_mm_allocate_page E True True True no_page s1 = (r2, pmd, s2)"
    by (rule prod_cases3)
  obtain r3 pt s3 where a3: "kkm_mm_allocate_page E True True True no_page s2 = (r3, pt, s3)"
    by (rule prod_cases3)
  note c = assms [unfolded kkm_create_pml4_def Let_def, simplified a1 a2 a3, simplified]
  consider "r1 \<noteq> 0" | "r1 = 0" "r2 \<noteq> 0" | "r1 = 0" "r2 = 0" "r3 \<noteq> 0" | "r1 = 0" "r2 = 0" "r3 = 0"
    by blast
  then show thesis
  proof cases
    case 1
    with c a1 show thesis by (auto intro: no_pud)
  next
    case 2
    with c a1 a2 show thesis by (auto simp: a2 intro: no_pmd)
  next
    case 3
    with c a1 a2 a3 show thesis by (auto simp: a2 a3 intro: no_pt)
  next
    case 4
    with c a1 a2 a3 show thesis
      by (intro ok [of pud s1 pmd s2 pt s3]) (auto simp: a2 a3 no_pml4e_def)
  qed
qed

lemma create_pml4_ledger:
  assumes "kkm_create_pml4 E is_kx address s = (r, kmu, s')"
  shows "outstanding E (klog s') =
      (if r = 0 then pml4e_blocks kmu + outstanding E (klog s)
       else pml4e_blocks kmu + outstanding E (klog s)
              - pml4e_blocks (if is_kx then kmu else kkm_mmu_kx s))"
  using assms
proof (cases rule: create_pml4_cases)
  case (no_pud pud s1)
  note L = allocate_page_ledger [OF no_pud(1)]
  from no_pud L show ?thesis
    by (simp add: mmu_cleanup_ledger pml4e_blocks_def page_block_null)
next
  case (no_pmd pud s1 pmd s2)
  note L = allocate_page_ledger [OF no_pmd(1)] allocate_page_ledger [OF no_pmd(2)]
  from no_pmd L show ?thesis
    by (simp add: mmu_cleanup_ledger pml4e_blocks_def page_block_null ac_simps)
next
  case (no_pt pud s1 pmd s2 pt s3)
  note L = allocate_page_ledger [OF no_pt(1)] allocate_page_ledger [OF no_pt(2)]
    allocate_page_ledger [OF no_pt(3)]
  from no_pt L show ?thesis
    by (simp add: mmu_cleanup_ledger pml4e_blocks_def page_block_null ac_simps)
next
  case (ok pud s1 pmd s2 pt s3)
  note L = allocate_page_ledger [OF ok(1)] allocate_page_ledger [OF ok(2)]
    allocate_page_ledger [OF ok(3)]
  from ok L show ?thesis
    by (simp add: pml4e_blocks_def ac_simps)
qed

lemma mmu_cleanup_kx [simp]: "kkm_mmu_kx (kkm_mmu_cleanup s) = kkm_mmu_kx s"
  by (simp add: kkm_mmu_cleanup_def kkm_cleanup_pml4_def kkm_mm_free_page_def Let_def)

lemma create_pml4_kx:
  assumes "kkm_create_pml4 E is_kx address s = (r, kmu, s')"
  shows "kkm_mmu_kx s' = (if is_kx then kmu else kkm_mmu_kx s)"
  using assms
proof (cases rule: create_pml4_cases)
  case (no_pud pud s1)
  then show ?thesis using allocate_page_ledger(3) [OF no_pud(1)] by simp
next
  case (no_pmd pud s1 pmd s2)
  then show ?thesis
    using allocate_page_ledger(3) [OF no_pmd(1)] allocate_page_ledger(3) [OF no_pmd(2)] by simp
next
  case (no_pt pud s1 pmd s2 pt s3)
  then show ?thesis
    using allocate_page_ledger(3) [OF no_pt(1)] allocate_page_ledger(3) [OF no_pt(2)]
      allocate_page_ledger(3) [OF no_pt(3)] by simp
next
  case (ok pud s1 pmd s2 pt s3)
  then show ?thesis
    using allocate_page_ledger(3) [OF ok(1)] allocate_page_ledger(3) [OF ok(2)]
      allocate_page_ledger(3) [OF ok(3)] by simp
qed

interpretation kx_area: page_owner "\<lambda>_. True"
  "kkm_mmu_init E" kkm_mmu_cleanup "\<lambda>s :: 'a host_scheme. outstanding E (klog s)" for E
proof unfold_locales
  fix s s' :: "'a host_scheme" and r
  assume "kkm_mmu_init E s = (r, s')"
  then obtain kmu where c: "kkm_create_pml4 E True KKM_PRIVATE_START_VA s = (r, kmu, s')"
    by (auto simp: kkm_mmu_init_def split: prod.splits)
  note L = create_pml4_ledger [OF c] create_pml4_kx [OF c]
  show "True \<and> outstanding E (klog s') = outstanding E (klog s)" if "r \<noteq> 0"
    using L that by simp
next
  fix s s' :: "'a host_scheme"
  assume "kkm_mmu_init E s = (0, s')"
  then obtain kmu where c: "kkm_create_pml4 E True KKM_PRIVATE_START_VA s = (0, kmu, s')"
    by (auto simp: kkm_mmu_init_def split: prod.splits)
  note L = create_pml4_ledger [OF c] create_pml4_kx [OF c]
  from L show "outstanding E (klog s) \<subseteq># outstanding E (klog s')" by simp
  from L show "True \<and> outstanding E (klog (kkm_mmu_cleanup s')) = outstanding E (klog s)"
    by (simp add: mmu_cleanup_ledger)
qed

subsection \<open>The hierarchy that was built\<close>

lemma allocate_page_zeroed:
  assumes "kkm_mm_allocate_page E True True ap pi s = (0, pi', s')"
  shows "kmem s' = zero_block (pi_va pi') 0 (kmem s)" "pi_va pi' = lx_page_address E (pi_page pi')"
    "ap \<Longrightarrow> pi_pa pi' = lx_virt_to_phys E (pi_va pi')"
  using assms
  by (auto simp: kkm_mm_allocate_page_def kkm_mm_allocate_pages_def alloc_pages_def kcall_def
      Let_def split: if_splits)

lemma zero_block_page:
  assumes "i < 512" shows "zero_block va 0 m (entry_addr va i) = 0"
proof -
  have "unat (of_nat (8 * i) :: u64) = 8 * i"
    using assms by (simp only: unsigned_of_nat) (simp add: take_bit_eq_mod)
  with assms show ?thesis by (simp add: zero_block_def entry_addr_def)
qed

lemma read_insert_page_same [simp]:
  "read_entry va i (kkm_mmu_insert_page va i pa f s) = page_entry pa f"
  by (simp add: kkm_mmu_insert_page_def kmem_entries.rd_wr_same)

lemma read_insert_page_other:
  "entry_addr va j \<noteq> entry_addr va' i \<Longrightarrow>
     read_entry va j (kkm_mmu_insert_page va' i pa f s) = read_entry va j s"
  by (simp add: kkm_mmu_insert_page_def kmem_entries.rd_wr_other)

lemma read_store_kx [simp]: "read_entry va i (store_kx b kmu s) = read_entry va i s"
  by (simp add: read_entry_def)

text \<open>A list of tables on distinct pages: what the table code relies on from the allocator.\<close>

definition distinct_tables :: "u64 list \<Rightarrow> bool" where
  "distinct_tables ts \<longleftrightarrow> distinct ts \<and> (\<forall>t \<in> set ts. t AND 4095 = 0)"

text \<open>A private hierarchy whose three pages are chained at the indices of an address.\<close>

definition pml4e_ok :: "linux \<Rightarrow> u64 \<Rightarrow> kkm_mmu_pml4e \<Rightarrow> 'a host_scheme \<Rightarrow> bool" where
  "pml4e_ok E address kmu s \<longleftrightarrow>
     distinct_tables [pi_va (pml_pud kmu), pi_va (pml_pmd kmu), pi_va (pml_pt kmu)] \<and>
     pml_pgd_entry kmu AND PAGE_PRESENT \<noteq> 0 \<and>
     lx_phys_to_virt E (kkm_mmu_entry_pa E (pml_pgd_entry kmu)) = pi_va (pml_pud kmu) \<and>
     read_entry (pi_va (pml_pud kmu)) (pud_index address) s AND PAGE_PRESENT \<noteq> 0 \<and>
     lx_phys_to_virt E (kkm_mmu_entry_pa E (read_entry (pi_va (pml_pud kmu)) (pud_index address) s))
       = pi_va (pml_pmd kmu) \<and>
     read_entry (pi_va (pml_pmd kmu)) (pmd_index address) s AND PAGE_PRESENT \<noteq> 0 \<and>
     lx_phys_to_virt E (kkm_mmu_entry_pa E (read_entry (pi_va (pml_pmd kmu)) (pmd_index address) s))
       = pi_va (pml_pt kmu)"

lemma pml4e_ok_walk:
  assumes "pml4e_ok E address kmu s"
  shows "walk_tables E [pud_index address, pmd_index address]
           (lx_phys_to_virt E (kkm_mmu_entry_pa E (pml_pgd_entry kmu))) s = Some (pi_va (pml_pt kmu))"
  using assms by (simp add: pml4e_ok_def Let_def)

text \<open>
  A hierarchy that was created maps the address it was created for: the processor's walk from
  the entry it offers for a top-level table ends in its page table, which is empty.
\<close>

lemma create_pml4_ok:
  assumes env: "lx_paging_ok E" "lx_alloc_fresh E"
    and create: "kkm_create_pml4 E is_kx address s = (0, kmu, s')"
  shows "pml4e_ok E address kmu s'"
    and "i < 512 \<Longrightarrow> read_entry (pi_va (pml_pt kmu)) i s' = 0"
proof -
  from create obtain pud s1 pmd s2 pt s3 where
    a: "kkm_mm_allocate_page E True True True no_page s = (0, pud, s1)"
       "kkm_mm_allocate_page E True True True no_page s1 = (0, pmd, s2)"
       "kkm_mm_allocate_page E True True True no_page s2 = (0, pt, s3)"
    and kmu: "kmu = \<lparr>pml_pgd_entry = (pi_pa pud AND KKM_PAGE_PA_MASK) OR PAGE_USER OR PAGE_RW OR PAGE_PRESENT,
              pml_pud = pud, pml_pmd = pmd, pml_pt = pt\<rparr>"
    and s': "s' = store_kx is_kx kmu
              (kkm_mmu_insert_page (pi_va pmd) (pmd_index address) (pi_pa pt)
                 (PAGE_USER OR PAGE_RW OR PAGE_PRESENT)
              (kkm_mmu_insert_page (pi_va pud) (pud_index address) (pi_pa pmd)
                 (PAGE_USER OR PAGE_RW OR PAGE_PRESENT) s3))"
    by (cases rule: create_pml4_cases) auto
  note L = allocate_page_ledger [OF a(1)] allocate_page_ledger [OF a(2)] allocate_page_ledger [OF a(3)]
  note Z = allocate_page_zeroed [OF a(1)] allocate_page_zeroed [OF a(2)] allocate_page_zeroed [OF a(3)]
  have blk: "page_block pud = {#(pi_va pud, 0)#}" "page_block pmd = {#(pi_va pmd, 0)#}"
    using L by (auto simp: page_block_def split: if_splits)
  have "blocks_disjoint (pi_va pud, 0) (pi_va pmd, 0)"
    by (rule allocate_page_fresh [OF env(2) a(2)]) (simp add: L blk)
  moreover have "blocks_disjoint (pi_va pud, 0) (pi_va pt, 0)" "blocks_disjoint (pi_va pmd, 0) (pi_va pt, 0)"
    by (rule allocate_page_fresh [OF env(2) a(3)]; simp add: L blk)+
  ultimately have neq: "pi_va pud \<noteq> pi_va pmd" "pi_va pud \<noteq> pi_va pt" "pi_va pmd \<noteq> pi_va pt"
    by (auto dest: blocks_disjoint_neq)
  have al: "pi_va pud AND 4095 = 0" "pi_va pmd AND 4095 = 0" "pi_va pt AND 4095 = 0"
    using env(1) Z by (auto simp: lx_paging_ok_def)
  note other = read_insert_page_other entry_addr_pages al neq table_index_less
  have pgd: "pml_pgd_entry kmu = page_entry (pi_pa pud) (PAGE_USER OR PAGE_RW OR PAGE_PRESENT)"
    by (simp add: kmu page_entry_def or.assoc)
  have pt: "pml_pt kmu = pt" by (simp add: kmu)
  have frame: "lx_phys_to_virt E (kkm_mmu_entry_pa E (page_entry (pi_pa p) f)) = pi_va p"
    if "p \<in> {pud, pmd, pt}" for p f
    using that Z page_entry_frame [OF env(1)] by auto
  have "distinct_tables [pi_va pud, pi_va pmd, pi_va pt]"
    using al neq by (simp add: distinct_tables_def)
  then show "pml4e_ok E address kmu s'"
    using frame [of pud] frame [of pmd] frame [of pt] pgd
    by (simp add: pml4e_ok_def kmu [THEN arg_cong [where f = pml_pud], simplified]
        kmu [THEN arg_cong [where f = pml_pmd], simplified] pt s' other page_entry_present)
  show "read_entry (pi_va (pml_pt kmu)) i s' = 0" if "i < 512"
  proof -
    have "read_entry (pi_va pt) i s3 = 0"
      using that Z by (simp add: read_entry_def zero_block_page)
    then show ?thesis using that neq [symmetric] by (simp add: s' pt other)
  qed
qed

subsection \<open>The kx area: fixed pages and one window per processor\<close>

lemma read_set_entry_page:
  assumes "(va :: u64) AND 4095 = 0" "(va' :: u64) AND 4095 = 0" "i < 512" "j < 512"
  shows "read_entry va j (kkm_mmu_set_entry va' i e s) =
           (if va = va' \<and> j = i then e else read_entry va j s)"
  using assms entry_addr_pages [of va va' j i]
  by (auto simp: kmem_entries.rd_wr_same kmem_entries.rd_wr_other)

lemma read_insert_page_page:
  assumes "(va :: u64) AND 4095 = 0" "(va' :: u64) AND 4095 = 0" "i < 512" "j < 512"
  shows "read_entry va j (kkm_mmu_insert_page va' i pa f s) =
           (if va = va' \<and> j = i then page_entry pa f else read_entry va j s)"
  by (simp add: kkm_mmu_insert_page_def read_set_entry_page [OF assms])

lemma cpu_window_bound: "c < 64 \<Longrightarrow> kkm_mmu_get_per_cpu_start_index c + 3 < 512"
  by (simp add: kkm_mmu_get_per_cpu_start_index_def)

theorem set_guest_area_window:
  assumes "pi_va (pml_pt (kkm_mmu_kx s)) AND 4095 = 0" "c < 64" "j < 512"
  shows "read_entry (pi_va (pml_pt (kkm_mmu_kx s))) j (kkm_mmu_set_guest_area c pa0 pa1 pa2 pa3 s) =
     (if kkm_mmu_get_per_cpu_start_index c \<le> j \<and> j < kkm_mmu_get_per_cpu_start_index c + 4
      then page_entry ([pa0, pa1, pa2, pa3] ! (j - kkm_mmu_get_per_cpu_start_index c))
             (PAGE_NX OR PAGE_RW OR PAGE_PRESENT)
      else read_entry (pi_va (pml_pt (kkm_mmu_kx s))) j s)"
proof -
  define n where "n = kkm_mmu_get_per_cpu_start_index c"
  have n: "n + 3 < 512" using cpu_window_bound [OF assms(2)] by (simp add: n_def)
  have R: "read_entry (pi_va (pml_pt (kkm_mmu_kx s))) j'
             (kkm_mmu_insert_page (pi_va (pml_pt (kkm_mmu_kx s))) i pa f s')
           = (if j' = i then page_entry pa f else read_entry (pi_va (pml_pt (kkm_mmu_kx s))) j' s')"
    if "i < 512" "j' < 512" for i j' pa f and s' :: "'a host_scheme"
    using that by (rule read_insert_page_page [OF assms(1,1), simplified])
  have b: "n < 509" "n < 510" "n < 511" "n < 512"
    using n by simp_all
  consider "j < n" | "j = n" | "j = n + 1" | "j = n + 2" | "j = n + 3" | "n + 4 \<le> j"
    by linarith
  then show ?thesis
    using assms(3) by cases (simp_all add: kkm_mmu_set_guest_area_def Let_def n_def [symmetric] R b)
qed

theorem cpu_windows_disjoint:
  assumes "pi_va (pml_pt (kkm_mmu_kx s)) AND 4095 = 0" "c < 64" "c' < 64" "c \<noteq> c'"
    and "j < 256 \<or> kkm_mmu_get_per_cpu_start_index c' \<le> j \<and> j < kkm_mmu_get_per_cpu_start_index c' + 4"
  shows "read_entry (pi_va (pml_pt (kkm_mmu_kx s))) j (kkm_mmu_set_guest_area c pa0 pa1 pa2 pa3 s) =
         read_entry (pi_va (pml_pt (kkm_mmu_kx s))) j s"
proof -
  have "j < 512" "\<not> (kkm_mmu_get_per_cpu_start_index c \<le> j \<and> j < kkm_mmu_get_per_cpu_start_index c + 4)"
    using assms(2-5) by (auto simp: kkm_mmu_get_per_cpu_start_index_def)
  then show ?thesis by (subst set_guest_area_window) (auto simp: assms(1,2))
qed

lemma table_index_unat: "table_index k a = (unat a div 2 ^ k) mod 512"
proof -
  have "drop_bit k a AND 511 = take_bit 9 (drop_bit k a)"
    by (simp add: take_bit_eq_mask mask_eq_exp_minus_1)
  then have "table_index k a = unat (take_bit 9 (drop_bit k a))"
    by (simp only: table_index_def)
  also have "\<dots> = take_bit 9 (unat a div 2 ^ k)"
    by (simp only: unsigned_take_bit_eq unat_drop_bit_eq) (simp only: drop_bit_eq_div)
  finally show ?thesis by (simp add: take_bit_eq_mod)
qed

theorem cur_cpu_guest_va_index:
  assumes "c < 64"
  shows "pte_index (kkm_mmu_get_cur_cpu_guest_va c) = kkm_mmu_get_per_cpu_start_index c"
    and "table_index 39 (kkm_mmu_get_cur_cpu_guest_va c) = KKM_KX_PGD_INDEX"
    and "pud_index (kkm_mmu_get_cur_cpu_guest_va c) = pud_index KKM_PRIVATE_START_VA"
    and "pmd_index (kkm_mmu_get_cur_cpu_guest_va c) = pmd_index KKM_PRIVATE_START_VA"
proof -
  define n where "n = kkm_mmu_get_per_cpu_start_index c"
  have n: "n < 512" using cpu_window_bound [OF assms] by (simp add: n_def)
  have "unat (of_nat (n * 4096) :: u64) = n * 4096"
    using n by (simp only: unsigned_of_nat) (simp add: take_bit_eq_mod)
  then have "unat (of_nat n * 4096 :: u64) = n * 4096" by simp
  then have u: "unat (kkm_mmu_get_cur_cpu_guest_va c) = 18446742424442109952 + n * 4096"
    using n by (simp add: kkm_mmu_get_cur_cpu_guest_va_def n_def [symmetric] unat_word_ariths)
  show "pte_index (kkm_mmu_get_cur_cpu_guest_va c) = kkm_mmu_get_per_cpu_start_index c"
    using n mod_mult_self4 [of 512 8796092235776 n] by (simp add: table_index_unat u n_def [symmetric])
  show "table_index 39 (kkm_mmu_get_cur_cpu_guest_va c) = KKM_KX_PGD_INDEX"
    "pud_index (kkm_mmu_get_cur_cpu_guest_va c) = pud_index KKM_PRIVATE_START_VA"
    "pmd_index (kkm_mmu_get_cur_cpu_guest_va c) = pmd_index KKM_PRIVATE_START_VA"
    using n div_mult_self4 [of 549755813888 33554429 "n * 4096"]
      div_mult_self4 [of 1073741824 17179867648 "n * 4096"]
      div_mult_self4 [of 2097152 8796092235776 "n * 4096"]
    by (simp_all add: table_index_unat u)
qed

text \<open>From processor 64 on the window lies beyond the one page of the page table.\<close>

theorem cpu_window_overrun:
  assumes "64 \<le> c" "c < 8192" "k < 4"
  shows "4096 \<le> unat (entry_addr pt (kkm_mmu_get_per_cpu_start_index c + k) - pt)"
proof -
  have "unat (of_nat (8 * (kkm_mmu_get_per_cpu_start_index c + k)) :: u64)
          = 8 * (kkm_mmu_get_per_cpu_start_index c + k)"
    using assms
    by (simp only: unsigned_of_nat) (simp add: take_bit_eq_mod kkm_mmu_get_per_cpu_start_index_def)
  moreover have "512 \<le> kkm_mmu_get_per_cpu_start_index c"
    using assms by (simp add: kkm_mmu_get_per_cpu_start_index_def)
  ultimately show ?thesis by (simp add: entry_addr_def)
qed

subsection \<open>The guest's top-level tables\<close>

lemma unat_8_of_nat: "n < 2 ^ 61 \<Longrightarrow> unat (8 * of_nat n :: u64) = 8 * n"
proof -
  assume "n < 2 ^ 61"
  then have "unat (of_nat (8 * n) :: u64) = 8 * n"
    by (simp only: unsigned_of_nat) (simp add: take_bit_eq_mod)
  then show ?thesis by simp
qed

lemma read_copy_kernel_half:
  assumes "dest AND 4095 = 0" "src AND 4095 = 0" "t AND 4095 = 0" "j < 512"
  shows "read_entry t j (kkm_mmu_copy_range src KKM_PGD_KERNEL_OFFSET dest KKM_PGD_KERNEL_OFFSET
            KKM_PGD_KERNEL_SIZE s)
         = (if t = dest \<and> 256 \<le> j then read_entry src j s else read_entry t j s)"
proof (cases "t = dest \<and> 256 \<le> j")
  case True
  then obtain k where k: "j = 256 + k" by (auto simp: le_iff_add)
  have a: "entry_addr dest j - (dest + KKM_PGD_KERNEL_OFFSET) = 8 * of_nat k"
    by (simp add: entry_addr_def k)
  have "unat (8 * of_nat k :: u64) < 2048"
    using assms(4) k by (simp add: unat_8_of_nat)
  moreover have "src + KKM_PGD_KERNEL_OFFSET + 8 * of_nat k = entry_addr src j"
    by (simp add: entry_addr_def k)
  ultimately show ?thesis
    using True by (simp add: read_entry_def kkm_mmu_copy_range_def a)
next
  case False
  have "2048 \<le> unat (entry_addr t j - (dest + KKM_PGD_KERNEL_OFFSET))"
  proof (rule ccontr)
    assume "\<not> ?thesis"
    then have m: "unat (entry_addr t j - (dest + KKM_PGD_KERNEL_OFFSET)) < 2048" by simp
    obtain d where d: "d = entry_addr t j - (dest + KKM_PGD_KERNEL_OFFSET)" by simp
    then have e: "entry_addr t j = dest + (KKM_PGD_KERNEL_OFFSET + d)" by simp
    have md: "unat d < 2048" using m d by simp
    obtain q q' where q: "unat dest = 4096 * q" "unat t = 4096 * q'"
      using page_aligned_unat [OF assms(1)] page_aligned_unat [OF assms(3)] by (auto elim!: dvdE)
    have "unat dest < 2 ^ 64" using unsigned_less [of dest] by simp
    then have "unat dest + (2048 + unat d) < 2 ^ 64" using md q by simp
    moreover have "unat (KKM_PGD_KERNEL_OFFSET + d) = 2048 + unat d"
      using md by (simp add: unat_word_ariths)
    ultimately have "unat (entry_addr t j) = unat dest + (2048 + unat d)"
      by (simp add: e unat_word_ariths)
    then have eq: "4096 * q' + 8 * j = 4096 * q + (2048 + unat d)"
      using unat_entry_addr [OF assms(3,4)] q by simp
    have lt: "8 * j < 4096" "2048 + unat d < 4096" using assms(4) md by simp_all
    have "q' = (4096 * q' + 8 * j) div 4096" using lt by simp
    also have "\<dots> = q" unfolding eq using lt by simp
    finally have "q' = q" .
    with eq have "256 \<le> j" by simp
    moreover have "t = dest" using q \<open>q' = q\<close> by (simp add: word_unat_eq_iff)
    ultimately show False using False by simp
  qed
  then show ?thesis
    using False by (auto simp: read_entry_def kkm_mmu_copy_range_def)
qed

lemma copy_range_frame [simp]:
  "kkm_mmu_kx (kkm_mmu_copy_range a b c d n s) = kkm_mmu_kx s"
  "klog (kkm_mmu_copy_range a b c d n s) = klog s"
  by (simp_all add: kkm_mmu_copy_range_def)

text \<open>
  With four-level paging, the guest's two top-level tables hold the kernel half of the native
  table, with the module's own area in its slot; their user halves are untouched.
\<close>

theorem copy_kernel_pgd_tables:
  assumes l4: "\<not> lx_pgtable_l5_enabled E"
    and tables: "distinct_tables [native, gk, gp]" "native \<noteq> 0"
    and copied: "kkm_mmu_copy_kernel_pgd E native gk gp k4 p4 s = (r, s')"
    and t: "t \<in> {gk, gp}" and j: "j < 512"
  shows "r = 0"
    and "read_entry t j s' =
          (if j < 256 then read_entry t j s
           else if j = KKM_KX_PGD_INDEX then pml_pgd_entry (kkm_mmu_kx s)
           else read_entry native j s)"
    and "read_entry native j s' = read_entry native j s"
proof -
  note a = tables(1) [unfolded distinct_tables_def]
  have al: "native AND 4095 = 0" "gk AND 4095 = 0" "gp AND 4095 = 0"
    and ne: "native \<noteq> gk" "native \<noteq> gp" "gk \<noteq> gp" using a by auto
  note sim = kkm_mmu_copy_kernel_pgd_def kkm_mmu_setup_one_pgd_def l4 Let_def
    read_copy_kernel_half read_set_entry_page al ne ne [symmetric] tables(2) j
  show "r = 0" using copied tables(2) by (auto simp: kkm_mmu_copy_kernel_pgd_def Let_def)
  show "read_entry t j s' =
          (if j < 256 then read_entry t j s
           else if j = KKM_KX_PGD_INDEX then pml_pgd_entry (kkm_mmu_kx s)
           else read_entry native j s)"
    using copied t by (auto simp: sim)
  show "read_entry native j s' = read_entry native j s"
    using copied by (auto simp: sim)
qed

subsection \<open>Synchronising the payload's memory\<close>

text \<open>The native entry that maps the payload's memory, and the guest's copy of it.\<close>

definition native_payload_entry :: "linux \<Rightarrow> u64 \<Rightarrow> 'a host_scheme \<Rightarrow> u64" where
  "native_payload_entry E pgd s =
     (if lx_pgtable_l5_enabled E
      then read_entry (lx_phys_to_virt E (read_entry pgd KKM_PGD_LOW_P4D_ENTRY s AND KKM_PAGE_PA_MASK))
             KKM_PGD_MONITOR_PAYLOAD_ENTRY s
      else read_entry pgd KKM_PGD_MONITOR_PAYLOAD_ENTRY s)"

definition guest_payload_table :: "linux \<Rightarrow> u64 \<Rightarrow> u64 \<Rightarrow> u64" where
  "guest_payload_table E gp low = (if lx_pgtable_l5_enabled E then low else gp)"

lemma nx_clear_pa:
  assumes "lx_paging_ok E"
  shows "kkm_mmu_entry_pa E (e AND NOT PAGE_NX) = kkm_mmu_entry_pa E e"
proof -
  have z: "lx_pte_pfn_mask E AND KKM_PAGE_FLAGS_MASK = 0"
    using assms by (simp add: lx_paging_ok_def)
  have "lx_pte_pfn_mask E AND PAGE_NX = (lx_pte_pfn_mask E AND KKM_PAGE_FLAGS_MASK) AND PAGE_NX"
    by (simp add: and.assoc)
  also have "\<dots> = 0"
    by (simp only: z zero_and_eq)
  finally have M: "lx_pte_pfn_mask E AND PAGE_NX = 0" .
  have "NOT PAGE_NX AND lx_pte_pfn_mask E = lx_pte_pfn_mask E"
  proof (rule bit_word_eqI)
    fix n assume "n < LENGTH(64)"
    have "\<not> (bit (lx_pte_pfn_mask E) n \<and> bit (PAGE_NX) n)"
      using M by (metis bit_and_iff bit_0_eq bot_apply bot_bool_def)
    then show "bit (NOT PAGE_NX AND lx_pte_pfn_mask E) n = bit (lx_pte_pfn_mask E) n"
      using \<open>n < LENGTH(64)\<close> by (auto simp only: bit_and_iff bit_not_iff possible_bit_word)
  qed
  then show ?thesis
    by (simp only: kkm_mmu_entry_pa_def and.assoc)
qed

theorem sync_l4:
  assumes l4: "\<not> lx_pgtable_l5_enabled E"
    and tables: "distinct_tables [pgd, gk, gp]"
    and t: "t \<in> {pgd, gk, gp}" and j: "j < 512"
    and moved: "kkm_mmu_entry_pa E (native_payload_entry E pgd s) \<noteq> kkm_mmu_entry_pa E (read_entry gp 0 s)"
    and sync: "kkm_mmu_sync E pgd gk gp guest low low_pa s = (r, s')"
  shows "r = 0 \<and> read_entry t j s' =
      (if t = pgd then read_entry t j s
       else if j = KKM_PGD_GUEST_PAYLOAD_BOTTOM_ENTRY \<or> j = KKM_PGD_GUEST_PAYLOAD_TOP_ENTRY
       then native_payload_entry E pgd s AND NOT PAGE_NX
       else if j = 1 then pml_pgd_entry guest
       else read_entry t j s)"
proof -
  note a = tables(1) [unfolded distinct_tables_def]
  have al: "pgd AND 4095 = 0" "gk AND 4095 = 0" "gp AND 4095 = 0"
    and ne: "pgd \<noteq> gk" "pgd \<noteq> gp" "gk \<noteq> gp" using a by auto
  show ?thesis
    using sync moved t
    by (auto simp: kkm_mmu_sync_def native_payload_entry_def l4 Let_def read_set_entry_page
        al ne ne [symmetric] j)
qed

theorem sync_l5:
  assumes l5: "lx_pgtable_l5_enabled E"
    and tables: "distinct_tables [pgd, gk, gp, low, native_low]"
    and native_low: "native_low = lx_phys_to_virt E (read_entry pgd KKM_PGD_LOW_P4D_ENTRY s AND KKM_PAGE_PA_MASK)"
    and t: "t \<in> {pgd, gk, gp, low, native_low}" and j: "j < 512"
    and moved: "kkm_mmu_entry_pa E (native_payload_entry E pgd s) \<noteq> kkm_mmu_entry_pa E (read_entry low 0 s)"
    and sync: "kkm_mmu_sync E pgd gk gp guest low low_pa s = (r, s')"
  shows "r = 0 \<and> read_entry t j s' =
      (if t \<in> {gk, gp} \<and> j = KKM_PGD_LOW_P4D_ENTRY
       then page_entry low_pa (PAGE_USER OR PAGE_RW OR PAGE_PRESENT)
       else if t = low \<and> (j = KKM_PGD_GUEST_PAYLOAD_BOTTOM_ENTRY \<or> j = KKM_PGD_GUEST_PAYLOAD_TOP_ENTRY)
       then native_payload_entry E pgd s AND NOT PAGE_NX
       else if t = low \<and> j = 1 then pml_pgd_entry guest
       else read_entry t j s)"
proof -
  note a = tables(1) [unfolded distinct_tables_def]
  have al: "pgd AND 4095 = 0" "gk AND 4095 = 0" "gp AND 4095 = 0" "low AND 4095 = 0" "native_low AND 4095 = 0"
    and ne: "pgd \<noteq> gk" "pgd \<noteq> gp" "gk \<noteq> gp" "pgd \<noteq> low" "gk \<noteq> low" "gp \<noteq> low"
      "pgd \<noteq> native_low" "gk \<noteq> native_low" "gp \<noteq> native_low" "low \<noteq> native_low" using a by auto
  show ?thesis
    using sync moved t
    by (auto simp: kkm_mmu_sync_def native_payload_entry_def l5 Let_def read_set_entry_page
        read_insert_page_page native_low [symmetric] al ne ne [symmetric] j)
qed

text \<open>After a synchronisation the guest runs on the frame the monitor's memory has now, so a
  second one changes nothing.\<close>

theorem sync_stable:
  assumes env: "lx_paging_ok E"
    and native_low: "native_low = lx_phys_to_virt E (read_entry pgd KKM_PGD_LOW_P4D_ENTRY s AND KKM_PAGE_PA_MASK)"
    and tables: "distinct_tables (if lx_pgtable_l5_enabled E then [pgd, gk, gp, low, native_low] else [pgd, gk, gp])"
    and sync: "kkm_mmu_sync E pgd gk gp guest low low_pa s = (r, s')"
  shows "kkm_mmu_entry_pa E (native_payload_entry E pgd s')
           = kkm_mmu_entry_pa E (read_entry (guest_payload_table E gp low) 0 s')"
    and "kkm_mmu_sync E pgd gk gp guest low low_pa s' = (0, s')"
proof -
  show agree: "kkm_mmu_entry_pa E (native_payload_entry E pgd s')
           = kkm_mmu_entry_pa E (read_entry (guest_payload_table E gp low) 0 s')"
  proof (cases "kkm_mmu_entry_pa E (native_payload_entry E pgd s)
           = kkm_mmu_entry_pa E (read_entry (guest_payload_table E gp low) 0 s)")
    case True
    then have "s' = s"
      using sync by (auto simp: kkm_mmu_sync_def native_payload_entry_def guest_payload_table_def Let_def
          split: if_splits)
    with True show ?thesis by simp
  next
    case moved: False
    show ?thesis
    proof (cases "lx_pgtable_l5_enabled E")
      case True
      note S = sync_l5 [OF True _ native_low _ _ _ sync]
      have T: "distinct_tables [pgd, gk, gp, low, native_low]" using tables True by simp
      then have "low \<noteq> pgd" "low \<noteq> gk" "low \<noteq> gp" "native_low \<noteq> low" "native_low \<noteq> gk"
        "native_low \<noteq> gp" "pgd \<noteq> gk" "pgd \<noteq> gp" by (auto simp: distinct_tables_def)
      moreover have "kkm_mmu_entry_pa E (native_payload_entry E pgd s) \<noteq> kkm_mmu_entry_pa E (read_entry low 0 s)"
        using moved True by (simp add: guest_payload_table_def)
      ultimately have "read_entry low 0 s' = native_payload_entry E pgd s AND NOT PAGE_NX"
        "read_entry pgd 0 s' = read_entry pgd 0 s" "read_entry native_low 0 s' = read_entry native_low 0 s"
        using S [OF T, of low 0] S [OF T, of pgd 0] S [OF T, of native_low 0] by auto
      then show ?thesis
        by (simp add: native_payload_entry_def guest_payload_table_def True native_low [symmetric] nx_clear_pa [OF env, simplified])
    next
      case False
      note S = sync_l4 [OF False _ _ _ _ sync]
      have T: "distinct_tables [pgd, gk, gp]" using tables False by simp
      then have "pgd \<noteq> gp" by (simp add: distinct_tables_def)
      moreover have "kkm_mmu_entry_pa E (native_payload_entry E pgd s) \<noteq> kkm_mmu_entry_pa E (read_entry gp 0 s)"
        using moved False by (simp add: guest_payload_table_def)
      ultimately have "read_entry gp 0 s' = native_payload_entry E pgd s AND NOT PAGE_NX"
        "read_entry pgd 0 s' = read_entry pgd 0 s"
        using S [OF T, of gp 0] S [OF T, of pgd 0] by auto
      then show ?thesis
        by (simp add: native_payload_entry_def guest_payload_table_def False nx_clear_pa [OF env, simplified])
    qed
  qed
  then show "kkm_mmu_sync E pgd gk gp guest low low_pa s' = (0, s')"
    by (auto simp: kkm_mmu_sync_def native_payload_entry_def guest_payload_table_def Let_def split: if_splits)
qed


subsection \<open>The concrete machine satisfies what is assumed of Linux\<close>

lemma example_paging_ok: "lx_paging_ok example_linux"
proof -
  have "(p AND 0xFFFFFFFFF000) AND 4095 = (0 :: u64)" "(p AND 0xFFFFFFFFF000) AND 0xFFFFFFFFF000 = (p AND 0xFFFFFFFFF000 :: u64)" for p :: u64
    by (simp_all add: and.assoc)
  then show ?thesis by (simp add: lx_paging_ok_def)
qed

lemma example_alloc_fresh: "lx_alloc_fresh example_linux"
  unfolding lx_alloc_fresh_def
proof (intro allI impI ballI)
  fix l order b assume a: "lx_alloc_pages example_linux l order \<noteq> 0" and b: "b \<in># outstanding example_linux l"
  obtain va k where v: "b = (va, k)" by (cases b)
  define p where "p = round_up (4096 * 2 ^ order) (heap_top l)"
  let ?w = "example_alloc l order"
  have w: "unat ?w = p" "p + 4096 * 2 ^ order \<le> 2 ^ 40" "?w AND 0xFFFFFFFFF000 = ?w"
    using example_alloc_word [of l order] a by (simp_all add: p_def)
  have top: "unat va + 4096 * 2 ^ k \<le> heap_top l"
    using outstanding_below_top [of example_linux va k l] b v by simp
  have "0 < 4096 * (2 :: nat) ^ order" by simp
  from round_up_ge [OF this, of "heap_top l"] have le: "heap_top l \<le> p" by (simp add: p_def)
  have vle: "va \<le> ?w" using top le w(1) by (simp add: word_le_nat_alt)
  have d: "unat (?w - va) = p - unat va"
    using vle by (simp add: unat_sub w(1))
  have "0 < 4096 * (2 :: nat) ^ k" by simp
  with top le have pos: "unat va < p" by linarith
  then have "unat (va - ?w) = unat va + 2 ^ 64 - p"
    by (simp add: unat_sub_if' w(1))
  moreover have "p + 4096 * 2 ^ order \<le> 2 ^ 64" using w(2) by simp
  ultimately have "4096 * 2 ^ order \<le> unat (va - ?w)" by simp
  moreover have "4096 * 2 ^ k \<le> unat (?w - va)" using d top le by simp
  ultimately show "blocks_disjoint b (lx_page_address example_linux (lx_alloc_pages example_linux l order), order)"
    by (simp add: blocks_disjoint_def v w(3))
qed

text \<open>The allocator does not fail while there is room, and takes less than twice what it is asked for.\<close>

lemma round_up_le: "0 < blk \<Longrightarrow> round_up blk n < n + blk"
proof -
  assume s: "0 < blk"
  have "(n + blk - 1) div blk * blk \<le> n + blk - 1" by simp
  then show ?thesis using s unfolding round_up_def by linarith
qed

lemma example_allocate:
  assumes a: "kkm_mm_allocate_pages example_linux True True ap n pi s = (r, pi', s')"
    and n: "n \<noteq> 0" "order_base_2 n \<le> 10" and room: "heap_top (klog s) + 8192 * 2 ^ order_base_2 n \<le> 2 ^ 40"
  shows "r = 0" "heap_top (klog s') \<le> heap_top (klog s) + 8192 * 2 ^ order_base_2 n"
proof -
  define k where "k = order_base_2 n"
  define p where "p = round_up (4096 * 2 ^ k) (heap_top (klog s))"
  have pos: "0 < 4096 * (2 :: nat) ^ k" by simp
  have u: "p < heap_top (klog s) + 4096 * 2 ^ k" "heap_top (klog s) \<le> p"
    using round_up_le [OF pos] round_up_ge [OF pos] by (simp_all add: p_def)
  have h: "0 < heap_top l" for l by (induction l rule: heap_top.induct) auto
  have lim: "p + 4096 * 2 ^ k \<le> 2 ^ 40" using u room by (simp add: k_def)
  then have e: "example_alloc (klog s) k = of_nat p"
    using n by (simp add: example_alloc_def p_def k_def Let_def)
  have "p < 2 ^ 40" using lim pos by linarith
  then have "unat (of_nat p :: u64) = p" by (simp add: unat_of_nat take_bit_eq_mod)
  then have nz: "example_alloc (klog s) k \<noteq> 0"
    using h [of "klog s"] u(2) unfolding e by force
  have w: "unat (example_alloc (klog s) k AND 0xFFFFFFFFF000) = p"
    using example_alloc_word [OF nz] by (simp add: p_def)
  show "r = 0"
    using a n nz by (auto simp: kkm_mm_allocate_pages_def alloc_pages_def Let_def k_def [symmetric])
  have "klog s' = Ev_alloc_pages k (example_alloc (klog s) k) # klog s"
    using a n nz by (auto simp: kkm_mm_allocate_pages_def alloc_pages_def Let_def k_def [symmetric] kcall_def)
  then show "heap_top (klog s') \<le> heap_top (klog s) + 8192 * 2 ^ order_base_2 n"
    using u w by (simp add: k_def [symmetric])
qed

lemma example_create_pml4:
  assumes k: "kkm_create_pml4 example_linux is_kx address s = (r, kmu, s')" and room: "heap_top (klog s) \<le> 2 ^ 39"
  shows "r = 0"
  using k
proof (cases rule: create_pml4_cases)
  case (no_pud pud s1)
  then show ?thesis
    using example_allocate(1) [OF no_pud(1) [unfolded kkm_mm_allocate_page_def]] room by simp
next
  case (no_pmd pud s1 pmd s2)
  note a = example_allocate [OF no_pmd(1) [unfolded kkm_mm_allocate_page_def]]
  show ?thesis
    using example_allocate(1) [OF no_pmd(2) [unfolded kkm_mm_allocate_page_def]] a(2) room by simp
next
  case (no_pt pud s1 pmd s2 pt s3)
  note a = example_allocate [OF no_pt(1) [unfolded kkm_mm_allocate_page_def]]
  note b = example_allocate [OF no_pt(2) [unfolded kkm_mm_allocate_page_def]]
  show ?thesis
    using example_allocate(1) [OF no_pt(3) [unfolded kkm_mm_allocate_page_def]] a(2) b(2) room by simp
qed

lemma example_pml4_top:
  assumes "kkm_create_pml4 example_linux is_kx address s = (r, kmu, s')" "heap_top (klog s) \<le> 2 ^ 38"
  shows "heap_top (klog s') \<le> heap_top (klog s) + 24576"
  using assms(1)
proof (cases rule: create_pml4_cases)
  case (ok pud s1 pmd s2 pt s3)
  note a = ok(1-3) [unfolded kkm_mm_allocate_page_def]
  from example_allocate(2) [OF a(1)] example_allocate(2) [OF a(2)] example_allocate(2) [OF a(3)] assms(2) ok show ?thesis
    by simp
qed (use example_create_pml4 [OF assms(1)] assms(2) in simp_all)

subsection \<open>Properties\<close>

lemma set_guest_area_other:
  assumes "pi_va (pml_pt (kkm_mmu_kx s)) AND 4095 = 0" "t AND 4095 = 0" "t \<noteq> pi_va (pml_pt (kkm_mmu_kx s))" "c < 64" "j < 512"
  shows "read_entry t j (kkm_mmu_set_guest_area c pa0 pa1 pa2 pa3 s) = read_entry t j s"
  using assms cpu_window_bound [OF assms(4)]
  by (simp add: kkm_mmu_set_guest_area_def Let_def read_insert_page_page)

lemma set_guest_area_pml4e_ok:
  assumes ok: "pml4e_ok E KKM_PRIVATE_START_VA (kkm_mmu_kx s) s" and c: "c < 64"
  shows "pml4e_ok E KKM_PRIVATE_START_VA (kkm_mmu_kx s) (kkm_mmu_set_guest_area c pa0 pa1 pa2 pa3 s)"
proof -
  let ?k = "kkm_mmu_kx s"
  have d: "pi_va (pml_pt ?k) AND 4095 = 0" "pi_va (pml_pud ?k) AND 4095 = 0" "pi_va (pml_pmd ?k) AND 4095 = 0"
    "pi_va (pml_pud ?k) \<noteq> pi_va (pml_pt ?k)" "pi_va (pml_pmd ?k) \<noteq> pi_va (pml_pt ?k)"
    using ok by (auto simp: pml4e_ok_def distinct_tables_def)
  show ?thesis
    using ok by (simp add: pml4e_ok_def set_guest_area_other [OF d(1,2,4) c table_index_less]
        set_guest_area_other [OF d(1,3,5) c table_index_less])
qed

text \<open>The private hierarchy that \<open>kkm_create_pml4\<close> builds maps the address it was built for: the
  processor's walk from the entry it offers for a top-level table ends in its page table, and that page
  table maps nothing yet.\<close>

theorem create_pml4_maps:
  assumes "lx_paging_ok E" "lx_alloc_fresh E" "kkm_create_pml4 E is_kx address s = (0, kmu, s')" "i < 512"
  shows "walk_tables E [pud_index address, pmd_index address]
           (lx_phys_to_virt E (kkm_mmu_entry_pa E (pml_pgd_entry kmu))) s' = Some (pi_va (pml_pt kmu)) \<and>
         read_entry (pi_va (pml_pt kmu)) i s' = 0"
  using pml4e_ok_walk [OF create_pml4_ok(1) [OF assms(1-3)]] create_pml4_ok(2) [OF assms] by blast

theorem create_pml4_maps_witness:
  "\<exists>kmu s'. kkm_create_pml4 example_linux True KKM_PRIVATE_START_VA example_host = (0, kmu, s') \<and>
     walk_tables example_linux [pud_index KKM_PRIVATE_START_VA, pmd_index KKM_PRIVATE_START_VA]
       (lx_phys_to_virt example_linux (kkm_mmu_entry_pa example_linux (pml_pgd_entry kmu))) s' = Some (pi_va (pml_pt kmu)) \<and>
     read_entry (pi_va (pml_pt kmu)) 3 s' = 0"
proof -
  obtain r kmu s' where k: "kkm_create_pml4 example_linux True KKM_PRIVATE_START_VA example_host = (r, kmu, s')"
    by (rule prod_cases3)
  have "r = 0" by (rule example_create_pml4 [OF k]) (simp add: example_host_def)
  with k have "kkm_create_pml4 example_linux True KKM_PRIVATE_START_VA example_host = (0, kmu, s')" by simp
  with create_pml4_maps [OF example_paging_ok example_alloc_fresh this, of 3] show ?thesis by auto
qed

text \<open>The window of a processor: the address the module computes for the guest area of processor
  \<open>c\<close> reaches, through the tables of the kx area, the first page that was installed for it, and the
  fixed pages and the windows of all other processors are left as they were.\<close>

theorem guest_area_window:
  assumes ok: "pml4e_ok E KKM_PRIVATE_START_VA (kkm_mmu_kx s) s" and c: "c < 64"
    and va: "va = kkm_mmu_get_cur_cpu_guest_va c"
    and other: "c' < 64" "c \<noteq> c'" "j < 256 \<or> kkm_mmu_get_per_cpu_start_index c' \<le> j \<and> j < kkm_mmu_get_per_cpu_start_index c' + 4"
    and s': "s' = kkm_mmu_set_guest_area c pa0 pa1 pa2 pa3 s"
  shows "walk_tables E [pud_index va, pmd_index va] (lx_phys_to_virt E (kkm_mmu_entry_pa E (pml_pgd_entry (kkm_mmu_kx s)))) s'
           = Some (pi_va (pml_pt (kkm_mmu_kx s))) \<and>
         read_entry (pi_va (pml_pt (kkm_mmu_kx s))) (pte_index va) s' = page_entry pa0 (PAGE_NX OR PAGE_RW OR PAGE_PRESENT) \<and>
         read_entry (pi_va (pml_pt (kkm_mmu_kx s))) j s' = read_entry (pi_va (pml_pt (kkm_mmu_kx s))) j s"
proof (intro conjI)
  have al: "pi_va (pml_pt (kkm_mmu_kx s)) AND 4095 = 0"
    using ok by (simp add: pml4e_ok_def distinct_tables_def)
  show "walk_tables E [pud_index va, pmd_index va] (lx_phys_to_virt E (kkm_mmu_entry_pa E (pml_pgd_entry (kkm_mmu_kx s)))) s'
           = Some (pi_va (pml_pt (kkm_mmu_kx s)))"
    using pml4e_ok_walk [OF set_guest_area_pml4e_ok [OF ok c]] by (simp only: va s' cur_cpu_guest_va_index [OF c])
  show "read_entry (pi_va (pml_pt (kkm_mmu_kx s))) (pte_index va) s' = page_entry pa0 (PAGE_NX OR PAGE_RW OR PAGE_PRESENT)"
    using set_guest_area_window [OF al c, of "kkm_mmu_get_per_cpu_start_index c" pa0 pa1 pa2 pa3] cpu_window_bound [OF c]
    by (simp add: va s' cur_cpu_guest_va_index [OF c])
  show "read_entry (pi_va (pml_pt (kkm_mmu_kx s))) j s' = read_entry (pi_va (pml_pt (kkm_mmu_kx s))) j s"
    unfolding s'
    by (rule cpu_windows_disjoint [OF al c other])
qed

text \<open>The kx area the concrete machine builds.\<close>

lemma example_kx:
  obtains kmu s' where "kkm_create_pml4 example_linux True KKM_PRIVATE_START_VA example_host = (0, kmu, s')"
    "kkm_mmu_kx s' = kmu" "pml4e_ok example_linux KKM_PRIVATE_START_VA (kkm_mmu_kx s') s'"
proof -
  obtain r kmu s' where k: "kkm_create_pml4 example_linux True KKM_PRIVATE_START_VA example_host = (r, kmu, s')"
    by (rule prod_cases3)
  have "r = 0" by (rule example_create_pml4 [OF k]) (simp add: example_host_def)
  with k have k0: "kkm_create_pml4 example_linux True KKM_PRIVATE_START_VA example_host = (0, kmu, s')" by simp
  show ?thesis
    using that [OF k0] create_pml4_kx [OF k0] create_pml4_ok(1) [OF example_paging_ok example_alloc_fresh k0] by simp
qed

theorem guest_area_window_witness:
  "\<exists>s :: host. let va = kkm_mmu_get_cur_cpu_guest_va 2; s' = kkm_mmu_set_guest_area 2 0x20000 0x21000 0 0 s in
     walk_tables example_linux [pud_index va, pmd_index va]
       (lx_phys_to_virt example_linux (kkm_mmu_entry_pa example_linux (pml_pgd_entry (kkm_mmu_kx s)))) s'
         = Some (pi_va (pml_pt (kkm_mmu_kx s))) \<and>
     read_entry (pi_va (pml_pt (kkm_mmu_kx s))) (pte_index va) s' = page_entry 0x20000 (PAGE_NX OR PAGE_RW OR PAGE_PRESENT) \<and>
     read_entry (pi_va (pml_pt (kkm_mmu_kx s))) 0 s' = read_entry (pi_va (pml_pt (kkm_mmu_kx s))) 0 s"
proof -
  obtain kmu s where "pml4e_ok example_linux KKM_PRIVATE_START_VA (kkm_mmu_kx s) (s :: host)"
    by (rule example_kx)
  from guest_area_window [OF this, where c = 2 and c' = 3 and j = 0 and ?pa0.0 = "0x20000" and ?pa1.0 = "0x21000"
      and ?pa2.0 = 0 and ?pa3.0 = 0, OF _ refl _ _ _ refl]
  show ?thesis unfolding Let_def by (intro exI [of _ s]) simp
qed

text \<open>C37 There are windows for 64 processors only, and \<open>kkm_mmu_set_guest_area\<close> does not check: on
  processor 64 and above all four entries are written beyond the one page of the page table.\<close>

theorem guest_area_overrun:
  assumes "64 \<le> c" "c < 8192" "k < 4"
  shows "kkm_mmu_get_per_cpu_start_index c + k \<ge> 512 \<and>
    4096 \<le> unat (entry_addr pt (kkm_mmu_get_per_cpu_start_index c + k) - pt) \<and>
    read_entry (pi_va (pml_pt (kkm_mmu_kx s))) (kkm_mmu_get_per_cpu_start_index c + k)
      (kkm_mmu_set_guest_area c pa0 pa1 pa2 pa3 s) = page_entry ([pa0, pa1, pa2, pa3] ! k) (PAGE_NX OR PAGE_RW OR PAGE_PRESENT)"
proof (intro conjI)
  show "kkm_mmu_get_per_cpu_start_index c + k \<ge> 512"
    using assms by (simp add: kkm_mmu_get_per_cpu_start_index_def)
  show "4096 \<le> unat (entry_addr pt (kkm_mmu_get_per_cpu_start_index c + k) - pt)"
    by (rule cpu_window_overrun [OF assms])
  define n where "n = kkm_mmu_get_per_cpu_start_index c"
  have b: "n + 3 < 2 ^ 61" using assms by (simp add: n_def kkm_mmu_get_per_cpu_start_index_def)
  have ne: "entry_addr va i = entry_addr va j \<longleftrightarrow> i = j" if "i \<le> n + 3" "j \<le> n + 3" for i j va
    using that b by (intro entry_addr_inj) simp_all
  have o: "read_entry va i (kkm_mmu_insert_page va j pa f s) = read_entry va i s"
    if "i \<le> n + 3" "j \<le> n + 3" "i \<noteq> j" for i j va pa f and s :: "'a host_scheme"
    using that by (intro read_insert_page_other) (simp add: ne)
  have "k = 0 \<or> k = 1 \<or> k = 2 \<or> k = 3" using assms(3) by linarith
  then show "read_entry (pi_va (pml_pt (kkm_mmu_kx s))) (kkm_mmu_get_per_cpu_start_index c + k)
      (kkm_mmu_set_guest_area c pa0 pa1 pa2 pa3 s) = page_entry ([pa0, pa1, pa2, pa3] ! k) (PAGE_NX OR PAGE_RW OR PAGE_PRESENT)"
    by (elim disjE) (simp_all add: kkm_mmu_set_guest_area_def Let_def n_def [symmetric] o)
qed

theorem guest_area_overrun_witness:
  "kkm_mmu_get_per_cpu_start_index 64 + 0 \<ge> 512 \<and>
    4096 \<le> unat (entry_addr 0x102000 (kkm_mmu_get_per_cpu_start_index 64 + 0) - 0x102000) \<and>
    read_entry (pi_va (pml_pt (kkm_mmu_kx example_host))) (kkm_mmu_get_per_cpu_start_index 64 + 0)
      (kkm_mmu_set_guest_area 64 0x20000 0x21000 0 0 example_host)
        = page_entry ([0x20000, 0x21000, 0, 0] ! 0) (PAGE_NX OR PAGE_RW OR PAGE_PRESENT)"
  by (rule guest_area_overrun) simp_all

text \<open>With four-level paging the guest's two top-level tables get the kernel half of the native
  table, with the module's own area in its slot; their user halves and the native table stay as they
  were.\<close>

theorem guest_tables_from_native:
  assumes "\<not> lx_pgtable_l5_enabled E" "distinct_tables [native, gk, gp]" "native \<noteq> 0"
    and "kkm_mmu_copy_kernel_pgd E native gk gp k4 p4 s = (r, s')" "t \<in> {gk, gp}" "j < 512"
  shows "r = 0 \<and> read_entry native j s' = read_entry native j s \<and>
    read_entry t j s' = (if j < 256 then read_entry t j s
                         else if j = KKM_KX_PGD_INDEX then pml_pgd_entry (kkm_mmu_kx s)
                         else read_entry native j s)"
  using copy_kernel_pgd_tables [OF assms] by blast

theorem guest_tables_from_native_witness:
  "case kkm_mmu_copy_kernel_pgd example_linux 0x1000 0x2000 0x3000 0 0 example_host of (r, s') \<Rightarrow>
     r = 0 \<and> read_entry 0x1000 300 s' = read_entry 0x1000 300 example_host \<and>
     read_entry 0x3000 300 s' = (if (300 :: nat) < 256 then read_entry 0x3000 300 example_host
                         else if (300 :: nat) = KKM_KX_PGD_INDEX then pml_pgd_entry (kkm_mmu_kx example_host)
                         else read_entry 0x1000 300 example_host)"
proof (cases "kkm_mmu_copy_kernel_pgd example_linux 0x1000 0x2000 0x3000 0 0 example_host")
  case (Pair r s')
  have "distinct_tables [0x1000, 0x2000, 0x3000]" by (simp add: distinct_tables_def)
  from guest_tables_from_native [OF _ this _ Pair, where t = "0x3000" and j = 300] show ?thesis by (simp add: Pair)
qed

text \<open>C30 \<open>kkm_mmu_sync\<close> makes the payload run on the memory the monitor has now, and is idempotent:
  after it, the guest's entry for the payload's memory points to the frame of the monitor's, with
  four-level and with five-level paging, and a second synchronisation changes nothing.\<close>

theorem sync_agrees_and_stable:
  assumes "lx_paging_ok E"
    and "native_low = lx_phys_to_virt E (read_entry pgd KKM_PGD_LOW_P4D_ENTRY s AND KKM_PAGE_PA_MASK)"
    and "distinct_tables (if lx_pgtable_l5_enabled E then [pgd, gk, gp, low, native_low] else [pgd, gk, gp])"
    and "kkm_mmu_sync E pgd gk gp guest low low_pa s = (r, s')"
  shows "kkm_mmu_entry_pa E (native_payload_entry E pgd s')
           = kkm_mmu_entry_pa E (read_entry (guest_payload_table E gp low) 0 s') \<and>
         kkm_mmu_sync E pgd gk gp guest low low_pa s' = (0, s')"
  using sync_stable [OF assms] by blast

theorem sync_agrees_and_stable_witness:
  "case kkm_mmu_sync example_linux 0x1000 0x2000 0x3000 no_pml4e 0 0 (example_host\<lparr>kmem := (\<lambda>_. 0)(0x1000 := 0x5007)\<rparr>) of (r, s') \<Rightarrow>
     kkm_mmu_entry_pa example_linux (native_payload_entry example_linux 0x1000 s')
       = kkm_mmu_entry_pa example_linux (read_entry (guest_payload_table example_linux 0x3000 0) 0 s') \<and>
     kkm_mmu_sync example_linux 0x1000 0x2000 0x3000 no_pml4e 0 0 s' = (0, s')"
proof (cases "kkm_mmu_sync example_linux 0x1000 0x2000 0x3000 no_pml4e 0 0 (example_host\<lparr>kmem := (\<lambda>_. 0)(0x1000 := 0x5007)\<rparr>)")
  case (Pair r s')
  have "distinct_tables (if lx_pgtable_l5_enabled example_linux
      then [0x1000, 0x2000, 0x3000, 0, lx_phys_to_virt example_linux (0x5007 AND KKM_PAGE_PA_MASK)] else [0x1000, 0x2000, 0x3000])"
    by (simp add: distinct_tables_def)
  from sync_agrees_and_stable [OF example_paging_ok _ this Pair] show ?thesis
    by (simp add: Pair read_entry_def entry_addr_def)
qed



end
