(* ===== verification/Kkm_Translate.thy ===== *)
theory Kkm_Translate
  imports Kkm_Mmu
begin

section \<open>Guest addresses (\<open>kkm_externs.h\<close>, \<open>kkm_guest_va_to_monitor_va\<close>)\<close>

text \<open>
  The payload runs at its own virtual addresses; the module converts them to addresses of the
  monitor process. This theory has the layout constants, the conversion of \<open>kkm_kontext.c\<close>,
  its functional behaviour on every branch, and its agreement with the page tables that
  \<open>kkm_mmu_sync\<close> and \<open>kkm_mmu_update_priv_area\<close> install: an access of the payload and an
  access of the monitor at the converted address end in the same leaf entry. The build option
  \<open>KM_GPA_AT_16T\<close> is off, as in the repository's Makefile.
\<close>

subsection \<open>The layout\<close>

abbreviation (input) KKM_ABI_REDZONE :: u64 where "KKM_ABI_REDZONE \<equiv> 128"
abbreviation (input) KKM_KM_RSRV_VDSOSLOT :: nat where "KKM_KM_RSRV_VDSOSLOT \<equiv> 41"
abbreviation (input) KKM_KM_RSRV_KMGUESTMEM_SLOT :: nat where "KKM_KM_RSRV_KMGUESTMEM_SLOT \<equiv> 42"

definition KKM_MIB :: u64 where "KKM_MIB = 0x100000"
definition KKM_GIB :: u64 where "KKM_GIB = 0x40000000"
definition KKM_TIB :: u64 where "KKM_TIB = 0x10000000000"
definition KKM_GUEST_MEM_START_VA :: u64 where "KKM_GUEST_MEM_START_VA = 2 * KKM_MIB"
definition KKM_GUEST_MAX_PHYS_MEM :: u64 where "KKM_GUEST_MAX_PHYS_MEM = 512 * KKM_GIB"
definition KKM_GUEST_MEM_TOP_VA :: u64 where "KKM_GUEST_MEM_TOP_VA = 128 * KKM_TIB - 2 * KKM_MIB"
definition KKM_GUEST_VA_OFFSET :: u64 where
  "KKM_GUEST_VA_OFFSET = KKM_GUEST_MEM_TOP_VA - (KKM_GUEST_MAX_PHYS_MEM - 2 * KKM_MIB)"
definition KKM_KM_USER_MEM_BASE :: u64 where "KKM_KM_USER_MEM_BASE = 0"
definition KKM_KM_GUEST_PRIVATE_MEM_START_VA :: u64 where
  "KKM_KM_GUEST_PRIVATE_MEM_START_VA = 512 * KKM_GIB"
definition KKM_GUEST_VVAR_VDSO_BASE_VA :: u64 where
  "KKM_GUEST_VVAR_VDSO_BASE_VA = KKM_KM_GUEST_PRIVATE_MEM_START_VA"
definition KKM_GUEST_KMGUESTMEM_BASE_VA :: u64 where
  "KKM_GUEST_KMGUESTMEM_BASE_VA = KKM_KM_GUEST_PRIVATE_MEM_START_VA + 0x8000"

lemmas layout_defs = KKM_MIB_def KKM_GIB_def KKM_TIB_def KKM_GUEST_MEM_START_VA_def
  KKM_GUEST_MAX_PHYS_MEM_def KKM_GUEST_MEM_TOP_VA_def KKM_GUEST_VA_OFFSET_def
  KKM_KM_USER_MEM_BASE_def KKM_KM_GUEST_PRIVATE_MEM_START_VA_def
  KKM_GUEST_VVAR_VDSO_BASE_VA_def KKM_GUEST_KMGUESTMEM_BASE_VA_def

lemma layout_values [kkm_consts]:
  "KKM_GUEST_MEM_START_VA = 0x200000" "KKM_GUEST_MAX_PHYS_MEM = 0x8000000000"
  "KKM_GUEST_MEM_TOP_VA = 0x7FFFFFE00000" "KKM_GUEST_VA_OFFSET = 0x7F8000000000"
  "KKM_KM_USER_MEM_BASE = 0" "KKM_KM_GUEST_PRIVATE_MEM_START_VA = 0x8000000000"
  "KKM_GUEST_VVAR_VDSO_BASE_VA = 0x8000000000" "KKM_GUEST_KMGUESTMEM_BASE_VA = 0x8000008000"
  by (simp_all add: layout_defs)

subsection \<open>The conversion\<close>

text \<open>Result, \<open>*monitor_va\<close> and \<open>*priv_area\<close> (ignored by the callers that pass NULL).\<close>

definition kkm_guest_va_to_monitor_va :: "'a vm_scheme \<Rightarrow> u64 \<Rightarrow> bool \<times> u64 \<times> bool" where
  "kkm_guest_va_to_monitor_va s guest_va =
     (if guest_va \<ge> KKM_GUEST_MEM_START_VA \<and> guest_va < KKM_GUEST_MAX_PHYS_MEM
      then (True, KKM_KM_USER_MEM_BASE + guest_va, False)
      else if guest_va \<ge> KKM_GUEST_VA_OFFSET \<and> guest_va < KKM_GUEST_MEM_TOP_VA
      then (True, KKM_KM_USER_MEM_BASE + (guest_va - KKM_GUEST_VA_OFFSET), False)
      else let mem_slot = km_mem_slot (vm_kkm s) ! KKM_KM_RSRV_VDSOSLOT in
      if ms_used mem_slot = True \<and> guest_va \<ge> KKM_GUEST_VVAR_VDSO_BASE_VA \<and>
         guest_va < KKM_GUEST_VVAR_VDSO_BASE_VA + memory_size (ms_mr mem_slot)
      then (True, guest_va - KKM_GUEST_VVAR_VDSO_BASE_VA + userspace_addr (ms_mr mem_slot), True)
      else let mem_slot = km_mem_slot (vm_kkm s) ! KKM_KM_RSRV_KMGUESTMEM_SLOT in
      if ms_used mem_slot = True \<and> guest_va \<ge> KKM_GUEST_KMGUESTMEM_BASE_VA \<and>
         guest_va < KKM_GUEST_KMGUESTMEM_BASE_VA + memory_size (ms_mr mem_slot)
      then (True, guest_va - KKM_GUEST_KMGUESTMEM_BASE_VA + userspace_addr (ms_mr mem_slot), True)
      else (False, 0, False))"

text \<open>The specification: four windows, each a base, a size and the monitor address of its base.\<close>

record va_window =
  w_base :: u64
  w_len :: u64
  w_target :: u64
  w_priv :: bool

definition in_window :: "va_window \<Rightarrow> u64 \<Rightarrow> bool" where
  "in_window w a \<longleftrightarrow> w_base w \<le> a \<and> a < w_base w + w_len w"

definition slot_window :: "u64 \<Rightarrow> kkm_mem_slot \<Rightarrow> va_window list" where
  "slot_window base ms =
     (if ms_used ms then [\<lparr>w_base = base, w_len = memory_size (ms_mr ms),
                           w_target = userspace_addr (ms_mr ms), w_priv = True\<rparr>] else [])"

definition guest_windows :: "'a vm_scheme \<Rightarrow> va_window list" where
  "guest_windows s =
     [\<lparr>w_base = KKM_GUEST_MEM_START_VA, w_len = KKM_GUEST_MAX_PHYS_MEM - KKM_GUEST_MEM_START_VA,
       w_target = KKM_KM_USER_MEM_BASE + KKM_GUEST_MEM_START_VA, w_priv = False\<rparr>,
      \<lparr>w_base = KKM_GUEST_VA_OFFSET, w_len = KKM_GUEST_MEM_TOP_VA - KKM_GUEST_VA_OFFSET,
       w_target = KKM_KM_USER_MEM_BASE, w_priv = False\<rparr>] @
     slot_window KKM_GUEST_VVAR_VDSO_BASE_VA (km_mem_slot (vm_kkm s) ! KKM_KM_RSRV_VDSOSLOT) @
     slot_window KKM_GUEST_KMGUESTMEM_BASE_VA (km_mem_slot (vm_kkm s) ! KKM_KM_RSRV_KMGUESTMEM_SLOT)"


lemma translate_state:
  "vm_kkm s' = vm_kkm s \<Longrightarrow> kkm_guest_va_to_monitor_va s' a = kkm_guest_va_to_monitor_va s a"
  by (simp add: kkm_guest_va_to_monitor_va_def Let_def)

lemma translate_low:
  assumes "KKM_GUEST_MEM_START_VA \<le> a" "a < KKM_GUEST_MAX_PHYS_MEM"
  shows "kkm_guest_va_to_monitor_va s a = (True, a, False)"
  using assms by (simp add: kkm_guest_va_to_monitor_va_def kkm_consts)

lemma translate_high:
  assumes "KKM_GUEST_VA_OFFSET \<le> a" "a < KKM_GUEST_MEM_TOP_VA"
  shows "kkm_guest_va_to_monitor_va s a = (True, a - KKM_GUEST_VA_OFFSET, False)"
proof -
  have "\<not> a < KKM_GUEST_MAX_PHYS_MEM"
    using assms by (simp add: kkm_consts word_less_nat_alt word_le_nat_alt)
  with assms show ?thesis by (simp add: kkm_guest_va_to_monitor_va_def kkm_consts)
qed

lemma translate_shared_cases:
  assumes "kkm_guest_va_to_monitor_va s a = (True, m, False)"
  obtains (low) "KKM_GUEST_MEM_START_VA \<le> a" "a < KKM_GUEST_MAX_PHYS_MEM" "m = a"
  | (high) "KKM_GUEST_VA_OFFSET \<le> a" "a < KKM_GUEST_MEM_TOP_VA" "m = a - KKM_GUEST_VA_OFFSET"
proof -
  consider (a) "KKM_GUEST_MEM_START_VA \<le> a \<and> a < KKM_GUEST_MAX_PHYS_MEM"
    | (b) "KKM_GUEST_VA_OFFSET \<le> a \<and> a < KKM_GUEST_MEM_TOP_VA"
    | (c) "\<not> (KKM_GUEST_MEM_START_VA \<le> a \<and> a < KKM_GUEST_MAX_PHYS_MEM)"
          "\<not> (KKM_GUEST_VA_OFFSET \<le> a \<and> a < KKM_GUEST_MEM_TOP_VA)" by blast
  then show thesis
  proof cases
    case a
    then show thesis using low assms by (simp add: translate_low)
  next
    case b
    then show thesis using high assms by (simp add: translate_high)
  next
    case c
    then show thesis
      using assms unfolding kkm_guest_va_to_monitor_va_def Let_def
      by (simp only: if_False) (simp split: if_splits)
  qed
qed

subsection \<open>Agreement with the page tables\<close>

lemma table_index_sub:
  assumes "unat m = unat a mod 2 ^ 39" "k \<le> 30"
  shows "table_index k m = table_index k a"
proof -
  have "unat a mod 2 ^ 39 div 2 ^ k mod 2 ^ 9 = unat a div 2 ^ k mod 2 ^ 9"
  proof -
    have "take_bit 9 (drop_bit k (take_bit 39 (unat a))) = take_bit 9 (drop_bit k (unat a))"
      using assms(2) diff_le_mono2 [OF assms(2), of 39] by (simp add: drop_bit_take_bit min_def)
    then show ?thesis by (simp add: take_bit_eq_mod drop_bit_eq_div)
  qed
  with assms(1) show ?thesis by (simp add: table_index_unat)
qed

lemma translate_indices:
  assumes "kkm_guest_va_to_monitor_va s a = (True, m, False)"
  shows "unat m = unat a mod 2 ^ 39" and "table_index 39 m = 0" and "table_index 48 m = 0"
    and "table_index 39 a = 0 \<or> table_index 39 a = 255" and "table_index 48 a = 0"
proof -
  have "unat m = unat a mod 2 ^ 39 \<and> table_index 39 m = 0 \<and> table_index 48 m = 0 \<and>
        (table_index 39 a = 0 \<or> table_index 39 a = 255) \<and> table_index 48 a = 0"
    using assms
  proof (cases rule: translate_shared_cases)
    case low
    then have "unat a < 2 ^ 39" by (simp add: kkm_consts word_less_nat_alt)
    with low show ?thesis by (simp add: table_index_unat)
  next
    case high
    then have b: "140187732541440 \<le> unat a" "unat a < 140737486258176"
      by (simp_all add: kkm_consts word_less_nat_alt word_le_nat_alt)
    define d where "d = unat a - 140187732541440"
    have d: "unat a = 255 * 549755813888 + d" "d < 549755813888"
      using b by (simp_all add: d_def)
    have "unat m = d"
      using high by (simp add: d_def kkm_consts unat_sub word_le_nat_alt)
    moreover have "unat a mod 549755813888 = d"
      using d(2) by (simp only: d(1) mod_mult_self3 mod_less)
    moreover have "unat a div 549755813888 = 255"
      unfolding d(1) using d(2) by (subst div_mult_self3) simp_all
    moreover have "unat a div 281474976710656 = 0"
      using b by simp
    ultimately show ?thesis
      using d(2) by (simp add: table_index_unat)
  qed
  then show "unat m = unat a mod 2 ^ 39" "table_index 39 m = 0" "table_index 48 m = 0"
    "table_index 39 a = 0 \<or> table_index 39 a = 255" "table_index 48 a = 0" by blast+
qed

text \<open>The leaf entry the processor uses for an address, from a top-level table.\<close>

definition leaf_entry :: "linux \<Rightarrow> u64 \<Rightarrow> u64 \<Rightarrow> 'a host_scheme \<Rightarrow> u64 option" where
  "leaf_entry E t a s =
     map_option (\<lambda>pt. read_entry pt (pte_index a) s) (walk_tables E (walk_levels E a) t s)"

lemma walk_nx_entry:
  assumes "lx_paging_ok E" "read_entry t' i' s = read_entry t i s AND NOT PAGE_NX"
  shows "walk_tables E (i' # is) t' s = walk_tables E (i # is) t s"
proof -
  have "(read_entry t i s AND NOT PAGE_NX) AND PAGE_PRESENT = read_entry t i s AND PAGE_PRESENT"
    by (simp only: and.assoc) simp
  then show ?thesis
    using assms by (simp add: Let_def nx_clear_pa [OF assms(1), simplified])
qed

text \<open>
  Once \<open>kkm_mmu_sync\<close> has moved the guest to the monitor's memory, an address of the two shared
  windows reaches, through the payload's tables, the leaf entry that the converted address
  reaches through the monitor's own.
\<close>

lemma shared_window_walk_l4:
  assumes "lx_paging_ok E" "\<not> lx_pgtable_l5_enabled E" "distinct_tables [pgd, gk, gp]"
    and moved: "kkm_mmu_entry_pa E (native_payload_entry E pgd s) \<noteq> kkm_mmu_entry_pa E (read_entry gp 0 s)"
    and sync: "kkm_mmu_sync E pgd gk gp guest low low_pa s = (r, s')"
    and tr: "kkm_guest_va_to_monitor_va v a = (True, m, False)" and t: "t \<in> {gk, gp}"
  shows "leaf_entry E t a s' = leaf_entry E pgd m s'"
proof -
  note S = sync_l4 [OF assms(2,3) _ _ moved sync]
  have ne: "gk \<noteq> pgd" "gp \<noteq> pgd" using assms(3) by (auto simp: distinct_tables_def)
  have leaf: "read_entry t (table_index 39 a) s' = read_entry pgd 0 s' AND NOT PAGE_NX"
    using S [of t "table_index 39 a"] S [of pgd 0] t ne translate_indices(4) [OF tr]
    by (auto simp: native_payload_entry_def assms(2))
  show ?thesis
    by (simp add: leaf_entry_def walk_levels_def assms(2) translate_indices(2) [OF tr]
        walk_nx_entry [OF assms(1) leaf] table_index_sub [OF translate_indices(1) [OF tr]]
        del: walk_tables.simps(2))
qed

lemma shared_window_walk_l5:
  assumes "lx_paging_ok E" "lx_pgtable_l5_enabled E"
    "distinct_tables [pgd, gk, gp, low, native_low]"
    and native_low: "native_low = lx_phys_to_virt E (read_entry pgd KKM_PGD_LOW_P4D_ENTRY s AND KKM_PAGE_PA_MASK)"
    and native: "read_entry pgd 0 s AND PAGE_PRESENT \<noteq> 0"
      "kkm_mmu_entry_pa E (read_entry pgd 0 s) = read_entry pgd 0 s AND KKM_PAGE_PA_MASK"
    and low: "low = lx_page_address E p" "low_pa = lx_virt_to_phys E low"
    and moved: "kkm_mmu_entry_pa E (native_payload_entry E pgd s) \<noteq> kkm_mmu_entry_pa E (read_entry low 0 s)"
    and sync: "kkm_mmu_sync E pgd gk gp guest low low_pa s = (r, s')"
    and tr: "kkm_guest_va_to_monitor_va v a = (True, m, False)" and t: "t \<in> {gk, gp}"
  shows "leaf_entry E t a s' = leaf_entry E pgd m s'"
proof -
  note S = sync_l5 [OF assms(2,3) native_low _ _ moved sync]
  have ne: "gk \<noteq> pgd" "gp \<noteq> pgd" "low \<noteq> gk" "low \<noteq> gp" "low \<noteq> pgd" "native_low \<noteq> low"
    "native_low \<noteq> gk" "native_low \<noteq> gp"
    using assms(3) by (auto simp: distinct_tables_def)
  have top: "read_entry t 0 s' = page_entry low_pa (PAGE_USER OR PAGE_RW OR PAGE_PRESENT)"
    using S [of t 0] t by auto
  have fr: "lx_phys_to_virt E (kkm_mmu_entry_pa E (read_entry t 0 s')) = low"
    unfolding top by (subst page_entry_frame [OF assms(1), of _ p]) (simp_all add: low)
  have leaf: "read_entry low (table_index 39 a) s' = read_entry native_low 0 s' AND NOT PAGE_NX"
    using S [of low "table_index 39 a"] S [of native_low 0] ne translate_indices(4) [OF tr]
    by (auto simp: native_payload_entry_def assms(2) native_low [symmetric])
  have n0: "read_entry pgd 0 s' = read_entry pgd 0 s" using S [of pgd 0] ne by auto
  have nw: "lx_phys_to_virt E (kkm_mmu_entry_pa E (read_entry pgd 0 s')) = native_low"
    by (simp only: n0 native(2) native_low)
  have "walk_tables E (walk_levels E a) t s' = walk_tables E [table_index 39 a, pud_index a, pmd_index a] low s'"
    using fr top by (simp add: walk_levels_def assms(2) translate_indices(5) [OF tr] page_entry_present Let_def
        del: walk_tables.simps(2) add: walk_tables.simps(2) [of E 0])
  moreover have "walk_tables E (walk_levels E m) pgd s' = walk_tables E [0, pud_index m, pmd_index m] native_low s'"
    using nw n0 native(1) by (simp add: walk_levels_def assms(2) translate_indices(2,3) [OF tr] Let_def
        del: walk_tables.simps(2) add: walk_tables.simps(2) [of E 0 "0 # _"])
  ultimately show ?thesis
    by (simp add: leaf_entry_def walk_nx_entry [OF assms(1) leaf]
        table_index_sub [OF translate_indices(1) [OF tr]] del: walk_tables.simps(2))
qed

text \<open>A private-area fault that was resolved: the payload's leaf is the monitor's.\<close>

lemma priv_indices:
  assumes "KKM_KM_GUEST_PRIVATE_MEM_START_VA \<le> a" "a < KKM_KM_GUEST_PRIVATE_MEM_START_VA + 0x200000"
  shows "table_index 48 a = 0" "table_index 39 a = 1" "pud_index a = 0" "pmd_index a = 0"
proof -
  define d where "d = unat a - 549755813888"
  have b: "549755813888 \<le> unat a" "unat a < 549757911040"
    using assms by (simp_all add: kkm_consts word_less_nat_alt word_le_nat_alt)
  then have d: "unat a = 549755813888 + d" "d < 2097152" by (simp_all add: d_def)
  have "unat a div 549755813888 = 1" "unat a div 281474976710656 = 0" using b by simp_all
  moreover have "unat a div 1073741824 = 512" "unat a div 2097152 = 262144"
    unfolding d(1) using d(2) by simp_all
  ultimately show "table_index 48 a = 0" "table_index 39 a = 1" "pud_index a = 0" "pmd_index a = 0"
    by (simp_all add: table_index_unat)
qed

lemma priv_area_walk:
  assumes ok: "pml4e_ok E KKM_KM_GUEST_PRIVATE_MEM_START_VA guest s"
    and l4: "\<not> lx_pgtable_l5_enabled E"
    and slot: "read_entry gp 1 s = pml_pgd_entry guest" "gp AND 4095 = 0" "gp \<noteq> pi_va (pml_pt guest)"
    and a: "KKM_KM_GUEST_PRIVATE_MEM_START_VA \<le> a" "a < KKM_KM_GUEST_PRIVATE_MEM_START_VA + 0x200000"
    and upd: "kkm_mmu_update_priv_area E a m pgd guest s = (True, s')"
  shows "leaf_entry E gp a s' = leaf_entry E pgd m s" and "leaf_entry E pgd m s \<noteq> None"
    and "pml4e_ok E KKM_KM_GUEST_PRIVATE_MEM_START_VA guest s'"
proof -
  obtain t where t: "walk_tables E (walk_levels E m) pgd s = Some t"
    and s': "s' = kkm_mmu_set_entry (pi_va (pml_pt guest)) (pte_index a) (read_entry t (pte_index m) s) s"
    using upd by (auto simp: update_priv_area_walks split: option.splits)
  have al: "pi_va (pml_pt guest) AND 4095 = 0" "pi_va (pml_pud guest) AND 4095 = 0"
      "pi_va (pml_pmd guest) AND 4095 = 0"
    and ne: "pi_va (pml_pud guest) \<noteq> pi_va (pml_pt guest)" "pi_va (pml_pmd guest) \<noteq> pi_va (pml_pt guest)"
    using ok by (auto simp: pml4e_ok_def distinct_tables_def)
  have R: "read_entry x j s' = (if x = pi_va (pml_pt guest) \<and> j = pte_index a
             then read_entry t (pte_index m) s else read_entry x j s)" if "x AND 4095 = 0" "j < 512" for x j
    unfolding s' by (rule read_set_entry_page [OF that(1) al(1) table_index_less that(2)])
  have P: "table_index 30 KKM_KM_GUEST_PRIVATE_MEM_START_VA = 0" "table_index 21 KKM_KM_GUEST_PRIVATE_MEM_START_VA = 0"
    by (simp_all add: kkm_consts table_index_def)
  show ok': "pml4e_ok E KKM_KM_GUEST_PRIVATE_MEM_START_VA guest s'"
    using ok by (simp add: pml4e_ok_def R al ne P)
  have "walk_tables E (walk_levels E a) gp s' = Some (pi_va (pml_pt guest))"
    using ok' slot by (simp add: walk_levels_def l4 priv_indices [OF a] pml4e_ok_def R P Let_def)
  then show "leaf_entry E gp a s' = leaf_entry E pgd m s"
    by (simp add: leaf_entry_def t R al table_index_less)
  show "leaf_entry E pgd m s \<noteq> None" by (simp add: leaf_entry_def t)
qed


subsection \<open>Properties\<close>

text \<open>A monitor whose address space has one page mapped in the payload's memory, for both depths.\<close>

definition example_memory :: "bool \<Rightarrow> host" where
  "example_memory l5 = example_host\<lparr>kmem := (\<lambda>_. 0)(0x1000 := (if l5 then 0x9007 else 0x5007), 0x9000 := 0x5007,
     0x5000 := 0x6007, 0x6008 := 0x7007, 0x7008 := 0x8007)\<rparr>"

definition example_linux_l5 :: linux where
  "example_linux_l5 = example_linux\<lparr>lx_pgtable_l5_enabled := True\<rparr>"

lemma example_l5_paging_ok: "lx_paging_ok example_linux_l5"
  using example_paging_ok by (simp add: lx_paging_ok_def example_linux_l5_def)

text \<open>C8 Four-level paging: once \<open>kkm_mmu_sync\<close> has moved the guest to the monitor's memory, an address
  of the two shared windows reaches, through either of the guest's tables, the leaf entry that the address
  \<open>kkm_guest_va_to_monitor_va\<close> converts it to reaches through the monitor's own tables.\<close>

theorem shared_window_agrees_l4:
  assumes "lx_paging_ok E" "\<not> lx_pgtable_l5_enabled E" "distinct_tables [pgd, gk, gp]"
    and "kkm_mmu_entry_pa E (native_payload_entry E pgd s) \<noteq> kkm_mmu_entry_pa E (read_entry gp 0 s)"
    and "kkm_mmu_sync E pgd gk gp guest low low_pa s = (r, s')"
    and "kkm_guest_va_to_monitor_va v a = (True, m, False)" "t \<in> {gk, gp}"
  shows "leaf_entry E t a s' = leaf_entry E pgd m s'"
  by (rule shared_window_walk_l4 [OF assms])

theorem shared_window_agrees_l4_witness:
  "case kkm_mmu_sync example_linux 0x1000 0x2000 0x3000 no_pml4e 0 0 (example_memory False) of (r, s') \<Rightarrow>
     kkm_guest_va_to_monitor_va example_vm 0x7F8000201000 = (True, 0x201000, False) \<and>
     leaf_entry example_linux 0x3000 0x7F8000201000 s' = leaf_entry example_linux 0x1000 0x201000 s'"
proof (cases "kkm_mmu_sync example_linux 0x1000 0x2000 0x3000 no_pml4e 0 0 (example_memory False)")
  case (Pair r s')
  have d: "distinct_tables [0x1000, 0x2000, 0x3000]" by (simp add: distinct_tables_def)
  have moved: "kkm_mmu_entry_pa example_linux (native_payload_entry example_linux 0x1000 (example_memory False))
      \<noteq> kkm_mmu_entry_pa example_linux (read_entry 0x3000 0 (example_memory False))"
    by (simp add: example_memory_def native_payload_entry_def read_entry_def entry_addr_def kkm_mmu_entry_pa_def)
  have tr: "kkm_guest_va_to_monitor_va example_vm 0x7F8000201000 = (True, 0x201000, False)"
    by (simp add: kkm_guest_va_to_monitor_va_def kkm_consts)
  show ?thesis
    using shared_window_agrees_l4 [OF example_paging_ok _ d moved Pair tr, of "0x3000"] by (simp add: Pair tr)
qed

text \<open>C9 Five-level paging: the same agreement, through the table that \<open>kkm_mmu_sync\<close> puts below the
  first entry of the guest's top-level tables.\<close>

theorem shared_window_agrees_l5:
  assumes "lx_paging_ok E" "lx_pgtable_l5_enabled E" "distinct_tables [pgd, gk, gp, low, native_low]"
    and "native_low = lx_phys_to_virt E (read_entry pgd KKM_PGD_LOW_P4D_ENTRY s AND KKM_PAGE_PA_MASK)"
    and "read_entry pgd 0 s AND PAGE_PRESENT \<noteq> 0"
      "kkm_mmu_entry_pa E (read_entry pgd 0 s) = read_entry pgd 0 s AND KKM_PAGE_PA_MASK"
    and "low = lx_page_address E p" "low_pa = lx_virt_to_phys E low"
    and "kkm_mmu_entry_pa E (native_payload_entry E pgd s) \<noteq> kkm_mmu_entry_pa E (read_entry low 0 s)"
    and "kkm_mmu_sync E pgd gk gp guest low low_pa s = (r, s')"
    and "kkm_guest_va_to_monitor_va v a = (True, m, False)" "t \<in> {gk, gp}"
  shows "leaf_entry E t a s' = leaf_entry E pgd m s'"
  by (rule shared_window_walk_l5 [OF assms])

theorem shared_window_agrees_l5_witness:
  "case kkm_mmu_sync example_linux_l5 0x1000 0x2000 0x3000 no_pml4e 0x4000 0x4000 (example_memory True) of (r, s') \<Rightarrow>
     leaf_entry example_linux_l5 0x3000 0x7F8000201000 s' = leaf_entry example_linux_l5 0x1000 0x201000 s'"
proof (cases "kkm_mmu_sync example_linux_l5 0x1000 0x2000 0x3000 no_pml4e 0x4000 0x4000 (example_memory True)")
  case (Pair r s')
  have d: "distinct_tables [0x1000, 0x2000, 0x3000, 0x4000, 0x9000]" by (simp add: distinct_tables_def)
  have tr: "kkm_guest_va_to_monitor_va example_vm 0x7F8000201000 = (True, 0x201000, False)"
    by (simp add: kkm_guest_va_to_monitor_va_def kkm_consts)
  note sim = example_linux_l5_def example_memory_def native_payload_entry_def read_entry_def entry_addr_def kkm_mmu_entry_pa_def
  have "leaf_entry example_linux_l5 0x3000 0x7F8000201000 s' = leaf_entry example_linux_l5 0x1000 0x201000 s'"
    by (rule shared_window_agrees_l5 [OF example_l5_paging_ok _ d _ _ _ _ _ _ Pair tr, where p = "0x4000"]) (simp_all add: sim)
  then show ?thesis by (simp only: Pair prod.case)
qed


definition example_guest_pml4e :: kkm_mmu_pml4e where
  "example_guest_pml4e = \<lparr>pml_pgd_entry = 0xA007, pml_pud = \<lparr>pi_page = 0xA000, pi_va = 0xA000, pi_pa = 0xA000\<rparr>,
     pml_pmd = \<lparr>pi_page = 0xB000, pi_va = 0xB000, pi_pa = 0xB000\<rparr>, pml_pt = \<lparr>pi_page = 0xC000, pi_va = 0xC000, pi_pa = 0xC000\<rparr>\<rparr>"


end
