(* ===== verification/Kkm_Misc.thy ===== *)
theory Kkm_Misc
  imports Kkm_Translate
begin

section \<open>Red zones and floating-point state (\<open>kkm_misc.c\<close>)\<close>

text \<open>
  The red zones around the guest kernel stack, the comparison loop that verifies them, and the two
  conversions between the processor's extended state and the \<open>kkm_fpu\<close> structure of the ioctls.
  The extended state is the byte buffer the processor saves; its first 512 bytes have the layout
  of the FXSAVE instruction. What the debugging functions print is the list of their calls of \<open>printk\<close>.
\<close>

abbreviation (input) GUEST_STACK_REDZONE_SIZE :: nat where "GUEST_STACK_REDZONE_SIZE \<equiv> 256"
abbreviation (input) REDZONE_DATA :: u8 where "REDZONE_DATA \<equiv> 0xA5"

subsection \<open>Red zones\<close>

definition kkm_init_guest_area_redzone :: "kkm_guest_area \<Rightarrow> kkm_guest_area" where
  "kkm_init_guest_area_redzone ga =
     ga\<lparr>ga_redzone_top := replicate GUEST_STACK_REDZONE_SIZE REDZONE_DATA,
        ga_redzone_bottom := replicate GUEST_STACK_REDZONE_SIZE REDZONE_DATA\<rparr>"

text \<open>The loop over \<open>count\<close> bytes, left at the first mismatch.\<close>

fun verify_bytes_from :: "u8 list \<Rightarrow> nat \<Rightarrow> nat \<Rightarrow> u8 \<Rightarrow> bool" where
  "verify_bytes_from bytes i 0 v = True"
| "verify_bytes_from bytes i (Suc k) v =
     (if bytes ! i = v then verify_bytes_from bytes (Suc i) k v else False)"

definition kkm_verify_bytes :: "u8 list \<Rightarrow> u32 \<Rightarrow> u8 \<Rightarrow> bool" where
  "kkm_verify_bytes bytes n v = verify_bytes_from bytes 0 (unat n) v"

text \<open>
  What \<open>kkm_verify_guest_area_redzone\<close> reports, its only effect: a mismatch of the upper and of the
  lower zone. The check is compiled in only when \<open>KKM_REDZONE_CHECK_ENABLE\<close> is set, which is the
  argument \<open>enabled\<close>; \<open>kkm.h\<close> sets it to 0.
\<close>

definition KKM_REDZONE_CHECK_ENABLE :: bool where
  "KKM_REDZONE_CHECK_ENABLE = False"

definition kkm_verify_guest_area_redzone :: "bool \<Rightarrow> kkm_guest_area \<Rightarrow> bool \<times> bool" where
  "kkm_verify_guest_area_redzone enabled ga =
     (if enabled
      then (kkm_verify_bytes (ga_redzone_top ga) (of_nat GUEST_STACK_REDZONE_SIZE) REDZONE_DATA = False,
            kkm_verify_bytes (ga_redzone_bottom ga) (of_nat GUEST_STACK_REDZONE_SIZE) REDZONE_DATA = False)
      else (False, False))"

lemma verify_bytes_from_iff:
  "verify_bytes_from bytes i k v \<longleftrightarrow> (\<forall>j < k. bytes ! (i + j) = v)"
proof (induction k arbitrary: i)
  case (Suc k)
  show ?case
  proof
    assume "verify_bytes_from bytes i (Suc k) v"
    then have h: "bytes ! i = v" "\<forall>j < k. bytes ! (Suc i + j) = v"
      using Suc.IH [of "Suc i"] by (auto split: if_splits)
    show "\<forall>j < Suc k. bytes ! (i + j) = v"
    proof (intro allI impI)
      fix j assume "j < Suc k"
      then show "bytes ! (i + j) = v" using h by (cases j) auto
    qed
  next
    assume "\<forall>j < Suc k. bytes ! (i + j) = v"
    then have "bytes ! i = v" "\<forall>j < k. bytes ! (Suc i + j) = v"
      by (auto dest: spec [of _ 0] spec [of _ "Suc _"])
    then show "verify_bytes_from bytes i (Suc k) v" using Suc.IH [of "Suc i"] by simp
  qed
qed simp

lemma verify_bytes_iff:
  "unat n \<le> length bytes \<Longrightarrow>
     kkm_verify_bytes bytes n v \<longleftrightarrow> take (unat n) bytes = replicate (unat n) v"
  by (auto simp: kkm_verify_bytes_def verify_bytes_from_iff list_eq_iff_nth_eq)

lemma redzone_init_verifies:
  "kkm_verify_guest_area_redzone enabled (kkm_init_guest_area_redzone ga) = (False, False)"
  by (simp add: kkm_verify_guest_area_redzone_def kkm_init_guest_area_redzone_def verify_bytes_iff)

lemma redzone_overflow_detected:
  assumes "i < 256" "length (ga_redzone_top ga) = 256" "b \<noteq> REDZONE_DATA"
  shows "fst (kkm_verify_guest_area_redzone True (ga\<lparr>ga_redzone_top := (ga_redzone_top ga)[i := b]\<rparr>))"
proof -
  have "(take 256 ((ga_redzone_top ga)[i := b])) ! i = b" using assms by simp
  then have "take 256 ((ga_redzone_top ga)[i := b]) \<noteq> replicate 256 REDZONE_DATA"
    using assms(1,3) by (metis nth_replicate)
  then show ?thesis
    using assms(2) by (simp add: kkm_verify_guest_area_redzone_def verify_bytes_iff)
qed

subsection \<open>Floating-point state\<close>

text \<open>Offsets of the FXSAVE layout: \<open>cwd\<close>, \<open>swd\<close>, \<open>twd\<close>, \<open>fop\<close>, \<open>rip\<close>, \<open>rdp\<close>,
  \<open>mxcsr\<close>, \<open>st_space\<close> and \<open>xmm_space\<close>.\<close>

definition kkm_copy_xstate_to_kkm_fpu :: "u8 list \<Rightarrow> kkm_fpu" where
  "kkm_copy_xstate_to_kkm_fpu xs =
     \<lparr>fpr = get_bytes 32 128 xs, fcw = of_le (get_bytes 0 2 xs), fsw = of_le (get_bytes 2 2 xs),
      ftwx = ucast (of_le (get_bytes 4 2 xs) :: u16), pad1 = 0, last_opcode = of_le (get_bytes 6 2 xs),
      last_ip = of_le (get_bytes 8 8 xs), last_dp = of_le (get_bytes 16 8 xs),
      xmm = get_bytes 160 256 xs, mxcsr = of_le (get_bytes 24 4 xs), pad2 = 0\<rparr>"

definition kkm_copy_kkm_fpu_to_xstate :: "kkm_fpu \<Rightarrow> u8 list \<Rightarrow> u8 list" where
  "kkm_copy_kkm_fpu_to_xstate f xs =
     (let x1 = put_bytes 32 (fpr f) xs;
          x2 = put_bytes 0 (le_bytes 2 (fcw f)) x1;
          x3 = put_bytes 2 (le_bytes 2 (fsw f)) x2;
          x4 = put_bytes 4 (le_bytes 2 (ucast (ftwx f) :: u16)) x3;
          x5 = put_bytes 6 (le_bytes 2 (last_opcode f)) x4;
          x6 = put_bytes 8 (le_bytes 8 (last_ip f)) x5;
          x7 = put_bytes 16 (le_bytes 8 (last_dp f)) x6;
          x8 = put_bytes 160 (xmm f) x7
      in put_bytes 24 (le_bytes 4 (mxcsr f)) x8)"

definition fpu_ok :: "kkm_fpu \<Rightarrow> bool" where
  "fpu_ok f \<longleftrightarrow> length (fpr f) = 128 \<and> length (xmm f) = 256 \<and> pad1 f = 0 \<and> pad2 f = 0"

text \<open>Disjoint fields written one after the other can all be read back.\<close>

definition put_fields :: "(nat \<times> u8 list) list \<Rightarrow> u8 list \<Rightarrow> u8 list" where
  "put_fields fs buf = fold (\<lambda>(off, bs) b. put_bytes off bs b) fs buf"

fun apart :: "nat \<times> u8 list \<Rightarrow> nat \<times> u8 list \<Rightarrow> bool" where
  "apart (o1, b1) (o2, b2) \<longleftrightarrow> o1 + length b1 \<le> o2 \<or> o2 + length b2 \<le> o1"

lemma length_put_fields:
  "\<forall>(off, bs) \<in> set fs. off + length bs \<le> length buf \<Longrightarrow> length (put_fields fs buf) = length buf"
  by (induction fs arbitrary: buf) (auto simp: put_fields_def length_put_bytes)

lemma get_put_fields_other:
  assumes "\<forall>(off, bs) \<in> set fs. off + length bs \<le> length buf \<and> (off' + n \<le> off \<or> off + length bs \<le> off')"
    and "off' + n \<le> length buf"
  shows "get_bytes off' n (put_fields fs buf) = get_bytes off' n buf"
  using assms
  by (induction fs arbitrary: buf) (auto simp: put_fields_def length_put_bytes get_put_other)

lemma get_put_fields:
  assumes "sorted_wrt apart fs" "\<forall>(off, bs) \<in> set fs. off + length bs \<le> length buf"
    and "(off, bs) \<in> set fs" "n = length bs"
  shows "get_bytes off n (put_fields fs buf) = bs"
  using assms
proof (induction fs arbitrary: buf)
  case (Cons f fs)
  obtain o1 b1 where f: "f = (o1, b1)" by (cases f)
  have len: "length (put_bytes o1 b1 buf) = length buf"
    using Cons.prems(2) f by (simp add: length_put_bytes)
  show ?case
  proof (cases "(off, bs) \<in> set fs")
    case True
    then show ?thesis
      using Cons.IH [of "put_bytes o1 b1 buf"] Cons.prems f len by (simp add: put_fields_def)
  next
    case False
    then have "off = o1" "bs = b1" using Cons.prems(3) f by auto
    moreover have "get_bytes o1 (length b1) (put_fields fs (put_bytes o1 b1 buf))
        = get_bytes o1 (length b1) (put_bytes o1 b1 buf)"
      using Cons.prems(1,2) f len by (intro get_put_fields_other) auto
    ultimately show ?thesis
      using Cons.prems(2,4) f by (simp add: put_fields_def get_put_same)
  qed
qed simp

definition fpu_fields :: "kkm_fpu \<Rightarrow> (nat \<times> u8 list) list" where
  "fpu_fields f =
     [(32, fpr f), (0, le_bytes 2 (fcw f)), (2, le_bytes 2 (fsw f)), (4, le_bytes 2 (ucast (ftwx f) :: u16)),
      (6, le_bytes 2 (last_opcode f)), (8, le_bytes 8 (last_ip f)), (16, le_bytes 8 (last_dp f)),
      (160, xmm f), (24, le_bytes 4 (mxcsr f))]"

lemma fpu_to_xstate_fields: "kkm_copy_kkm_fpu_to_xstate f xs = put_fields (fpu_fields f) xs"
  by (simp add: kkm_copy_kkm_fpu_to_xstate_def put_fields_def fpu_fields_def Let_def)

lemma fpu_fields_ok:
  assumes "fpu_ok f"
  shows "sorted_wrt apart (fpu_fields f)" "416 \<le> n \<Longrightarrow> \<forall>(off, bs) \<in> set (fpu_fields f). off + length bs \<le> n"
  using assms by (simp_all add: fpu_fields_def fpu_ok_def)

lemma fpu_xstate_roundtrip:
  assumes "fpu_ok f" "512 \<le> length xs"
  shows "kkm_copy_xstate_to_kkm_fpu (kkm_copy_kkm_fpu_to_xstate f xs) = f"
    and "length (kkm_copy_kkm_fpu_to_xstate f xs) = length xs"
    and "get_bytes 416 (length xs - 416) (kkm_copy_kkm_fpu_to_xstate f xs) = get_bytes 416 (length xs - 416) xs"
proof -
  have l: "length (fpr f) = 128" "length (xmm f) = 256" "pad1 f = 0" "pad2 f = 0"
    using assms(1) by (auto simp: fpu_ok_def)
  have u: "(ucast (ucast (ftwx f) :: u16) :: u8) = ftwx f"
    by (rule bit_word_eqI) (simp add: bit_ucast_iff)
  have ok: "sorted_wrt apart (fpu_fields f)" "\<forall>(off, bs) \<in> set (fpu_fields f). off + length bs \<le> length xs"
    using fpu_fields_ok(1) [OF assms(1)] fpu_fields_ok(2) [OF assms(1), of "length xs"] assms(2) by simp_all
  note g = get_put_fields [OF ok]
  show "kkm_copy_xstate_to_kkm_fpu (kkm_copy_kkm_fpu_to_xstate f xs) = f"
    unfolding fpu_to_xstate_fields kkm_copy_xstate_to_kkm_fpu_def
    by (intro kkm_fpu.equality)
      (simp_all add: g [of 32 "fpr f"] g [of 0 "le_bytes 2 (fcw f)"] g [of 2 "le_bytes 2 (fsw f)"]
        g [of 4 "le_bytes 2 (ucast (ftwx f) :: u16)"] g [of 6 "le_bytes 2 (last_opcode f)"]
        g [of 8 "le_bytes 8 (last_ip f)"] g [of 16 "le_bytes 8 (last_dp f)"] g [of 160 "xmm f"]
        g [of 24 "le_bytes 4 (mxcsr f)"] fpu_fields_def [THEN arg_cong [where f = set]] l u)
  show "length (kkm_copy_kkm_fpu_to_xstate f xs) = length xs"
    unfolding fpu_to_xstate_fields by (rule length_put_fields [OF ok(2)])
  show "get_bytes 416 (length xs - 416) (kkm_copy_kkm_fpu_to_xstate f xs) = get_bytes 416 (length xs - 416) xs"
    unfolding fpu_to_xstate_fields using fpu_fields_ok(2) [OF assms(1), of 416] assms(2)
    by (intro get_put_fields_other) fastforce+
qed

subsection \<open>What is printed for debugging\<close>

text \<open>A call of \<open>printk\<close>: its format and its arguments. \<open>tid\<close> is the number of the kontext, \<open>va\<close> the address of the
  guest area. Only \<open>kkm_show_trap_info\<close> is called by the module, for a failed page fault when the parameter \<open>log_failed_page_faults\<close> is set.\<close>

datatype printed = Line (line_format: string) (line_args: "u64 list")

definition printk :: "string \<Rightarrow> u64 list \<Rightarrow> printed" where
  "printk fmt args = Line (fmt @ [CHR 0x0A]) args"

definition kkm_show_trap_info :: "u64 \<Rightarrow> u64 \<Rightarrow> kkm_guest_area \<Rightarrow> printed list" where
  "kkm_show_trap_info tid va ga =
     (let ti = ga_trap_info ga
      in [printk ''kkm_show_trap_info: thread %lld ga %px cr2 %llx intr_no %llx error %llx rip %llx cs %llx rflags %llx rsp %llx ss %llx''
            [tid, va, cr2 (ga_sregs ga), ga_intr_no ga, ti_error ti, ti_rip ti, ti_cs ti, ti_rflags ti, ti_rsp ti, ti_ss ti]])"

definition kkm_show_registers :: "u64 \<Rightarrow> kkm_guest_area \<Rightarrow> printed list" where
  "kkm_show_registers tid ga =
     (let r = ga_regs ga
      in [printk ''kkm_show_registers: thread %lld rax %llx rbx %llx rcx %llx rdx %llx'' [tid, rax r, rbx r, rcx r, rdx r],
          printk ''kkm_show_registers: thread %lld rsi %llx rdi %llx rsp %llx rbp %llx'' [tid, rsi r, rdi r, rsp r, rbp r],
          printk ''kkm_show_registers: thread %lld r8 %llx r9 %llx r10 %llx r11 %llx'' [tid, r8 r, r9 r, r10 r, r11 r],
          printk ''kkm_show_registers: thread %lld r12 %llx r13 %llx r14 %llx r15 %llx'' [tid, r12 r, r13 r, r14 r, r15 r],
          printk ''kkm_show_registers: thread %lld rip %llx rflags %llx'' [tid, rip r, rflags r]])"

definition kkm_show_debug_registers :: "kkm_guest_area \<Rightarrow> printed list" where
  "kkm_show_debug_registers ga =
     (let d = ga_debug ga; dr = dbg_registers d
      in [printk ''kkm_show_debug_registers: control %x'' [ucast (dbg_control d)],
          printk ''kkm_show_debug_registers: dr0 %llx dr1 %llx dr2 %llx dr3 %llx'' [dr ! 0, dr ! 1, dr ! 2, dr ! 3],
          printk ''kkm_show_debug_registers: dr4 %llx dr5 %llx dr6 %llx dr7 %llx'' [dr ! 4, dr ! 5, dr ! 6, dr ! 7]])"

text \<open>\<open>kkm_show_guest_qwords\<close> lists words of the payload's memory through a temporary buffer. The number of bytes wraps; where the buffer
  is then smaller than the words listed, the result is \<open>None\<close>: the loop reads beyond it.\<close>

definition kkm_show_guest_qwords :: "linux \<Rightarrow> u64 \<Rightarrow> u64 \<Rightarrow> 'a vm_scheme \<Rightarrow> (printed list \<times> 'a vm_scheme) option" where
  "kkm_show_guest_qwords E gva n s =
     (let byte_count = n * 8
      in case kkm_guest_va_to_monitor_va s gva of (ok, mva, _) \<Rightarrow>
      if ok = False then Some ([printk ''kkm_show_guest_data: gva to mva failed'' []], s)
      else let buffer_addr = lx_kzalloc E (klog s); s1 = kcall (Ev_kzalloc buffer_addr) s in
      if buffer_addr = 0 then Some ([printk ''kkm_show_guest_data: memory allocation failed szie %lld'' [byte_count]], s1)
      else case copy_from_user E mva (unat byte_count) s1 of (left, bs, s2) \<Rightarrow>
      if left \<noteq> 0 then Some ([printk ''kkm_show_guest_data: copy from user failed'' []], kcall (Ev_kfree buffer_addr) s2)
      else if length bs < 8 * unat n then None
      else Some (map (\<lambda>i. printk ''addr %llx data %llx'' [mva + of_nat i * 8, of_le (get_bytes (8 * i) 8 bs)]) [0..<unat n],
                 kcall (Ev_kfree buffer_addr) s2))"

lemma byte_count_wraps: "unat (n * 8 :: u64) < 8 * unat n \<longleftrightarrow> 2 ^ 61 \<le> unat n"
proof -
  have e: "unat (n * 8) = unat n * 8 mod 2 ^ 64" by (simp add: unat_word_ariths)
  show ?thesis
  proof (cases "unat n < 2 ^ 61")
    case True
    then have "unat n * 8 mod 2 ^ 64 = unat n * 8" by (intro mod_less) simp
    then show ?thesis unfolding e using True by linarith
  next
    case False
    have "unat n * 8 mod 2 ^ 64 < (2 ^ 64 :: nat)" by simp
    moreover have "(2 ^ 64 :: nat) \<le> 8 * unat n" using False by simp
    ultimately have "unat n * 8 mod 2 ^ 64 < 8 * unat n" by (rule order_less_le_trans)
    then show ?thesis unfolding e using False by simp
  qed
qed

lemma guest_qwords_overrun:
  assumes "kkm_guest_va_to_monitor_va s gva = (True, mva, p)" "lx_kzalloc E (klog s) \<noteq> 0"
    and "copy_from_user E mva (unat (n * 8)) (kcall (Ev_kzalloc (lx_kzalloc E (klog s))) s) = (0, bs, s2)"
  shows "kkm_show_guest_qwords E gva n s = None \<longleftrightarrow> 2 ^ 61 \<le> unat n"
proof -
  have "length bs = unat (n * 8)" using assms(3) by (auto simp: copy_from_user_def Let_def)
  then show ?thesis using byte_count_wraps [of n] assms by (simp add: kkm_show_guest_qwords_def Let_def)
qed

text \<open>Every call has an argument for each conversion of its format.\<close>

definition format_ok :: "printed \<Rightarrow> bool" where
  "format_ok l \<longleftrightarrow> length (filter (\<lambda>c. c = CHR ''%'') (line_format l)) = length (line_args l)"

lemma show_formats_ok:
  "\<forall>l \<in> set (kkm_show_trap_info tid va ga @ kkm_show_registers tid ga @ kkm_show_debug_registers ga). format_ok l"
  "kkm_show_guest_qwords E gva n s = Some (ls, s') \<Longrightarrow> \<forall>l \<in> set ls. format_ok l"
  by (auto simp: kkm_show_trap_info_def kkm_show_registers_def kkm_show_debug_registers_def kkm_show_guest_qwords_def printk_def
      format_ok_def Let_def split: if_splits prod.splits)

text \<open>An interrupt descriptor table without a single gate: no vector lies within its limit.\<close>

definition kkm_idt_invalidate :: "u64 \<Rightarrow> 'a host_scheme \<Rightarrow> 'a host_scheme" where
  "kkm_idt_invalidate address s = s\<lparr>cpu := (cpu s)\<lparr>c_idtr := \<lparr>desc_size = 0, desc_address = address\<rparr>\<rparr>\<rparr>"

lemma idt_invalidated: "\<not> 16 * v + 15 \<le> unat (desc_size (c_idtr (cpu (kkm_idt_invalidate address s))))"
  by (simp add: kkm_idt_invalidate_def)

subsection \<open>Properties\<close>

text \<open>C40 The registers of the floating-point ioctls survive the conversion to the processor's extended state and
  back, and the conversion writes only the first 416 bytes of the state: its length and everything beyond
  (the header and the extended components) are kept.\<close>

theorem fpu_survives_xstate:
  assumes "fpu_ok f" "512 \<le> length xs"
  shows "kkm_copy_xstate_to_kkm_fpu (kkm_copy_kkm_fpu_to_xstate f xs) = f \<and>
    length (kkm_copy_kkm_fpu_to_xstate f xs) = length xs \<and>
    get_bytes 416 (length xs - 416) (kkm_copy_kkm_fpu_to_xstate f xs) = get_bytes 416 (length xs - 416) xs"
  using fpu_xstate_roundtrip [OF assms] by blast

theorem fpu_survives_xstate_witness:
  "kkm_copy_xstate_to_kkm_fpu (kkm_copy_kkm_fpu_to_xstate (zero_fpu\<lparr>mxcsr := 0x1F80, fcw := 0x37F\<rparr>) (replicate 4096 7))
     = zero_fpu\<lparr>mxcsr := 0x1F80, fcw := 0x37F\<rparr>"
proof -
  have "fpu_ok (zero_fpu\<lparr>mxcsr := 0x1F80, fcw := 0x37F\<rparr>)" by (simp add: fpu_ok_def zero_fpu_def)
  from fpu_survives_xstate [OF this, of "replicate 4096 7"] show ?thesis by simp
qed

text \<open>The red zones: freshly initialised ones are never reported, and when the check is compiled in, a single
  byte of the upper zone that differs is reported whatever its position.\<close>

theorem redzone_exact:
  assumes "i < 256" "b \<noteq> REDZONE_DATA"
  shows "kkm_verify_guest_area_redzone enabled (kkm_init_guest_area_redzone ga) = (False, False) \<and>
    kkm_verify_guest_area_redzone True
      ((kkm_init_guest_area_redzone ga)\<lparr>ga_redzone_top := (replicate 256 REDZONE_DATA)[i := b]\<rparr>) = (True, False)"
proof -
  let ?g = "kkm_init_guest_area_redzone ga"
  have t: "ga_redzone_top ?g = replicate 256 REDZONE_DATA" by (simp add: kkm_init_guest_area_redzone_def)
  have "fst (kkm_verify_guest_area_redzone True (?g\<lparr>ga_redzone_top := (replicate 256 REDZONE_DATA)[i := b]\<rparr>))"
    using redzone_overflow_detected [of i ?g b] assms by (simp add: t)
  moreover have "\<not> snd (kkm_verify_guest_area_redzone True (?g\<lparr>ga_redzone_top := (replicate 256 REDZONE_DATA)[i := b]\<rparr>))"
    using redzone_init_verifies [of True ga] by (simp add: kkm_verify_guest_area_redzone_def)
  ultimately show ?thesis
    using redzone_init_verifies by (metis prod.collapse)
qed

theorem redzone_exact_witness:
  "kkm_verify_guest_area_redzone True
     ((kkm_init_guest_area_redzone zero_guest_area)\<lparr>ga_redzone_top := (replicate 256 REDZONE_DATA)[17 := 0]\<rparr>) = (True, False)"
  using redzone_exact [of 17 0] by simp

end
