(* ===== verification/Kkm_Stats.thy ===== *)
theory Kkm_Stats
  imports Kkm_Kernel
begin

section \<open>Statistics (\<open>kkm_statistics.h\<close>)\<close>

text \<open>
  The counters of \<open>kkm_stat\<close> (\<open>atomic64_t\<close>, wrapping), one function per inline function of the
  header, and the text \<open>kkm_statistics_show\<close> prints for \<open>/sys/module/kkm/parameters\<close>.
\<close>

definition kkm_statistics_init :: "'a host_scheme \<Rightarrow> 'a host_scheme" where
  "kkm_statistics_init s = s\<lparr>kkm_stat :=
     \<lparr>st_kontainer_count = 0, st_kontext_count = 0, st_intr_count = 0, st_forwarded_intr_count = 0,
      st_forwarded_intr_time_ns = 0, st_page_fault_count = 0, st_failed_page_fault_count = 0,
      st_page_fault_time_ns = 0, st_system_call_count = 0\<rparr>\<rparr>"

definition on_stat :: "(kkm_statistics \<Rightarrow> kkm_statistics) \<Rightarrow> 'a host_scheme \<Rightarrow> 'a host_scheme" where
  "on_stat f s = s\<lparr>kkm_stat := f (kkm_stat s)\<rparr>"

definition kkm_statistics_kontainer_count_inc :: "'a host_scheme \<Rightarrow> 'a host_scheme" where
  "kkm_statistics_kontainer_count_inc =
     on_stat (\<lambda>t. t\<lparr>st_kontainer_count := st_kontainer_count t + 1\<rparr>)"

definition kkm_statistics_kontext_count_inc :: "'a host_scheme \<Rightarrow> 'a host_scheme" where
  "kkm_statistics_kontext_count_inc =
     on_stat (\<lambda>t. t\<lparr>st_kontext_count := st_kontext_count t + 1\<rparr>)"

definition kkm_statistics_intr_count_inc :: "'a host_scheme \<Rightarrow> 'a host_scheme" where
  "kkm_statistics_intr_count_inc = on_stat (\<lambda>t. t\<lparr>st_intr_count := st_intr_count t + 1\<rparr>)"

definition kkm_statistics_forwarded_intr_count_inc :: "'a host_scheme \<Rightarrow> 'a host_scheme" where
  "kkm_statistics_forwarded_intr_count_inc =
     on_stat (\<lambda>t. t\<lparr>st_forwarded_intr_count := st_forwarded_intr_count t + 1\<rparr>)"

definition kkm_statistics_forwarded_intr_time_ns :: "u64 \<Rightarrow> 'a host_scheme \<Rightarrow> 'a host_scheme" where
  "kkm_statistics_forwarded_intr_time_ns ns =
     on_stat (\<lambda>t. t\<lparr>st_forwarded_intr_time_ns := st_forwarded_intr_time_ns t + ns\<rparr>)"

definition kkm_statistics_page_fault_count_inc :: "'a host_scheme \<Rightarrow> 'a host_scheme" where
  "kkm_statistics_page_fault_count_inc =
     on_stat (\<lambda>t. t\<lparr>st_page_fault_count := st_page_fault_count t + 1\<rparr>)"

definition kkm_statistics_failed_page_fault_count_inc :: "'a host_scheme \<Rightarrow> 'a host_scheme" where
  "kkm_statistics_failed_page_fault_count_inc =
     on_stat (\<lambda>t. t\<lparr>st_failed_page_fault_count := st_failed_page_fault_count t + 1\<rparr>)"

definition kkm_statistics_page_fault_time_ns_add :: "u64 \<Rightarrow> 'a host_scheme \<Rightarrow> 'a host_scheme" where
  "kkm_statistics_page_fault_time_ns_add ns =
     on_stat (\<lambda>t. t\<lparr>st_page_fault_time_ns := st_page_fault_time_ns t + ns\<rparr>)"

definition kkm_statistics_system_call_count_inc :: "'a host_scheme \<Rightarrow> 'a host_scheme" where
  "kkm_statistics_system_call_count_inc =
     on_stat (\<lambda>t. t\<lparr>st_system_call_count := st_system_call_count t + 1\<rparr>)"

lemmas kkm_statistics_defs =
  kkm_statistics_kontainer_count_inc_def kkm_statistics_kontext_count_inc_def
  kkm_statistics_intr_count_inc_def kkm_statistics_forwarded_intr_count_inc_def
  kkm_statistics_forwarded_intr_time_ns_def kkm_statistics_page_fault_count_inc_def
  kkm_statistics_failed_page_fault_count_inc_def kkm_statistics_page_fault_time_ns_add_def
  kkm_statistics_system_call_count_inc_def

lemma on_stat_frame [simp]:
  "klog (on_stat f s) = klog s" "um (on_stat f s) = um s" "kmem (on_stat f s) = kmem s"
  "kkm_mmu_kx (on_stat f s) = kkm_mmu_kx s" "cpu (on_stat f s) = cpu s"
  "kkm_cpu_full_tlb_flush (on_stat f s) = kkm_cpu_full_tlb_flush s"
  "lazy_flush_tlb (on_stat f s) = lazy_flush_tlb s"
  "kkm_object_id (on_stat f s) = kkm_object_id s"
  "idt_native_desc (on_stat f s) = idt_native_desc s"
  "idt_guest_desc (on_stat f s) = idt_guest_desc s"
  "idt_last_id (on_stat f s) = idt_last_id s" "current_kontext (on_stat f s) = current_kontext s"
  "kkm_xs_format (on_stat f s) = kkm_xs_format s" "host.more (on_stat f s) = host.more s"
  "kkm_stat (on_stat f s) = f (kkm_stat s)"
  by (simp_all add: on_stat_def)

lemma on_stat_frame_vm [simp]: "vm_kkm (on_stat f s) = vm_kkm s" "vm.more (on_stat f s) = vm.more s"
  by (simp_all add: on_stat_def)

lemma on_stat_frame_vcpu [simp]:
  "vc_kontext (on_stat f s) = vc_kontext s" "vc_ga (on_stat f s) = vc_ga s"
  "vc_run (on_stat f s) = vc_run s" "vc_pa (on_stat f s) = vc_pa s"
  "vc_kernel_xstate (on_stat f s) = vc_kernel_xstate s"
  "vc_payload_xstate (on_stat f s) = vc_payload_xstate s"
  by (simp_all add: on_stat_def)

subsection \<open>The report\<close>

fun digits :: "nat \<Rightarrow> string" where
  "digits n = (if n < 10 then [char_of (48 + n)] else digits (n div 10) @ [char_of (48 + n mod 10)])"

declare digits.simps [simp del]

text \<open>\<open>%lld\<close> of the signed value of the counter.\<close>

definition print_lld :: "u64 \<Rightarrow> string" where
  "print_lld w = (let i = sint w in if i < 0 then CHR ''-'' # digits (nat (- i)) else digits (nat i))"

definition kkm_statistics_show :: "'a host_scheme \<Rightarrow> string" where
  "kkm_statistics_show s =
     (let t = kkm_stat s; nl = [char_of (10::nat)]; tab = [char_of (9::nat)]; colon = tab @ '': ''
      in ''kontainers'' @ colon @ print_lld (st_kontainer_count t) @ nl @
         ''kontexts'' @ colon @ print_lld (st_kontext_count t) @ nl @
         ''interrupts'' @ colon @ print_lld (st_intr_count t) @ nl @
         ''forwarded intr'' @ colon @ print_lld (st_forwarded_intr_count t) @ nl @
         ''forwarded intr time ns'' @ colon @ print_lld (st_forwarded_intr_time_ns t) @ nl @
         ''page faults'' @ colon @ print_lld (st_page_fault_count t) @ nl @
         ''failed page faults'' @ colon @ print_lld (st_failed_page_fault_count t) @ nl @
         ''page fault time ns'' @ colon @ print_lld (st_page_fault_time_ns t) @ nl @
         ''system calls'' @ colon @ print_lld (st_system_call_count t) @ nl)"

text \<open>Reading a printed number back.\<close>

definition undigits :: "string \<Rightarrow> nat" where
  "undigits cs = foldl (\<lambda>n c. 10 * n + (of_char c - 48)) 0 cs"

definition scan_lld :: "string \<Rightarrow> int" where
  "scan_lld cs = (case cs of CHR ''-'' # ds \<Rightarrow> - int (undigits ds) | _ \<Rightarrow> int (undigits cs))"

lemma of_char_digit: "d < 10 \<Longrightarrow> of_char (char_of (48 + d) :: char) = (48 + d :: nat)"
  by (simp add: of_char_of take_bit_eq_mod)

lemma undigits_digits: "undigits (digits n) = n"
proof (induction n rule: digits.induct)
  case (1 n)
  show ?case
  proof (cases "n < 10")
    case True
    then show ?thesis by (simp add: digits.simps undigits_def of_char_digit)
  next
    case False
    with 1 have "undigits (digits (n div 10)) = n div 10" by simp
    moreover have "digits n = digits (n div 10) @ [char_of (48 + n mod 10)]"
      using False by (subst digits.simps) simp
    moreover have "of_char (char_of (48 + n mod 10) :: char) - 48 = (n mod 10 :: nat)"
      by (simp add: of_char_digit)
    ultimately show ?thesis by (simp add: undigits_def)
  qed
qed

lemma hd_digits: "\<exists>d r. d < (10::nat) \<and> digits n = char_of (48 + d) # r"
proof (induction n rule: digits.induct)
  case (1 n)
  show ?case
  proof (cases "n < 10")
    case True
    then show ?thesis by (subst digits.simps) auto
  next
    case False
    with 1 obtain d :: nat and r where "d < 10" "digits (n div 10) = char_of (48 + d) # r" by auto
    with False show ?thesis by (subst digits.simps) auto
  qed
qed

lemma digit_not_minus: "d < 10 \<Longrightarrow> char_of (48 + d :: nat) \<noteq> CHR ''-''"
  by (auto dest!: arg_cong [where f = "of_char :: char \<Rightarrow> nat"] simp: of_char_digit)

text \<open>The decimal text \<open>%lld\<close> of a statistics counter, read back, is the signed value of the counter.\<close>

theorem scan_print_lld: "scan_lld (print_lld w) = sint w"
proof (cases "sint w < 0")
  case True
  then show ?thesis by (simp add: print_lld_def scan_lld_def undigits_digits)
next
  case False
  obtain d :: nat and r where d: "d < 10" "digits (nat (sint w)) = char_of (48 + d) # r"
    using hd_digits by blast
  have "scan_lld (digits (nat (sint w))) = int (undigits (digits (nat (sint w))))"
    using digit_not_minus [OF d(1)] by (auto simp: scan_lld_def d(2) split: list.splits char.splits bool.splits)
  with False show ?thesis by (simp add: print_lld_def undigits_digits)
qed

end
