(* ===== verification/Kkm_Intr.thy ===== *)
theory Kkm_Intr
  imports Kkm_Kernel
begin

section \<open>Interrupt entry stubs and their tables (\<open>kkm_intr_table.c\<close>, \<open>kkm_guest_exit.S\<close>, \<open>kkm_intr.S\<close>)\<close>

text \<open>
  The assembly defines one entry stub per vector, eight more for the faults whose error code the
  processor pushes, one for \<open>syscall\<close>, and one forwarding stub per vector that executes
  \<open>int $n\<close>. A stub is named by a constructor; the two tables of \<open>kkm_intr_table.c\<close> list them.
\<close>

abbreviation (input) NR_VECTORS :: nat where "NR_VECTORS \<equiv> 256"
abbreviation (input) KKM_INTR_SYSCALL :: u64 where "KKM_INTR_SYSCALL \<equiv> 511"

datatype kkm_stub =
    Intr_entry nat
  | Intr_entry_double_fault
  | Intr_entry_invalid_TSS
  | Intr_entry_segment_np
  | Intr_entry_ss_fault
  | Intr_entry_general_protection
  | Intr_entry_page_fault
  | Intr_entry_alignment_check
  | Intr_entry_security_exception
  | Syscall_entry_asm
  | Forward_intr nat

definition intr_function_pointers :: "kkm_stub list" where
  "intr_function_pointers = map Intr_entry [0..<NR_VECTORS]"

definition intr_forward_pointers :: "kkm_stub list" where
  "intr_forward_pointers = map Forward_intr [0..<NR_VECTORS]"

text \<open>
  What a stub leaves on the trap stack: the interrupt number and the error code that
  \<open>kkm_intr_entry_asm\<close> copies to the guest area. Stubs for faults with an error code keep the one the
  processor pushed, the others push -1 first.
\<close>

fun stub_pushes :: "kkm_stub \<Rightarrow> u64 \<Rightarrow> (u64 \<times> u64) option" where
  "stub_pushes (Intr_entry n) hw = Some (of_nat n, - 1)"
| "stub_pushes Intr_entry_double_fault hw = Some (8, hw)"
| "stub_pushes Intr_entry_invalid_TSS hw = Some (10, hw)"
| "stub_pushes Intr_entry_segment_np hw = Some (11, hw)"
| "stub_pushes Intr_entry_ss_fault hw = Some (12, hw)"
| "stub_pushes Intr_entry_general_protection hw = Some (13, hw)"
| "stub_pushes Intr_entry_page_fault hw = Some (14, hw)"
| "stub_pushes Intr_entry_alignment_check hw = Some (17, hw)"
| "stub_pushes Intr_entry_security_exception hw = Some (30, hw)"
| "stub_pushes Syscall_entry_asm hw = Some (KKM_INTR_SYSCALL, - 1)"
| "stub_pushes (Forward_intr n) hw = None"

text \<open>
  \<open>kkm_forward_intr\<close> calls the stub with a return address on the stack; only a forwarding stub
  comes back, after the native handler of its vector has run.
\<close>

fun kkm_forward_intr :: "kkm_stub \<Rightarrow> 'a host_scheme \<Rightarrow> 'a host_scheme option" where
  "kkm_forward_intr (Forward_intr n) s = Some (kcall (Ev_forward_intr (of_nat n)) s)"
| "kkm_forward_intr _ s = None"

text \<open>\<open>kkm_idt_descr_init\<close> replaces the entries of the faults with an error code.\<close>

definition replace_error_handlers :: "kkm_stub list \<Rightarrow> kkm_stub list" where
  "replace_error_handlers t =
     t[8 := Intr_entry_double_fault, 10 := Intr_entry_invalid_TSS, 11 := Intr_entry_segment_np,
       12 := Intr_entry_ss_fault, 13 := Intr_entry_general_protection, 14 := Intr_entry_page_fault,
       17 := Intr_entry_alignment_check, 30 := Intr_entry_security_exception]"

text \<open>The vectors whose stub expects an error code from the processor.\<close>

definition error_vectors :: "nat set" where
  "error_vectors = {8, 10, 11, 12, 13, 14, 17, 30}"

lemma length_intr_tables [simp]:
  "length intr_function_pointers = NR_VECTORS" "length intr_forward_pointers = NR_VECTORS"
  by (simp_all add: intr_function_pointers_def intr_forward_pointers_def)

lemma intr_tables_nth [simp]:
  "n < NR_VECTORS \<Longrightarrow> intr_function_pointers ! n = Intr_entry n"
  "n < NR_VECTORS \<Longrightarrow> intr_forward_pointers ! n = Forward_intr n"
  by (simp_all add: intr_function_pointers_def intr_forward_pointers_def)

lemma stub_number_range:
  assumes "stub_pushes st hw = Some (n, e)" "\<And>k. st = Intr_entry k \<Longrightarrow> k < NR_VECTORS"
  shows "unat n < NR_VECTORS \<or> n = KKM_INTR_SYSCALL"
  using assms
  by (cases st) (auto simp: unat_of_nat take_bit_eq_mod)

lemma replaced_nth_error:
  "n \<in> error_vectors \<Longrightarrow> stub_pushes (replace_error_handlers intr_function_pointers ! n) hw = Some (of_nat n, hw)"
  by (auto simp: error_vectors_def replace_error_handlers_def)

lemma replaced_nth_other:
  "n < NR_VECTORS \<Longrightarrow> n \<notin> error_vectors \<Longrightarrow> replace_error_handlers intr_function_pointers ! n = Intr_entry n"
  by (auto simp: error_vectors_def replace_error_handlers_def)

lemma length_replaced [simp]: "length (replace_error_handlers t) = length t"
  by (simp add: replace_error_handlers_def)

lemma replaced_entry_range:
  assumes "n < NR_VECTORS" "replace_error_handlers intr_function_pointers ! n = Intr_entry k"
  shows "k < NR_VECTORS"
proof (cases "n \<in> error_vectors")
  case True
  with assms show ?thesis by (auto simp: error_vectors_def replace_error_handlers_def)
next
  case False
  with assms show ?thesis by (simp add: replaced_nth_other)
qed

text \<open>Whatever the vector, the stub of its gate records the vector and the right error code.\<close>

lemma vector_recorded:
  assumes "n < NR_VECTORS"
  shows "stub_pushes (replace_error_handlers intr_function_pointers ! n) hw =
     Some (of_nat n, if n \<in> error_vectors then hw else - 1)"
  using assms by (cases "n \<in> error_vectors") (simp_all add: replaced_nth_error replaced_nth_other)

end
