(* ===== verification/Kkm_Traps.thy ===== *)
theory Kkm_Traps
  imports Kkm_Translate Kkm_Stats Kkm_Intr
begin

section \<open>Trap handling (\<open>kkm_process_intr\<close> and its handlers, \<open>kkm_kontext.c\<close>)\<close>

text \<open>
  When the payload traps, the module is back on the native kernel with the trap recorded in the
  guest area. Each handler of \<open>kkm_kontext.c\<close> is a definition on the state of one kontext,
  with every early return. It answers 0 (go back to the monitor), 256
  (\<open>KKM_KONTEXT_FAULT_PROCESS_DONE\<close>: resume the payload) or \<open>-EFAULT\<close>. The locale \<open>trap_handler\<close>
  is the contract the run loop relies on; every handler is an instance of it.
\<close>

abbreviation (input) KKM_KONTEXT_FAULT_PROCESS_DONE :: int where "KKM_KONTEXT_FAULT_PROCESS_DONE \<equiv> 256"
abbreviation (input) KKM_OUT_OPCODE :: u8 where "KKM_OUT_OPCODE \<equiv> 0xEF"
abbreviation (input) KKM_HYPERCALL_IO_PORT_BASE :: u16 where "KKM_HYPERCALL_IO_PORT_BASE \<equiv> 0x8000"
abbreviation (input) KKM_HYPERCALL_IO_SIZE :: u8 where "KKM_HYPERCALL_IO_SIZE \<equiv> 4"
abbreviation (input) KKM_HYPERCALL_IO_COUNT :: u32 where "KKM_HYPERCALL_IO_COUNT \<equiv> 1"
abbreviation (input) KKM_EXCEPTION_IO_PORT :: u16 where "KKM_EXCEPTION_IO_PORT \<equiv> 0x81FD"
abbreviation (input) KKM_EXIT_IO_OUT :: u8 where "KKM_EXIT_IO_OUT \<equiv> 1"
abbreviation (input) X86_TRAP_DB :: u32 where "X86_TRAP_DB \<equiv> 1"
abbreviation (input) X86_TRAP_BP :: u32 where "X86_TRAP_BP \<equiv> 3"
abbreviation (input) X86_PF_WRITE :: u64 where "X86_PF_WRITE \<equiv> 2"
abbreviation (input) X86_PF_USER :: u64 where "X86_PF_USER \<equiv> 4"

subsection \<open>Blocks handed to the monitor\<close>

record kkm_intr_stack_no_error_code =
  is_rax :: u64
  is_rbx :: u64
  is_rdx :: u64
  is_rip :: u64
  is_cs :: u64
  is_rflags :: u64
  is_rsp :: u64
  is_ss :: u64

record kkm_intr_stack_with_error_code =
  ie_rax :: u64
  ie_rbx :: u64
  ie_rdx :: u64
  ie_error :: u64
  ie_rip :: u64
  ie_cs :: u64
  ie_rflags :: u64
  ie_rsp :: u64
  ie_ss :: u64

record kkm_hc_args =
  hc_ret_val :: u64
  hc_argument1 :: u64
  hc_argument2 :: u64
  hc_argument3 :: u64
  hc_argument4 :: u64
  hc_argument5 :: u64
  hc_argument6 :: u64

definition no_error_code_words :: "kkm_intr_stack_no_error_code \<Rightarrow> u64 list" where
  "no_error_code_words a =
     [is_rax a, is_rbx a, is_rdx a, is_rip a, is_cs a, is_rflags a, is_rsp a, is_ss a]"

definition with_error_code_words :: "kkm_intr_stack_with_error_code \<Rightarrow> u64 list" where
  "with_error_code_words a =
     [ie_rax a, ie_rbx a, ie_rdx a, ie_error a, ie_rip a, ie_cs a, ie_rflags a, ie_rsp a, ie_ss a]"

definition hc_args_words :: "kkm_hc_args \<Rightarrow> u64 list" where
  "hc_args_words a =
     [hc_ret_val a, hc_argument1 a, hc_argument2 a, hc_argument3 a, hc_argument4 a, hc_argument5 a,
      hc_argument6 a]"

subsection \<open>Handlers\<close>

definition on_regs :: "(kkm_regs \<Rightarrow> kkm_regs) \<Rightarrow> 'a vcpu_scheme \<Rightarrow> 'a vcpu_scheme" where
  "on_regs f s = s\<lparr>vc_ga := (vc_ga s)\<lparr>ga_regs := f (ga_regs (vc_ga s))\<rparr>\<rparr>"

definition kkm_setup_hypercall ::
  "u16 \<Rightarrow> u32 \<Rightarrow> fault_reason \<Rightarrow> 'a vcpu_scheme \<Rightarrow> 'a vcpu_scheme" where
  "kkm_setup_hypercall port addr reason s =
     s\<lparr>vc_run := (vc_run s)\<lparr>exit_reason := exit_code KKM_EXIT_IO,
          run_io := \<lparr>io_direction = KKM_EXIT_IO_OUT, io_size = KKM_HYPERCALL_IO_SIZE,
                     io_port = port OR KKM_HYPERCALL_IO_PORT_BASE, io_count = KKM_HYPERCALL_IO_COUNT,
                     io_data_offset = PAGE_SIZE\<rparr>\<rparr>,
       vc_pa := \<lparr>pa_data = addr, pa_reason = fault_reason_code reason\<rparr>\<rparr>"

text \<open>The common end of the two exception handlers: the kontext owes the monitor's answer.\<close>

definition post_exception :: "u64 \<Rightarrow> 'a vcpu_scheme \<Rightarrow> 'a vcpu_scheme" where
  "post_exception gva s =
     (let s1 = kkm_setup_hypercall KKM_EXCEPTION_IO_PORT (ucast (rsp (ga_regs (vc_ga s)))) FAULT_UNKNOWN s;
          s2 = s1\<lparr>vc_kontext := (vc_kontext s1)\<lparr>kn_exception_posted := True,
                    kn_exception_saved_rax := rax (ga_regs (vc_ga s1)),
                    kn_exception_saved_rbx := rbx (ga_regs (vc_ga s1))\<rparr>\<rparr>
      in on_regs (\<lambda>r. r\<lparr>rax := gva, rbx := ga_intr_no (vc_ga s2)\<rparr>) s2)"

definition kkm_process_common_without_error ::
  "linux \<Rightarrow> 'a vcpu_scheme \<Rightarrow> int \<times> 'a vcpu_scheme" where
  "kkm_process_common_without_error E s =
     (let ga = vc_ga s;
          args = \<lparr>is_rax = rax (ga_regs ga), is_rbx = rbx (ga_regs ga), is_rdx = rdx (ga_regs ga),
                  is_rip = ti_rip (ga_trap_info ga), is_cs = ti_cs (ga_trap_info ga),
                  is_rflags = ti_rflags (ga_trap_info ga), is_rsp = ti_rsp (ga_trap_info ga),
                  is_ss = ti_ss (ga_trap_info ga)\<rparr>;
          s1 = on_regs (\<lambda>r. r\<lparr>rsp := rsp r - 64\<rparr>) s;
          gva = rsp (ga_regs (vc_ga s1))
      in case kkm_guest_va_to_monitor_va s1 gva of (ok, mva, _) \<Rightarrow>
         if ok = False then (- EFAULT, s1)
         else case copy_to_user E mva (words_bytes (no_error_code_words args)) s1 of (left, s2) \<Rightarrow>
         if left \<noteq> 0 then (- EFAULT, s2)
         else (0, post_exception gva s2))"

definition kkm_process_common_with_error ::
  "linux \<Rightarrow> 'a vcpu_scheme \<Rightarrow> int \<times> 'a vcpu_scheme" where
  "kkm_process_common_with_error E s =
     (let ga = vc_ga s;
          args = \<lparr>ie_rax = rax (ga_regs ga), ie_rbx = rbx (ga_regs ga), ie_rdx = rdx (ga_regs ga),
                  ie_error = ti_error (ga_trap_info ga),
                  ie_rip = ti_rip (ga_trap_info ga), ie_cs = ti_cs (ga_trap_info ga),
                  ie_rflags = ti_rflags (ga_trap_info ga), ie_rsp = ti_rsp (ga_trap_info ga),
                  ie_ss = ti_ss (ga_trap_info ga)\<rparr>;
          s1 = on_regs (\<lambda>r. r\<lparr>rsp := rsp r - 72\<rparr>) s;
          gva = rsp (ga_regs (vc_ga s1))
      in case kkm_guest_va_to_monitor_va s1 gva of (ok, mva, _) \<Rightarrow>
         if ok = False then (- EFAULT, s1)
         else case copy_to_user E mva (words_bytes (with_error_code_words args)) s1 of (left, s2) \<Rightarrow>
         if left \<noteq> 0 then (- EFAULT, s2)
         else (0, post_exception gva s2))"

definition kkm_process_debug :: "'a vcpu_scheme \<Rightarrow> int \<times> 'a vcpu_scheme" where
  "kkm_process_debug s =
     (0, s\<lparr>vc_run := (vc_run s)\<lparr>exit_reason := exit_code KKM_EXIT_DEBUG,
             run_debug := (run_debug (vc_run s))\<lparr>arch_exception := X86_TRAP_DB,
               arch_pc := ti_rip (ga_trap_info (vc_ga s)),
               arch_dr6 := dbg_registers (ga_debug (vc_ga s)) ! 6,
               arch_dr7 := dbg_registers (ga_debug (vc_ga s)) ! 7\<rparr>\<rparr>\<rparr>)"

definition kkm_process_breakpoint :: "'a vcpu_scheme \<Rightarrow> int \<times> 'a vcpu_scheme" where
  "kkm_process_breakpoint s =
     (let s1 = on_regs (\<lambda>r. r\<lparr>rip := rip r - 1\<rparr>) s
      in (0, s1\<lparr>vc_run := (vc_run s1)\<lparr>exit_reason := exit_code KKM_EXIT_DEBUG,
                  run_debug := (run_debug (vc_run s1))\<lparr>arch_exception := X86_TRAP_BP,
                    arch_pc := rip (ga_regs (vc_ga s1))\<rparr>\<rparr>\<rparr>))"

text \<open>The first byte of \<open>instruction_decode\<close>, the only one used.\<close>

definition set_decode :: "u8 list \<Rightarrow> 'a vcpu_scheme \<Rightarrow> 'a vcpu_scheme" where
  "set_decode bs s =
     s\<lparr>vc_ga := (vc_ga s)\<lparr>ga_instruction_decode := bs @ drop (length bs) (ga_instruction_decode (vc_ga s))\<rparr>\<rparr>"

definition kkm_process_general_protection :: "linux \<Rightarrow> 'a vcpu_scheme \<Rightarrow> int \<times> 'a vcpu_scheme" where
  "kkm_process_general_protection E s =
     (case kkm_guest_va_to_monitor_va s (ti_rip (ga_trap_info (vc_ga s))) of (ok, monitor_fault_address, _) \<Rightarrow>
      if ok = False then (- EFAULT, s)
      else case copy_from_user E monitor_fault_address 1 s of (left, bs, s1) \<Rightarrow>
      let s2 = set_decode bs s1 in
      if left \<noteq> 0 then (- EFAULT, s2)
      else if ga_instruction_decode (vc_ga s2) ! 0 \<noteq> KKM_OUT_OPCODE then (- EFAULT, s2)
      else let s3 = kkm_setup_hypercall (ucast (rdx (ga_regs (vc_ga s2)))) (ucast (rax (ga_regs (vc_ga s2))))
                      FAULT_HYPER_CALL s2;
               s4 = on_regs (\<lambda>r. r\<lparr>rip := rip r + 1\<rparr>) s3
           in (0, kkm_statistics_system_call_count_inc s4))"

text \<open>The part of the page-fault handler that runs under \<open>pf_lock\<close>.\<close>

definition page_fault_locked :: "linux \<Rightarrow> 'a vcpu_scheme \<Rightarrow> int \<times> 'a vcpu_scheme" where
  "page_fault_locked E s =
     (let error_code = ti_error (ga_trap_info (vc_ga s)); cr2_va = cr2 (ga_sregs (vc_ga s))
      in case kkm_guest_va_to_monitor_va s cr2_va of (ok, monitor_fault_address, priv_area) \<Rightarrow>
         if ok = False then (- EFAULT, s)
         else if error_code AND X86_PF_USER = X86_PF_USER then
           case copy_from_user E monitor_fault_address 1 s of (left, bs, s1) \<Rightarrow>
           let s2 = set_decode bs s1 in
           if left \<noteq> 0 then (- EFAULT, s2)
           else case (if error_code AND X86_PF_WRITE = X86_PF_WRITE
                      then copy_to_user E monitor_fault_address (take 1 (ga_instruction_decode (vc_ga s2))) s2
                      else (0, s2)) of (left', s3) \<Rightarrow>
           if left' \<noteq> 0 then (- EFAULT, s3)
           else let s4 = (if priv_area = True
                          then snd (kkm_mmu_update_priv_area E cr2_va monitor_fault_address
                                      (lx_pgd_of_mm E (km_mm (vm_kkm s3))) (km_guest_pml4e (vm_kkm s3)) s3)
                          else s3);
                    s5 = (if kkm_cpu_full_tlb_flush s4 = False then kkm_mmu_flush_tlb_one_page cr2_va s4 else s4)
                in (KKM_KONTEXT_FAULT_PROCESS_DONE,
                    s5\<lparr>vc_ga := (vc_ga s5)\<lparr>ga_sregs := (ga_sregs (vc_ga s5))\<lparr>cr2 := 0\<rparr>\<rparr>\<rparr>)
         else (0, s))"

definition kkm_process_page_fault :: "linux \<Rightarrow> 'a vcpu_scheme \<Rightarrow> int \<times> 'a vcpu_scheme" where
  "kkm_process_page_fault E s =
     (case ktime_get_ns E s of (start_time, s1) \<Rightarrow>
      let s2 = s1\<lparr>vc_kontext := (vc_kontext s1)\<lparr>kn_trap_addr := cr2 (ga_sregs (vc_ga s1)),
                    kn_error_code := ti_error (ga_trap_info (vc_ga s1))\<rparr>\<rparr>;
          s3 = kcall (Ev_mutex_lock Pf_lock) s2
      in case page_fault_locked E s3 of (ret_val, s4) \<Rightarrow>
      let s5 = kcall (Ev_mutex_unlock Pf_lock) s4
      in case ktime_get_ns E s5 of (end_time, s6) \<Rightarrow>
      let s7 = kkm_statistics_page_fault_count_inc s6;
          s8 = (if ret_val \<noteq> 0 \<and> ret_val \<noteq> KKM_KONTEXT_FAULT_PROCESS_DONE
                then kkm_statistics_failed_page_fault_count_inc s7 else s7)
      in (ret_val, kkm_statistics_page_fault_time_ns_add (end_time - start_time) s8))"

definition kkm_process_syscall :: "linux \<Rightarrow> 'a vcpu_scheme \<Rightarrow> int \<times> 'a vcpu_scheme" where
  "kkm_process_syscall E s =
     (let s1 = on_regs (\<lambda>r. r\<lparr>rsp := rsp r - KKM_ABI_REDZONE - 56\<rparr>) s;
          regs = ga_regs (vc_ga s1);
          gva = rsp regs;
          s2 = kkm_setup_hypercall (ucast (rax regs)) (ucast gva) FAULT_SYSCALL s1;
          args = \<lparr>hc_ret_val = 0, hc_argument1 = rdi regs, hc_argument2 = rsi regs,
                  hc_argument3 = rdx regs, hc_argument4 = r10 regs, hc_argument5 = r8 regs,
                  hc_argument6 = r9 regs\<rparr>
      in case kkm_guest_va_to_monitor_va s2 gva of (ok, mva, _) \<Rightarrow>
         if ok = False then (- EFAULT, s2)
         else case copy_to_user E mva (words_bytes (hc_args_words args)) s2 of (left, s3) \<Rightarrow>
         if left \<noteq> 0 then (- EFAULT, s3)
         else case kkm_guest_va_to_monitor_va s3 (seg_base (sr_gs (ga_sregs (vc_ga s3)))) of
              (ok', hcargs_indirect_ptr_mva, _) \<Rightarrow>
         if ok' = False then (- EFAULT, s3)
         else case copy_to_user E hcargs_indirect_ptr_mva (words_bytes [gva]) s3 of (left', s4) \<Rightarrow>
         if left' \<noteq> 0 then (- EFAULT, s4)
         else (0, on_regs (\<lambda>r. r\<lparr>rax := gva\<rparr>)
                    (s4\<lparr>vc_kontext := (vc_kontext s4)\<lparr>kn_syscall_pending := True, kn_ret_val_mva := mva\<rparr>\<rparr>)))"

subsection \<open>Dispatch\<close>

text \<open>
  \<open>kkm_process_intr\<close>. The result is \<open>None\<close> where the C code reads beyond
  \<open>intr_forward_pointers\<close>, which has one entry per vector.
\<close>

definition forward_native :: "linux \<Rightarrow> u64 \<Rightarrow> 'a vcpu_scheme \<Rightarrow> (int \<times> 'a vcpu_scheme) option" where
  "forward_native E n s =
     (case ktime_get_ns E s of (start_intr_time, s1) \<Rightarrow>
      if unat n < length intr_forward_pointers then
        case kkm_forward_intr (intr_forward_pointers ! unat n) s1 of
          None \<Rightarrow> None
        | Some s2 \<Rightarrow>
            (case ktime_get_ns E s2 of (end_intr_time, s3) \<Rightarrow>
             Some (KKM_KONTEXT_FAULT_PROCESS_DONE,
               kkm_statistics_forwarded_intr_time_ns (end_intr_time - start_intr_time)
                 (kkm_statistics_forwarded_intr_count_inc s3)))
      else None)"

definition kkm_process_intr :: "linux \<Rightarrow> 'a vcpu_scheme \<Rightarrow> (int \<times> 'a vcpu_scheme) option" where
  "kkm_process_intr E s0 =
     (let s = s0\<lparr>vc_run := (vc_run s0)\<lparr>exit_reason := exit_code KKM_EXIT_UNKNOWN\<rparr>\<rparr>;
          n = ga_intr_no (vc_ga s);
          res =
            (if n = 13 then Some (kkm_process_general_protection E s)
             else if n = 14 then Some (kkm_process_page_fault E s)
             else if n = 0 then Some (kkm_process_common_without_error E s)
             else if n = 1 then Some (kkm_process_debug s)
             else if n = 2 then Some (0, s)
             else if n = 3 then Some (kkm_process_breakpoint s)
             else if n = 4 \<or> n = 5 \<or> n = 6 \<or> n = 7 then Some (kkm_process_common_without_error E s)
             else if n = 8 then Some (kkm_process_common_with_error E s)
             else if n = 9 then Some (kkm_process_common_without_error E s)
             else if n = 10 \<or> n = 11 \<or> n = 12 then Some (kkm_process_common_with_error E s)
             else if n = 15 \<or> n = 16 then Some (kkm_process_common_without_error E s)
             else if n = 17 then Some (kkm_process_common_with_error E s)
             else if n = 18 \<or> n = 19 then Some (kkm_process_common_without_error E s)
             else if n = KKM_INTR_SYSCALL then Some (kkm_process_syscall E s)
             else if n = 29 then Some (kkm_process_common_without_error E s)
             else if n = 30 then Some (kkm_process_common_with_error E s)
             else forward_native E n s)
      in case res of None \<Rightarrow> None
         | Some (ret_val, s') \<Rightarrow> Some (ret_val, kkm_statistics_intr_count_inc s'))"

subsection \<open>What every handler keeps\<close>

text \<open>The state that belongs to the host and the kontainer, and the debts of the kontext.\<close>

definition config :: "'a vm_scheme \<Rightarrow> _" where
  "config s = (kkm_mmu_kx s, kkm_cpu_full_tlb_flush s, lazy_flush_tlb s, kkm_xs_format s, kkm_object_id s,
     idt_native_desc s, idt_guest_desc s, idt_last_id s, current_kontext s, cpu s, vm_kkm s)"

definition debts :: "'a vcpu_scheme \<Rightarrow> bool \<times> bool" where
  "debts s = (kn_syscall_pending (vc_kontext s), kn_exception_posted (vc_kontext s))"

text \<open>What the run loop remembers of the previous trap.\<close>

definition history :: "'a vcpu_scheme \<Rightarrow> u64 \<times> u64 \<times> u64 \<times> u64" where
  "history s = (kn_prev_trap_no (vc_kontext s), kn_prev_trap_addr (vc_kontext s),
     kn_prev_error_code (vc_kontext s), kn_trap_repeat_counter (vc_kontext s))"

lemma config_simps [simp]:
  "config (kcall e s) = config s" "config (s\<lparr>um := m\<rparr>) = config s" "config (s\<lparr>kmem := k\<rparr>) = config s"
  "config (on_stat g s) = config s"
  by (simp_all add: config_def kcall_def)

lemma config_vcpu_simps [simp]:
  "config (v\<lparr>vc_ga := a\<rparr>) = config v" "config (v\<lparr>vc_run := r\<rparr>) = config v"
  "config (v\<lparr>vc_pa := p\<rparr>) = config v" "config (v\<lparr>vc_kontext := kn\<rparr>) = config v"
  "config (on_regs f v) = config v" "config (set_decode bs v) = config v"
  "config (kkm_setup_hypercall port addr reason v) = config v"
  "config (post_exception gva v) = config v"
  by (simp_all add: config_def on_regs_def set_decode_def kkm_setup_hypercall_def post_exception_def Let_def)

lemma tlb_copy_to_user: "copy_to_user E d bs s = (l, s') \<Longrightarrow> tlb (klog s') = tlb (klog s)"
  by (drule copy_to_user_state) simp

lemma tlb_copy_from_user: "copy_from_user E d n s = (l, bs, s') \<Longrightarrow> tlb (klog s') = tlb (klog s)"
  by (drule copy_from_user_state) simp

lemma config_copy_to_user: "copy_to_user E d bs s = (l, s') \<Longrightarrow> config s' = config s"
  by (drule copy_to_user_state) (simp add: config_def kcall_def)

lemma config_copy_from_user: "copy_from_user E d n s = (l, bs, s') \<Longrightarrow> config s' = config s"
  by (drule copy_from_user_state) simp

lemma update_priv_area_state:
  "snd (kkm_mmu_update_priv_area E a m pgd kmu s) = s \<or>
     (\<exists>va i e. snd (kkm_mmu_update_priv_area E a m pgd kmu s) = kkm_mmu_set_entry va i e s)"
  by (auto simp: update_priv_area_walks split: option.splits)

lemma config_mmu [simp]:
  "config (kkm_mmu_flush_tlb_one_page a s) = config s"
  "config (kkm_mmu_set_entry va i e s) = config s"
  by (simp_all add: kkm_mmu_flush_tlb_one_page_def kkm_mmu_set_entry_def)

lemma config_priv_area [simp]: "config (snd (kkm_mmu_update_priv_area E a m pgd kmu s)) = config s"
  using update_priv_area_state [of E a m pgd kmu s] by auto

lemma vcpu_frame_simps [simp]:
  "klog (on_regs f v) = klog v" "klog (set_decode bs v) = klog v"
  "klog (kkm_setup_hypercall port addr reason v) = klog v" "klog (post_exception gva v) = klog v"
  "um (on_regs f v) = um v" "um (set_decode bs v) = um v"
  "um (kkm_setup_hypercall port addr reason v) = um v" "um (post_exception gva v) = um v"
  "vc_kontext (on_regs f v) = vc_kontext v" "vc_run (on_regs f v) = vc_run v" "vc_pa (on_regs f v) = vc_pa v"
  "vc_kontext (set_decode bs v) = vc_kontext v" "vc_run (set_decode bs v) = vc_run v"
  "vc_kontext (kkm_setup_hypercall port addr reason v) = vc_kontext v"
  "vc_ga (kkm_setup_hypercall port addr reason v) = vc_ga v"
  "vm_kkm (on_regs f v) = vm_kkm v" "vm_kkm (kkm_setup_hypercall port addr reason v) = vm_kkm v"
  "vm_kkm (set_decode bs v) = vm_kkm v"
  by (simp_all add: on_regs_def set_decode_def kkm_setup_hypercall_def post_exception_def Let_def)

lemma debts_simps [simp]:
  "debts (kcall e v) = debts v" "debts (v\<lparr>um := m\<rparr>) = debts v" "debts (on_stat g v) = debts v"
  "debts (v\<lparr>vc_ga := a\<rparr>) = debts v" "debts (v\<lparr>vc_run := r\<rparr>) = debts v"
  "debts (on_regs f v) = debts v" "debts (set_decode bs v) = debts v"
  "debts (kkm_setup_hypercall port addr reason v) = debts v"
  by (simp_all add: debts_def kcall_def on_regs_def set_decode_def kkm_setup_hypercall_def)

lemma history_simps [simp]:
  "history (kcall e v) = history v" "history (v\<lparr>um := m\<rparr>) = history v" "history (on_stat g v) = history v"
  "history (v\<lparr>vc_ga := a\<rparr>) = history v" "history (v\<lparr>vc_run := r\<rparr>) = history v"
  "history (on_regs f v) = history v" "history (set_decode bs v) = history v"
  "history (kkm_setup_hypercall port addr reason v) = history v" "history (post_exception gva v) = history v"
  by (simp_all add: history_def kcall_def on_regs_def set_decode_def kkm_setup_hypercall_def post_exception_def Let_def)

lemma history_pending [simp]:
  "history (v\<lparr>vc_kontext := (vc_kontext v)\<lparr>kn_syscall_pending := b, kn_ret_val_mva := a\<rparr>\<rparr>) = history v"
  by (simp add: history_def)

lemma history_copy_to_user: "copy_to_user E d bs v = (l, v') \<Longrightarrow> history v' = history (v :: 'a vcpu_scheme)"
  by (drule copy_to_user_state) simp

lemma history_copy_from_user: "copy_from_user E d n v = (l, bs, v') \<Longrightarrow> history v' = history (v :: 'a vcpu_scheme)"
  by (drule copy_from_user_state) simp

lemma debts_copy_to_user: "copy_to_user E d bs v = (l, v') \<Longrightarrow> debts v' = debts (v :: 'a vcpu_scheme)"
  by (drule copy_to_user_state) simp

lemma debts_copy_from_user: "copy_from_user E d n v = (l, bs, v') \<Longrightarrow> debts v' = debts (v :: 'a vcpu_scheme)"
  by (drule copy_from_user_state) simp

lemma mmu_vcpu_frame [simp]:
  "vc_kontext (kkm_mmu_flush_tlb_one_page a v) = vc_kontext v" "vc_run (kkm_mmu_flush_tlb_one_page a v) = vc_run v"
  "vc_ga (kkm_mmu_flush_tlb_one_page a v) = vc_ga v"
  "vc_kontext (kkm_mmu_set_entry va i e v) = vc_kontext v" "vc_run (kkm_mmu_set_entry va i e v) = vc_run v"
  "vc_ga (kkm_mmu_set_entry va i e v) = vc_ga v"
  by (simp_all add: kkm_mmu_flush_tlb_one_page_def kkm_mmu_set_entry_def)

lemma priv_area_vcpu_frame [simp]:
  "vc_kontext (snd (kkm_mmu_update_priv_area E a m pgd kmu v)) = vc_kontext v"
  "vc_run (snd (kkm_mmu_update_priv_area E a m pgd kmu v)) = vc_run v"
  "vc_ga (snd (kkm_mmu_update_priv_area E a m pgd kmu v)) = vc_ga v"
  using update_priv_area_state [of E a m pgd kmu v] by auto

lemma mmu_ledger [simp]:
  "outstanding E (klog (kkm_mmu_flush_tlb_one_page a s)) = outstanding E (klog s)"
  "klog (snd (kkm_mmu_update_priv_area E' a m pgd kmu s)) = klog s"
  using update_priv_area_state [of E' a m pgd kmu s] by (auto simp: kkm_mmu_flush_tlb_one_page_def)

lemma history_mmu [simp]:
  "history (kkm_mmu_flush_tlb_one_page a v) = history v"
  "history (snd (kkm_mmu_update_priv_area E a m pgd kmu v)) = history v"
  by (simp_all add: history_def)

lemma debts_mmu [simp]:
  "debts (kkm_mmu_flush_tlb_one_page a v) = debts v"
  "debts (snd (kkm_mmu_update_priv_area E a m pgd kmu v)) = debts v"
  by (simp_all add: debts_def)

subsection \<open>The contract of a trap handler\<close>

locale trap_handler =
  fixes h :: "'a vcpu_scheme \<Rightarrow> int \<times> 'a vcpu_scheme" and E :: linux
  assumes result: "h s = (r, s') \<Longrightarrow> r = 0 \<or> r = KKM_KONTEXT_FAULT_PROCESS_DONE \<or> r = - EFAULT"
    and keeps_config: "h s = (r, s') \<Longrightarrow> config s' = config s"
    and keeps_blocks: "h s = (r, s') \<Longrightarrow> outstanding E (klog s') = outstanding E (klog s)"
    and no_debt: "h s = (r, s') \<Longrightarrow> r \<noteq> 0 \<Longrightarrow> debts s' = debts s"
    and keeps_history: "h s = (r, s') \<Longrightarrow> history s' = history s"
    and keeps_tlb: "h s = (r, s') \<Longrightarrow> tlb (klog s') = tlb (klog s)"
    and resumes_silently: "h s = (r, s') \<Longrightarrow> r = KKM_KONTEXT_FAULT_PROCESS_DONE \<Longrightarrow> vc_run s' = vc_run s"
begin

lemma keeps_cpu: "h s = (r, s') \<Longrightarrow> cpu s' = cpu s"
  using keeps_config by (fastforce simp: config_def)

lemma keeps_kontainer: "h s = (r, s') \<Longrightarrow> vm_kkm s' = vm_kkm s"
  using keeps_config by (fastforce simp: config_def)

lemma owing_returns_to_monitor: "h s = (r, s') \<Longrightarrow> debts s' \<noteq> debts s \<Longrightarrow> r = 0"
  using no_debt by blast

lemma negative_is_fault: "h s = (r, s') \<Longrightarrow> r < 0 \<Longrightarrow> r = - EFAULT"
  using result by fastforce

end

lemma post_exception_debts [simp]: "fst (debts (post_exception gva v)) = fst (debts v)"
  by (simp add: debts_def post_exception_def on_regs_def kkm_setup_hypercall_def Let_def)

lemmas copy_frames = copy_to_user_frame copy_from_user_frame
lemmas handler_dests = config_copy_to_user config_copy_from_user debts_copy_to_user debts_copy_from_user
  history_copy_to_user history_copy_from_user tlb_copy_to_user tlb_copy_from_user copy_to_user_frame(6) copy_from_user_frame(7)

interpretation without_error: trap_handler "kkm_process_common_without_error E" E for E
  by unfold_locales
    (auto simp: kkm_process_common_without_error_def Let_def handler_dests split: prod.splits if_splits)

interpretation with_error: trap_handler "kkm_process_common_with_error E" E for E
  by unfold_locales
    (auto simp: kkm_process_common_with_error_def Let_def handler_dests split: prod.splits if_splits)

interpretation debug_exit: trap_handler kkm_process_debug E for E
  by unfold_locales (auto simp: kkm_process_debug_def)

interpretation breakpoint: trap_handler kkm_process_breakpoint E for E
  by unfold_locales (auto simp: kkm_process_breakpoint_def Let_def)

interpretation general_protection: trap_handler "kkm_process_general_protection E" E for E
  by unfold_locales
    (auto simp: kkm_process_general_protection_def Let_def handler_dests kkm_statistics_defs
      split: prod.splits if_splits)

interpretation syscall: trap_handler "kkm_process_syscall E" E for E
  by unfold_locales
    (auto simp: kkm_process_syscall_def Let_def handler_dests split: prod.splits if_splits)

lemma page_fault_locked_contract:
  assumes "page_fault_locked E s = (r, s')"
  shows "r = 0 \<or> r = KKM_KONTEXT_FAULT_PROCESS_DONE \<or> r = - EFAULT" "config s' = config s"
    "outstanding E (klog s') = outstanding E (klog s)" "debts s' = debts s" "vc_run s' = vc_run s"
    "history s' = history s" "tlb (klog s') = tlb (klog s)"
proof -
  have run: "vc_run v' = vc_run v"
    if "copy_to_user E d bs v = (l, v')" for d bs l and v v' :: "'a vcpu_scheme"
    using copy_to_user_frame(4) [OF that] by (rule same_more_vcpu(3))
  have run': "vc_run v' = vc_run v"
    if "copy_from_user E d n v = (l, bs, v')" for d n bs l and v v' :: "'a vcpu_scheme"
    using copy_from_user_frame(5) [OF that] by (rule same_more_vcpu(3))
  have dec: "vc_run (set_decode bs v) = vc_run v" for bs and v :: "'a vcpu_scheme"
    by (simp add: set_decode_def)
  note a = assms [unfolded page_fault_locked_def Let_def]
  show "r = 0 \<or> r = KKM_KONTEXT_FAULT_PROCESS_DONE \<or> r = - EFAULT"
    using a by (auto split: prod.splits if_splits)
  show "config s' = config s"
    using a by (auto simp: handler_dests split: prod.splits if_splits)
  show "outstanding E (klog s') = outstanding E (klog s)"
    using a by (auto simp: handler_dests split: prod.splits if_splits)
  show "debts s' = debts s"
    using a by (auto simp: handler_dests split: prod.splits if_splits)
  show "history s' = history s"
    using a by (auto simp: handler_dests split: prod.splits if_splits)
  show "tlb (klog s') = tlb (klog s)"
    using a by (auto simp: handler_dests split: prod.splits if_splits)
  show "vc_run s' = vc_run s"
    using a by (auto simp: run run' dec split: prod.splits if_splits)
qed

text \<open>The state in which the locked part runs, and what follows it.\<close>

definition page_fault_entry :: "'a vcpu_scheme \<Rightarrow> 'a vcpu_scheme" where
  "page_fault_entry s =
     kcall (Ev_mutex_lock Pf_lock) ((kcall Ev_ktime s)\<lparr>vc_kontext := (vc_kontext s)
       \<lparr>kn_trap_addr := cr2 (ga_sregs (vc_ga s)), kn_error_code := ti_error (ga_trap_info (vc_ga s))\<rparr>\<rparr>)"

lemma page_fault_entry_simps [simp]:
  "config (page_fault_entry s) = config s" "debts (page_fault_entry s) = debts s"
  "history (page_fault_entry s) = history s"
  "vc_run (page_fault_entry s) = vc_run s" "vc_ga (page_fault_entry s) = vc_ga s"
  "vm_kkm (page_fault_entry s) = vm_kkm s" "um (page_fault_entry s) = um s" "kmem (page_fault_entry s) = kmem s"
  "kkm_cpu_full_tlb_flush (page_fault_entry s) = kkm_cpu_full_tlb_flush s"
  "outstanding E (klog (page_fault_entry s)) = outstanding E (klog s)" "tlb (klog (page_fault_entry s)) = tlb (klog s)"
  by (simp_all add: page_fault_entry_def debts_def history_def)

lemma page_fault_cases:
  assumes "kkm_process_page_fault E s = (r, s')"
  obtains s4 g where "page_fault_locked E (page_fault_entry s) = (r, s4)"
    "s' = on_stat g (kcall Ev_ktime (kcall (Ev_mutex_unlock Pf_lock) s4))"
proof -
  obtain r' s4 where l: "page_fault_locked E (page_fault_entry s) = (r', s4)"
    by (cases "page_fault_locked E (page_fault_entry s)")
  have *: "\<exists>g. kkm_statistics_page_fault_time_ns_add d
      (if b then kkm_statistics_failed_page_fault_count_inc (kkm_statistics_page_fault_count_inc v)
       else kkm_statistics_page_fault_count_inc v) = on_stat g v" for d b and v :: "'a vcpu_scheme"
    by (cases b) (auto simp: kkm_statistics_defs on_stat_def intro: exI [of _ "\<lambda>_. _"])
  obtain g where "r = r'" "s' = on_stat g (kcall Ev_ktime (kcall (Ev_mutex_unlock Pf_lock) s4))"
    using assms l * by (fastforce simp: kkm_process_page_fault_def ktime_get_ns_def Let_def page_fault_entry_def)
  with l show thesis by (intro that) auto
qed

interpretation page_fault: trap_handler "kkm_process_page_fault E" E for E
proof unfold_locales
  fix s s' :: "'a vcpu_scheme" and r
  assume h: "kkm_process_page_fault E s = (r, s')"
  then obtain s4 g where l: "page_fault_locked E (page_fault_entry s) = (r, s4)"
    and s': "s' = on_stat g (kcall Ev_ktime (kcall (Ev_mutex_unlock Pf_lock) s4))"
    by (rule page_fault_cases)
  note c = page_fault_locked_contract [OF l]
  show "r = 0 \<or> r = KKM_KONTEXT_FAULT_PROCESS_DONE \<or> r = - EFAULT"
    by (rule c(1))
  show "config s' = config s" "outstanding E (klog s') = outstanding E (klog s)" "debts s' = debts s"
    "vc_run s' = vc_run s" "history s' = history s" "tlb (klog s') = tlb (klog s)"
    using c by (simp_all add: s')
qed

text \<open>A native interrupt is forwarded and the payload resumed.\<close>

lemma forward_native_result:
  "forward_native E n s = (if unat n < NR_VECTORS
     then Some (KKM_KONTEXT_FAULT_PROCESS_DONE, snd (the (forward_native E n s))) else None)"
  by (simp add: forward_native_def ktime_get_ns_def)

interpretation forwarding: trap_handler "\<lambda>s. case forward_native E n s of None \<Rightarrow> (0, s) | Some x \<Rightarrow> x" E for E n
  by unfold_locales
    (auto simp: forward_native_def ktime_get_ns_def kkm_statistics_defs split: if_splits)

subsection \<open>Dispatch\<close>

text \<open>The table of the switch statement.\<close>

datatype trap_class =
  Trap_without_error | Trap_with_error | Trap_debug | Trap_nmi | Trap_breakpoint
  | Trap_general_protection | Trap_page_fault | Trap_syscall | Trap_forward

definition trap_class :: "u64 \<Rightarrow> trap_class" where
  "trap_class n =
     (if n \<in> {8, 10, 11, 12, 17, 30} then Trap_with_error
      else if n \<in> {0, 4, 5, 6, 7, 9, 15, 16, 18, 19, 29} then Trap_without_error
      else if n = 1 then Trap_debug else if n = 2 then Trap_nmi else if n = 3 then Trap_breakpoint
      else if n = 13 then Trap_general_protection else if n = 14 then Trap_page_fault
      else if n = KKM_INTR_SYSCALL then Trap_syscall else Trap_forward)"

definition run_class :: "linux \<Rightarrow> trap_class \<Rightarrow> 'a vcpu_scheme \<Rightarrow> (int \<times> 'a vcpu_scheme) option" where
  "run_class E c s =
     (case c of Trap_without_error \<Rightarrow> Some (kkm_process_common_without_error E s)
      | Trap_with_error \<Rightarrow> Some (kkm_process_common_with_error E s)
      | Trap_debug \<Rightarrow> Some (kkm_process_debug s) | Trap_nmi \<Rightarrow> Some (0, s)
      | Trap_breakpoint \<Rightarrow> Some (kkm_process_breakpoint s)
      | Trap_general_protection \<Rightarrow> Some (kkm_process_general_protection E s)
      | Trap_page_fault \<Rightarrow> Some (kkm_process_page_fault E s)
      | Trap_syscall \<Rightarrow> Some (kkm_process_syscall E s)
      | Trap_forward \<Rightarrow> forward_native E (ga_intr_no (vc_ga s)) s)"

definition no_exit :: "'a vcpu_scheme \<Rightarrow> 'a vcpu_scheme" where
  "no_exit s = s\<lparr>vc_run := (vc_run s)\<lparr>exit_reason := exit_code KKM_EXIT_UNKNOWN\<rparr>\<rparr>"

lemma no_exit_simps [simp]:
  "config (no_exit s) = config s" "debts (no_exit s) = debts s" "history (no_exit s) = history s" "vc_ga (no_exit s) = vc_ga s"
  "klog (no_exit s) = klog s" "um (no_exit s) = um s" "kmem (no_exit s) = kmem s" "vm_kkm (no_exit s) = vm_kkm s"
  "vc_kontext (no_exit s) = vc_kontext s" "exit_reason (vc_run (no_exit s)) = exit_code KKM_EXIT_UNKNOWN"
  by (simp_all add: no_exit_def debts_def history_def)

lemma process_intr_dispatch:
  "kkm_process_intr E s =
     map_option (\<lambda>(r, s'). (r, kkm_statistics_intr_count_inc s'))
       (run_class E (trap_class (ga_intr_no (vc_ga s))) (no_exit s))"
proof -
  define n where "n = ga_intr_no (vc_ga s)"
  have n: "ga_intr_no (vc_ga (no_exit s)) = n" by (simp add: n_def)
  have count: "(case res of None \<Rightarrow> None | Some (ret_val, s') \<Rightarrow> Some (ret_val, kkm_statistics_intr_count_inc s'))
      = map_option (\<lambda>(r, s'). (r, kkm_statistics_intr_count_inc s')) res" for res :: "(int \<times> 'a vcpu_scheme) option"
    by (cases res) auto
  show ?thesis
    unfolding kkm_process_intr_def Let_def n_def [symmetric] no_exit_def [symmetric] count trap_class_def
    using n by (simp add: run_class_def n_def [symmetric])
qed

text \<open>Every dispatch is a call of a handler that keeps the contract.\<close>

lemma run_class_handler:
  assumes "run_class E c s = Some (r, s')"
  obtains h where "trap_handler h E" "h s = (r, s')"
proof (cases c)
  case Trap_nmi
  have "trap_handler (\<lambda>s. (0, s)) E" by unfold_locales auto
  then show thesis using that Trap_nmi assms by (auto simp: run_class_def)
next
  case Trap_forward
  with assms show thesis
    using that [OF forwarding.trap_handler_axioms [where n = "ga_intr_no (vc_ga s)"]]
    by (auto simp: run_class_def)
next
  case Trap_without_error
  then show thesis using that [OF without_error.trap_handler_axioms] assms by (simp add: run_class_def)
next
  case Trap_with_error
  then show thesis using that [OF with_error.trap_handler_axioms] assms by (simp add: run_class_def)
next
  case Trap_debug
  then show thesis using that [OF debug_exit.trap_handler_axioms] assms by (simp add: run_class_def)
next
  case Trap_breakpoint
  then show thesis using that [OF breakpoint.trap_handler_axioms] assms by (simp add: run_class_def)
next
  case Trap_general_protection
  then show thesis using that [OF general_protection.trap_handler_axioms] assms by (simp add: run_class_def)
next
  case Trap_page_fault
  then show thesis using that [OF page_fault.trap_handler_axioms] assms by (simp add: run_class_def)
next
  case Trap_syscall
  then show thesis using that [OF syscall.trap_handler_axioms] assms by (simp add: run_class_def)
qed

lemma process_intr_contract:
  assumes "kkm_process_intr E s = Some (r, s')"
  shows "r = 0 \<or> r = KKM_KONTEXT_FAULT_PROCESS_DONE \<or> r = - EFAULT" "config s' = config s"
    "outstanding E (klog s') = outstanding E (klog s)" "r \<noteq> 0 \<Longrightarrow> debts s' = debts s"
    "history s' = history s" "tlb (klog s') = tlb (klog s)" "r = KKM_KONTEXT_FAULT_PROCESS_DONE \<Longrightarrow> exit_reason (vc_run s') = exit_code KKM_EXIT_UNKNOWN"
proof -
  obtain s1 where run: "run_class E (trap_class (ga_intr_no (vc_ga s))) (no_exit s) = Some (r, s1)"
    and s': "s' = kkm_statistics_intr_count_inc s1"
    using assms by (auto simp: process_intr_dispatch)
  from run obtain h where "trap_handler h E" and h: "h (no_exit s) = (r, s1)"
    by (rule run_class_handler)
  note c = trap_handler.result [OF this] trap_handler.keeps_config [OF this]
    trap_handler.keeps_blocks [OF this] trap_handler.no_debt [OF this] trap_handler.keeps_history [OF this] trap_handler.keeps_tlb [OF this]
    trap_handler.resumes_silently [OF this]
  show "r = 0 \<or> r = KKM_KONTEXT_FAULT_PROCESS_DONE \<or> r = - EFAULT" "config s' = config s"
    "outstanding E (klog s') = outstanding E (klog s)" "r \<noteq> 0 \<Longrightarrow> debts s' = debts s"
    "history s' = history s" "tlb (klog s') = tlb (klog s)" "r = KKM_KONTEXT_FAULT_PROCESS_DONE \<Longrightarrow> exit_reason (vc_run s') = exit_code KKM_EXIT_UNKNOWN"
    using c by (simp_all add: s' kkm_statistics_defs)
qed

text \<open>The interrupt numbers the entry stubs produce are all handled.\<close>

lemma process_intr_defined:
  assumes "stub_pushes st hw = Some (ga_intr_no (vc_ga s), e)" "\<And>k. st = Intr_entry k \<Longrightarrow> k < NR_VECTORS"
  shows "kkm_process_intr E s \<noteq> None"
proof -
  have "unat (ga_intr_no (vc_ga s)) < NR_VECTORS \<or> ga_intr_no (vc_ga s) = KKM_INTR_SYSCALL"
    by (rule stub_number_range [OF assms])
  then show ?thesis
    by (auto simp: process_intr_dispatch run_class_def trap_class_def forward_native_def ktime_get_ns_def)
qed


subsection \<open>What the handlers deliver\<close>

lemma on_regs_sel [simp]:
  "ga_regs (vc_ga (on_regs f v)) = f (ga_regs (vc_ga v))"
  "ga_sregs (vc_ga (on_regs f v)) = ga_sregs (vc_ga v)"
  "ga_trap_info (vc_ga (on_regs f v)) = ga_trap_info (vc_ga v)"
  "ga_intr_no (vc_ga (on_regs f v)) = ga_intr_no (vc_ga v)"
  by (simp_all add: on_regs_def)

lemma mem_store_disjoint:
  assumes "n \<le> unat (b - a)" "length bs \<le> unat (a - b)" "i < n"
  shows "mem_store b bs m (a + of_nat i) = m (a + of_nat i)"
proof (cases "a = b")
  case True
  with assms show ?thesis by (simp add: mem_store_def)
next
  case False
  have i: "unat (of_nat i :: u64) = i"
  proof -
    have "unat (b - a) < 2 ^ 64" using unsigned_less [of "b - a"] by simp
    then have "i < 2 ^ 64" using assms(1,3) by simp
    then show ?thesis by (simp only: unsigned_of_nat) (simp add: take_bit_eq_mod)
  qed
  have sum: "unat (b - a) + unat (a - b) = 2 ^ 64"
  proof -
    have "(unat (b - a) + unat (a - b)) mod 2 ^ 64 = unat ((b - a) + (a - b))"
      by (simp only: unat_word_ariths) simp
    then have "2 ^ 64 dvd unat (b - a) + unat (a - b)"
      by (simp add: mod_eq_0_iff_dvd)
    moreover have "0 < unat (a - b)" using False by (simp add: unat_gt_0)
    moreover have "unat (b - a) < 2 ^ 64" "unat (a - b) < 2 ^ 64"
      using unsigned_less [of "b - a"] unsigned_less [of "a - b"] by simp_all
    ultimately show ?thesis by (auto elim!: dvdE)
  qed
  have "unat ((a - b) + of_nat i) = unat (a - b) + i"
    using assms(1,3) sum by (simp add: unat_word_ariths i)
  then have "length bs \<le> unat (a + of_nat i - b)"
    using assms(2) by (simp add: algebra_simps)
  then show ?thesis by (simp add: mem_store_other)
qed

lemma load_words_disjoint:
  assumes "8 * n \<le> unat (b - a)" "length bs \<le> unat (a - b)"
  shows "load_words (mem_store b bs m) a n = load_words m a n"
proof -
  have "mem_load (mem_store b bs m) (a + 8 * of_nat i) 8 = mem_load m (a + 8 * of_nat i) 8" if "i < n" for i
  proof (rule nth_equalityI)
    fix j assume "j < length (mem_load (mem_store b bs m) (a + 8 * of_nat i) 8)"
    then have j: "j < 8" by simp
    with that have "8 * i + j < 8 * n" by simp
    from mem_store_disjoint [OF assms this, of m]
    have "mem_store b bs m (a + 8 * of_nat i + of_nat j) = m (a + 8 * of_nat i + of_nat j)"
      by (simp add: add.assoc)
    with j show "mem_load (mem_store b bs m) (a + 8 * of_nat i) 8 ! j = mem_load m (a + 8 * of_nat i) 8 ! j"
      by simp
  qed simp
  then show ?thesis by (simp add: load_words_def)
qed

lemma translate_frame [simp]:
  "kkm_guest_va_to_monitor_va (on_regs f v) a = kkm_guest_va_to_monitor_va v a"
  "kkm_guest_va_to_monitor_va (kkm_setup_hypercall port addr reason v) a = kkm_guest_va_to_monitor_va v a"
  "kkm_guest_va_to_monitor_va (page_fault_entry v) a = kkm_guest_va_to_monitor_va v a"
  "kkm_guest_va_to_monitor_va (no_exit v) a = kkm_guest_va_to_monitor_va v a"
  by (rule translate_state; simp)+

lemma translate_copy:
  assumes "copy_to_user E d bs v = (l, v')"
  shows "kkm_guest_va_to_monitor_va v' a = kkm_guest_va_to_monitor_va v a"
  using same_more_vm [OF copy_to_user_frame(4) [OF assms]] by (rule translate_state)

lemma copy_to_user_all:
  assumes "copy_to_user E d bs v = (0, v')"
  shows "um v' = mem_store d bs (um v)"
  using copy_to_user_state [OF assms] by simp

lemma syscall_ok:
  assumes h: "kkm_process_syscall E s = (0, s')"
    and gva: "gva = rsp (ga_regs (vc_ga s)) - KKM_ABI_REDZONE - 56"
  obtains mva ind p q where
    "kkm_guest_va_to_monitor_va s gva = (True, mva, p)"
    "kkm_guest_va_to_monitor_va s (seg_base (sr_gs (ga_sregs (vc_ga s)))) = (True, ind, q)"
    "um s' = mem_store ind (words_bytes [gva])
      (mem_store mva (words_bytes [0, rdi (ga_regs (vc_ga s)), rsi (ga_regs (vc_ga s)), rdx (ga_regs (vc_ga s)),
         r10 (ga_regs (vc_ga s)), r8 (ga_regs (vc_ga s)), r9 (ga_regs (vc_ga s))]) (um s))"
    "ga_regs (vc_ga s') = (ga_regs (vc_ga s))\<lparr>rsp := gva, rax := gva\<rparr>"
    "vc_kontext s' = (vc_kontext s)\<lparr>kn_syscall_pending := True, kn_ret_val_mva := mva\<rparr>"
    "vc_pa s' = \<lparr>pa_data = ucast gva, pa_reason = fault_reason_code FAULT_SYSCALL\<rparr>"
    "exit_reason (vc_run s') = exit_code KKM_EXIT_IO"
    "io_port (run_io (vc_run s')) = ucast (rax (ga_regs (vc_ga s))) OR KKM_HYPERCALL_IO_PORT_BASE"
proof -
  let ?g = "rsp (ga_regs (vc_ga s)) - 184"
  define s2 where "s2 = kkm_setup_hypercall (ucast (rax (ga_regs (vc_ga s)))) (ucast ?g) FAULT_SYSCALL
     (on_regs (\<lambda>r. r\<lparr>rsp := rsp r - 184\<rparr>) s)"
  let ?r = "ga_regs (vc_ga s)"
  let ?args = "words_bytes [0, rdi ?r, rsi ?r, rdx ?r, r10 ?r, r8 ?r, r9 ?r]"
  have g: "gva = ?g" by (simp add: gva)
  obtain ok mva p where t1: "kkm_guest_va_to_monitor_va s ?g = (ok, mva, p)"
    by (rule prod_cases3)
  obtain l1 s3 where c1: "copy_to_user E mva ?args s2 = (l1, s3)"
    by (rule prod.exhaust)
  note m3 = same_more_vcpu [OF copy_to_user_frame(4) [OF c1]]
  have gs: "seg_base (sr_gs (ga_sregs (vc_ga s3))) = seg_base (sr_gs (ga_sregs (vc_ga s)))"
    unfolding m3 by (simp add: s2_def)
  have ts3: "kkm_guest_va_to_monitor_va s3 a = kkm_guest_va_to_monitor_va s a" for a
    by (simp add: translate_copy [OF c1] s2_def)
  obtain ok2 ind q where t2: "kkm_guest_va_to_monitor_va s (seg_base (sr_gs (ga_sregs (vc_ga s)))) = (ok2, ind, q)"
    by (rule prod_cases3)
  obtain l2 s4 where c2: "copy_to_user E ind (words_bytes [?g]) s3 = (l2, s4)"
    by (rule prod.exhaust)
  note m4 = same_more_vcpu [OF copy_to_user_frame(4) [OF c2]]
  have "ok \<and> l1 = 0 \<and> ok2 \<and> l2 = 0 \<and> s' = on_regs (\<lambda>r. r\<lparr>rax := ?g\<rparr>)
      (s4\<lparr>vc_kontext := (vc_kontext s4)\<lparr>kn_syscall_pending := True, kn_ret_val_mva := mva\<rparr>\<rparr>)"
    using h by (simp add: kkm_process_syscall_def Let_def hc_args_words_def t1 t2 c1 [unfolded s2_def] ts3 gs c2
        split: if_splits)
  then have done_: ok "l1 = 0" ok2 "l2 = 0" and s': "s' = on_regs (\<lambda>r. r\<lparr>rax := ?g\<rparr>)
      (s4\<lparr>vc_kontext := (vc_kontext s4)\<lparr>kn_syscall_pending := True, kn_ret_val_mva := mva\<rparr>\<rparr>)"
    by blast+
  note t1 = t1 [simplified done_, simplified] and c1 = c1 [unfolded done_]
    and t2 = t2 [simplified done_, simplified] and c2 = c2 [unfolded done_]
  show thesis
  proof (rule that [unfolded g, OF t1 t2])
    show "um s' = mem_store ind (words_bytes [?g]) (mem_store mva ?args (um s))"
      using copy_to_user_all [OF c1] copy_to_user_all [OF c2] by (simp add: s' s2_def)
    show "ga_regs (vc_ga s') = ?r\<lparr>rsp := ?g, rax := ?g\<rparr>"
      "vc_pa s' = \<lparr>pa_data = ucast ?g, pa_reason = fault_reason_code FAULT_SYSCALL\<rparr>"
      "exit_reason (vc_run s') = exit_code KKM_EXIT_IO"
      "io_port (run_io (vc_run s')) = ucast (rax (ga_regs (vc_ga s))) OR KKM_HYPERCALL_IO_PORT_BASE"
      by (simp_all add: s' m3 m4 s2_def on_regs_def kkm_setup_hypercall_def gva)
    show "vc_kontext s' = (vc_kontext s)\<lparr>kn_syscall_pending := True, kn_ret_val_mva := mva\<rparr>"
      by (simp add: s' m3 m4 s2_def)
  qed
qed

lemma syscall_arguments:
  assumes "kkm_process_syscall E s = (0, s')"
    and gva: "gva = rsp (ga_regs (vc_ga s)) - KKM_ABI_REDZONE - 56"
    and mva: "mva = fst (snd (kkm_guest_va_to_monitor_va s gva))"
    and ind: "ind = fst (snd (kkm_guest_va_to_monitor_va s (seg_base (sr_gs (ga_sregs (vc_ga s))))))"
    and apart: "56 \<le> unat (ind - mva)" "8 \<le> unat (mva - ind)"
  shows "load_words (um s') mva 7 = [0, rdi (ga_regs (vc_ga s)), rsi (ga_regs (vc_ga s)),
           rdx (ga_regs (vc_ga s)), r10 (ga_regs (vc_ga s)), r8 (ga_regs (vc_ga s)), r9 (ga_regs (vc_ga s))]"
    and "load_words (um s') ind 1 = [gva]"
    and "kn_ret_val_mva (vc_kontext s') = mva"
proof -
  obtain p q where t: "kkm_guest_va_to_monitor_va s gva = (True, mva, p)"
      "kkm_guest_va_to_monitor_va s (seg_base (sr_gs (ga_sregs (vc_ga s)))) = (True, ind, q)"
    and u: "um s' = mem_store ind (words_bytes [gva])
      (mem_store mva (words_bytes [0, rdi (ga_regs (vc_ga s)), rsi (ga_regs (vc_ga s)), rdx (ga_regs (vc_ga s)),
         r10 (ga_regs (vc_ga s)), r8 (ga_regs (vc_ga s)), r9 (ga_regs (vc_ga s))]) (um s))"
    and k: "kn_ret_val_mva (vc_kontext s') = mva"
    by (rule syscall_ok [OF assms(1) gva]) (auto simp: mva ind)
  show "load_words (um s') mva 7 = [0, rdi (ga_regs (vc_ga s)), rsi (ga_regs (vc_ga s)),
           rdx (ga_regs (vc_ga s)), r10 (ga_regs (vc_ga s)), r8 (ga_regs (vc_ga s)), r9 (ga_regs (vc_ga s))]"
  proof -
    define ws where "ws = [0, rdi (ga_regs (vc_ga s)), rsi (ga_regs (vc_ga s)),
           rdx (ga_regs (vc_ga s)), r10 (ga_regs (vc_ga s)), r8 (ga_regs (vc_ga s)), r9 (ga_regs (vc_ga s))]"
    have "length ws = 7" by (simp add: ws_def)
    then have "load_words (um s') mva 7 = ws"
      using load_store_words [of ws mva "um s"] apart by (simp add: u ws_def [symmetric] load_words_disjoint)
    then show ?thesis by (simp add: ws_def)
  qed
  show "load_words (um s') ind 1 = [gva]"
    unfolding u using load_store_words [of "[gva]"] by simp
  show "kn_ret_val_mva (vc_kontext s') = mva" by (rule k)
qed

lemma post_exception_simps:
  "ga_regs (vc_ga (post_exception gva v)) = (ga_regs (vc_ga v))\<lparr>rax := gva, rbx := ga_intr_no (vc_ga v)\<rparr>"
  "vc_kontext (post_exception gva v) = (vc_kontext v)\<lparr>kn_exception_posted := True,
     kn_exception_saved_rax := rax (ga_regs (vc_ga v)), kn_exception_saved_rbx := rbx (ga_regs (vc_ga v))\<rparr>"
  "vc_pa (post_exception gva v) = \<lparr>pa_data = ucast (rsp (ga_regs (vc_ga v))), pa_reason = fault_reason_code FAULT_UNKNOWN\<rparr>"
  "exit_reason (vc_run (post_exception gva v)) = exit_code KKM_EXIT_IO"
  "io_port (run_io (vc_run (post_exception gva v))) = KKM_EXCEPTION_IO_PORT"
  by (simp_all add: post_exception_def on_regs_def kkm_setup_hypercall_def Let_def)

text \<open>An exception that was posted: the frame the monitor finds, and what the kontext owes.\<close>

lemma exception_delivery:
  assumes c: "copy_to_user E mva (words_bytes ws) (on_regs (\<lambda>r. r\<lparr>rsp := gva\<rparr>) s) = (0, s2)"
    and s': "s' = post_exception gva s2" and n: "8 * length ws \<le> 2 ^ 64"
  shows "load_words (um s') mva (length ws) = ws"
    and "ga_regs (vc_ga s') = (ga_regs (vc_ga s))\<lparr>rsp := gva, rax := gva, rbx := ga_intr_no (vc_ga s)\<rparr>"
    and "vc_kontext s' = (vc_kontext s)\<lparr>kn_exception_posted := True,
           kn_exception_saved_rax := rax (ga_regs (vc_ga s)), kn_exception_saved_rbx := rbx (ga_regs (vc_ga s))\<rparr>"
    and "vc_pa s' = \<lparr>pa_data = ucast gva, pa_reason = fault_reason_code FAULT_UNKNOWN\<rparr>"
    and "exit_reason (vc_run s') = exit_code KKM_EXIT_IO"
    and "io_port (run_io (vc_run s')) = KKM_EXCEPTION_IO_PORT"
proof -
  note m = same_more_vcpu [OF copy_to_user_frame(4) [OF c]]
  show "load_words (um s') mva (length ws) = ws"
    using copy_to_user_words [OF c n] by (simp add: s')
  show "ga_regs (vc_ga s') = (ga_regs (vc_ga s))\<lparr>rsp := gva, rax := gva, rbx := ga_intr_no (vc_ga s)\<rparr>"
    "vc_kontext s' = (vc_kontext s)\<lparr>kn_exception_posted := True,
           kn_exception_saved_rax := rax (ga_regs (vc_ga s)), kn_exception_saved_rbx := rbx (ga_regs (vc_ga s))\<rparr>"
    "vc_pa s' = \<lparr>pa_data = ucast gva, pa_reason = fault_reason_code FAULT_UNKNOWN\<rparr>"
    "exit_reason (vc_run s') = exit_code KKM_EXIT_IO"
    "io_port (run_io (vc_run s')) = KKM_EXCEPTION_IO_PORT"
    by (simp_all add: s' post_exception_simps m)
qed

lemma on_regs_rsp: "on_regs (\<lambda>r. r\<lparr>rsp := rsp r - k\<rparr>) s = on_regs (\<lambda>r. r\<lparr>rsp := rsp (ga_regs (vc_ga s)) - k\<rparr>) s"
  by (simp add: on_regs_def)

lemma without_error_ok:
  assumes h: "kkm_process_common_without_error E s = (0, s')"
    and gva: "gva = rsp (ga_regs (vc_ga s)) - 64"
  obtains mva p s2 where "kkm_guest_va_to_monitor_va s gva = (True, mva, p)"
    "copy_to_user E mva (words_bytes [rax (ga_regs (vc_ga s)), rbx (ga_regs (vc_ga s)), rdx (ga_regs (vc_ga s)),
       ti_rip (ga_trap_info (vc_ga s)), ti_cs (ga_trap_info (vc_ga s)), ti_rflags (ga_trap_info (vc_ga s)),
       ti_rsp (ga_trap_info (vc_ga s)), ti_ss (ga_trap_info (vc_ga s))])
       (on_regs (\<lambda>r. r\<lparr>rsp := gva\<rparr>) s) = (0, s2)"
    "s' = post_exception gva s2"
  using h unfolding gva kkm_process_common_without_error_def Let_def no_error_code_words_def
  by (subst (asm) (1 2) on_regs_rsp) (auto split: prod.splits if_splits)

lemma with_error_ok:
  assumes h: "kkm_process_common_with_error E s = (0, s')"
    and gva: "gva = rsp (ga_regs (vc_ga s)) - 72"
  obtains mva p s2 where "kkm_guest_va_to_monitor_va s gva = (True, mva, p)"
    "copy_to_user E mva (words_bytes [rax (ga_regs (vc_ga s)), rbx (ga_regs (vc_ga s)), rdx (ga_regs (vc_ga s)),
       ti_error (ga_trap_info (vc_ga s)), ti_rip (ga_trap_info (vc_ga s)), ti_cs (ga_trap_info (vc_ga s)),
       ti_rflags (ga_trap_info (vc_ga s)), ti_rsp (ga_trap_info (vc_ga s)), ti_ss (ga_trap_info (vc_ga s))])
       (on_regs (\<lambda>r. r\<lparr>rsp := gva\<rparr>) s) = (0, s2)"
    "s' = post_exception gva s2"
  using h unfolding gva kkm_process_common_with_error_def Let_def with_error_code_words_def
  by (subst (asm) (1 2) on_regs_rsp) (auto split: prod.splits if_splits)

text \<open>The page-fault handler touches the monitor's memory without changing it.\<close>

lemma store_loaded: "k \<le> n \<Longrightarrow> mem_store a (take k (mem_load m a n)) m = m"
proof (rule ext)
  fix x assume "k \<le> n"
  then have "take k (mem_load m a n) = mem_load m a k"
    by (intro nth_equalityI) simp_all
  then show "mem_store a (take k (mem_load m a n)) m x = m x"
    by (simp add: mem_store_load_same)
qed

lemma set_decode_take: "take (length bs) (ga_instruction_decode (vc_ga (set_decode bs v))) = bs"
  by (simp add: set_decode_def)

lemma page_fault_locked_memory:
  assumes "page_fault_locked E s = (r, s')"
  shows "um s' = um s"
proof -
  have F: "um (snd (kkm_mmu_update_priv_area E a m pgd kmu v)) = um v" for a m pgd kmu and v :: "'a vcpu_scheme"
    using update_priv_area_state [of E a m pgd kmu v] by (auto simp: kkm_mmu_set_entry_def)
  have T: "um (kkm_mmu_flush_tlb_one_page a v) = um v" for a and v :: "'a vcpu_scheme"
    by (simp add: kkm_mmu_flush_tlb_one_page_def)
  have W: "um v' = um u"
    if w: "copy_to_user E a (take (Suc 0) (ga_instruction_decode (vc_ga (set_decode bs v)))) (set_decode bs v) = (l', v')"
      and r: "copy_from_user E a (Suc 0) u = (0, bs, v)" for a bs l' and v v' u :: "'a vcpu_scheme"
  proof -
    have bs: "bs = mem_load (um u) a (Suc 0)" by (rule copy_from_user_ok [OF r])
    then have tk: "take (Suc 0) (ga_instruction_decode (vc_ga (set_decode bs v))) = bs"
      using set_decode_take [of bs v] by simp
    show ?thesis
      using copy_to_user_state [OF w [unfolded tk]] copy_from_user_frame(1) [OF r] by (simp add: bs store_loaded)
  qed
  note a = assms [unfolded page_fault_locked_def Let_def]
  show ?thesis
    using a by (auto simp: F T dest: W copy_from_user_frame(1) split: prod.splits if_splits)
qed

lemma page_fault_memory:
  assumes "kkm_process_page_fault E s = (r, s')"
  shows "um s' = um s"
  using assms by (cases rule: page_fault_cases) (auto dest: page_fault_locked_memory)

lemma walk_tables_kmem: "kmem v = kmem s \<Longrightarrow> walk_tables E is t v = walk_tables E is t s"
  by (induction "is" arbitrary: t) (simp_all add: read_entry_def Let_def)

lemma update_priv_area_kmem:
  assumes "kmem v = kmem s"
  shows "kmem (snd (kkm_mmu_update_priv_area E a m pgd kmu v)) = kmem (snd (kkm_mmu_update_priv_area E a m pgd kmu s))"
  using walk_tables_kmem [OF assms] assms
  by (cases "walk_tables E (walk_levels E m) pgd s")
    (simp_all add: update_priv_area_walks kkm_mmu_set_entry_def read_entry_def)

text \<open>What a resolved page fault has done.\<close>

lemma page_fault_locked_resolved:
  assumes "page_fault_locked E s = (KKM_KONTEXT_FAULT_PROCESS_DONE, s')"
    and a: "a = cr2 (ga_sregs (vc_ga s))"
  obtains m priv where "ti_error (ga_trap_info (vc_ga s)) AND X86_PF_USER = X86_PF_USER"
    "kkm_guest_va_to_monitor_va s a = (True, m, priv)"
    "kmem s' = (if priv then kmem (snd (kkm_mmu_update_priv_area E a m
        (lx_pgd_of_mm E (km_mm (vm_kkm s))) (km_guest_pml4e (vm_kkm s)) s)) else kmem s)"
    "cr2 (ga_sregs (vc_ga s')) = 0"
    "kkm_cpu_full_tlb_flush s \<or>
       (Ev_invpcid_one GUEST_PAYLOAD_PCID a \<in> set (klog s') \<and> Ev_invpcid_one GUEST_KERNEL_PCID a \<in> set (klog s'))"
proof -
  obtain ok m priv where t: "kkm_guest_va_to_monitor_va s a = (ok, m, priv)" by (rule prod_cases3)
  obtain l1 bs s1 where c1: "copy_from_user E m 1 s = (l1, bs, s1)" by (rule prod_cases3)
  define s2 where "s2 = set_decode bs s1"
  obtain l2 s3 where c2: "(if ti_error (ga_trap_info (vc_ga s)) AND X86_PF_WRITE = X86_PF_WRITE
                      then copy_to_user E m (take 1 (ga_instruction_decode (vc_ga s2))) s2
                      else (0, s2)) = (l2, s3)" by (rule prod.exhaust)
  define s4 where "s4 = (if priv then snd (kkm_mmu_update_priv_area E a m
                 (lx_pgd_of_mm E (km_mm (vm_kkm s3))) (km_guest_pml4e (vm_kkm s3)) s3) else s3)"
  define s5 where "s5 = (if kkm_cpu_full_tlb_flush s4 = False then kkm_mmu_flush_tlb_one_page a s4 else s4)"
  have all: "ok \<and> ti_error (ga_trap_info (vc_ga s)) AND X86_PF_USER = X86_PF_USER \<and> l1 = 0 \<and> l2 = 0 \<and>
      s' = s5\<lparr>vc_ga := (vc_ga s5)\<lparr>ga_sregs := (ga_sregs (vc_ga s5))\<lparr>cr2 := 0\<rparr>\<rparr>\<rparr>"
  proof (cases "ti_error (ga_trap_info (vc_ga s)) AND X86_PF_WRITE = X86_PF_WRITE")
    case True
    then have "copy_to_user E m (take 1 (ga_instruction_decode (vc_ga s2))) s2 = (l2, s3)" using c2 by simp
    then show ?thesis
      using assms(1) True unfolding page_fault_locked_def Let_def a [symmetric] s4_def s5_def
      by (simp only: t c1 s2_def [symmetric] prod.case if_True) (simp split: if_splits)
  next
    case False
    then have "l2 = 0" "s3 = s2" using c2 by auto
    then show ?thesis
      using assms(1) False unfolding page_fault_locked_def Let_def a [symmetric] s4_def s5_def
      by (simp only: t c1 s2_def [symmetric] prod.case if_False) (simp split: if_splits)
  qed
  have mem1: "kmem s1 = kmem s" "config s1 = config s"
    using copy_from_user_frame(2) [OF c1] config_copy_from_user [OF c1] by simp_all
  then have mem2: "kmem s2 = kmem s" "config s2 = config s"
    by (simp_all add: s2_def set_decode_def)
  have mem3: "kmem s3 = kmem s" "config s3 = config s"
    using c2 mem2 by (auto dest: copy_to_user_frame(1) config_copy_to_user split: if_splits)
  then have vm3: "vm_kkm s3 = vm_kkm s" "kkm_cpu_full_tlb_flush s3 = kkm_cpu_full_tlb_flush s"
    by (simp_all add: config_def)
  have c4: "config s4 = config s" using mem3 by (simp add: s4_def)
  then have f4: "kkm_cpu_full_tlb_flush s4 = kkm_cpu_full_tlb_flush s" by (simp add: config_def)
  show thesis
  proof (rule that [of m priv])
    show "ti_error (ga_trap_info (vc_ga s)) AND X86_PF_USER = X86_PF_USER" using all by blast
    show "kkm_guest_va_to_monitor_va s a = (True, m, priv)" using all t by simp
    have "kmem s' = kmem s4" using all by (simp add: s5_def kkm_mmu_flush_tlb_one_page_def)
    also have "\<dots> = (if priv then kmem (snd (kkm_mmu_update_priv_area E a m
        (lx_pgd_of_mm E (km_mm (vm_kkm s))) (km_guest_pml4e (vm_kkm s)) s)) else kmem s)"
      using mem3 by (simp add: s4_def vm3 update_priv_area_kmem [OF mem3(1)])
    finally show "kmem s' = (if priv then kmem (snd (kkm_mmu_update_priv_area E a m
        (lx_pgd_of_mm E (km_mm (vm_kkm s))) (km_guest_pml4e (vm_kkm s)) s)) else kmem s)" .
    show "cr2 (ga_sregs (vc_ga s')) = 0" using all by simp
    show "kkm_cpu_full_tlb_flush s \<or>
       (Ev_invpcid_one GUEST_PAYLOAD_PCID a \<in> set (klog s') \<and> Ev_invpcid_one GUEST_KERNEL_PCID a \<in> set (klog s'))"
      using all by (simp add: s5_def f4 kkm_mmu_flush_tlb_one_page_def)
  qed
qed

lemma page_fault_resolved:
  assumes h: "kkm_process_page_fault E s = (KKM_KONTEXT_FAULT_PROCESS_DONE, s')"
    and a: "a = cr2 (ga_sregs (vc_ga s))"
  obtains m priv where "ti_error (ga_trap_info (vc_ga s)) AND X86_PF_USER = X86_PF_USER"
    "kkm_guest_va_to_monitor_va s a = (True, m, priv)"
    "kmem s' = (if priv then kmem (snd (kkm_mmu_update_priv_area E a m
        (lx_pgd_of_mm E (km_mm (vm_kkm s))) (km_guest_pml4e (vm_kkm s)) s)) else kmem s)"
    "cr2 (ga_sregs (vc_ga s')) = 0"
    "kkm_cpu_full_tlb_flush s \<or>
       (Ev_invpcid_one GUEST_PAYLOAD_PCID a \<in> set (klog s') \<and> Ev_invpcid_one GUEST_KERNEL_PCID a \<in> set (klog s'))"
proof -
  from h obtain s4 g where l: "page_fault_locked E (page_fault_entry s) = (KKM_KONTEXT_FAULT_PROCESS_DONE, s4)"
    and s': "s' = on_stat g (kcall Ev_ktime (kcall (Ev_mutex_unlock Pf_lock) s4))"
    by (rule page_fault_cases)
  have a': "a = cr2 (ga_sregs (vc_ga (page_fault_entry s)))" by (simp add: a)
  show thesis
    by (rule page_fault_locked_resolved [OF l a'], rule that)
      (auto simp: s' update_priv_area_kmem [of "page_fault_entry s" s, simplified])
qed

text \<open>A hypercall: only the one-byte \<open>out\<close> instruction is accepted, and it is stepped over.\<close>

lemma general_protection_ok:
  assumes h: "kkm_process_general_protection E s = (0, s')"
  obtains m p where "kkm_guest_va_to_monitor_va s (ti_rip (ga_trap_info (vc_ga s))) = (True, m, p)"
    "um s m = KKM_OUT_OPCODE" "um s' = um s"
    "ga_regs (vc_ga s') = (ga_regs (vc_ga s))\<lparr>rip := rip (ga_regs (vc_ga s)) + 1\<rparr>"
    "vc_pa s' = \<lparr>pa_data = ucast (rax (ga_regs (vc_ga s))), pa_reason = fault_reason_code FAULT_HYPER_CALL\<rparr>"
    "exit_reason (vc_run s') = exit_code KKM_EXIT_IO"
    "io_port (run_io (vc_run s')) = ucast (rdx (ga_regs (vc_ga s))) OR KKM_HYPERCALL_IO_PORT_BASE"
proof -
  obtain ok m p where t: "kkm_guest_va_to_monitor_va s (ti_rip (ga_trap_info (vc_ga s))) = (ok, m, p)"
    by (rule prod_cases3)
  obtain l bs s1 where c: "copy_from_user E m 1 s = (l, bs, s1)" by (rule prod_cases3)
  note ga1 = same_more_vcpu(2) [OF copy_from_user_frame(5) [OF c]]
  have all: "ok \<and> l = 0 \<and> ga_instruction_decode (vc_ga (set_decode bs s1)) ! 0 = KKM_OUT_OPCODE \<and>
     s' = kkm_statistics_system_call_count_inc (on_regs (\<lambda>r. r\<lparr>rip := rip r + 1\<rparr>)
       (kkm_setup_hypercall (ucast (rdx (ga_regs (vc_ga s)))) (ucast (rax (ga_regs (vc_ga s))))
          FAULT_HYPER_CALL (set_decode bs s1)))"
    using h by (simp add: kkm_process_general_protection_def Let_def t c [simplified] split: if_splits)
      (simp add: set_decode_def ga1)
  have bs: "bs = [um s m]"
    using copy_from_user_ok [of E m 1 s bs s1] c all by (simp add: mem_load_def)
  have ga: "ga_regs (vc_ga (set_decode bs s1)) = ga_regs (vc_ga s)"
    by (simp add: set_decode_def ga1)
  show thesis
  proof (rule that [of m p])
    show "kkm_guest_va_to_monitor_va s (ti_rip (ga_trap_info (vc_ga s))) = (True, m, p)" using t all by simp
    show "um s m = KKM_OUT_OPCODE" using all by (simp add: bs set_decode_def)
    show "um s' = um s" using all copy_from_user_frame(1) [OF c] by (simp add: kkm_statistics_defs)
    show "ga_regs (vc_ga s') = (ga_regs (vc_ga s))\<lparr>rip := rip (ga_regs (vc_ga s)) + 1\<rparr>"
      using all ga by (simp add: kkm_statistics_defs)
    show "vc_pa s' = \<lparr>pa_data = ucast (rax (ga_regs (vc_ga s))), pa_reason = fault_reason_code FAULT_HYPER_CALL\<rparr>"
      "exit_reason (vc_run s') = exit_code KKM_EXIT_IO"
      "io_port (run_io (vc_run s')) = ucast (rdx (ga_regs (vc_ga s))) OR KKM_HYPERCALL_IO_PORT_BASE"
      using all by (simp_all add: kkm_statistics_defs on_regs_def kkm_setup_hypercall_def)
  qed
qed


subsection \<open>Properties\<close>

lemma example_syscall: "fst (kkm_process_syscall example_linux example_vcpu) = 0"
  by (simp add: kkm_process_syscall_def copy_to_user_def translate_low example_ga_def zero_regs_def zero_sregs_def
      zero_segment_def zero_guest_area_def kkm_consts Let_def)

text \<open>C25 The contract of \<open>kkm_process_intr\<close>: whatever the trap, it answers 0, \<open>KKM_KONTEXT_FAULT_PROCESS_DONE\<close> or
  \<open>-EFAULT\<close>; it leaves the host, the kontainer and the ledger of pages alone; only a return to the monitor
  may leave a pending system call or a posted exception; and when the payload is resumed no exit reason is
  left for the monitor.\<close>

theorem process_intr_answers:
  assumes "kkm_process_intr E s = Some (r, s')"
  shows "(r = 0 \<or> r = KKM_KONTEXT_FAULT_PROCESS_DONE \<or> r = - EFAULT) \<and> config s' = config s \<and>
    outstanding E (klog s') = outstanding E (klog s) \<and> (r \<noteq> 0 \<longrightarrow> debts s' = debts s) \<and>
    (r = KKM_KONTEXT_FAULT_PROCESS_DONE \<longrightarrow> exit_reason (vc_run s') = exit_code KKM_EXIT_UNKNOWN)"
  using process_intr_contract [OF assms] by blast

theorem process_intr_answers_witness:
  "\<exists>s'. kkm_process_intr example_linux example_vcpu = Some (0, s') \<and> config s' = config example_vcpu \<and>
     outstanding example_linux (klog s') = outstanding example_linux (klog example_vcpu)"
proof -
  have n: "trap_class (ga_intr_no (vc_ga example_vcpu)) = Trap_syscall"
    by (simp add: trap_class_def example_ga_def zero_guest_area_def)
  have e: "fst (kkm_process_syscall example_linux (no_exit example_vcpu)) = 0"
    by (simp add: kkm_process_syscall_def copy_to_user_def translate_low example_ga_def zero_regs_def zero_sregs_def
      zero_segment_def zero_guest_area_def kkm_consts Let_def)
  then obtain s1 where "kkm_process_syscall example_linux (no_exit example_vcpu) = (0, s1)"
    by (metis prod.collapse)
  then have "kkm_process_intr example_linux example_vcpu = Some (0, kkm_statistics_intr_count_inc s1)"
    by (simp only: process_intr_dispatch n run_class_def trap_class.case option.map prod.case)
  with process_intr_answers [OF this] show ?thesis by blast
qed

text \<open>C27 A system call: the monitor finds, at the address it is told and through the pointer at the
  payload's \<open>gs\<close> base, the result slot followed by the six arguments in the order of the Linux system
  call convention, and the kontext remembers where the result will be.\<close>

theorem syscall_arguments_delivered:
  assumes "kkm_process_syscall E s = (0, s')"
    and "gva = rsp (ga_regs (vc_ga s)) - KKM_ABI_REDZONE - 56"
    and "mva = fst (snd (kkm_guest_va_to_monitor_va s gva))"
    and "ind = fst (snd (kkm_guest_va_to_monitor_va s (seg_base (sr_gs (ga_sregs (vc_ga s))))))"
    and "56 \<le> unat (ind - mva)" "8 \<le> unat (mva - ind)"
  shows "load_words (um s') mva 7 = [0, rdi (ga_regs (vc_ga s)), rsi (ga_regs (vc_ga s)),
           rdx (ga_regs (vc_ga s)), r10 (ga_regs (vc_ga s)), r8 (ga_regs (vc_ga s)), r9 (ga_regs (vc_ga s))] \<and>
    load_words (um s') ind 1 = [gva] \<and> kn_ret_val_mva (vc_kontext s') = mva"
  using syscall_arguments [OF assms] by blast

theorem syscall_arguments_delivered_witness:
  "let s' = snd (kkm_process_syscall example_linux example_vcpu) in
     load_words (um s') 0x2FFF48 7 = [0, 7, 0, 0, 0, 0, 0] \<and> load_words (um s') 0x400000 1 = [0x2FFF48] \<and>
     kn_ret_val_mva (vc_kontext s') = 0x2FFF48"
proof -
  obtain s' where s': "kkm_process_syscall example_linux example_vcpu = (0, s')"
    using example_syscall by (metis prod.collapse)
  have "seg_base (sr_gs (ga_sregs (vc_ga example_vcpu))) = 0x400000" "rsp (ga_regs (vc_ga example_vcpu)) = 0x300000"
    "ga_regs (vc_ga example_vcpu) = zero_regs\<lparr>rax := 39, rdi := 7, rsp := 0x300000, rip := 0x201000, rflags := 0x202\<rparr>"
    by (simp_all add: example_ga_def zero_regs_def zero_sregs_def zero_segment_def zero_guest_area_def)
  then show ?thesis
    using syscall_arguments_delivered [OF s' refl refl refl] by (simp add: s' translate_low kkm_consts zero_regs_def)
qed

text \<open>C26 A page fault that lets the payload resume was a user access to a guest window; the fault
  address is consumed; the page tables change only for a private area, by \<open>kkm_mmu_update_priv_area\<close>; the stale
  translation of the page is flushed unless the whole TLB is; and the probing write leaves the
  monitor's memory unchanged.\<close>

theorem page_fault_resumes:
  assumes "kkm_process_page_fault E s = (KKM_KONTEXT_FAULT_PROCESS_DONE, s')" and a: "a = cr2 (ga_sregs (vc_ga s))"
  shows "\<exists>m priv. ti_error (ga_trap_info (vc_ga s)) AND X86_PF_USER = X86_PF_USER \<and>
    kkm_guest_va_to_monitor_va s a = (True, m, priv) \<and>
    kmem s' = (if priv then kmem (snd (kkm_mmu_update_priv_area E a m
        (lx_pgd_of_mm E (km_mm (vm_kkm s))) (km_guest_pml4e (vm_kkm s)) s)) else kmem s) \<and>
    cr2 (ga_sregs (vc_ga s')) = 0 \<and> um s' = um s \<and>
    (kkm_cpu_full_tlb_flush s \<or>
       (Ev_invpcid_one GUEST_PAYLOAD_PCID a \<in> set (klog s') \<and> Ev_invpcid_one GUEST_KERNEL_PCID a \<in> set (klog s')))"
  using page_fault_resolved [OF assms(1) a] page_fault_memory [OF assms(1)] by metis

definition example_page_fault :: vcpu where
  "example_page_fault = example_vcpu\<lparr>vc_ga := example_ga\<lparr>ga_intr_no := 14, ga_sregs := zero_sregs\<lparr>cr2 := 0x250000\<rparr>\<rparr>\<rparr>"

lemma example_page_fault_simps [simp]:
  "klog example_page_fault = []" "um example_page_fault = (\<lambda>_. 0)" "kkm_cpu_full_tlb_flush example_page_fault = False"
  "cr2 (ga_sregs (vc_ga example_page_fault)) = 0x250000" "ti_error (ga_trap_info (vc_ga example_page_fault)) = 6"
  by (simp_all add: example_page_fault_def zero_sregs_def example_ga_def zero_guest_area_def)

theorem page_fault_resumes_witness:
  "case kkm_process_page_fault example_linux example_page_fault of (r, s') \<Rightarrow>
     r = KKM_KONTEXT_FAULT_PROCESS_DONE \<and> kmem s' = kmem example_page_fault \<and> cr2 (ga_sregs (vc_ga s')) = 0 \<and>
     um s' = um example_page_fault \<and> Ev_invpcid_one GUEST_PAYLOAD_PCID 0x250000 \<in> set (klog s')"
proof -
  obtain r s' where p: "kkm_process_page_fault example_linux example_page_fault = (r, s')" by (rule prod.exhaust)
  then obtain s4 where l: "page_fault_locked example_linux (page_fault_entry example_page_fault) = (r, s4)"
    by (rule page_fault_cases)
  have r: "r = KKM_KONTEXT_FAULT_PROCESS_DONE"
    using l by (auto simp: page_fault_locked_def translate_low kkm_consts copy_from_user_def copy_to_user_def Let_def
        split: if_splits)
  then have p': "kkm_process_page_fault example_linux example_page_fault = (KKM_KONTEXT_FAULT_PROCESS_DONE, s')"
    using p by simp
  show ?thesis
    using page_fault_resumes [OF p' refl] r by (auto simp: p translate_low kkm_consts)
qed

text \<open>C35 A hypercall: the general-protection handler accepts nothing but the one-byte \<open>out\<close> instruction at
  the faulting address of a guest window; then it hands the port (\<open>dx\<close>) and the argument (\<open>eax\<close>) to
  the monitor, steps over the instruction and changes no other register and no memory.\<close>

theorem hypercall_stepped:
  assumes "kkm_process_general_protection E s = (0, s')"
  shows "\<exists>m p. kkm_guest_va_to_monitor_va s (ti_rip (ga_trap_info (vc_ga s))) = (True, m, p) \<and>
    um s m = KKM_OUT_OPCODE \<and> um s' = um s \<and>
    ga_regs (vc_ga s') = (ga_regs (vc_ga s))\<lparr>rip := rip (ga_regs (vc_ga s)) + 1\<rparr> \<and>
    vc_pa s' = \<lparr>pa_data = ucast (rax (ga_regs (vc_ga s))), pa_reason = fault_reason_code FAULT_HYPER_CALL\<rparr> \<and>
    exit_reason (vc_run s') = exit_code KKM_EXIT_IO \<and>
    io_port (run_io (vc_run s')) = ucast (rdx (ga_regs (vc_ga s))) OR KKM_HYPERCALL_IO_PORT_BASE"
  using general_protection_ok [OF assms] by metis

theorem hypercall_stepped_witness:
  "case kkm_process_general_protection example_linux (example_vcpu\<lparr>um := (\<lambda>_. KKM_OUT_OPCODE)\<rparr>) of (r, s') \<Rightarrow>
     r = 0 \<and> rip (ga_regs (vc_ga s')) = 0x201001 \<and> pa_data (vc_pa s') = 39 \<and>
     io_port (run_io (vc_run s')) = KKM_HYPERCALL_IO_PORT_BASE"
proof -
  let ?s = "example_vcpu\<lparr>um := (\<lambda>_. KKM_OUT_OPCODE)\<rparr>"
  obtain r s' where p: "kkm_process_general_protection example_linux ?s = (r, s')" by (rule prod.exhaust)
  have f: "ti_rip (ga_trap_info example_ga) = 0x201000" "rip (ga_regs example_ga) = 0x201000" "rax (ga_regs example_ga) = 39"
    "rdx (ga_regs example_ga) = 0"
    by (simp_all add: example_ga_def zero_guest_area_def zero_regs_def)
  have "r = 0"
    using p by (auto simp: kkm_process_general_protection_def translate_low kkm_consts f copy_from_user_def Let_def
        set_decode_def mem_load_def split: if_splits)
  with hypercall_stepped [of example_linux ?s s'] p show ?thesis by (auto simp: f)
qed

end
