(* ===== verification/Kkm_Kontext.thy ===== *)
theory Kkm_Kontext
  imports Kkm_Misc Kkm_Traps
begin

section \<open>The life of a kontext (\<open>kkm_kontext.c\<close>, first part)\<close>

text \<open>
  Allocation and release of a kontext's guest area and extended-state area, the snapshot
  operations of the ioctls, and the two corrections made before the payload is resumed: the answer
  to a system call and the registers of a posted exception.
\<close>

abbreviation (input) KKM_GUEST_AREA_PAGES :: nat where "KKM_GUEST_AREA_PAGES \<equiv> 2"
abbreviation (input) KKM_FPU_XSAVE_ALLOC_PAGES :: nat where "KKM_FPU_XSAVE_ALLOC_PAGES \<equiv> 2"
abbreviation (input) KKM_FPU_XSAVE_ALLOC_SIZE :: u64 where "KKM_FPU_XSAVE_ALLOC_SIZE \<equiv> PAGE_SIZE"
abbreviation (input) KKM_INVALID_CPU_ID :: u64 where "KKM_INVALID_CPU_ID \<equiv> - 1"

subsection \<open>Operations\<close>

definition on_kontext :: "(kkm_kontext \<Rightarrow> kkm_kontext) \<Rightarrow> 'a vcpu_scheme \<Rightarrow> 'a vcpu_scheme" where
  "on_kontext f s = s\<lparr>vc_kontext := f (vc_kontext s)\<rparr>"

definition kkm_kontext_cleanup :: "'a vcpu_scheme \<Rightarrow> 'a vcpu_scheme" where
  "kkm_kontext_cleanup s =
     (let kn = vc_kontext s;
          s1 = (if pi_page (kn_xsave kn) \<noteq> 0
                then on_kontext (\<lambda>k. k\<lparr>kn_xsave := (kn_xsave k)\<lparr>pi_page := 0, pi_va := 0\<rparr>\<rparr>)
                       (kkm_mm_free_pages (pi_va (kn_xsave kn)) KKM_FPU_XSAVE_ALLOC_PAGES s)
                else s)
      in if kn_guest_area_page (vc_kontext s1) \<noteq> 0
         then on_kontext (\<lambda>k. k\<lparr>kn_guest_area_page := 0, kn_guest_area := 0\<rparr>)
                (kkm_mm_free_pages (kn_guest_area (vc_kontext s1)) KKM_GUEST_AREA_PAGES s1)
         else s1)"

text \<open>The fields that \<open>kkm_kontext_init\<close> and \<open>kkm_kontext_reinit\<close> reset.\<close>

definition reset_pending :: "kkm_kontext \<Rightarrow> kkm_kontext" where
  "reset_pending k = k\<lparr>kn_syscall_pending := False, kn_ret_val_mva := - 1, kn_exception_posted := False,
     kn_exception_saved_rax := - 1, kn_exception_saved_rbx := - 1\<rparr>"

definition guest_area_init :: "kkm_kontainer \<Rightarrow> u64 \<Rightarrow> bool \<Rightarrow> u64 \<Rightarrow> kkm_guest_area" where
  "guest_area_init kkm kontext_addr full_flush ga_va =
     (let pcid = (\<lambda>cr3 pcid. if full_flush = False then cr3 OR pcid else cr3)
      in (kkm_init_guest_area_redzone zero_guest_area)
        \<lparr>ga_kkm_kontext := kontext_addr, ga_guest_area_beg := ga_va,
         ga_guest_kernel_cr3 := pcid (pi_pa (km_gk_pgd kkm) AND NOT PCID_MASK) GUEST_KERNEL_PCID,
         ga_guest_payload_cr3 := pcid (pi_pa (km_gp_pgd kkm) AND NOT PCID_MASK) GUEST_PAYLOAD_PCID,
         ga_cpu := KKM_INVALID_CPU_ID\<rparr>)"

text \<open>\<open>kontext_addr\<close> is the address of the kontext structure itself.\<close>

definition kkm_kontext_init :: "linux \<Rightarrow> u64 \<Rightarrow> 'a vcpu_scheme \<Rightarrow> int \<times> 'a vcpu_scheme" where
  "kkm_kontext_init E kontext_addr s =
     (let kn = vc_kontext s
      in case kkm_mm_allocate_pages E True True False KKM_GUEST_AREA_PAGES
              \<lparr>pi_page = kn_guest_area_page kn, pi_va = kn_guest_area kn, pi_pa = 0\<rparr> s of (r, area, s1) \<Rightarrow>
      let s2 = on_kontext (\<lambda>k. k\<lparr>kn_guest_area_page := pi_page area, kn_guest_area := pi_va area\<rparr>) s1 in
      if r \<noteq> 0 then (r, kkm_kontext_cleanup s2)
      else
        let s3 = on_kontext (\<lambda>k. k\<lparr>kn_guest_area_page0_pa := lx_virt_to_phys E (pi_va area),
                                  kn_guest_area_page1_pa := lx_virt_to_phys E (pi_va area + PAGE_SIZE)\<rparr>) s2;
            s4 = s3\<lparr>vc_ga := guest_area_init (vm_kkm s3) kontext_addr (kkm_cpu_full_tlb_flush s3) (pi_va area)\<rparr>
        in case kkm_mm_allocate_pages E True True True KKM_FPU_XSAVE_ALLOC_PAGES (kn_xsave (vc_kontext s4)) s4 of
           (r2, xsave, s5) \<Rightarrow>
        let s6 = on_kontext (\<lambda>k. k\<lparr>kn_xsave := xsave\<rparr>) s5 in
        if r2 \<noteq> 0 then (r2, kkm_kontext_cleanup s6)
        else (0, (on_kontext (\<lambda>k. reset_pending (k\<lparr>kn_kernel_xsave := pi_va xsave,
                    kn_payload_xsave := pi_va xsave + KKM_FPU_XSAVE_ALLOC_SIZE,
                    kn_valid_payload_xsave_area := False, kn_new_thread := True,
                    kn_debug_registers_set := False\<rparr>)) s6)
                 \<lparr>vc_kernel_xstate := replicate 4096 0, vc_payload_xstate := replicate 4096 0\<rparr>))"

definition kkm_kontext_reinit :: "'a vcpu_scheme \<Rightarrow> int \<times> 'a vcpu_scheme" where
  "kkm_kontext_reinit s =
     (0, on_kontext (\<lambda>k. reset_pending (k\<lparr>kn_new_thread := True, kn_debug_registers_set := False\<rparr>)) s)"

definition kkm_kontext_get_save_info :: "'a vcpu_scheme \<Rightarrow> kkm_save_info \<times> 'a vcpu_scheme" where
  "kkm_kontext_get_save_info s =
     (let kn = vc_kontext s; pa = vc_pa s
      in (\<lparr>si_syscall_pending = kn_syscall_pending kn, si_ret_val_mva = kn_ret_val_mva kn,
           si_exception_posted = kn_exception_posted kn, si_first_thread = kn_first_thread kn,
           si_new_thread = kn_new_thread kn, si_exception_saved_rax = kn_exception_saved_rax kn,
           si_exception_saved_rbx = kn_exception_saved_rbx kn, si_hypercall_data = pa_data pa,
           si_reason = pa_reason pa\<rparr>, on_kontext reset_pending s))"

definition kkm_kontext_set_save_info :: "kkm_save_info \<Rightarrow> 'a vcpu_scheme \<Rightarrow> 'a vcpu_scheme" where
  "kkm_kontext_set_save_info si s =
     (on_kontext (\<lambda>k. k\<lparr>kn_syscall_pending := si_syscall_pending si, kn_ret_val_mva := si_ret_val_mva si,
        kn_exception_posted := si_exception_posted si, kn_exception_saved_rax := si_exception_saved_rax si,
        kn_exception_saved_rbx := si_exception_saved_rbx si, kn_first_thread := si_first_thread si,
        kn_new_thread := si_new_thread si\<rparr>) s)
     \<lparr>vc_pa := \<lparr>pa_data = si_hypercall_data si, pa_reason = si_reason si\<rparr>\<rparr>"

definition kkm_kontext_handle_syscall_response :: "linux \<Rightarrow> 'a vcpu_scheme \<Rightarrow> int \<times> 'a vcpu_scheme" where
  "kkm_kontext_handle_syscall_response E s =
     (if kn_syscall_pending (vc_kontext s) = True then
        case copy_from_user E (kn_ret_val_mva (vc_kontext s)) 8 s of (left, bs, s1) \<Rightarrow>
        if left \<noteq> 0 then (- EFAULT, s1)
        else let s2 = on_regs (\<lambda>r. r\<lparr>rax := of_le bs\<rparr>) s1;
                 s3 = on_kontext (\<lambda>k. k\<lparr>kn_syscall_pending := False, kn_ret_val_mva := - 1\<rparr>) s2
             in (0, on_regs (\<lambda>r. r\<lparr>rsp := rsp r + 56 + KKM_ABI_REDZONE\<rparr>) s3)
      else (0, s))"

subsection \<open>Ownership of the two areas\<close>

lemma on_kontext_simps [simp]:
  "klog (on_kontext f s) = klog s" "um (on_kontext f s) = um s" "kmem (on_kontext f s) = kmem s"
  "vc_kontext (on_kontext f s) = f (vc_kontext s)" "vc_ga (on_kontext f s) = vc_ga s"
  "vc_run (on_kontext f s) = vc_run s" "vc_pa (on_kontext f s) = vc_pa s" "vm_kkm (on_kontext f s) = vm_kkm s"
  "cpu (on_kontext f s) = cpu s" "config (on_kontext f s) = config s"
  "vc_kernel_xstate (on_kontext f s) = vc_kernel_xstate s" "vc_payload_xstate (on_kontext f s) = vc_payload_xstate s"
  by (simp_all add: on_kontext_def)

lemma free_pages_vcpu_frame [simp]:
  "vc_kontext (kkm_mm_free_pages va n s) = vc_kontext s" "vm_kkm (kkm_mm_free_pages va n s) = vm_kkm s"
  "vc_ga (kkm_mm_free_pages va n s) = vc_ga s"
  by (simp_all add: kkm_mm_free_pages_def free_pages_def)

lemma allocate_pages_more:
  "kkm_mm_allocate_pages E pp vp ap n pi s = (r, pi', s') \<Longrightarrow> host.more s' = host.more s"
  by (auto simp: kkm_mm_allocate_pages_def alloc_pages_def kcall_def Let_def split: if_splits)

definition kontext_blocks :: "kkm_kontext \<Rightarrow> (u64 \<times> nat) multiset" where
  "kontext_blocks k =
     (if kn_guest_area_page k = 0 then {#} else {#(kn_guest_area k, 1)#}) +
     (if pi_page (kn_xsave k) = 0 then {#} else {#(pi_va (kn_xsave k), 1)#})"

definition kontext_ready :: "'a vcpu_scheme \<Rightarrow> bool" where
  "kontext_ready s \<longleftrightarrow> kn_guest_area_page (vc_kontext s) = 0 \<and> pi_page (kn_xsave (vc_kontext s)) = 0"

lemma kontext_cleanup_ledger:
  "outstanding E (klog (kkm_kontext_cleanup s)) = outstanding E (klog s) - kontext_blocks (vc_kontext s)"
  "kontext_ready (kkm_kontext_cleanup s)"
  by (auto simp: kkm_kontext_cleanup_def kontext_blocks_def kontext_ready_def free_pages_ledger
      add_mset_commute Let_def)

lemma kontext_init_ledger:
  assumes ready: "kontext_ready s" and init: "kkm_kontext_init E a s = (r, s')"
  shows "r \<noteq> 0 \<Longrightarrow> kontext_ready s' \<and> outstanding E (klog s') = outstanding E (klog s)"
    and "r = 0 \<Longrightarrow> outstanding E (klog s') = kontext_blocks (vc_kontext s') + outstanding E (klog s)"
    and "r = 0 \<Longrightarrow> kontext_blocks (vc_kontext s')
           = {#(kn_guest_area (vc_kontext s'), 1), (pi_va (kn_xsave (vc_kontext s')), 1)#}"
proof -
  define kn where "kn = vc_kontext s"
  obtain r1 area s1 where a1: "kkm_mm_allocate_pages E True True False KKM_GUEST_AREA_PAGES
              \<lparr>pi_page = kn_guest_area_page kn, pi_va = kn_guest_area kn, pi_pa = 0\<rparr> s = (r1, area, s1)"
    by (rule prod_cases3)
  note k1 = same_more_vcpu(1) [OF allocate_pages_more [OF a1]] same_more_vm [OF allocate_pages_more [OF a1]]
  define s4 where "s4 = (on_kontext (\<lambda>k. k\<lparr>kn_guest_area_page0_pa := lx_virt_to_phys E (pi_va area),
             kn_guest_area_page1_pa := lx_virt_to_phys E (pi_va area + PAGE_SIZE)\<rparr>)
        (on_kontext (\<lambda>k. k\<lparr>kn_guest_area_page := pi_page area, kn_guest_area := pi_va area\<rparr>) s1))
     \<lparr>vc_ga := guest_area_init (vm_kkm s1) a (kkm_cpu_full_tlb_flush s1) (pi_va area)\<rparr>"
  obtain r2 xsave s5 where a2: "kkm_mm_allocate_pages E True True True KKM_FPU_XSAVE_ALLOC_PAGES
             (kn_xsave (vc_kontext s4)) s4 = (r2, xsave, s5)"
    by (rule prod_cases3)
  note k5 = same_more_vcpu(1) [OF allocate_pages_more [OF a2]]
  have f4: "kkm_cpu_full_tlb_flush (on_kontext f v) = kkm_cpu_full_tlb_flush v" for f and v :: "'a vcpu_scheme"
    by (simp add: on_kontext_def)
  have k4: "klog s4 = klog s1" "kn_xsave (vc_kontext s4) = kn_xsave kn"
      "kn_guest_area_page (vc_kontext s4) = pi_page area" "kn_guest_area (vc_kontext s4) = pi_va area"
    by (simp_all add: s4_def k1 kn_def)
  have i: "(r, s') = (if r1 \<noteq> 0 then (r1, kkm_kontext_cleanup
        (on_kontext (\<lambda>k. k\<lparr>kn_guest_area_page := pi_page area, kn_guest_area := pi_va area\<rparr>) s1))
     else if r2 \<noteq> 0 then (r2, kkm_kontext_cleanup (on_kontext (\<lambda>k. k\<lparr>kn_xsave := xsave\<rparr>) s5))
     else (0, (on_kontext (\<lambda>k. reset_pending (k\<lparr>kn_kernel_xsave := pi_va xsave,
                    kn_payload_xsave := pi_va xsave + KKM_FPU_XSAVE_ALLOC_SIZE,
                    kn_valid_payload_xsave_area := False, kn_new_thread := True,
                    kn_debug_registers_set := False\<rparr>)) (on_kontext (\<lambda>k. k\<lparr>kn_xsave := xsave\<rparr>) s5))
                 \<lparr>vc_kernel_xstate := replicate 4096 0, vc_payload_xstate := replicate 4096 0\<rparr>))"
    unfolding init [symmetric] kkm_kontext_init_def Let_def kn_def [symmetric] a1
    using a2 by (simp add: f4 s4_def)
  have p: "kn_guest_area_page kn = 0" "pi_page (kn_xsave kn) = 0"
    using ready by (simp_all add: kontext_ready_def kn_def)
  note R1 = allocate_pages_result [OF a1] and R2 = allocate_pages_result [OF a2]
  note L1 = allocate_pages_ledger(1) [OF a1] and L2 = allocate_pages_ledger(1) [OF a2]
  have o2: "order_base_2 2 = 1" by simp
  show "kontext_ready s' \<and> outstanding E (klog s') = outstanding E (klog s)" if "r \<noteq> 0"
    using i that R1 R2 L1 L2 p
    by (auto simp: kontext_cleanup_ledger kontext_blocks_def k1 k4 k5 kn_def split: if_splits)
  show "outstanding E (klog s') = kontext_blocks (vc_kontext s') + outstanding E (klog s)" if "r = 0"
    using i that R1 R2 L1 L2 by (auto simp: kontext_blocks_def reset_pending_def k4 k5 split: if_splits)
  show "kontext_blocks (vc_kontext s')
           = {#(kn_guest_area (vc_kontext s'), 1), (pi_va (kn_xsave (vc_kontext s')), 1)#}" if "r = 0"
    using i that R1 R2 by (auto simp: kontext_blocks_def reset_pending_def k4 k5 split: if_splits)
qed

interpretation kontext_pages: page_owner kontext_ready "kkm_kontext_init E a" kkm_kontext_cleanup
  "\<lambda>s :: 'a vcpu_scheme. outstanding E (klog s)" for E a
proof unfold_locales
  fix s s' :: "'a vcpu_scheme" and r
  assume "kontext_ready s" and init: "kkm_kontext_init E a s = (r, s')" and "r \<noteq> 0"
  then show "kontext_ready s' \<and> outstanding E (klog s') = outstanding E (klog s)"
    using kontext_init_ledger(1) by blast
next
  fix s s' :: "'a vcpu_scheme"
  assume h: "kontext_ready s" "kkm_kontext_init E a s = (0, s')"
  note L = kontext_init_ledger(2) [OF h refl]
  from L show "outstanding E (klog s) \<subseteq># outstanding E (klog s')" by simp
  from L show "kontext_ready (kkm_kontext_cleanup s') \<and>
      outstanding E (klog (kkm_kontext_cleanup s')) = outstanding E (klog s)"
    by (simp add: kontext_cleanup_ledger)
qed

subsection \<open>Snapshots\<close>

lemma save_info_roundtrip:
  assumes "kkm_kontext_get_save_info s = (si, s1)"
  shows "kkm_kontext_set_save_info si s1 = s" and "debts s1 = (False, False)"
  using assms
  by (auto simp: kkm_kontext_get_save_info_def kkm_kontext_set_save_info_def on_kontext_def reset_pending_def
      debts_def Let_def)

lemma set_get_save_info:
  "fst (kkm_kontext_get_save_info (kkm_kontext_set_save_info si s)) = si"
  by (simp add: kkm_kontext_get_save_info_def kkm_kontext_set_save_info_def on_kontext_def Let_def)

subsection \<open>The answer to a system call\<close>

lemma syscall_response_ok:
  assumes "kkm_kontext_handle_syscall_response E s = (0, s')" "kn_syscall_pending (vc_kontext s)"
  shows "ga_regs (vc_ga s') = (ga_regs (vc_ga s))
           \<lparr>rax := of_le (mem_load (um s) (kn_ret_val_mva (vc_kontext s)) 8),
            rsp := rsp (ga_regs (vc_ga s)) + 56 + KKM_ABI_REDZONE\<rparr>"
    and "kn_syscall_pending (vc_kontext s') = False" and "um s' = um s"
proof -
  obtain left bs s1 where c: "copy_from_user E (kn_ret_val_mva (vc_kontext s)) 8 s = (left, bs, s1)"
    by (rule prod_cases3)
  note m = same_more_vcpu [OF copy_from_user_frame(5) [OF c]]
  have l: "left = 0" using assms by (auto simp: kkm_kontext_handle_syscall_response_def c Let_def split: if_splits)
  have bs: "bs = mem_load (um s) (kn_ret_val_mva (vc_kontext s)) 8"
    using copy_from_user_ok c l by blast
  show "ga_regs (vc_ga s') = (ga_regs (vc_ga s))
           \<lparr>rax := of_le (mem_load (um s) (kn_ret_val_mva (vc_kontext s)) 8),
            rsp := rsp (ga_regs (vc_ga s)) + 56 + KKM_ABI_REDZONE\<rparr>"
    "kn_syscall_pending (vc_kontext s') = False" "um s' = um s"
    using assms copy_from_user_frame(1) [OF c]
    by (auto simp: kkm_kontext_handle_syscall_response_def c Let_def l bs m)
qed

lemma syscall_response_idle:
  "\<not> kn_syscall_pending (vc_kontext s) \<Longrightarrow> kkm_kontext_handle_syscall_response E s = (0, s)"
  by (simp add: kkm_kontext_handle_syscall_response_def)

text \<open>
  A system call and its answer: the payload finds the monitor's result in \<open>rax\<close> and its stack
  pointer where it was; whatever the monitor wrote in between, the other registers are kept.
\<close>

lemma syscall_roundtrip:
  assumes call: "kkm_process_syscall E s = (0, s1)"
    and monitor: "vc_ga s2 = vc_ga s1" "vc_kontext s2 = vc_kontext s1"
    and response: "kkm_kontext_handle_syscall_response E s2 = (0, s3)"
    and gva: "gva = rsp (ga_regs (vc_ga s)) - KKM_ABI_REDZONE - 56"
    and mva: "mva = fst (snd (kkm_guest_va_to_monitor_va s gva))"
  shows "ga_regs (vc_ga s3) = (ga_regs (vc_ga s))\<lparr>rax := of_le (mem_load (um s2) mva 8)\<rparr>"
    and "kn_syscall_pending (vc_kontext s3) = False"
proof -
  have r1: "ga_regs (vc_ga s1) = (ga_regs (vc_ga s))\<lparr>rsp := gva, rax := gva\<rparr>"
    and k1: "vc_kontext s1 = (vc_kontext s)\<lparr>kn_syscall_pending := True, kn_ret_val_mva := mva\<rparr>"
    by (rule syscall_ok [OF call gva]; simp add: mva)+
  have p: "kn_syscall_pending (vc_kontext s2)" using k1 by (simp add: monitor)
  note S = syscall_response_ok [OF response p]
  show "ga_regs (vc_ga s3) = (ga_regs (vc_ga s))\<lparr>rax := of_le (mem_load (um s2) mva 8)\<rparr>"
    by (simp add: S(1) monitor r1 k1) (simp add: gva)
  show "kn_syscall_pending (vc_kontext s3) = False" by (rule S(2))
qed

subsection \<open>Properties\<close>

text \<open>C22 A system call and its answer: whatever the monitor does to its own memory in between, the payload
  resumes with the monitor's result in \<open>rax\<close> and every other register, its stack pointer included,
  as it was, and the kontext no longer owes an answer.\<close>

theorem syscall_and_answer:
  assumes "kkm_process_syscall E s = (0, s1)"
    and "vc_ga s2 = vc_ga s1" "vc_kontext s2 = vc_kontext s1"
    and "kkm_kontext_handle_syscall_response E s2 = (0, s3)"
    and "mva = fst (snd (kkm_guest_va_to_monitor_va s (rsp (ga_regs (vc_ga s)) - KKM_ABI_REDZONE - 56)))"
  shows "ga_regs (vc_ga s3) = (ga_regs (vc_ga s))\<lparr>rax := of_le (mem_load (um s2) mva 8)\<rparr> \<and>
    kn_syscall_pending (vc_kontext s3) = False"
  using syscall_roundtrip [OF assms(1-4) refl assms(5)] by blast

theorem syscall_and_answer_witness:
  "let s1 = snd (kkm_process_syscall example_linux example_vcpu);
       s2 = s1\<lparr>um := mem_store 0x2FFF48 (le_bytes 8 (0x1234 :: u64)) (um s1)\<rparr>
   in case kkm_kontext_handle_syscall_response example_linux s2 of (r, s3) \<Rightarrow>
     r = 0 \<and> ga_regs (vc_ga s3) = (ga_regs (vc_ga example_vcpu))\<lparr>rax := 0x1234\<rparr>"
proof -
  obtain s1 where s1: "kkm_process_syscall example_linux example_vcpu = (0, s1)"
    using example_syscall by (metis prod.collapse)
  define s2 where "s2 = s1\<lparr>um := mem_store 0x2FFF48 (le_bytes 8 (0x1234 :: u64)) (um s1)\<rparr>"
  obtain r s3 where r: "kkm_kontext_handle_syscall_response example_linux s2 = (r, s3)" by (rule prod.exhaust)
  have "r = 0"
    using r by (auto simp: kkm_kontext_handle_syscall_response_def copy_from_user_def Let_def split: if_splits)
  then have r0: "kkm_kontext_handle_syscall_response example_linux s2 = (0, s3)" using r by simp
  have sp: "rsp (ga_regs example_ga) = 0x300000"
    by (simp add: example_ga_def zero_regs_def zero_guest_area_def)
  have "mem_load (um s2) 0x2FFF48 8 = le_bytes 8 (0x1234 :: u64)"
    using mem_load_mem_store [of "le_bytes 8 (0x1234 :: u64)" "0x2FFF48" "um s1"] by (simp add: s2_def)
  then have "ga_regs (vc_ga s3) = (ga_regs (vc_ga example_vcpu))\<lparr>rax := 0x1234\<rparr>"
    using syscall_and_answer [OF s1 _ _ r0 refl] by (simp add: s2_def sp translate_low kkm_consts)
  then show ?thesis by (simp add: s1 s2_def [symmetric] r0)
qed

text \<open>The save-info ioctls: reading the pending work of a kontext clears it (nothing is owed any more),
  and writing it back restores the kontext exactly; what was written is what a later read returns.\<close>

theorem save_info_restores:
  "case kkm_kontext_get_save_info s of (si, s1) \<Rightarrow>
     debts s1 = (False, False) \<and> kkm_kontext_set_save_info si s1 = s \<and>
     fst (kkm_kontext_get_save_info (kkm_kontext_set_save_info si' s)) = si'"
  using save_info_roundtrip [of s] set_get_save_info [of si' s] by (auto split: prod.splits)

text \<open>One life of a kontext's pages.\<close>

definition kontext_session :: "linux \<Rightarrow> u64 \<Rightarrow> 'a vcpu_scheme \<Rightarrow> 'a vcpu_scheme" where
  "kontext_session E a s = (case kkm_kontext_init E a s of (r, s') \<Rightarrow> if r = 0 then kkm_kontext_cleanup s' else s')"

text \<open>C31 Kontexts leak no pages: any number of initialisations, each followed by the cleanup when it
  succeeds, and whatever allocation fails in between, leaves the ledger of pages as it was.\<close>

theorem kontext_sessions_balanced:
  fixes s :: "'a vcpu_scheme"
  assumes "kontext_ready s"
  shows "outstanding E (klog ((kontext_session E a ^^ n) s)) = outstanding E (klog s)"
proof -
  have "(kontext_session E a :: 'a vcpu_scheme \<Rightarrow> _) = kontext_pages.session E a"
    by (rule ext) (simp add: kontext_session_def kontext_pages.session_def)
  then show ?thesis using kontext_pages.sessions_balanced [of s n E a] assms by simp
qed

theorem kontext_sessions_balanced_witness:
  "outstanding example_linux (klog ((kontext_session example_linux 0x910000 ^^ 5)
     (example_vcpu\<lparr>vc_kontext := example_kontext\<lparr>kn_guest_area_page := 0, kn_xsave := no_page\<rparr>\<rparr>))) = {#}"
proof -
  have "kontext_ready (example_vcpu\<lparr>vc_kontext := example_kontext\<lparr>kn_guest_area_page := 0, kn_xsave := no_page\<rparr>\<rparr>)"
    by (simp add: kontext_ready_def no_page_def)
  from kontext_sessions_balanced [OF this, where E = example_linux and a = "0x910000" and n = 5] show ?thesis by simp
qed

end
