(* ===== verification/Kkm_Idt.thy ===== *)
theory Kkm_Idt
  imports Kkm_Mmu Kkm_Intr
begin

section \<open>The module's interrupt descriptor table (\<open>kkm_idt.c\<close>)\<close>

text \<open>
  \<open>kkm_idt_init\<close> builds the table the processor uses while the payload runs: one gate per vector
  that points into the copy of the entry code in the kx area, the copy itself with three
  instructions rewritten, and the pointer the entry code jumps through. The addresses and bytes of
  the assembled code come from the linker and are a parameter (\<open>kx_image\<close>). What is written to the
  allocated pages is the record \<open>kkm_idt_area\<close>.
\<close>

abbreviation (input) KKM_IDT_ALLOCATION_PAGES :: nat where "KKM_IDT_ALLOCATION_PAGES \<equiv> 4"
abbreviation (input) KKM_IDT_SIZE :: u64 where "KKM_IDT_SIZE \<equiv> 4096"
abbreviation (input) KKM_KX_INTR_CODE_SIZE :: nat where "KKM_KX_INTR_CODE_SIZE \<equiv> 6144"
abbreviation (input) KKM_KX_ENTRY_CODE_SIZE :: nat where "KKM_KX_ENTRY_CODE_SIZE \<equiv> 2048"
abbreviation (input) GATE_INTERRUPT :: u8 where "GATE_INTERRUPT \<equiv> 0xE"
abbreviation (input) KERNEL_CS :: u16 where "KERNEL_CS \<equiv> 0x10"

definition KKM_IDT_CODE_START_VA :: u64 where
  "KKM_IDT_CODE_START_VA = KKM_PRIVATE_START_VA + KKM_IDT_SIZE"

record gate_struct =
  gs_offset_low :: u16
  gs_segment :: u16
  gs_ist :: u8
  gs_zero :: u8
  gs_type :: u8
  gs_dpl :: u8
  gs_p :: u8
  gs_offset_middle :: u16
  gs_offset_high :: u32
  gs_reserved :: u32

record kx_image =
  im_addr :: "kkm_stub \<Rightarrow> u64"
  im_intr_fill :: u64
  im_switch_to_gp_asm :: u64
  im_guest_entry_end :: u64
  im_switch_to_host_kernel :: u64
  im_syscall_labels :: "u64 \<times> u64 \<times> u64"
  im_text :: "u64 \<Rightarrow> u8"

record kkm_idt_area =
  idt_page :: kkm_mmu_page_info
  idt_gates :: "gate_struct list"
  idt_text :: "u8 list"
  idt_kx_global :: "u64 list"

definition no_idt_area :: kkm_idt_area where
  "no_idt_area = \<lparr>idt_page = no_page, idt_gates = [], idt_text = [], idt_kx_global = []\<rparr>"

subsection \<open>Gates\<close>

definition idt_gate :: "nat \<Rightarrow> u64 \<Rightarrow> gate_struct" where
  "idt_gate i intr_entry_addr =
     \<lparr>gs_offset_low = ucast (intr_entry_addr AND 0xFFFF), gs_segment = KERNEL_CS, gs_ist = 0, gs_zero = 0,
      gs_type = GATE_INTERRUPT, gs_dpl = (if i = 3 \<or> i = 4 then 3 else 0), gs_p = 1,
      gs_offset_middle = ucast (drop_bit 16 intr_entry_addr AND 0xFFFF),
      gs_offset_high = ucast (drop_bit 32 intr_entry_addr AND 0xFFFFFFFF), gs_reserved = 0\<rparr>"

text \<open>The handler address the processor reads from a gate.\<close>

definition gate_offset :: "gate_struct \<Rightarrow> u64" where
  "gate_offset g = ucast (gs_offset_low g) OR push_bit 16 (ucast (gs_offset_middle g))
     OR push_bit 32 (ucast (gs_offset_high g))"

definition intr_entry_addr :: "kx_image \<Rightarrow> kkm_stub \<Rightarrow> u64" where
  "intr_entry_addr im st = KKM_IDT_CODE_START_VA + im_addr im st - im_addr im (Intr_entry 0)"

definition idt_gate_list :: "kx_image \<Rightarrow> gate_struct list" where
  "idt_gate_list im =
     (let t = replace_error_handlers intr_function_pointers
      in map (\<lambda>i. idt_gate i (intr_entry_addr im (t ! i))) [0..<NR_VECTORS])"

subsection \<open>The copied code and its three rewritten instructions\<close>

text \<open>
  An instruction at \<open>label\<close> that begins with \<open>opcode\<close> and addresses per-CPU data relative to the
  instruction pointer is replaced, in the copy, by the form with an absolute displacement.
\<close>

definition relocate_insn ::
  "kx_image \<Rightarrow> u64 \<Rightarrow> u8 list \<Rightarrow> u8 list \<Rightarrow> u8 list \<Rightarrow> u8 list" where
  "relocate_insn im label opcode replacement text =
     (let n = length opcode in
      if mem_load (im_text im) label n = opcode then
        let offset = (of_le (mem_load (im_text im) (label + of_nat n) 4) :: u32);
            rip_value = label + of_nat n + 4;
            gs_relative_offset = rip_value + ucast offset
        in put_bytes (unat (label - im_addr im (Intr_entry 0)))
             (replacement @ le_bytes 4 (ucast gs_relative_offset :: u32)) text
      else text)"

definition idt_text_image :: "kx_image \<Rightarrow> u8 list" where
  "idt_text_image im =
     (let code = mem_load (im_text im) (im_addr im (Intr_entry 0)) KKM_KX_INTR_CODE_SIZE
                 @ mem_load (im_text im) (im_switch_to_gp_asm im) KKM_KX_ENTRY_CODE_SIZE;
          (l1, l2, l3) = im_syscall_labels im;
          t1 = relocate_insn im l1 [0x65, 0x48, 0x89, 0x25] [0x65, 0x48, 0x89, 0x24, 0x25] code;
          t2 = relocate_insn im l2 [0x65, 0x48, 0x8B, 0x25] [0x65, 0x48, 0x8B, 0x24, 0x25] t1
      in relocate_insn im l3 [0x65, 0xFF, 0x35] [0x65, 0xFF, 0x34, 0x25] t2)"

subsection \<open>Initialisation, cleanup and per-processor state\<close>

definition kkm_idt_descr_init ::
  "linux \<Rightarrow> kx_image \<Rightarrow> 'a host_scheme \<Rightarrow> int \<times> kkm_idt_area \<times> 'a host_scheme" where
  "kkm_idt_descr_init E im s =
     (if im_intr_fill im - im_addr im (Intr_entry 0) \<ge> of_nat KKM_KX_INTR_CODE_SIZE then (- EINVAL, no_idt_area, s)
      else if im_guest_entry_end im - im_switch_to_gp_asm im \<ge> of_nat KKM_KX_ENTRY_CODE_SIZE
      then (- EINVAL, no_idt_area, s)
      else case kkm_mm_allocate_pages E True True True KKM_IDT_ALLOCATION_PAGES no_page s of (r, idt, s1) \<Rightarrow>
        if r \<noteq> 0 then (r, no_idt_area\<lparr>idt_page := idt\<rparr>, s1)
        else
          let text0_va = pi_va idt + KKM_IDT_SIZE;
              text1_va = text0_va + PAGE_SIZE;
              global_va = text1_va + PAGE_SIZE;
              s2 = kkm_mmu_set_kx_global_info (pi_pa idt) (lx_virt_to_phys E text0_va)
                     (lx_virt_to_phys E text1_va) (lx_virt_to_phys E global_va) s1;
              native = c_idtr (cpu s2);
              s3 = s2\<lparr>idt_native_desc := native,
                      idt_guest_desc := \<lparr>desc_size = desc_size native, desc_address = kkm_mmu_get_idt_va\<rparr>\<rparr>
          in (0, \<lparr>idt_page = idt, idt_gates = idt_gate_list im, idt_text = idt_text_image im,
                  idt_kx_global = im_switch_to_host_kernel im # replicate 511 0\<rparr>, s3))"

definition kkm_idt_init ::
  "linux \<Rightarrow> kx_image \<Rightarrow> 'a host_scheme \<Rightarrow> int \<times> kkm_idt_area \<times> 'a host_scheme" where
  "kkm_idt_init E im s =
     (let no_desc = \<lparr>desc_size = 0, desc_address = 0\<rparr>
      in kkm_idt_descr_init E im
           (s\<lparr>idt_native_desc := no_desc, idt_guest_desc := no_desc, idt_last_id := (\<lambda>_. KKM_INVALID_ID)\<rparr>))"

definition kkm_idt_cleanup :: "kkm_idt_area \<Rightarrow> 'a host_scheme \<Rightarrow> kkm_idt_area \<times> 'a host_scheme" where
  "kkm_idt_cleanup area s =
     (area\<lparr>idt_page := (idt_page area)\<lparr>pi_page := 0, pi_va := 0\<rparr>\<rparr>,
      kkm_mm_free_pages (pi_va (idt_page area)) KKM_IDT_ALLOCATION_PAGES s)"

definition kkm_idt_get_desc :: "'a host_scheme \<Rightarrow> desc_ptr \<times> desc_ptr" where
  "kkm_idt_get_desc s = (idt_native_desc s, idt_guest_desc s)"

definition kkm_idt_set_id :: "nat \<Rightarrow> u64 \<Rightarrow> 'a host_scheme \<Rightarrow> 'a host_scheme" where
  "kkm_idt_set_id c i s = s\<lparr>idt_last_id := (idt_last_id s)(c := i)\<rparr>"

definition kkm_idt_get_id :: "nat \<Rightarrow> 'a host_scheme \<Rightarrow> u64" where
  "kkm_idt_get_id c s = idt_last_id s c"

subsection \<open>Lemmas\<close>

lemma gate_offset_idt_gate: "gate_offset (idt_gate i a) = a"
proof (rule bit_word_eqI)
  fix n assume n: "n < LENGTH(64)"
  have m: "(0xFFFF :: u64) = mask 16" "(0xFFFFFFFF :: u64) = mask 32"
    by (simp_all add: mask_eq_exp_minus_1)
  consider "n < 16" | "16 \<le> n" "n < 32" | "32 \<le> n" by linarith
  then show "bit (gate_offset (idt_gate i a)) n = bit a n"
    using n unfolding gate_offset_def idt_gate_def m
    by cases
      (auto simp: bit_or_iff bit_push_bit_iff bit_ucast_iff bit_and_iff bit_drop_bit_eq bit_mask_iff
        dest: bit_imp_le_length)
qed

lemma idt_gate_list_nth:
  "n < NR_VECTORS \<Longrightarrow>
     idt_gate_list im ! n = idt_gate n (intr_entry_addr im (replace_error_handlers intr_function_pointers ! n))"
  by (simp add: idt_gate_list_def Let_def)

text \<open>
  The displacement a rewritten instruction carries: sign-extended as the processor does, it is the
  address the original instruction computed, when that address fits 32 signed bits.
\<close>

lemma relocated_displacement:
  fixes rip_value :: u64 and offset :: u32
  assumes "scast (ucast (rip_value + scast offset) :: u32) = (rip_value + scast offset :: u64)"
  shows "scast (ucast (rip_value + ucast offset) :: u32) = (rip_value + scast offset :: u64)"
proof -
  have u: "(ucast (x + y) :: u32) = ucast x + ucast y" for x y :: u64
  proof transfer
    fix x y :: int
    have "take_bit 32 (take_bit 64 (x + y)) = take_bit 32 (x + y)" by (simp add: take_bit_take_bit)
    also have "\<dots> = take_bit 32 (take_bit 32 (take_bit 64 x) + take_bit 32 (take_bit 64 y))"
      by (simp add: take_bit_take_bit) (simp only: take_bit_add)
    also have "\<dots> = take_bit 32 (take_bit 64 x + take_bit 64 y)" by (simp only: take_bit_add)
    finally show "take_bit LENGTH(32) (take_bit LENGTH(64) (x + y))
        = take_bit LENGTH(32) (take_bit LENGTH(64) x + take_bit LENGTH(64) y)" by simp
  qed
  have "(ucast (ucast offset :: u64) :: u32) = offset" "(ucast (scast offset :: u64) :: u32) = offset"
    by (rule bit_word_eqI, auto simp: bit_ucast_iff bit_signed_iff)+
  then have "(ucast (rip_value + ucast offset) :: u32) = ucast (rip_value + scast offset)"
    by (simp only: u)
  with assms show ?thesis by simp
qed

lemma kx_global_info_frame [simp]:
  "klog (kkm_mmu_set_kx_global_info a b c d s) = klog s"
  "kkm_mmu_kx (kkm_mmu_set_kx_global_info a b c d s) = kkm_mmu_kx s"
  by (simp_all add: kkm_mmu_set_kx_global_info_def Let_def)

lemma idt_init_ledger:
  assumes "kkm_idt_init E im s = (r, area, s')"
  shows "r \<noteq> 0 \<Longrightarrow> outstanding E (klog s') = outstanding E (klog s)"
    and "r = 0 \<Longrightarrow> outstanding E (klog s') = add_mset (pi_va (idt_page area), 2) (outstanding E (klog s))"
proof -
  have "(r \<noteq> 0 \<longrightarrow> outstanding E (klog s') = outstanding E (klog s)) \<and>
    (r = 0 \<longrightarrow> outstanding E (klog s') = add_mset (pi_va (idt_page area), 2) (outstanding E (klog s)))"
    using assms
    by (auto simp: kkm_idt_init_def kkm_idt_descr_init_def Let_def allocate_pages_ledger split: prod.splits if_splits)
  then show "r \<noteq> 0 \<Longrightarrow> outstanding E (klog s') = outstanding E (klog s)"
    "r = 0 \<Longrightarrow> outstanding E (klog s') = add_mset (pi_va (idt_page area), 2) (outstanding E (klog s))"
    by blast+
qed

interpretation idt_pages: page_owner "\<lambda>_. True"
  "\<lambda>(area, s). case kkm_idt_init E im s of (r, area', s') \<Rightarrow> (r, area', s')"
  "\<lambda>(area, s). kkm_idt_cleanup area s" "\<lambda>(area, s :: 'a host_scheme). outstanding E (klog s)" for E im
proof unfold_locales
  fix x x' :: "kkm_idt_area \<times> 'a host_scheme" and r
  let ?acq = "\<lambda>(area :: kkm_idt_area, s). case kkm_idt_init E im s of (r, area', s') \<Rightarrow> (r, area', s')"
  let ?led = "\<lambda>(area :: kkm_idt_area, s :: 'a host_scheme). outstanding E (klog s)"
  show "True \<and> ?led x' = ?led x" if "?acq x = (r, x')" "r \<noteq> 0"
    using that by (auto dest: idt_init_ledger split: prod.splits)
  show "?led x \<subseteq># ?led x'" if "?acq x = (0, x')"
    using that by (auto simp: idt_init_ledger split: prod.splits)
  show "True \<and> ?led (case x' of (area, s) \<Rightarrow> kkm_idt_cleanup area s) = ?led x" if "?acq x = (0, x')"
    using that by (auto simp: idt_init_ledger kkm_idt_cleanup_def free_pages_ledger split: prod.splits)
qed

text \<open>A second cleanup frees nothing.\<close>

lemma idt_cleanup_twice:
  assumes "kkm_idt_cleanup area s = (area', s')"
  shows "frees_ok E (klog (snd (kkm_idt_cleanup area' s'))) = frees_ok E (klog s')"
  using assms by (auto simp: kkm_idt_cleanup_def free_pages_frees_ok)

text \<open>
  The descriptor the payload runs with: the module's own table, of the native size; and no processor
  is recorded as holding translations of any kontainer.
\<close>

lemma idt_init_descriptors:
  assumes "kkm_idt_init E im s = (0, area, s')"
  shows "idt_native_desc s' = c_idtr (cpu s)" "cpu s' = cpu s"
    "idt_guest_desc s' = \<lparr>desc_size = desc_size (c_idtr (cpu s)), desc_address = kkm_mmu_get_idt_va\<rparr>"
    "kkm_idt_get_id c s' = KKM_INVALID_ID"
    "idt_gates area = idt_gate_list im" "length (idt_gates area) = NR_VECTORS"
    "hd (idt_kx_global area) = im_switch_to_host_kernel im"
proof -
  obtain idt s1 where a: "kkm_mm_allocate_pages E True True True KKM_IDT_ALLOCATION_PAGES no_page
      (s\<lparr>idt_native_desc := \<lparr>desc_size = 0, desc_address = 0\<rparr>,
         idt_guest_desc := \<lparr>desc_size = 0, desc_address = 0\<rparr>, idt_last_id := (\<lambda>_. KKM_INVALID_ID)\<rparr>) = (0, idt, s1)"
    and s': "s' = (let s2 = kkm_mmu_set_kx_global_info (pi_pa idt) (lx_virt_to_phys E (pi_va idt + KKM_IDT_SIZE))
                     (lx_virt_to_phys E (pi_va idt + KKM_IDT_SIZE + PAGE_SIZE))
                     (lx_virt_to_phys E (pi_va idt + KKM_IDT_SIZE + PAGE_SIZE + PAGE_SIZE)) s1
              in s2\<lparr>idt_native_desc := c_idtr (cpu s2), idt_guest_desc := \<lparr>desc_size = desc_size (c_idtr (cpu s2)),
                    desc_address = kkm_mmu_get_idt_va\<rparr>\<rparr>)"
    and area: "area = \<lparr>idt_page = idt, idt_gates = idt_gate_list im, idt_text = idt_text_image im,
                  idt_kx_global = im_switch_to_host_kernel im # replicate 511 0\<rparr>"
    using assms by (auto simp: kkm_idt_init_def kkm_idt_descr_init_def Let_def split: prod.splits if_splits)
  have f: "cpu s1 = cpu s" "idt_last_id s1 = (\<lambda>_. KKM_INVALID_ID)"
    using a by (auto simp: kkm_mm_allocate_pages_def alloc_pages_def kcall_def Let_def split: if_splits)
  have k: "cpu (kkm_mmu_set_kx_global_info a b c d v) = cpu v"
     "idt_last_id (kkm_mmu_set_kx_global_info a b c d v) = idt_last_id v" for a b c d and v :: "'a host_scheme"
    by (simp_all add: kkm_mmu_set_kx_global_info_def kkm_mmu_insert_page_def kkm_mmu_set_entry_def Let_def)
  show "idt_native_desc s' = c_idtr (cpu s)" "cpu s' = cpu s"
    "idt_guest_desc s' = \<lparr>desc_size = desc_size (c_idtr (cpu s)), desc_address = kkm_mmu_get_idt_va\<rparr>"
    "kkm_idt_get_id c s' = KKM_INVALID_ID"
    by (simp_all add: s' Let_def k f kkm_idt_get_id_def)
  show "idt_gates area = idt_gate_list im" "length (idt_gates area) = NR_VECTORS"
    "hd (idt_kx_global area) = im_switch_to_host_kernel im"
    by (simp_all add: area idt_gate_list_def Let_def)
qed

text \<open>The whole way of a vector: its gate leads to the stub that records it.\<close>

lemma gate_reaches_stub:
  assumes "n < NR_VECTORS"
  shows "gate_offset (idt_gate_list im ! n) - KKM_IDT_CODE_START_VA
      = im_addr im (replace_error_handlers intr_function_pointers ! n) - im_addr im (Intr_entry 0)"
    and "gs_dpl (idt_gate_list im ! n) = (if n = 3 \<or> n = 4 then 3 else 0)"
    and "gs_type (idt_gate_list im ! n) = GATE_INTERRUPT" "gs_p (idt_gate_list im ! n) = 1"
    and "gs_segment (idt_gate_list im ! n) = KERNEL_CS"
  using assms
  by (simp_all add: idt_gate_list_nth gate_offset_idt_gate intr_entry_addr_def) (simp_all add: idt_gate_def)

subsection \<open>Properties\<close>

text \<open>C32 Every vector has a present interrupt gate in the kernel code segment, open to the payload only for
  the breakpoint and overflow vectors, whose handler address is the relocated address of the stub that
  records this vector, with the processor's error code exactly for the vectors that push one.\<close>

theorem every_vector_recorded:
  assumes "n < NR_VECTORS"
  shows "\<exists>st. gate_offset (idt_gate_list im ! n) = KKM_IDT_CODE_START_VA + im_addr im st - im_addr im (Intr_entry 0) \<and>
    stub_pushes st hw = Some (of_nat n, if n \<in> error_vectors then hw else - 1) \<and>
    gs_type (idt_gate_list im ! n) = GATE_INTERRUPT \<and> gs_p (idt_gate_list im ! n) = 1 \<and>
    gs_segment (idt_gate_list im ! n) = KERNEL_CS \<and>
    gs_dpl (idt_gate_list im ! n) = (if n = 3 \<or> n = 4 then 3 else 0)"
  using assms vector_recorded [OF assms]
  by (intro exI [of _ "replace_error_handlers intr_function_pointers ! n"])
    (simp add: idt_gate_list_nth gate_offset_idt_gate intr_entry_addr_def, simp add: idt_gate_def)

definition example_image :: kx_image where
  "example_image = \<lparr>im_addr = (\<lambda>st. case st of Intr_entry n \<Rightarrow> 0xFFFFFFFF82000000 + 16 * of_nat n
       | Syscall_entry_asm \<Rightarrow> 0xFFFFFFFF82001700 | _ \<Rightarrow> 0xFFFFFFFF82001400),
     im_intr_fill = 0xFFFFFFFF82001780, im_switch_to_gp_asm = 0xFFFFFFFF82001800, im_guest_entry_end = 0xFFFFFFFF82001900,
     im_switch_to_host_kernel = 0xFFFFFFFF81234560,
     im_syscall_labels = (0xFFFFFFFF82001710, 0xFFFFFFFF82001720, 0xFFFFFFFF82001730), im_text = (\<lambda>_. 0x90)\<rparr>"

theorem every_vector_recorded_witness:
  "\<exists>st. gate_offset (idt_gate_list example_image ! 14)
       = KKM_IDT_CODE_START_VA + im_addr example_image st - im_addr example_image (Intr_entry 0) \<and>
     stub_pushes st 6 = Some (14, 6)"
  using every_vector_recorded [of 14 example_image 6] by (auto simp: error_vectors_def)

text \<open>C33 \<open>kkm_idt_init\<close> installs: on success the payload's descriptor is the module's own table with the size of the
  native one, the native one is remembered and still loaded, no processor is recorded as holding translations
  of a kontainer, the exit pointer is \<open>kkm_switch_to_host_kernel\<close>, and exactly the four pages are owned;
  on failure nothing is owned.\<close>

theorem idt_init_installs:
  assumes "kkm_idt_init E im s = (r, area, s')"
  shows "(r = 0 \<longrightarrow> idt_native_desc s' = c_idtr (cpu s) \<and> cpu s' = cpu s \<and>
      idt_guest_desc s' = \<lparr>desc_size = desc_size (c_idtr (cpu s)), desc_address = kkm_mmu_get_idt_va\<rparr> \<and>
      kkm_idt_get_id c s' = KKM_INVALID_ID \<and> length (idt_gates area) = NR_VECTORS \<and>
      hd (idt_kx_global area) = im_switch_to_host_kernel im \<and>
      outstanding E (klog s') = add_mset (pi_va (idt_page area), 2) (outstanding E (klog s))) \<and>
    (r \<noteq> 0 \<longrightarrow> outstanding E (klog s') = outstanding E (klog s))"
  using idt_init_descriptors [of E im s area s'] idt_init_ledger [OF assms] assms by blast

lemma example_idt_init: "fst (kkm_idt_init example_linux example_image example_host) = 0"
proof -
  let ?s = "example_host\<lparr>idt_native_desc := \<lparr>desc_size = 0, desc_address = 0\<rparr>,
    idt_guest_desc := \<lparr>desc_size = 0, desc_address = 0\<rparr>, idt_last_id := (\<lambda>_. KKM_INVALID_ID)\<rparr>"
  obtain r1 pi s1 where a: "kkm_mm_allocate_pages example_linux True True True KKM_IDT_ALLOCATION_PAGES no_page ?s = (r1, pi, s1)"
    by (rule prod_cases3)
  have "r1 = 0"
    by (rule example_allocate(1) [OF a]) (simp_all add: example_host_def)
  then show ?thesis
    using a by (simp add: kkm_idt_init_def kkm_idt_descr_init_def Let_def example_image_def)
qed

theorem idt_init_installs_witness:
  "case kkm_idt_init example_linux example_image example_host of (r, area, s') \<Rightarrow>
     r = 0 \<and> idt_guest_desc s' = \<lparr>desc_size = 4095, desc_address = kkm_mmu_get_idt_va\<rparr> \<and>
     hd (idt_kx_global area) = 0xFFFFFFFF81234560 \<and>
     outstanding example_linux (klog s') = {#(pi_va (idt_page area), 2)#}"
proof -
  obtain r area s' where k: "kkm_idt_init example_linux example_image example_host = (r, area, s')" by (rule prod_cases3)
  have "r = 0" using example_idt_init k by simp
  then show ?thesis
    using idt_init_installs [OF k, of 0] by (simp add: k) (simp add: example_host_def example_cpu_def example_image_def)
qed

text \<open>C34 A rewritten instruction of the copied entry code: where the expected opcode is found, the copy carries the
  form with an absolute displacement, which, sign-extended as the processor does, is the address that the original
  instruction computed from its own position (when that address fits 32 signed bits); the rest of the copy
  is unchanged, and nothing is changed when the opcode is another.\<close>

theorem relocated_instruction:
  fixes offset :: u32
  assumes "mem_load (im_text im) label (length opcode) = opcode"
    and "offset = of_le (mem_load (im_text im) (label + of_nat (length opcode)) 4)"
    and "target = label + of_nat (length opcode) + 4 + scast offset" "scast (ucast target :: u32) = target"
    and "off = unat (label - im_addr im (Intr_entry 0))" "off + length replacement + 4 \<le> length code"
    and "off' + n \<le> length code" "off' + n \<le> off \<or> off + length replacement + 4 \<le> off'"
  shows "\<exists>disp :: u32. scast disp = target \<and>
      get_bytes off (length replacement + 4) (relocate_insn im label opcode replacement code) = replacement @ le_bytes 4 disp \<and>
      get_bytes off' n (relocate_insn im label opcode replacement code) = get_bytes off' n code"
proof -
  define rip_value where "rip_value = label + of_nat (length opcode) + 4"
  define disp :: u32 where "disp = ucast (rip_value + ucast offset)"
  have r: "relocate_insn im label opcode replacement code = put_bytes off (replacement @ le_bytes 4 disp) code"
    by (simp add: relocate_insn_def Let_def assms(1) disp_def rip_value_def assms(2) assms(5))
  have "scast disp = target"
    unfolding disp_def using assms(3,4) relocated_displacement [of rip_value offset] by (simp add: rip_value_def)
  moreover have "get_bytes off (length replacement + 4) (put_bytes off (replacement @ le_bytes 4 disp) code)
      = replacement @ le_bytes 4 disp"
    using get_put_same [of off "replacement @ le_bytes 4 disp" code] assms(6) by simp
  moreover have "get_bytes off' n (put_bytes off (replacement @ le_bytes 4 disp) code) = get_bytes off' n code"
    by (rule get_put_other) (use assms(6-8) in auto)
  ultimately show ?thesis unfolding r by blast
qed

theorem relocated_instruction_witness:
  "let label = 0xFFFFFFFF82001710; bytes = [0x65, 0x48, 0x89, 0x25, 0xFC, 0xE8, 0xFF, 0x7D];
       im = example_image\<lparr>im_text := mem_store label bytes (\<lambda>_. 0x90)\<rparr>
   in \<exists>disp :: u32. scast disp = (0x14 :: u64) \<and>
      get_bytes 0x1710 9 (relocate_insn im label [0x65, 0x48, 0x89, 0x25] [0x65, 0x48, 0x89, 0x24, 0x25] (replicate 8192 0))
        = [0x65, 0x48, 0x89, 0x24, 0x25] @ le_bytes 4 disp"
proof -
  define label :: u64 where "label = 0xFFFFFFFF82001710"
  define bytes :: "u8 list" where "bytes = [0x65, 0x48, 0x89, 0x25, 0xFC, 0xE8, 0xFF, 0x7D]"
  define im where "im = example_image\<lparr>im_text := mem_store label bytes (\<lambda>_. 0x90)\<rparr>"
  have u: "im_text im (label + of_nat i) = bytes ! i" if "i < 8" for i
    using that by (simp add: im_def mem_store_def bytes_def unat_of_nat take_bit_eq_mod)
  have b: "[0..<4] = [0, 1, 2, 3 :: nat]" "Suc (Suc (Suc (Suc 0))) = 4" by (simp_all add: upt_rec)
  have "mem_load (im_text im) label 4 = map (\<lambda>i. bytes ! i) [0..<4]"
    unfolding mem_load_def by (intro map_cong refl) (simp add: u)
  then have op: "mem_load (im_text im) label (length [0x65, 0x48, 0x89, 0x25 :: u8]) = [0x65, 0x48, 0x89, 0x25]"
    by (simp add: b bytes_def)
  have "im_text im (label + of_nat 4 + of_nat i) = bytes ! (4 + i)" if "i < 4" for i
    using u [of "4 + i"] that by (simp add: algebra_simps)
  then have "mem_load (im_text im) (label + of_nat 4) 4 = map (\<lambda>i. bytes ! (4 + i)) [0..<4]"
    unfolding mem_load_def by (intro map_cong refl) simp
  then have off: "of_le (mem_load (im_text im) (label + of_nat (length [0x65, 0x48, 0x89, 0x25 :: u8])) 4) = (0x7DFFE8FC :: u32)"
    by (simp add: b bytes_def push_bit_eq_mult)
  have "\<exists>disp :: u32. scast disp = (0x14 :: u64) \<and>
      get_bytes 0x1710 (length [0x65, 0x48, 0x89, 0x24, 0x25 :: u8] + 4)
        (relocate_insn im label [0x65, 0x48, 0x89, 0x25] [0x65, 0x48, 0x89, 0x24, 0x25] (replicate 8192 0))
        = [0x65, 0x48, 0x89, 0x24, 0x25] @ le_bytes 4 disp \<and>
      get_bytes 0 0 (relocate_insn im label [0x65, 0x48, 0x89, 0x25] [0x65, 0x48, 0x89, 0x24, 0x25] (replicate 8192 0))
        = get_bytes 0 0 (replicate 8192 0)"
    by (rule relocated_instruction [OF op off [symmetric]]) (simp_all add: label_def im_def example_image_def)
  then show ?thesis unfolding Let_def im_def label_def bytes_def by simp blast
qed

end
