(* ===== verification/Kkm_Platform.thy ===== *)
theory Kkm_Platform
  imports Kkm_Examples
begin

section \<open>Access to control registers (\<open>kkm_platform_native.c\<close>, \<open>kkm_platform_pv.c\<close>, debug registers)\<close>

text \<open>
  The two tables of functions the module chooses from at load time. With \<open>CONFIG_PARAVIRT_XXL\<close> the
  paravirtual ones call the kernel's own accessors, which have the effect of the instructions; the
  others are the instructions. The locale \<open>platform_calls\<close> is what the switch code relies on. The debug
  registers of \<open>kkm_kontext.c\<close> are here too.
\<close>

record kkm_platform_calls =
  pl_read_cr3 :: "cpu_state \<Rightarrow> u64"
  pl_write_cr3 :: "u64 \<Rightarrow> cpu_state \<Rightarrow> cpu_state"
  pl_read_cr4 :: "cpu_state \<Rightarrow> u64"
  pl_write_cr4 :: "u64 \<Rightarrow> cpu_state \<Rightarrow> cpu_state"
  pl_load_idt :: "desc_ptr \<Rightarrow> cpu_state \<Rightarrow> cpu_state"
  pl_store_idt :: "cpu_state \<Rightarrow> desc_ptr"

definition kkm_platfrom_native :: kkm_platform_calls where
  "kkm_platfrom_native =
     \<lparr>pl_read_cr3 = (\<lambda>c. c_cr3 c), pl_write_cr3 = (\<lambda>v c. c\<lparr>c_cr3 := v\<rparr>),
      pl_read_cr4 = (\<lambda>c. c_cr4 c), pl_write_cr4 = (\<lambda>v c. c\<lparr>c_cr4 := v\<rparr>),
      pl_load_idt = (\<lambda>d c. c\<lparr>c_idtr := d\<rparr>), pl_store_idt = (\<lambda>c. c_idtr c)\<rparr>"

definition kkm_platfrom_pv :: kkm_platform_calls where
  "kkm_platfrom_pv =
     \<lparr>pl_read_cr3 = (\<lambda>c. c_cr3 c), pl_write_cr3 = (\<lambda>v c. c\<lparr>c_cr3 := v\<rparr>),
      pl_read_cr4 = (\<lambda>c. c_cr4 c), pl_write_cr4 = (\<lambda>v c. c\<lparr>c_cr4 := v\<rparr>),
      pl_load_idt = (\<lambda>d c. c\<lparr>c_idtr := d\<rparr>), pl_store_idt = (\<lambda>c. c_idtr c)\<rparr>"

locale platform_calls =
  fixes P :: kkm_platform_calls
  assumes read_cr3: "pl_read_cr3 P c = c_cr3 c"
    and write_cr3: "pl_write_cr3 P v c = c\<lparr>c_cr3 := v\<rparr>"
    and read_cr4: "pl_read_cr4 P c = c_cr4 c"
    and write_cr4: "pl_write_cr4 P v c = c\<lparr>c_cr4 := v\<rparr>"
    and load_idt: "pl_load_idt P d c = c\<lparr>c_idtr := d\<rparr>"
    and store_idt: "pl_store_idt P c = c_idtr c"
begin

lemma read_after_write:
  "pl_read_cr3 P (pl_write_cr3 P v c) = v" "pl_read_cr4 P (pl_write_cr4 P v c) = v"
  "pl_store_idt P (pl_load_idt P d c) = d"
  by (simp_all add: read_cr3 write_cr3 read_cr4 write_cr4 load_idt store_idt)

lemma load_stored_idt: "pl_load_idt P (pl_store_idt P c) c = c"
  by (simp add: load_idt store_idt)

lemmas access = read_cr3 write_cr3 read_cr4 write_cr4 load_idt store_idt

end

interpretation native_platform: platform_calls kkm_platfrom_native
  by unfold_locales (simp_all add: kkm_platfrom_native_def)

interpretation pv_platform: platform_calls kkm_platfrom_pv
  by unfold_locales (simp_all add: kkm_platfrom_pv_def)

text \<open>\<open>use_platform_pv\<close> selects between them; an unknown string is refused.\<close>

datatype platform_choice = Platform_native | Platform_pv

definition kkm_platform :: "platform_choice \<Rightarrow> kkm_platform_calls" where
  "kkm_platform choice = (case choice of Platform_native \<Rightarrow> kkm_platfrom_native | Platform_pv \<Rightarrow> kkm_platfrom_pv)"

lemma platform_calls_kkm: "platform_calls (kkm_platform choice)"
  by (cases choice)
    (simp_all add: kkm_platform_def native_platform.platform_calls_axioms pv_platform.platform_calls_axioms)

subsection \<open>Debug registers\<close>

definition kkm_hw_debug_registers_save :: "cpu_state \<Rightarrow> u64 list \<Rightarrow> u64 list" where
  "kkm_hw_debug_registers_save c registers =
     (let dr = c_dr c;
          saved = registers[0 := dr ! 0, 1 := dr ! 1, 2 := dr ! 2, 3 := dr ! 3, 6 := dr ! 6, 7 := dr ! 7]
      in saved[6 := saved ! 6 AND 0x1E00F])"

definition kkm_hw_debug_registers_restore :: "u64 list \<Rightarrow> cpu_state \<Rightarrow> cpu_state" where
  "kkm_hw_debug_registers_restore registers c =
     c\<lparr>c_dr := (c_dr c)[0 := registers ! 0, 1 := registers ! 1, 2 := registers ! 2, 3 := registers ! 3,
                        6 := registers ! 6, 7 := registers ! 7]\<rparr>"

lemma length_debug_save [simp]: "length (kkm_hw_debug_registers_save c registers) = length registers"
  by (simp add: kkm_hw_debug_registers_save_def Let_def)

text \<open>Saving the hardware debug registers and restoring them into whatever state the processor is in brings
  back every address register and the control register, and of the status register the bits of
  the mask \<open>0x1E00F\<close>.\<close>

theorem debug_registers_roundtrip:
  assumes "length registers = 8" "length (c_dr c) = 8" "length (c_dr c') = 8" "i \<in> {0, 1, 2, 3, 6, 7}"
  shows "c_dr (kkm_hw_debug_registers_restore (kkm_hw_debug_registers_save c registers) c') ! i
           = (if i = 6 then c_dr c ! 6 AND 0x1E00F else c_dr c ! i)"
  using assms
  by (auto simp: kkm_hw_debug_registers_restore_def kkm_hw_debug_registers_save_def Let_def)

lemma debug_restore_frame:
  "kkm_hw_debug_registers_restore registers c = c\<lparr>c_dr := c_dr (kkm_hw_debug_registers_restore registers c)\<rparr>"
  by (simp add: kkm_hw_debug_registers_restore_def)

theorem debug_registers_roundtrip_witness:
  "c_dr (kkm_hw_debug_registers_restore (kkm_hw_debug_registers_save
      (example_cpu\<lparr>c_dr := [1, 2, 3, 4, 0, 0, 0xFFFF0FF1, 0x401]\<rparr>) (replicate 8 0)) example_cpu) ! 6 = 0x10001"
  by (subst debug_registers_roundtrip) (simp_all add: example_cpu_def)

end
