(* ===== verification/Kkm_Switch.thy ===== *)
theory Kkm_Switch
  imports Kkm_Kontext Kkm_Idt Kkm_Platform
begin

section \<open>Running the payload (\<open>kkm_kontext_switch_kernel\<close>, \<open>kkm_guest_entry.S\<close>, \<open>kkm_guest_exit.S\<close>)\<close>

text \<open>
  One turn of the run loop: the native state is saved, the processor is given the payload's
  state and enters it, the payload runs until it traps (the parameter \<open>lx_payload\<close>), the entry code
  records the trap in the guest area and the native state is restored; then \<open>kkm_process_intr\<close>
  decides whether to go round again. Definitions follow the C functions and the assembly between
  them, register by register. Stack switches are not modelled: nothing but the saved registers, which
  are in the guest area, passes between the stacks. The loop may run as long as the payload does not
  need the monitor, so it takes a bound on the number of turns.
\<close>

abbreviation (input) X86_EFLAGS_TF :: u64 where "X86_EFLAGS_TF \<equiv> 0x100"
abbreviation (input) X86_EFLAGS_IF :: u64 where "X86_EFLAGS_IF \<equiv> 0x200"
abbreviation (input) X86_EFLAGS_IOPL :: u64 where "X86_EFLAGS_IOPL \<equiv> 0x3000"
abbreviation (input) X86_EFLAGS_RF :: u64 where "X86_EFLAGS_RF \<equiv> 0x10000"
abbreviation (input) KKM_GUESTDBG_ENABLE :: u32 where "KKM_GUESTDBG_ENABLE \<equiv> 1"
abbreviation (input) KKM_GUESTDBG_SINGLESTEP :: u32 where "KKM_GUESTDBG_SINGLESTEP \<equiv> 2"
abbreviation (input) LOCAL_TIMER_VECTOR :: u64 where "LOCAL_TIMER_VECTOR \<equiv> 0xEC"
abbreviation (input) HYPERV_STIMER0_VECTOR :: u64 where "HYPERV_STIMER0_VECTOR \<equiv> 0xED"
abbreviation (input) OFF_REDZONE_BOTTOM :: u64 where "OFF_REDZONE_BOTTOM \<equiv> 7936"

definition on_cpu :: "(cpu_state \<Rightarrow> cpu_state) \<Rightarrow> 'a host_scheme \<Rightarrow> 'a host_scheme" where
  "on_cpu f s = s\<lparr>cpu := f (cpu s)\<rparr>"

definition on_ga :: "(kkm_guest_area \<Rightarrow> kkm_guest_area) \<Rightarrow> 'a vcpu_scheme \<Rightarrow> 'a vcpu_scheme" where
  "on_ga f s = s\<lparr>vc_ga := f (vc_ga s)\<rparr>"

definition on_native :: "(kkm_native \<Rightarrow> kkm_native) \<Rightarrow> 'a vcpu_scheme \<Rightarrow> 'a vcpu_scheme" where
  "on_native f = on_kontext (\<lambda>k. k\<lparr>kn_native := f (kn_native k)\<rparr>)"

subsection \<open>Before the first turn\<close>

definition switch_prologue :: "linux \<Rightarrow> 'a vcpu_scheme \<Rightarrow> int \<times> 'a vcpu_scheme" where
  "switch_prologue E s =
     (if immediate_exit (vc_run s) = 1 then (- EINTR, s)
      else
        let s1 = (if kn_new_thread (vc_kontext s) = True then
                    let s0 = on_kontext (\<lambda>k. k\<lparr>kn_new_thread := False\<rparr>) s
                    in if kn_first_thread (vc_kontext s0) = False \<and> pa_reason (vc_pa s0) = fault_reason_code FAULT_SYSCALL
                       then on_regs (\<lambda>r. r\<lparr>rsp := rsp r + 56 + KKM_ABI_REDZONE\<rparr>) s0 else s0
                  else s)
        in case kkm_kontext_handle_syscall_response E s1 of (r, s2) \<Rightarrow>
        if r \<noteq> 0 then (r, s2)
        else
          let s3 = (if kn_exception_posted (vc_kontext s2) = True
                    then on_regs (\<lambda>r. r\<lparr>rax := kn_exception_saved_rax (vc_kontext s2),
                                         rbx := kn_exception_saved_rbx (vc_kontext s2)\<rparr>) s2
                    else s2)
          in (0, on_kontext (\<lambda>k. k\<lparr>kn_exception_posted := False, kn_exception_saved_rax := - 1,
                    kn_exception_saved_rbx := - 1, kn_prev_trap_no := - 1, kn_prev_trap_addr := - 1,
                    kn_prev_error_code := - 1, kn_trap_repeat_counter := - 1\<rparr>) s3))"

subsection \<open>From the native kernel to the payload\<close>

text \<open>Translations that may be stale for this kontext are flushed before it runs.\<close>

definition flush_before_entry :: "nat \<Rightarrow> 'a vcpu_scheme \<Rightarrow> 'a vcpu_scheme" where
  "flush_before_entry c s =
     (if kkm_cpu_full_tlb_flush s = False then
        if lazy_flush_tlb s = False \<or> of_nat c \<noteq> ga_cpu (vc_ga s) \<or> km_id (vm_kkm s) \<noteq> kkm_idt_get_id c s
        then kkm_mmu_flush_tlb s else s
      else s)"

definition save_native :: "kkm_platform_calls \<Rightarrow> 'a vcpu_scheme \<Rightarrow> 'a vcpu_scheme" where
  "save_native P s =
     (let c = cpu s;
          s1 = on_native (\<lambda>n. n\<lparr>native_kernel_cr3 := pl_read_cr3 P c, native_kernel_cr4 := pl_read_cr4 P c\<rparr>) s;
          s2 = on_ga (\<lambda>g. g\<lparr>ga_guest_kernel_cr4 := native_kernel_cr4 (kn_native (vc_kontext s1))\<rparr>) s1;
          s3 = on_native (\<lambda>n. n\<lparr>native_kernel_ds := c_ds c, native_kernel_es := c_es c, native_kernel_fs := c_fs c,
                 native_kernel_fs_base := c_fs_base c, native_kernel_gs := c_gs c,
                 native_kernel_gs_base := c_gs_base c, native_kernel_gs_kern_base := c_kernel_gs_base c,
                 native_kernel_ss := c_ss c\<rparr>) s2;
          s4 = s3\<lparr>vc_kernel_xstate := c_xstate (cpu s3)\<rparr>;
          s5 = on_cpu (\<lambda>c. if kn_valid_payload_xsave_area (vc_kontext s4) = True
                           then c\<lparr>c_xstate := vc_payload_xstate s4\<rparr> else c) s4;
          s6 = on_native (\<lambda>n. n\<lparr>native_kernel_entry_syscall_64 := c_lstar (cpu s5)\<rparr>) s5;
          s7 = on_native (\<lambda>n. if kn_debug_registers_set (vc_kontext s6) = True
                             then n\<lparr>native_debug_registers :=
                                     kkm_hw_debug_registers_save (cpu s6) (native_debug_registers n)\<rparr>
                             else n) s6
      in on_ga (\<lambda>g. g\<lparr>ga_intr_no := - 1\<rparr>) s7)"

definition switch_enter :: "kkm_platform_calls \<Rightarrow> linux \<Rightarrow> 'a vcpu_scheme \<Rightarrow> 'a vcpu_scheme" where
  "switch_enter P E s =
     (let s1 = on_cpu (\<lambda>c. c\<lparr>c_irq_enabled := False\<rparr>) (kcall Ev_irq_disable s);
          c = lx_get_cpu E (klog s1);
          s2 = kcall (Ev_get_cpu c) s1;
          kn = vc_kontext s2;
          s3 = kkm_mmu_set_guest_area c (kn_guest_area_page0_pa kn) (kn_guest_area_page1_pa kn) 0 0 s2;
          (native_desc, guest_desc) = kkm_idt_get_desc s3;
          s4 = on_ga (\<lambda>g. g\<lparr>ga_native_idt_desc := native_desc, ga_guest_idt_desc := guest_desc\<rparr>) s3;
          s5 = s4\<lparr>current_kontext := (current_kontext s4)(c := ga_kkm_kontext (vc_ga s4))\<rparr>;
          s6 = flush_before_entry c s5;
          s7 = on_ga (\<lambda>g. g\<lparr>ga_cpu := of_nat c\<rparr>) s6;
          s8 = kkm_idt_set_id c (km_id (vm_kkm s7)) s7
      in save_native P s8)"

text \<open>The flags the payload starts with: the monitor's, made safe.\<close>

definition payload_rflags :: "u32 \<Rightarrow> u64 \<Rightarrow> u64" where
  "payload_rflags control fl =
     (let f1 = (if fl AND X86_EFLAGS_IF = 0 then fl OR X86_EFLAGS_IF else fl);
          f2 = (if f1 AND X86_EFLAGS_IOPL \<noteq> 0 then f1 AND NOT X86_EFLAGS_IOPL else f1);
          f3 = (if f2 AND X86_EFLAGS_RF = 0 then f2 OR X86_EFLAGS_RF else f2)
      in if control AND (KKM_GUESTDBG_SINGLESTEP OR KKM_GUESTDBG_ENABLE)
             = KKM_GUESTDBG_SINGLESTEP OR KKM_GUESTDBG_ENABLE
         then f3 OR X86_EFLAGS_TF else f3 AND NOT X86_EFLAGS_TF)"

definition kkm_guest_kernel_start_payload ::
  "kkm_platform_calls \<Rightarrow> kx_image \<Rightarrow> linux \<Rightarrow> 'a vcpu_scheme \<Rightarrow> 'a vcpu_scheme" where
  "kkm_guest_kernel_start_payload P im E s =
     (let sregs = ga_sregs (vc_ga s);
          s1 = on_cpu (\<lambda>c. c\<lparr>c_ds := 0, c_es := 0, c_fs := 0, c_fs_base := seg_base (sr_fs sregs),
                 c_kernel_gs_base := seg_base (sr_gs sregs),
                 c_lstar := im_addr im Syscall_entry_asm - im_addr im (Intr_entry 0) + KKM_IDT_CODE_START_VA\<rparr>) s;
          s2 = on_ga (\<lambda>g. g\<lparr>ga_guest_payload_cs := lx_USER_CS E, ga_guest_payload_ss := lx_USER_DS E\<rparr>) s1;
          s3 = on_regs (\<lambda>r. r\<lparr>rflags := payload_rflags (dbg_control (ga_debug (vc_ga s2))) (rflags r)\<rparr>) s2;
          s4 = on_cpu (\<lambda>c. if kn_debug_registers_set (vc_kontext s3) = True
                           then kkm_hw_debug_registers_restore (dbg_registers (ga_debug (vc_ga s3))) c else c) s3;
          s5 = on_ga (\<lambda>g. g\<lparr>ga_native_save_tss_sp0 := c_sp0 (cpu s4), ga_native_save_tss_sp1 := c_sp1 (cpu s4),
                 ga_native_save_tss_sp2 := c_sp2 (cpu s4)\<rparr>) s4;
          s6 = on_cpu (\<lambda>c. c\<lparr>c_sp0 := ga_guest_area_beg (vc_ga s5) + OFF_REDZONE_BOTTOM\<rparr>) s5
      in on_cpu (pl_load_idt P (ga_guest_idt_desc (vc_ga s6))) s6)"

definition swapgs :: "cpu_state \<Rightarrow> cpu_state" where
  "swapgs c = c\<lparr>c_gs_base := c_kernel_gs_base c, c_kernel_gs_base := c_gs_base c\<rparr>"

text \<open>A write to \<open>cr3\<close> in the assembly: with process context 0 the whole TLB is flushed.\<close>

definition asm_load_cr3 :: "u64 \<Rightarrow> 'a host_scheme \<Rightarrow> 'a host_scheme" where
  "asm_load_cr3 v s =
     (let s1 = on_cpu (\<lambda>c. c\<lparr>c_cr3 := v\<rparr>) s
      in if v AND 0xFF = 0 then kcall Ev_toggle_cr4_pge s1 else s1)"

definition kkm_switch_to_gp_asm :: "'a vcpu_scheme \<Rightarrow> payload_entry \<times> 'a vcpu_scheme" where
  "kkm_switch_to_gp_asm s =
     (let s1 = on_cpu (\<lambda>c. c\<lparr>c_cr2 := 0\<rparr>) s;
          s2 = asm_load_cr3 (ga_guest_payload_cr3 (vc_ga s1)) s1;
          s3 = on_cpu swapgs s2;
          ga = vc_ga s3; c = cpu s3
      in (\<lparr>pe_regs = ga_regs ga, pe_cs = ga_guest_payload_cs ga, pe_ss = ga_guest_payload_ss ga, pe_cr3 = c_cr3 c,
           pe_fs_base = c_fs_base c, pe_gs_base = c_gs_base c, pe_xstate = c_xstate c,
           pe_debug_registers = c_dr c\<rparr>, s3))"

subsection \<open>The payload, and the trap that ends its turn\<close>

text \<open>What the payload and the processor leave in the registers when it traps.\<close>

definition run_payload :: "linux \<Rightarrow> payload_entry \<Rightarrow> 'a vcpu_scheme \<Rightarrow> payload_trap \<times> 'a vcpu_scheme" where
  "run_payload E pe s =
     (let t = lx_payload E (klog s) pe
      in (t, on_cpu (\<lambda>c. c\<lparr>c_cr2 := pt_cr2 t, c_ds := pt_ds t, c_es := pt_es t, c_fs := pt_fs t, c_gs := pt_gs t,
               c_ss := ucast (pt_ss t), c_fs_base := pt_fs_base t, c_gs_base := pt_gs_base t,
               c_xstate := pt_xstate t, c_dr := pt_debug_registers t\<rparr>)
             (kcall (Ev_payload (km_id (vm_kkm s)) (ga_guest_area_beg (vc_ga s))) s)))"

text \<open>The stub the processor jumps to.\<close>

definition trap_stub :: "u64 \<Rightarrow> kkm_stub option" where
  "trap_stub v =
     (if v = KKM_INTR_SYSCALL then Some Syscall_entry_asm
      else if unat v < NR_VECTORS then Some (replace_error_handlers intr_function_pointers ! unat v)
      else None)"

text \<open>The trap stack: a system call builds its own from the registers.\<close>

definition trap_frame :: "linux \<Rightarrow> payload_trap \<Rightarrow> (u64 \<times> kkm_trap_info) option" where
  "trap_frame E t =
     (case trap_stub (pt_vector t) of None \<Rightarrow> None
      | Some st \<Rightarrow> (case stub_pushes st (pt_error t) of None \<Rightarrow> None
      | Some (n, err) \<Rightarrow>
          Some (n, if st = Syscall_entry_asm
                   then \<lparr>ti_error = err, ti_rip = rcx (pt_regs t), ti_cs = lx_USER_CS E, ti_rflags = r11 (pt_regs t),
                         ti_rsp = rsp (pt_regs t), ti_ss = lx_USER_DS E\<rparr>
                   else \<lparr>ti_error = err, ti_rip = rip (pt_regs t), ti_cs = pt_cs t, ti_rflags = rflags (pt_regs t),
                         ti_rsp = rsp (pt_regs t), ti_ss = pt_ss t\<rparr>)))"

text \<open>\<open>kkm_intr_entry_asm\<close>; the entry of a system call always swaps \<open>gs\<close> and uses \<open>sp2\<close>.\<close>

definition kkm_intr_entry_asm ::
  "payload_trap \<Rightarrow> u64 \<times> kkm_trap_info \<Rightarrow> 'a vcpu_scheme \<Rightarrow> 'a vcpu_scheme" where
  "kkm_intr_entry_asm t frame s =
     (let (intr_no, ti) = frame;
          s1 = on_cpu (\<lambda>c. if pt_vector t = KKM_INTR_SYSCALL then (swapgs c)\<lparr>c_sp2 := rsp (pt_regs t)\<rparr>
                           else if ti_cs ti AND 3 = 0 then c else swapgs c) s;
          s2 = asm_load_cr3 (c_cr3 (cpu s1) AND 0xFFFFFFFFFFFFEFFF) s1;
          s3 = on_regs (\<lambda>r. (pt_regs t)\<lparr>rsp := ti_rsp ti, rip := rip r, rflags := rflags r\<rparr>) s2;
          c = cpu s3
      in on_ga (\<lambda>g. g\<lparr>ga_sregs := (ga_sregs g)\<lparr>cr0 := pt_cr0 t, cr2 := c_cr2 c, cr3 := c_cr3 c, cr4 := c_cr4 c,
                       cr8 := pt_cr8 t\<rparr>,
                     ga_trap_info := ti, ga_intr_no := intr_no\<rparr>) s3)"

subsection \<open>Back to the native kernel\<close>

definition kkm_switch_to_host_kernel ::
  "kkm_platform_calls \<Rightarrow> linux \<Rightarrow> 'a vcpu_scheme \<Rightarrow> 'a vcpu_scheme" where
  "kkm_switch_to_host_kernel P E s =
     (let s1 = on_regs (\<lambda>r. r\<lparr>rip := ti_rip (ga_trap_info (vc_ga s)), rflags := ti_rflags (ga_trap_info (vc_ga s))\<rparr>) s;
          s2 = on_ga (\<lambda>g. if kn_debug_registers_set (vc_kontext s1) = True
                          then g\<lparr>ga_debug := (ga_debug g)\<lparr>dbg_registers :=
                                 kkm_hw_debug_registers_save (cpu s1) (dbg_registers (ga_debug g))\<rparr>\<rparr> else g) s1;
          g = vc_ga s2; n = kn_native (vc_kontext s2);
          s3 = on_cpu (\<lambda>c. c\<lparr>c_sp0 := ga_native_save_tss_sp0 g, c_sp1 := ga_native_save_tss_sp1 g,
                 c_sp2 := ga_native_save_tss_sp2 g\<rparr>) s2;
          s4 = on_cpu (pl_load_idt P (ga_native_idt_desc g)) s3;
          s5 = on_cpu (\<lambda>c. c\<lparr>c_lstar := native_kernel_entry_syscall_64 n, c_ds := native_kernel_ds n,
                 c_es := native_kernel_es n, c_fs := native_kernel_fs n, c_fs_base := native_kernel_fs_base n,
                 c_gs := native_kernel_gs n, c_gs_base := native_kernel_gs_base n,
                 c_kernel_gs_base := native_kernel_gs_kern_base n, c_ss := lx_KERNEL_DS E\<rparr>) s4
      in asm_load_cr3 (native_kernel_cr3 n) s5)"

text \<open>What follows the return of \<open>kkm_switch_to_gk_asm\<close>.\<close>

definition switch_leave :: "'a vcpu_scheme \<Rightarrow> 'a vcpu_scheme" where
  "switch_leave s =
     (let s1 = on_cpu (\<lambda>c. if kn_debug_registers_set (vc_kontext s) = True
                           then kkm_hw_debug_registers_restore (native_debug_registers (kn_native (vc_kontext s))) c
                           else c) s;
          s2 = s1\<lparr>vc_payload_xstate := c_xstate (cpu s1)\<rparr>;
          s3 = on_cpu (\<lambda>c. c\<lparr>c_xstate := vc_kernel_xstate s2\<rparr>) s2;
          s4 = on_kontext (\<lambda>k. k\<lparr>kn_valid_payload_xsave_area := True\<rparr>) s3;
          s5 = on_cpu (\<lambda>c. c\<lparr>c_irq_enabled := True\<rparr>) (kcall Ev_irq_enable s4)
      in kcall Ev_put_cpu s5)"

text \<open>
  \<open>kkm_switch_to_gk_asm\<close> with everything it leads to, up to the return to its caller: \<open>None\<close> when the
  processor reports a vector that does not exist.
\<close>

definition kkm_switch_to_gk_asm ::
  "kkm_platform_calls \<Rightarrow> kx_image \<Rightarrow> linux \<Rightarrow> 'a vcpu_scheme \<Rightarrow> 'a vcpu_scheme option" where
  "kkm_switch_to_gk_asm P im E s =
     (case kkm_switch_to_gp_asm (kkm_guest_kernel_start_payload P im E s) of (pe, s1) \<Rightarrow>
      case run_payload E pe s1 of (t, s2) \<Rightarrow>
      case trap_frame E t of None \<Rightarrow> None
      | Some frame \<Rightarrow> Some (kkm_switch_to_host_kernel P E (kkm_intr_entry_asm t frame s2)))"

definition world_switch ::
  "kkm_platform_calls \<Rightarrow> kx_image \<Rightarrow> linux \<Rightarrow> 'a vcpu_scheme \<Rightarrow> 'a vcpu_scheme option" where
  "world_switch P im E s = map_option switch_leave (kkm_switch_to_gk_asm P im E (switch_enter P E s))"

subsection \<open>The loop\<close>

datatype 's turn = Stop int 's | Again 's | Undefined_turn

text \<open>What the loop does with the result of \<open>kkm_process_intr\<close>.\<close>

definition after_trap :: "linux \<Rightarrow> int \<Rightarrow> 'a vcpu_scheme \<Rightarrow> 'a vcpu_scheme turn" where
  "after_trap E ret_val s =
     (if ret_val = KKM_KONTEXT_FAULT_PROCESS_DONE then
        let n = ga_intr_no (vc_ga s);
            s1 = (if n = LOCAL_TIMER_VECTOR then kcall Ev_schedule s else s);
            s2 = (if lx_config_hyperv E \<and> n = HYPERV_STIMER0_VECTOR then kcall Ev_schedule s1 else s1);
            kn = vc_kontext s2
        in if n = 14 \<and> kn_prev_trap_no kn = 14 \<and> kn_prev_trap_addr kn = kn_trap_addr kn \<and>
              kn_prev_error_code kn = kn_error_code kn then
             let s3 = on_kontext (\<lambda>k. k\<lparr>kn_trap_repeat_counter := kn_trap_repeat_counter k + 1\<rparr>) s2
             in if kn_trap_repeat_counter (vc_kontext s3) > KKM_MAX_REPEAT_TRAP then Stop (- EFAULT) s3 else Again s3
           else Again (on_kontext (\<lambda>k. k\<lparr>kn_prev_trap_no := n, kn_prev_trap_addr := kn_trap_addr k,
                         kn_prev_error_code := kn_error_code k, kn_trap_repeat_counter := 0\<rparr>) s2)
      else Stop ret_val s)"

definition switch_turn ::
  "kkm_platform_calls \<Rightarrow> kx_image \<Rightarrow> linux \<Rightarrow> 'a vcpu_scheme \<Rightarrow> 'a vcpu_scheme turn" where
  "switch_turn P im E s =
     (let s1 = kcall Ev_signal_pending s in
      if lx_signal_pending E (klog s)
      then Stop (- EINTR) (s1\<lparr>vc_run := (vc_run s1)\<lparr>exit_reason := exit_code KKM_EXIT_INTR\<rparr>\<rparr>)
      else case world_switch P im E s1 of None \<Rightarrow> Undefined_turn
           | Some s2 \<Rightarrow> (case kkm_process_intr E s2 of None \<Rightarrow> Undefined_turn
           | Some (ret_val, s3) \<Rightarrow> after_trap E ret_val s3))"

datatype 'r outcome = Returns 'r | Undefined | Out_of_fuel

fun switch_loop ::
  "kkm_platform_calls \<Rightarrow> kx_image \<Rightarrow> linux \<Rightarrow> nat \<Rightarrow> 'a vcpu_scheme \<Rightarrow> (int \<times> 'a vcpu_scheme) outcome" where
  "switch_loop P im E 0 s = Out_of_fuel"
| "switch_loop P im E (Suc n) s =
     (case switch_turn P im E s of
        Stop r s' \<Rightarrow> Returns (r, s')
      | Again s' \<Rightarrow> switch_loop P im E n s'
      | Undefined_turn \<Rightarrow> Undefined)"

definition kkm_kontext_switch_kernel ::
  "kkm_platform_calls \<Rightarrow> kx_image \<Rightarrow> linux \<Rightarrow> nat \<Rightarrow> 'a vcpu_scheme \<Rightarrow> (int \<times> 'a vcpu_scheme) outcome" where
  "kkm_kontext_switch_kernel P im E fuel s =
     (case switch_prologue E s of (r, s1) \<Rightarrow>
      if r \<noteq> 0 then Returns (r, s1) else switch_loop P im E fuel s1)"


subsection \<open>Where each step writes\<close>

lemma on_cpu_simps [simp]:
  "cpu (on_cpu f s) = f (cpu s)" "klog (on_cpu f s) = klog s" "um (on_cpu f s) = um s" "kmem (on_cpu f s) = kmem s"
  "kkm_mmu_kx (on_cpu f s) = kkm_mmu_kx s" "kkm_cpu_full_tlb_flush (on_cpu f s) = kkm_cpu_full_tlb_flush s"
  "idt_native_desc (on_cpu f s) = idt_native_desc s" "idt_guest_desc (on_cpu f s) = idt_guest_desc s"
  "idt_last_id (on_cpu f s) = idt_last_id s" "host.more (on_cpu f s) = host.more s"
  "lazy_flush_tlb (on_cpu f s) = lazy_flush_tlb s" "current_kontext (on_cpu f s) = current_kontext s"
  by (simp_all add: on_cpu_def)

lemma on_cpu_vcpu [simp]:
  "vm_kkm (on_cpu f v) = vm_kkm v" "vc_kontext (on_cpu f v) = vc_kontext v" "vc_ga (on_cpu f v) = vc_ga v"
  "vc_run (on_cpu f v) = vc_run v" "vc_pa (on_cpu f v) = vc_pa v"
  "vc_kernel_xstate (on_cpu f v) = vc_kernel_xstate v" "vc_payload_xstate (on_cpu f v) = vc_payload_xstate v"
  by (simp_all add: on_cpu_def)

lemma on_ga_simps [simp]:
  "cpu (on_ga f s) = cpu s" "klog (on_ga f s) = klog s" "um (on_ga f s) = um s" "kmem (on_ga f s) = kmem s"
  "kkm_mmu_kx (on_ga f s) = kkm_mmu_kx s" "kkm_cpu_full_tlb_flush (on_ga f s) = kkm_cpu_full_tlb_flush s"
  "idt_native_desc (on_ga f s) = idt_native_desc s" "idt_guest_desc (on_ga f s) = idt_guest_desc s"
  "idt_last_id (on_ga f s) = idt_last_id s" "vm_kkm (on_ga f s) = vm_kkm s" "vc_kontext (on_ga f s) = vc_kontext s"
  "vc_ga (on_ga f s) = f (vc_ga s)" "vc_run (on_ga f s) = vc_run s" "vc_pa (on_ga f s) = vc_pa s"
  "vc_kernel_xstate (on_ga f s) = vc_kernel_xstate s" "vc_payload_xstate (on_ga f s) = vc_payload_xstate s"
  by (simp_all add: on_ga_def)

lemma on_native_simps [simp]:
  "cpu (on_native f s) = cpu s" "klog (on_native f s) = klog s" "vm_kkm (on_native f s) = vm_kkm s"
  "vc_ga (on_native f s) = vc_ga s" "vc_run (on_native f s) = vc_run s" "vc_pa (on_native f s) = vc_pa s"
  "vc_kontext (on_native f s) = (vc_kontext s)\<lparr>kn_native := f (kn_native (vc_kontext s))\<rparr>"
  "vc_kernel_xstate (on_native f s) = vc_kernel_xstate s" "vc_payload_xstate (on_native f s) = vc_payload_xstate s"
  by (simp_all add: on_native_def)

lemma on_regs_more [simp]:
  "cpu (on_regs f v) = cpu v" "vc_kernel_xstate (on_regs f v) = vc_kernel_xstate v"
  "vc_payload_xstate (on_regs f v) = vc_payload_xstate v"
  "ga_native_idt_desc (vc_ga (on_regs f v)) = ga_native_idt_desc (vc_ga v)"
  "ga_guest_idt_desc (vc_ga (on_regs f v)) = ga_guest_idt_desc (vc_ga v)"
  "ga_debug (vc_ga (on_regs f v)) = ga_debug (vc_ga v)"
  "ga_native_save_tss_sp0 (vc_ga (on_regs f v)) = ga_native_save_tss_sp0 (vc_ga v)"
  "ga_native_save_tss_sp1 (vc_ga (on_regs f v)) = ga_native_save_tss_sp1 (vc_ga v)"
  "ga_native_save_tss_sp2 (vc_ga (on_regs f v)) = ga_native_save_tss_sp2 (vc_ga v)"
  "ga_guest_payload_cr3 (vc_ga (on_regs f v)) = ga_guest_payload_cr3 (vc_ga v)"
  "ga_guest_payload_cs (vc_ga (on_regs f v)) = ga_guest_payload_cs (vc_ga v)"
  "ga_guest_payload_ss (vc_ga (on_regs f v)) = ga_guest_payload_ss (vc_ga v)"
  "ga_guest_area_beg (vc_ga (on_regs f v)) = ga_guest_area_beg (vc_ga v)"
  "ga_kkm_kontext (vc_ga (on_regs f v)) = ga_kkm_kontext (vc_ga v)"
  "ga_cpu (vc_ga (on_regs f v)) = ga_cpu (vc_ga v)" "idt_last_id (on_regs f v) = idt_last_id v"
  by (simp_all add: on_regs_def)

lemma asm_load_cr3_simps [simp]:
  "cpu (asm_load_cr3 v s) = (cpu s)\<lparr>c_cr3 := v\<rparr>" "host.more (asm_load_cr3 v s) = host.more s"
  "outstanding E (klog (asm_load_cr3 v s)) = outstanding E (klog s)" "um (asm_load_cr3 v s) = um s"
  "kmem (asm_load_cr3 v s) = kmem s" "idt_native_desc (asm_load_cr3 v s) = idt_native_desc s"
  "idt_last_id (asm_load_cr3 v s) = idt_last_id s"
  by (simp_all add: asm_load_cr3_def Let_def)

lemma asm_load_cr3_vcpu [simp]:
  "vm_kkm (asm_load_cr3 v s) = vm_kkm s" "vc_kontext (asm_load_cr3 v s) = vc_kontext s"
  "vc_ga (asm_load_cr3 v s) = vc_ga s" "vc_run (asm_load_cr3 v s) = vc_run s" "vc_pa (asm_load_cr3 v s) = vc_pa s"
  "vc_kernel_xstate (asm_load_cr3 v s) = vc_kernel_xstate s"
  "vc_payload_xstate (asm_load_cr3 v s) = vc_payload_xstate s"
  by (simp_all add: asm_load_cr3_def Let_def)

lemma swapgs_simps [simp]:
  "c_gs_base (swapgs c) = c_kernel_gs_base c" "c_kernel_gs_base (swapgs c) = c_gs_base c"
  "c_cr2 (swapgs c) = c_cr2 c" "c_cr3 (swapgs c) = c_cr3 c" "c_cr4 (swapgs c) = c_cr4 c"
  "c_fs_base (swapgs c) = c_fs_base c" "c_sp0 (swapgs c) = c_sp0 c" "c_sp1 (swapgs c) = c_sp1 c"
  "c_sp2 (swapgs c) = c_sp2 c" "c_dr (swapgs c) = c_dr c" "c_xstate (swapgs c) = c_xstate c"
  "c_irq_enabled (swapgs c) = c_irq_enabled c" "c_idtr (swapgs c) = c_idtr c" "c_lstar (swapgs c) = c_lstar c"
  by (simp_all add: swapgs_def)

lemma set_guest_area_frame [simp]:
  "cpu (kkm_mmu_set_guest_area c a b d e s) = cpu s" "klog (kkm_mmu_set_guest_area c a b d e s) = klog s"
  "um (kkm_mmu_set_guest_area c a b d e s) = um s" "host.more (kkm_mmu_set_guest_area c a b d e s) = host.more s"
  "idt_native_desc (kkm_mmu_set_guest_area c a b d e s) = idt_native_desc s"
  "idt_guest_desc (kkm_mmu_set_guest_area c a b d e s) = idt_guest_desc s"
  "idt_last_id (kkm_mmu_set_guest_area c a b d e s) = idt_last_id s"
  "kkm_cpu_full_tlb_flush (kkm_mmu_set_guest_area c a b d e s) = kkm_cpu_full_tlb_flush s"
  "lazy_flush_tlb (kkm_mmu_set_guest_area c a b d e s) = lazy_flush_tlb s"
  by (simp_all add: kkm_mmu_set_guest_area_def kkm_mmu_insert_page_def kkm_mmu_set_entry_def Let_def)

lemma set_guest_area_vcpu [simp]:
  "vm_kkm (kkm_mmu_set_guest_area c a b d e v) = vm_kkm v" "vc_kontext (kkm_mmu_set_guest_area c a b d e v) = vc_kontext v"
  "vc_ga (kkm_mmu_set_guest_area c a b d e v) = vc_ga v" "vc_run (kkm_mmu_set_guest_area c a b d e v) = vc_run v"
  "vc_pa (kkm_mmu_set_guest_area c a b d e v) = vc_pa v"
  "vc_payload_xstate (kkm_mmu_set_guest_area c a b d e v) = vc_payload_xstate v"
  by (simp_all add: kkm_mmu_set_guest_area_def kkm_mmu_insert_page_def kkm_mmu_set_entry_def Let_def)

lemma flush_tlb_frame [simp]:
  "cpu (kkm_mmu_flush_tlb s) = cpu s" "host.more (kkm_mmu_flush_tlb s) = host.more s" "um (kkm_mmu_flush_tlb s) = um s"
  "idt_native_desc (kkm_mmu_flush_tlb s) = idt_native_desc s" "idt_guest_desc (kkm_mmu_flush_tlb s) = idt_guest_desc s"
  "idt_last_id (kkm_mmu_flush_tlb s) = idt_last_id s"
  by (simp_all add: kkm_mmu_flush_tlb_def)

lemma flush_before_entry_frame [simp]:
  "cpu (flush_before_entry c v) = cpu v" "vm_kkm (flush_before_entry c v) = vm_kkm v"
  "vc_kontext (flush_before_entry c v) = vc_kontext v" "vc_ga (flush_before_entry c v) = vc_ga v"
  "vc_run (flush_before_entry c v) = vc_run v" "vc_pa (flush_before_entry c v) = vc_pa v"
  "vc_payload_xstate (flush_before_entry c v) = vc_payload_xstate v" "um (flush_before_entry c v) = um v"
  "idt_native_desc (flush_before_entry c v) = idt_native_desc v"
  "idt_guest_desc (flush_before_entry c v) = idt_guest_desc v" "idt_last_id (flush_before_entry c v) = idt_last_id v"
  "outstanding E (klog (flush_before_entry c v)) = outstanding E (klog v)"
  by (simp_all add: flush_before_entry_def kkm_mmu_flush_tlb_def)

lemma idt_set_id_simps [simp]:
  "cpu (kkm_idt_set_id c i s) = cpu s" "klog (kkm_idt_set_id c i s) = klog s" "um (kkm_idt_set_id c i s) = um s"
  "host.more (kkm_idt_set_id c i s) = host.more s" "idt_native_desc (kkm_idt_set_id c i s) = idt_native_desc s"
  "kkm_idt_get_id c' (kkm_idt_set_id c i s) = (if c' = c then i else kkm_idt_get_id c' s)"
  "idt_last_id (kkm_idt_set_id c i s) = (idt_last_id s)(c := i)"
  by (simp_all add: kkm_idt_set_id_def kkm_idt_get_id_def)

lemma idt_set_id_vcpu [simp]:
  "vm_kkm (kkm_idt_set_id c i v) = vm_kkm v" "vc_kontext (kkm_idt_set_id c i v) = vc_kontext v"
  "vc_ga (kkm_idt_set_id c i v) = vc_ga v" "vc_run (kkm_idt_set_id c i v) = vc_run v"
  "vc_pa (kkm_idt_set_id c i v) = vc_pa v" "vc_payload_xstate (kkm_idt_set_id c i v) = vc_payload_xstate v"
  by (simp_all add: kkm_idt_set_id_def)

definition native_of :: "cpu_state \<Rightarrow> u64 list \<Rightarrow> kkm_native" where
  "native_of c drs = \<lparr>native_kernel_cr3 = c_cr3 c, native_kernel_cr4 = c_cr4 c, native_kernel_ds = c_ds c,
     native_kernel_es = c_es c, native_kernel_fs = c_fs c, native_kernel_fs_base = c_fs_base c,
     native_kernel_gs = c_gs c, native_kernel_gs_base = c_gs_base c, native_kernel_gs_kern_base = c_kernel_gs_base c,
     native_kernel_ss = c_ss c, native_kernel_entry_syscall_64 = c_lstar c, native_debug_registers = drs\<rparr>"

lemma save_native_facts:
  fixes s :: "'a vcpu_scheme"
  assumes P: "platform_calls P"
  shows "cpu (save_native P s) = (if kn_valid_payload_xsave_area (vc_kontext s)
           then (cpu s)\<lparr>c_xstate := vc_payload_xstate s\<rparr> else cpu s)"
    and "vc_kontext (save_native P s) = (vc_kontext s)\<lparr>kn_native := native_of (cpu s)
           (if kn_debug_registers_set (vc_kontext s)
            then kkm_hw_debug_registers_save (cpu s) (native_debug_registers (kn_native (vc_kontext s)))
            else native_debug_registers (kn_native (vc_kontext s)))\<rparr>"
    and "vc_kernel_xstate (save_native P s) = c_xstate (cpu s)"
    and "vc_payload_xstate (save_native P s) = vc_payload_xstate s"
    and "vc_ga (save_native P s) = (vc_ga s)\<lparr>ga_guest_kernel_cr4 := c_cr4 (cpu s), ga_intr_no := - 1\<rparr>"
    and "vm_kkm (save_native P s) = vm_kkm s" "vc_run (save_native P s) = vc_run s" "vc_pa (save_native P s) = vc_pa s"
    and "klog (save_native P s) = klog s" "um (save_native P s) = um s"
    and "idt_last_id (save_native P s) = idt_last_id s"
proof -
  have rd: "pl_read_cr3 P c = c_cr3 c" "pl_read_cr4 P c = c_cr4 c" for c
    by (simp_all add: platform_calls.read_cr3 [OF P] platform_calls.read_cr4 [OF P])
  have dr: "kkm_hw_debug_registers_save (c\<lparr>c_xstate := x\<rparr>) r = kkm_hw_debug_registers_save c r" for c x r
    by (simp add: kkm_hw_debug_registers_save_def)
  show "cpu (save_native P s) = (if kn_valid_payload_xsave_area (vc_kontext s)
           then (cpu s)\<lparr>c_xstate := vc_payload_xstate s\<rparr> else cpu s)"
    by (simp add: save_native_def Let_def)
  show "vc_kontext (save_native P s) = (vc_kontext s)\<lparr>kn_native := native_of (cpu s)
           (if kn_debug_registers_set (vc_kontext s)
            then kkm_hw_debug_registers_save (cpu s) (native_debug_registers (kn_native (vc_kontext s)))
            else native_debug_registers (kn_native (vc_kontext s)))\<rparr>"
    by (cases "kn_native (vc_kontext s)") (simp add: save_native_def Let_def rd dr native_of_def)
  show "vc_kernel_xstate (save_native P s) = c_xstate (cpu s)"
    "vc_payload_xstate (save_native P s) = vc_payload_xstate s"
    "vc_ga (save_native P s) = (vc_ga s)\<lparr>ga_guest_kernel_cr4 := c_cr4 (cpu s), ga_intr_no := - 1\<rparr>"
    by (simp_all add: save_native_def Let_def rd)
  show "vm_kkm (save_native P s) = vm_kkm s" "vc_run (save_native P s) = vc_run s" "vc_pa (save_native P s) = vc_pa s"
    "klog (save_native P s) = klog s" "um (save_native P s) = um s" "idt_last_id (save_native P s) = idt_last_id s"
    by (simp_all add: save_native_def Let_def on_native_def on_kontext_def on_ga_def on_cpu_def)
qed

text \<open>The processor a turn runs on.\<close>

definition turn_cpu :: "linux \<Rightarrow> 'a vcpu_scheme \<Rightarrow> nat" where
  "turn_cpu E s = lx_get_cpu E (Ev_irq_disable # klog s)"

lemma switch_enter_facts:
  fixes s :: "'a vcpu_scheme" and E :: linux
  assumes P: "platform_calls P"
  defines "e \<equiv> switch_enter P E s"
  shows "cpu e = (cpu s)\<lparr>c_irq_enabled := False, c_xstate :=
           if kn_valid_payload_xsave_area (vc_kontext s) then vc_payload_xstate s else c_xstate (cpu s)\<rparr>"
    and "vc_kontext e = (vc_kontext s)\<lparr>kn_native := native_of ((cpu s)\<lparr>c_irq_enabled := False\<rparr>)
           (if kn_debug_registers_set (vc_kontext s)
            then kkm_hw_debug_registers_save ((cpu s)\<lparr>c_irq_enabled := False\<rparr>)
                   (native_debug_registers (kn_native (vc_kontext s)))
            else native_debug_registers (kn_native (vc_kontext s)))\<rparr>"
    and "vc_kernel_xstate e = c_xstate (cpu s)" "vc_payload_xstate e = vc_payload_xstate s"
    and "vc_ga e = (vc_ga s)\<lparr>ga_native_idt_desc := idt_native_desc s, ga_guest_idt_desc := idt_guest_desc s,
           ga_cpu := of_nat (turn_cpu E s), ga_guest_kernel_cr4 := c_cr4 (cpu s), ga_intr_no := - 1\<rparr>"
    and "vm_kkm e = vm_kkm s" "vc_run e = vc_run s" "vc_pa e = vc_pa s" "um e = um s"
    and "idt_last_id e = (idt_last_id s)(turn_cpu E s := km_id (vm_kkm s))"
    and "outstanding E' (klog e) = outstanding E' (klog s)"
  unfolding e_def
  by (simp_all add: switch_enter_def Let_def save_native_facts [OF P] turn_cpu_def kkm_idt_get_desc_def)

lemma start_payload_facts:
  fixes s :: "'a vcpu_scheme" and E :: linux and im :: kx_image
  assumes P: "platform_calls P"
  defines "b \<equiv> kkm_guest_kernel_start_payload P im E s"
  shows "cpu b = (if kn_debug_registers_set (vc_kontext s)
             then kkm_hw_debug_registers_restore (dbg_registers (ga_debug (vc_ga s))) (cpu s) else cpu s)
           \<lparr>c_ds := 0, c_es := 0, c_fs := 0, c_fs_base := seg_base (sr_fs (ga_sregs (vc_ga s))),
            c_kernel_gs_base := seg_base (sr_gs (ga_sregs (vc_ga s))),
            c_lstar := im_addr im Syscall_entry_asm - im_addr im (Intr_entry 0) + KKM_IDT_CODE_START_VA,
            c_sp0 := ga_guest_area_beg (vc_ga s) + OFF_REDZONE_BOTTOM, c_idtr := ga_guest_idt_desc (vc_ga s)\<rparr>"
    and "vc_ga b = (vc_ga s)\<lparr>ga_guest_payload_cs := lx_USER_CS E, ga_guest_payload_ss := lx_USER_DS E,
           ga_regs := (ga_regs (vc_ga s))\<lparr>rflags :=
             payload_rflags (dbg_control (ga_debug (vc_ga s))) (rflags (ga_regs (vc_ga s)))\<rparr>,
           ga_native_save_tss_sp0 := c_sp0 (cpu s), ga_native_save_tss_sp1 := c_sp1 (cpu s),
           ga_native_save_tss_sp2 := c_sp2 (cpu s)\<rparr>"
    and "vc_kontext b = vc_kontext s" "vm_kkm b = vm_kkm s" "vc_run b = vc_run s" "vc_pa b = vc_pa s" "um b = um s"
    and "vc_kernel_xstate b = vc_kernel_xstate s" "vc_payload_xstate b = vc_payload_xstate s"
    and "klog b = klog s" "idt_last_id b = idt_last_id s"
proof -
  have dr: "kkm_hw_debug_registers_restore r (c\<lparr>c_ds := a1, c_es := a2, c_fs := a3, c_fs_base := a4,
       c_kernel_gs_base := a5, c_lstar := a6\<rparr>) = (kkm_hw_debug_registers_restore r c)\<lparr>c_ds := a1, c_es := a2,
       c_fs := a3, c_fs_base := a4, c_kernel_gs_base := a5, c_lstar := a6\<rparr>" for r c a1 a2 a3 a4 a5 a6
    by (simp add: kkm_hw_debug_registers_restore_def)
  have dr2: "c_sp0 (kkm_hw_debug_registers_restore r c) = c_sp0 c" "c_sp1 (kkm_hw_debug_registers_restore r c) = c_sp1 c"
     "c_sp2 (kkm_hw_debug_registers_restore r c) = c_sp2 c" for r c
    by (simp_all add: kkm_hw_debug_registers_restore_def)
  note li = platform_calls.load_idt [OF P]
  show "cpu b = (if kn_debug_registers_set (vc_kontext s)
             then kkm_hw_debug_registers_restore (dbg_registers (ga_debug (vc_ga s))) (cpu s) else cpu s)
           \<lparr>c_ds := 0, c_es := 0, c_fs := 0, c_fs_base := seg_base (sr_fs (ga_sregs (vc_ga s))),
            c_kernel_gs_base := seg_base (sr_gs (ga_sregs (vc_ga s))),
            c_lstar := im_addr im Syscall_entry_asm - im_addr im (Intr_entry 0) + KKM_IDT_CODE_START_VA,
            c_sp0 := ga_guest_area_beg (vc_ga s) + OFF_REDZONE_BOTTOM, c_idtr := ga_guest_idt_desc (vc_ga s)\<rparr>"
    by (simp add: b_def kkm_guest_kernel_start_payload_def Let_def li dr)
  show "vc_ga b = (vc_ga s)\<lparr>ga_guest_payload_cs := lx_USER_CS E, ga_guest_payload_ss := lx_USER_DS E,
           ga_regs := (ga_regs (vc_ga s))\<lparr>rflags :=
             payload_rflags (dbg_control (ga_debug (vc_ga s))) (rflags (ga_regs (vc_ga s)))\<rparr>,
           ga_native_save_tss_sp0 := c_sp0 (cpu s), ga_native_save_tss_sp1 := c_sp1 (cpu s),
           ga_native_save_tss_sp2 := c_sp2 (cpu s)\<rparr>"
    by (simp add: b_def kkm_guest_kernel_start_payload_def Let_def dr dr2) (simp add: on_regs_def)
  show "vc_kontext b = vc_kontext s" "vm_kkm b = vm_kkm s" "vc_run b = vc_run s" "vc_pa b = vc_pa s" "um b = um s"
    "vc_kernel_xstate b = vc_kernel_xstate s" "vc_payload_xstate b = vc_payload_xstate s"
    "klog b = klog s" "idt_last_id b = idt_last_id s"
    by (simp_all add: b_def kkm_guest_kernel_start_payload_def Let_def) (simp add: on_ga_def on_regs_def)?
qed

lemma run_payload_simps [simp]:
  "snd (run_payload E pe s) = on_cpu (\<lambda>c. c\<lparr>c_cr2 := pt_cr2 (fst (run_payload E pe s)),
     c_ds := pt_ds (fst (run_payload E pe s)), c_es := pt_es (fst (run_payload E pe s)),
     c_fs := pt_fs (fst (run_payload E pe s)), c_gs := pt_gs (fst (run_payload E pe s)),
     c_ss := ucast (pt_ss (fst (run_payload E pe s))), c_fs_base := pt_fs_base (fst (run_payload E pe s)),
     c_gs_base := pt_gs_base (fst (run_payload E pe s)), c_xstate := pt_xstate (fst (run_payload E pe s)),
     c_dr := pt_debug_registers (fst (run_payload E pe s))\<rparr>)
     (kcall (Ev_payload (km_id (vm_kkm s)) (ga_guest_area_beg (vc_ga s))) s)"
  by (simp add: run_payload_def Let_def)

text \<open>What the entry code does to \<open>gs\<close> (and the scratch slot of a system call).\<close>

definition entry_swap :: "payload_trap \<Rightarrow> kkm_trap_info \<Rightarrow> cpu_state \<Rightarrow> cpu_state" where
  "entry_swap t ti c = (if pt_vector t = KKM_INTR_SYSCALL then (swapgs c)\<lparr>c_sp2 := rsp (pt_regs t)\<rparr>
                        else if ti_cs ti AND 3 = 0 then c else swapgs c)"

lemma entry_swap_simps [simp]:
  "c_cr2 (entry_swap t ti c) = c_cr2 c" "c_cr3 (entry_swap t ti c) = c_cr3 c" "c_cr4 (entry_swap t ti c) = c_cr4 c"
  "c_sp0 (entry_swap t ti c) = c_sp0 c" "c_sp1 (entry_swap t ti c) = c_sp1 c" "c_dr (entry_swap t ti c) = c_dr c"
  "c_xstate (entry_swap t ti c) = c_xstate c" "c_irq_enabled (entry_swap t ti c) = c_irq_enabled c"
  "c_fs_base (entry_swap t ti c) = c_fs_base c" "c_ds (entry_swap t ti c) = c_ds c" "c_es (entry_swap t ti c) = c_es c"
  "c_fs (entry_swap t ti c) = c_fs c" "c_gs (entry_swap t ti c) = c_gs c" "c_ss (entry_swap t ti c) = c_ss c"
  "c_lstar (entry_swap t ti c) = c_lstar c" "c_idtr (entry_swap t ti c) = c_idtr c"
  by (simp_all add: entry_swap_def swapgs_def)

lemma intr_entry_facts:
  fixes s :: "'a vcpu_scheme" and t :: payload_trap and n :: u64 and ti :: kkm_trap_info
  defines "h \<equiv> kkm_intr_entry_asm t (n, ti) s"
  shows "cpu h = (entry_swap t ti (cpu s))\<lparr>c_cr3 := c_cr3 (cpu s) AND 0xFFFFFFFFFFFFEFFF\<rparr>"
    and "vc_ga h = (vc_ga s)\<lparr>ga_regs := (pt_regs t)\<lparr>rsp := ti_rsp ti, rip := rip (ga_regs (vc_ga s)),
            rflags := rflags (ga_regs (vc_ga s))\<rparr>,
            ga_sregs := (ga_sregs (vc_ga s))\<lparr>cr0 := pt_cr0 t, cr2 := c_cr2 (cpu s),
              cr3 := c_cr3 (cpu s) AND 0xFFFFFFFFFFFFEFFF, cr4 := c_cr4 (cpu s), cr8 := pt_cr8 t\<rparr>,
            ga_trap_info := ti, ga_intr_no := n\<rparr>"
    and "vc_kontext h = vc_kontext s" "vm_kkm h = vm_kkm s" "vc_run h = vc_run s" "vc_pa h = vc_pa s" "um h = um s"
    and "vc_kernel_xstate h = vc_kernel_xstate s" "vc_payload_xstate h = vc_payload_xstate s"
    and "outstanding E (klog h) = outstanding E (klog s)" "idt_last_id h = idt_last_id s"
  unfolding h_def
  by (simp_all add: kkm_intr_entry_asm_def Let_def entry_swap_def swapgs_def) (simp add: on_regs_def)?

lemma host_kernel_facts:
  fixes s :: "'a vcpu_scheme" and E :: linux
  assumes P: "platform_calls P"
  defines "h \<equiv> kkm_switch_to_host_kernel P E s" and "n \<equiv> kn_native (vc_kontext s)"
  shows "cpu h = (cpu s)\<lparr>c_sp0 := ga_native_save_tss_sp0 (vc_ga s), c_sp1 := ga_native_save_tss_sp1 (vc_ga s),
            c_sp2 := ga_native_save_tss_sp2 (vc_ga s), c_idtr := ga_native_idt_desc (vc_ga s),
            c_lstar := native_kernel_entry_syscall_64 n, c_ds := native_kernel_ds n,
            c_es := native_kernel_es n, c_fs := native_kernel_fs n, c_fs_base := native_kernel_fs_base n,
            c_gs := native_kernel_gs n, c_gs_base := native_kernel_gs_base n,
            c_kernel_gs_base := native_kernel_gs_kern_base n, c_ss := lx_KERNEL_DS E,
            c_cr3 := native_kernel_cr3 n\<rparr>"
    and "vc_ga h = (vc_ga s)\<lparr>ga_regs := (ga_regs (vc_ga s))\<lparr>rip := ti_rip (ga_trap_info (vc_ga s)),
            rflags := ti_rflags (ga_trap_info (vc_ga s))\<rparr>,
            ga_debug := (if kn_debug_registers_set (vc_kontext s)
              then (ga_debug (vc_ga s))\<lparr>dbg_registers :=
                     kkm_hw_debug_registers_save (cpu s) (dbg_registers (ga_debug (vc_ga s)))\<rparr>
              else ga_debug (vc_ga s))\<rparr>"
    and "vc_kontext h = vc_kontext s" "vm_kkm h = vm_kkm s" "vc_run h = vc_run s" "vc_pa h = vc_pa s" "um h = um s"
    and "vc_kernel_xstate h = vc_kernel_xstate s" "vc_payload_xstate h = vc_payload_xstate s"
    and "outstanding E' (klog h) = outstanding E' (klog s)" "idt_last_id h = idt_last_id s"
proof -
  show "cpu h = (cpu s)\<lparr>c_sp0 := ga_native_save_tss_sp0 (vc_ga s), c_sp1 := ga_native_save_tss_sp1 (vc_ga s),
            c_sp2 := ga_native_save_tss_sp2 (vc_ga s), c_idtr := ga_native_idt_desc (vc_ga s),
            c_lstar := native_kernel_entry_syscall_64 n, c_ds := native_kernel_ds n,
            c_es := native_kernel_es n, c_fs := native_kernel_fs n, c_fs_base := native_kernel_fs_base n,
            c_gs := native_kernel_gs n, c_gs_base := native_kernel_gs_base n,
            c_kernel_gs_base := native_kernel_gs_kern_base n, c_ss := lx_KERNEL_DS E,
            c_cr3 := native_kernel_cr3 n\<rparr>"
    by (cases "kn_debug_registers_set (vc_kontext s)")
      (simp_all add: h_def n_def kkm_switch_to_host_kernel_def Let_def platform_calls.load_idt [OF P])
  show "vc_ga h = (vc_ga s)\<lparr>ga_regs := (ga_regs (vc_ga s))\<lparr>rip := ti_rip (ga_trap_info (vc_ga s)),
            rflags := ti_rflags (ga_trap_info (vc_ga s))\<rparr>,
            ga_debug := (if kn_debug_registers_set (vc_kontext s)
              then (ga_debug (vc_ga s))\<lparr>dbg_registers :=
                     kkm_hw_debug_registers_save (cpu s) (dbg_registers (ga_debug (vc_ga s)))\<rparr>
              else ga_debug (vc_ga s))\<rparr>"
    by (cases "vc_ga s") (simp add: h_def kkm_switch_to_host_kernel_def Let_def on_regs_def)
  show "vc_kontext h = vc_kontext s" "vm_kkm h = vm_kkm s" "vc_run h = vc_run s" "vc_pa h = vc_pa s" "um h = um s"
    "vc_kernel_xstate h = vc_kernel_xstate s" "vc_payload_xstate h = vc_payload_xstate s"
    "outstanding E' (klog h) = outstanding E' (klog s)" "idt_last_id h = idt_last_id s"
    by (simp_all add: h_def kkm_switch_to_host_kernel_def Let_def) (simp add: on_regs_def)?
qed

lemma switch_leave_facts:
  fixes s :: "'a vcpu_scheme"
  defines "l \<equiv> switch_leave s"
  shows "cpu l = (if kn_debug_registers_set (vc_kontext s)
            then kkm_hw_debug_registers_restore (native_debug_registers (kn_native (vc_kontext s))) (cpu s)
            else cpu s)\<lparr>c_xstate := vc_kernel_xstate s, c_irq_enabled := True\<rparr>"
    and "vc_payload_xstate l = c_xstate (cpu s)" "vc_kernel_xstate l = vc_kernel_xstate s"
    and "vc_kontext l = (vc_kontext s)\<lparr>kn_valid_payload_xsave_area := True\<rparr>"
    and "vc_ga l = vc_ga s" "vm_kkm l = vm_kkm s" "vc_run l = vc_run s" "vc_pa l = vc_pa s" "um l = um s"
    and "outstanding E (klog l) = outstanding E (klog s)" "idt_last_id l = idt_last_id s"
proof -
  have x: "c_xstate (kkm_hw_debug_registers_restore r c) = c_xstate c" for r c
    by (simp add: kkm_hw_debug_registers_restore_def)
  show "cpu l = (if kn_debug_registers_set (vc_kontext s)
            then kkm_hw_debug_registers_restore (native_debug_registers (kn_native (vc_kontext s))) (cpu s)
            else cpu s)\<lparr>c_xstate := vc_kernel_xstate s, c_irq_enabled := True\<rparr>"
    "vc_payload_xstate l = c_xstate (cpu s)" "vc_kernel_xstate l = vc_kernel_xstate s"
    "vc_kontext l = (vc_kontext s)\<lparr>kn_valid_payload_xsave_area := True\<rparr>"
    "vc_ga l = vc_ga s" "vm_kkm l = vm_kkm s" "vc_run l = vc_run s" "vc_pa l = vc_pa s" "um l = um s"
    "outstanding E (klog l) = outstanding E (klog s)" "idt_last_id l = idt_last_id s"
    by (simp_all add: l_def switch_leave_def Let_def x) (simp_all add: on_kontext_def)?
qed

subsection \<open>A turn seen from outside\<close>

definition payload_state :: "kkm_platform_calls \<Rightarrow> kx_image \<Rightarrow> linux \<Rightarrow> 'a vcpu_scheme \<Rightarrow> 'a vcpu_scheme" where
  "payload_state P im E s = snd (kkm_switch_to_gp_asm (kkm_guest_kernel_start_payload P im E (switch_enter P E s)))"

definition payload_entry_of :: "kkm_platform_calls \<Rightarrow> kx_image \<Rightarrow> linux \<Rightarrow> 'a vcpu_scheme \<Rightarrow> payload_entry" where
  "payload_entry_of P im E s = fst (kkm_switch_to_gp_asm (kkm_guest_kernel_start_payload P im E (switch_enter P E s)))"

definition payload_trap_of :: "kkm_platform_calls \<Rightarrow> kx_image \<Rightarrow> linux \<Rightarrow> 'a vcpu_scheme \<Rightarrow> payload_trap" where
  "payload_trap_of P im E s = lx_payload E (klog (payload_state P im E s)) (payload_entry_of P im E s)"

lemma world_switch_steps:
  "world_switch P im E s =
     (case trap_frame E (payload_trap_of P im E s) of None \<Rightarrow> None
      | Some frame \<Rightarrow> Some (switch_leave (kkm_switch_to_host_kernel P E
          (kkm_intr_entry_asm (payload_trap_of P im E s) frame
             (snd (run_payload E (payload_entry_of P im E s) (payload_state P im E s)))))))"
  by (simp add: world_switch_def kkm_switch_to_gk_asm_def payload_state_def payload_entry_of_def
      payload_trap_of_def run_payload_def Let_def case_prod_unfold split: option.splits)

lemma run_payload_trap [simp]:
  "fst (run_payload E (payload_entry_of P im E s) (payload_state P im E s)) = payload_trap_of P im E s"
  by (simp add: run_payload_def payload_trap_of_def Let_def)

lemma gp_asm_facts:
  fixes s :: "'a vcpu_scheme"
  defines "g \<equiv> snd (kkm_switch_to_gp_asm s)"
  shows "cpu g = swapgs ((cpu s)\<lparr>c_cr2 := 0, c_cr3 := ga_guest_payload_cr3 (vc_ga s)\<rparr>)"
    and "vc_kontext g = vc_kontext s" "vc_ga g = vc_ga s" "vm_kkm g = vm_kkm s" "vc_run g = vc_run s"
    "vc_pa g = vc_pa s" "um g = um s" "vc_kernel_xstate g = vc_kernel_xstate s"
    "vc_payload_xstate g = vc_payload_xstate s" "outstanding E (klog g) = outstanding E (klog s)"
    "idt_last_id g = idt_last_id s"
    and "fst (kkm_switch_to_gp_asm s) = \<lparr>pe_regs = ga_regs (vc_ga s), pe_cs = ga_guest_payload_cs (vc_ga s),
       pe_ss = ga_guest_payload_ss (vc_ga s), pe_cr3 = ga_guest_payload_cr3 (vc_ga s), pe_fs_base = c_fs_base (cpu s),
       pe_gs_base = c_kernel_gs_base (cpu s), pe_xstate = c_xstate (cpu s), pe_debug_registers = c_dr (cpu s)\<rparr>"
  by (simp_all add: g_def kkm_switch_to_gp_asm_def Let_def)

text \<open>
  The payload starts with the registers of the guest area, safe flags, user segments, its own
  address space, thread bases and extended state.
\<close>

lemma payload_entry_facts:
  fixes s :: "'a vcpu_scheme" and E :: linux and im :: kx_image
  assumes P: "platform_calls P"
  defines "pe \<equiv> payload_entry_of P im E s"
  shows "pe_regs pe = (ga_regs (vc_ga s))\<lparr>rflags :=
           payload_rflags (dbg_control (ga_debug (vc_ga s))) (rflags (ga_regs (vc_ga s)))\<rparr>"
    and "pe_cs pe = lx_USER_CS E" "pe_ss pe = lx_USER_DS E"
    and "pe_cr3 pe = ga_guest_payload_cr3 (vc_ga s)"
    and "pe_fs_base pe = seg_base (sr_fs (ga_sregs (vc_ga s)))"
    and "pe_gs_base pe = seg_base (sr_gs (ga_sregs (vc_ga s)))"
    and "pe_xstate pe = (if kn_valid_payload_xsave_area (vc_kontext s) then vc_payload_xstate s else c_xstate (cpu s))"
proof -
  note F = gp_asm_facts(12) start_payload_facts [OF P] switch_enter_facts [OF P]
  have x: "c_xstate (kkm_hw_debug_registers_restore r c) = c_xstate c" for r c
    by (simp add: kkm_hw_debug_registers_restore_def)
  show "pe_regs pe = (ga_regs (vc_ga s))\<lparr>rflags :=
           payload_rflags (dbg_control (ga_debug (vc_ga s))) (rflags (ga_regs (vc_ga s)))\<rparr>"
    "pe_cs pe = lx_USER_CS E" "pe_ss pe = lx_USER_DS E" "pe_cr3 pe = ga_guest_payload_cr3 (vc_ga s)"
    "pe_fs_base pe = seg_base (sr_fs (ga_sregs (vc_ga s)))"
    "pe_gs_base pe = seg_base (sr_gs (ga_sregs (vc_ga s)))"
    "pe_xstate pe = (if kn_valid_payload_xsave_area (vc_kontext s) then vc_payload_xstate s else c_xstate (cpu s))"
    by (simp_all add: pe_def payload_entry_of_def F x)
qed

lemma debug_restore_sel [simp]:
  "c_cr2 (kkm_hw_debug_registers_restore r c) = c_cr2 c" "c_cr3 (kkm_hw_debug_registers_restore r c) = c_cr3 c"
  "c_cr4 (kkm_hw_debug_registers_restore r c) = c_cr4 c" "c_ds (kkm_hw_debug_registers_restore r c) = c_ds c"
  "c_es (kkm_hw_debug_registers_restore r c) = c_es c" "c_fs (kkm_hw_debug_registers_restore r c) = c_fs c"
  "c_gs (kkm_hw_debug_registers_restore r c) = c_gs c" "c_ss (kkm_hw_debug_registers_restore r c) = c_ss c"
  "c_fs_base (kkm_hw_debug_registers_restore r c) = c_fs_base c"
  "c_gs_base (kkm_hw_debug_registers_restore r c) = c_gs_base c"
  "c_kernel_gs_base (kkm_hw_debug_registers_restore r c) = c_kernel_gs_base c"
  "c_lstar (kkm_hw_debug_registers_restore r c) = c_lstar c" "c_idtr (kkm_hw_debug_registers_restore r c) = c_idtr c"
  "c_sp0 (kkm_hw_debug_registers_restore r c) = c_sp0 c" "c_sp1 (kkm_hw_debug_registers_restore r c) = c_sp1 c"
  "c_sp2 (kkm_hw_debug_registers_restore r c) = c_sp2 c" "c_xstate (kkm_hw_debug_registers_restore r c) = c_xstate c"
  "c_irq_enabled (kkm_hw_debug_registers_restore r c) = c_irq_enabled c"
  by (simp_all add: kkm_hw_debug_registers_restore_def)

lemma payload_state_facts:
  fixes s :: "'a vcpu_scheme" and E :: linux and im :: kx_image
  assumes P: "platform_calls P"
  defines "p \<equiv> payload_state P im E s" and "e \<equiv> switch_enter P E s"
  shows "cpu p = swapgs ((cpu (kkm_guest_kernel_start_payload P im E e))
            \<lparr>c_cr2 := 0, c_cr3 := ga_guest_payload_cr3 (vc_ga s)\<rparr>)"
    and "vc_kontext p = vc_kontext e" "vc_ga p = vc_ga (kkm_guest_kernel_start_payload P im E e)"
    and "vm_kkm p = vm_kkm s" "vc_run p = vc_run s" "vc_pa p = vc_pa s" "um p = um s"
    and "vc_kernel_xstate p = c_xstate (cpu s)" "vc_payload_xstate p = vc_payload_xstate s"
    and "outstanding E' (klog p) = outstanding E' (klog s)"
    and "idt_last_id p = (idt_last_id s)(turn_cpu E s := km_id (vm_kkm s))"
  by (simp_all add: p_def e_def payload_state_def gp_asm_facts start_payload_facts [OF P] switch_enter_facts [OF P])

lemmas turn_facts = switch_leave_facts intr_entry_facts

text \<open>
  The native state after a turn is the native state before it: everything the native kernel may hold in
  the registers, except the fault address, \<open>ss\<close> (set to the kernel's data segment), the debug status
  bits, and the descriptor table register, which is set to the native table saved at load time.
\<close>

definition native_after :: "linux \<Rightarrow> payload_trap \<Rightarrow> 'a vcpu_scheme \<Rightarrow> cpu_state" where
  "native_after E t s = (cpu s)\<lparr>c_cr2 := pt_cr2 t, c_ss := lx_KERNEL_DS E, c_idtr := idt_native_desc s,
     c_irq_enabled := True,
     c_dr := (if kn_debug_registers_set (vc_kontext s)
              then c_dr (kkm_hw_debug_registers_restore (kkm_hw_debug_registers_save (cpu s)
                     (native_debug_registers (kn_native (vc_kontext s)))) ((cpu s)\<lparr>c_dr := pt_debug_registers t\<rparr>))
              else pt_debug_registers t)\<rparr>"

lemma world_switch_cpu:
  assumes P: "platform_calls P" and w: "world_switch P im E s = Some s'"
  shows "cpu s' = native_after E (payload_trap_of P im E s) s"
proof -
  obtain n ti where fr: "trap_frame E (payload_trap_of P im E s) = Some (n, ti)"
    and s': "s' = switch_leave (kkm_switch_to_host_kernel P E
          (kkm_intr_entry_asm (payload_trap_of P im E s) (n, ti)
             (snd (run_payload E (payload_entry_of P im E s) (payload_state P im E s)))))"
    using w by (auto simp: world_switch_steps split: option.splits)
  note F = turn_facts host_kernel_facts [OF P] payload_state_facts [OF P] start_payload_facts [OF P]
    switch_enter_facts [OF P]
  have sv: "kkm_hw_debug_registers_save (c\<lparr>c_irq_enabled := b\<rparr>) r = kkm_hw_debug_registers_save c r" for c b r
    by (simp add: kkm_hw_debug_registers_save_def)
  show ?thesis
  proof (rule cpu_state.equality)
    show "c_dr (cpu s') = c_dr (native_after E (payload_trap_of P im E s) s)"
      by (simp add: s' F native_of_def native_after_def sv)
        (simp add: kkm_hw_debug_registers_restore_def)
  qed (simp_all add: s' F native_of_def native_after_def)
qed

text \<open>What a turn leaves in the guest area and the kontext.\<close>

lemma world_switch_facts:
  fixes s :: "'a vcpu_scheme" and E :: linux and im :: kx_image
  assumes P: "platform_calls P" and w: "world_switch P im E s = Some s'"
  defines "t \<equiv> payload_trap_of P im E s"
  obtains n ti nat where "trap_frame E t = Some (n, ti)"
    "ga_regs (vc_ga s') = (pt_regs t)\<lparr>rsp := ti_rsp ti, rip := ti_rip ti, rflags := ti_rflags ti\<rparr>"
    "ga_trap_info (vc_ga s') = ti" "ga_intr_no (vc_ga s') = n" "cr2 (ga_sregs (vc_ga s')) = pt_cr2 t"
    "ga_sregs (vc_ga s') = (ga_sregs (vc_ga s))\<lparr>cr0 := pt_cr0 t, cr2 := pt_cr2 t,
        cr3 := ga_guest_payload_cr3 (vc_ga s) AND 0xFFFFFFFFFFFFEFFF, cr4 := c_cr4 (cpu s), cr8 := pt_cr8 t\<rparr>"
    "vc_payload_xstate s' = pt_xstate t"
    "vc_kontext s' = (vc_kontext s)\<lparr>kn_valid_payload_xsave_area := True, kn_native := nat\<rparr>"
    "ga_cpu (vc_ga s') = of_nat (turn_cpu E s)"
    "idt_last_id s' = (idt_last_id s)(turn_cpu E s := km_id (vm_kkm s))"
    "vm_kkm s' = vm_kkm s" "vc_run s' = vc_run s" "vc_pa s' = vc_pa s" "um s' = um s"
    "outstanding E' (klog s') = outstanding E' (klog s)"
proof -
  obtain n ti where fr: "trap_frame E t = Some (n, ti)"
    and s': "s' = switch_leave (kkm_switch_to_host_kernel P E (kkm_intr_entry_asm t (n, ti)
             (snd (run_payload E (payload_entry_of P im E s) (payload_state P im E s)))))"
    using w unfolding t_def by (auto simp: world_switch_steps split: option.splits)
  note F = turn_facts host_kernel_facts [OF P] payload_state_facts [OF P] start_payload_facts [OF P]
    switch_enter_facts [OF P] t_def [symmetric]
  show thesis
  proof (rule that [OF fr])
    show "ga_regs (vc_ga s') = (pt_regs t)\<lparr>rsp := ti_rsp ti, rip := ti_rip ti, rflags := ti_rflags ti\<rparr>"
      by (simp add: s' F)
    show "ga_trap_info (vc_ga s') = ti" by (simp add: s' F)
    show "ga_intr_no (vc_ga s') = n" by (simp add: s' F)
    show "cr2 (ga_sregs (vc_ga s')) = pt_cr2 t" by (simp add: s' F)
    show "ga_sregs (vc_ga s') = (ga_sregs (vc_ga s))\<lparr>cr0 := pt_cr0 t, cr2 := pt_cr2 t,
        cr3 := ga_guest_payload_cr3 (vc_ga s) AND 0xFFFFFFFFFFFFEFFF, cr4 := c_cr4 (cpu s), cr8 := pt_cr8 t\<rparr>"
      by (simp add: s' F)
    show "vc_payload_xstate s' = pt_xstate t" by (simp add: s' F)
    show "vc_kontext s' = (vc_kontext s)\<lparr>kn_valid_payload_xsave_area := True,
        kn_native := kn_native (vc_kontext (switch_enter P E s))\<rparr>"
      by (simp add: s' F)
    show "ga_cpu (vc_ga s') = of_nat (turn_cpu E s)" by (simp add: s' F)
    show "idt_last_id s' = (idt_last_id s)(turn_cpu E s := km_id (vm_kkm s))" by (simp add: s' F)
    show "vm_kkm s' = vm_kkm s" by (simp add: s' F)
    show "vc_run s' = vc_run s" by (simp add: s' F)
    show "vc_pa s' = vc_pa s" by (simp add: s' F)
    show "um s' = um s" by (simp add: s' F)
    show "outstanding E' (klog s') = outstanding E' (klog s)" by (simp add: s' F)
  qed
qed

subsection \<open>Translations of other kontainers\<close>

definition tlb_cleared :: "nat \<times> (nat \<Rightarrow> u64 set) \<Rightarrow> nat \<times> (nat \<Rightarrow> u64 set)" where
  "tlb_cleared x = (fst x, (snd x)(fst x := {}))"

lemma tlb_asm_load_cr3:
  "tlb (klog (asm_load_cr3 v s)) = (if v AND 0xFF = 0 then tlb_cleared (tlb (klog s)) else tlb (klog s))"
  by (simp add: asm_load_cr3_def Let_def tlb_cleared_def tlb.simps(2) case_prod_unfold)

lemma tlb_flush_before_entry:
  "tlb (klog (flush_before_entry c v)) =
     (if \<not> kkm_cpu_full_tlb_flush v \<and> (\<not> lazy_flush_tlb v \<or> of_nat c \<noteq> ga_cpu (vc_ga v) \<or>
          km_id (vm_kkm v) \<noteq> kkm_idt_get_id c v)
      then tlb_cleared (tlb (klog v)) else tlb (klog v))"
  by (simp add: flush_before_entry_def tlb_flush tlb_cleared_def)

text \<open>When the enter code flushes: always, unless the kontext was the last to run here.\<close>

definition stale_translations :: "linux \<Rightarrow> 'a vcpu_scheme \<Rightarrow> bool" where
  "stale_translations E s \<longleftrightarrow> \<not> lazy_flush_tlb s \<or> of_nat (turn_cpu E s) \<noteq> ga_cpu (vc_ga s) \<or>
     km_id (vm_kkm s) \<noteq> idt_last_id s (turn_cpu E s)"

lemma tlb_switch_enter:
  assumes P: "platform_calls P"
  shows "tlb (klog (switch_enter P E s)) =
     (turn_cpu E s, if \<not> kkm_cpu_full_tlb_flush s \<and> stale_translations E s
                    then (snd (tlb (klog s)))(turn_cpu E s := {}) else snd (tlb (klog s)))"
  by (simp add: switch_enter_def Let_def save_native_facts [OF P] kkm_idt_get_desc_def tlb_flush_before_entry
      turn_cpu_def stale_translations_def tlb_cleared_def tlb.simps(2) kkm_idt_get_id_def case_prod_unfold
      on_ga_def)

lemma tlb_payload_state:
  assumes P: "platform_calls P"
  shows "tlb (klog (payload_state P im E s)) =
     (turn_cpu E s, if ga_guest_payload_cr3 (vc_ga s) AND 0xFF = 0 \<or>
                      \<not> kkm_cpu_full_tlb_flush s \<and> stale_translations E s
                    then (snd (tlb (klog s)))(turn_cpu E s := {}) else snd (tlb (klog s)))"
  by (simp add: payload_state_def kkm_switch_to_gp_asm_def Let_def tlb_asm_load_cr3 tlb_switch_enter [OF P]
      start_payload_facts [OF P] switch_enter_facts [OF P] tlb_cleared_def)

text \<open>
  The invariant: a processor holds translations of at most the kontainer recorded for it. In the mode
  that flushes everything, the page-table register of the payload selects process context 0.
\<close>

definition tlb_ok :: "'a host_scheme \<Rightarrow> bool" where
  "tlb_ok s \<longleftrightarrow> (\<forall>c. snd (tlb (klog s)) c \<subseteq> {idt_last_id s c})"

definition flush_mode_ok :: "'a vcpu_scheme \<Rightarrow> bool" where
  "flush_mode_ok s \<longleftrightarrow> (kkm_cpu_full_tlb_flush s \<longrightarrow> ga_guest_payload_cr3 (vc_ga s) AND 0xFF = 0)"

lemma payload_alone_in_tlb:
  assumes P: "platform_calls P" and ok: "tlb_ok s" "flush_mode_ok s"
  shows "snd (tlb (klog (payload_state P im E s))) (turn_cpu E s) \<subseteq> {km_id (vm_kkm s)}"
  using ok(1) [unfolded tlb_ok_def, rule_format, of "turn_cpu E s"] ok(2)
  by (auto simp: tlb_payload_state [OF P] flush_mode_ok_def stale_translations_def)

lemma world_switch_tlb:
  assumes P: "platform_calls P" and ok: "tlb_ok s" "flush_mode_ok s" and w: "world_switch P im E s = Some s'"
  shows "tlb_ok s'"
proof -
  define c where "c = turn_cpu E s"
  define K where "K = km_id (vm_kkm s)"
  define p where "p = payload_state P im E s"
  define r where "r = snd (run_payload E (payload_entry_of P im E s) p)"
  obtain n ti where fr: "trap_frame E (payload_trap_of P im E s) = Some (n, ti)"
    and s': "s' = switch_leave (kkm_switch_to_host_kernel P E
          (kkm_intr_entry_asm (payload_trap_of P im E s) (n, ti) r))"
    using w by (auto simp: world_switch_steps p_def r_def split: option.splits)
  define m where "m = snd (tlb (klog p))"
  have p: "tlb (klog p) = (c, m)"
    by (simp add: m_def p_def tlb_payload_state [OF P] c_def)
  have mc: "m c \<subseteq> {K}"
    unfolding m_def p_def c_def K_def by (rule payload_alone_in_tlb [OF P ok])
  have mo: "m d \<subseteq> {idt_last_id s d}" if "d \<noteq> c" for d
    using that ok(1) by (auto simp: m_def p_def tlb_payload_state [OF P] c_def tlb_ok_def)
  have "vm_kkm p = vm_kkm s" by (simp add: p_def payload_state_facts [OF P])
  then have r: "tlb (klog r) = (c, m(c := insert K (m c)))"
    by (simp add: r_def tlb.simps(2) p K_def)
  have h: "tlb (klog (kkm_intr_entry_asm t (n, ti) v)) \<in> {tlb (klog v), tlb_cleared (tlb (klog v))}"
    for t and v :: "'a vcpu_scheme"
    by (simp add: kkm_intr_entry_asm_def Let_def tlb_asm_load_cr3)
  have k: "tlb (klog (kkm_switch_to_host_kernel P E v)) \<in> {tlb (klog v), tlb_cleared (tlb (klog v))}"
    for v :: "'a vcpu_scheme"
    by (simp add: kkm_switch_to_host_kernel_def Let_def tlb_asm_load_cr3)
  have l: "tlb (klog (switch_leave v)) = tlb (klog v)" for v :: "'a vcpu_scheme"
    by (simp add: switch_leave_def Let_def)
  have "tlb (klog s') \<in> {tlb (klog r), tlb_cleared (tlb (klog r))}"
    using h [of "payload_trap_of P im E s" r] k [of "kkm_intr_entry_asm (payload_trap_of P im E s) (n, ti) r"]
    by (auto simp: s' l tlb_cleared_def)
  then have up: "snd (tlb (klog s')) d \<subseteq> (m(c := insert K (m c))) d" for d
    by (auto simp: r tlb_cleared_def split: if_splits)
  have low: "(m(c := insert K (m c))) d \<subseteq> {((idt_last_id s)(c := K)) d}" for d
    using mc mo [of d] by (cases "d = c") auto
  have id: "idt_last_id s' = (idt_last_id s)(c := K)"
    by (rule world_switch_facts [OF P w]) (simp add: c_def K_def)
  show ?thesis
    unfolding tlb_ok_def id by (intro allI subset_trans [OF up low])
qed

end
