(* ===== verification/Kkm_Run.thy ===== *)
theory Kkm_Run
  imports Kkm_Switch
begin

section \<open>The run loop seen from outside\<close>

text \<open>
  What \<open>kkm_kontext_switch_kernel\<close> guarantees, turn after turn: the native kernel finds its
  processor state as it left it, the kontainer and the page ledger are untouched, translations of
  other kontainers are gone before the payload runs, and a payload that cannot make progress on a
  page fault is stopped. The lemmas go from one turn to the loop by induction on the turns.
\<close>

subsection \<open>The run loop\<close>

lemma switch_loop_more_fuel:
  "switch_loop P im E n s = Returns x \<Longrightarrow> n \<le> m \<Longrightarrow> switch_loop P im E m s = Returns x"
proof (induction n arbitrary: m s)
  case (Suc n)
  then obtain k where "m = Suc k" "n \<le> k" by (cases m) auto
  with Suc show ?case by (auto split: turn.splits)
qed simp

text \<open>The native state is sound: what the module assumes, and every turn keeps.\<close>

definition native_ok :: "linux \<Rightarrow> 'a host_scheme \<Rightarrow> bool" where
  "native_ok E s \<longleftrightarrow> c_idtr (cpu s) = idt_native_desc s \<and> c_ss (cpu s) = lx_KERNEL_DS E \<and> c_irq_enabled (cpu s)"

text \<open>The registers the native kernel relies on.\<close>

definition native_view :: "cpu_state \<Rightarrow> cpu_state" where
  "native_view c = c\<lparr>c_cr2 := 0, c_dr := []\<rparr>"

lemma native_view_after: "native_ok E s \<Longrightarrow> native_view (native_after E t s) = native_view (cpu s)"
  by (simp add: native_view_def native_after_def native_ok_def)

lemma after_trap_cases:
  assumes "after_trap E r s = x" "x \<noteq> Undefined_turn"
  obtains (monitor) "r \<noteq> KKM_KONTEXT_FAULT_PROCESS_DONE" "x = Stop r s"
  | (bail) f s1 where "r = KKM_KONTEXT_FAULT_PROCESS_DONE" "x = Stop (- EFAULT) (on_kontext f s1)"
      "config s1 = config s" "outstanding E' (klog s1) = outstanding E' (klog s)" "tlb (klog s1) = tlb (klog s)"
      "vc_run s1 = vc_run s" "vc_ga s1 = vc_ga s" "debts (on_kontext f s1) = debts s"
  | (again) f s1 where "r = KKM_KONTEXT_FAULT_PROCESS_DONE" "x = Again (on_kontext f s1)"
      "config s1 = config s" "outstanding E' (klog s1) = outstanding E' (klog s)" "tlb (klog s1) = tlb (klog s)"
      "vc_run s1 = vc_run s" "vc_ga s1 = vc_ga s" "debts (on_kontext f s1) = debts s"
proof -
  define s2 where "s2 = (if lx_config_hyperv E \<and> ga_intr_no (vc_ga s) = HYPERV_STIMER0_VECTOR
      then kcall Ev_schedule (if ga_intr_no (vc_ga s) = LOCAL_TIMER_VECTOR then kcall Ev_schedule s else s)
      else (if ga_intr_no (vc_ga s) = LOCAL_TIMER_VECTOR then kcall Ev_schedule s else s))"
  have f2: "config s2 = config s" "outstanding E' (klog s2) = outstanding E' (klog s)" "tlb (klog s2) = tlb (klog s)"
      "vc_run s2 = vc_run s" "vc_ga s2 = vc_ga s" "vc_kontext s2 = vc_kontext s"
    by (simp_all add: s2_def)
  show thesis
  proof (cases "r = KKM_KONTEXT_FAULT_PROCESS_DONE")
    case False
    then show thesis using assms monitor by (simp add: after_trap_def)
  next
    case True
    have d: "debts (on_kontext f s2) = debts s" if "kn_syscall_pending (f (vc_kontext s)) = kn_syscall_pending (vc_kontext s)"
       "kn_exception_posted (f (vc_kontext s)) = kn_exception_posted (vc_kontext s)" for f
      using that by (simp add: debts_def f2)
    show thesis
    proof (cases "\<exists>f. x = Stop (- EFAULT) (on_kontext f s2) \<and> debts (on_kontext f s2) = debts s")
      case T: True
      then show thesis using bail [OF True _ f2(1-5)] by blast
    next
      case F: False
      have "\<exists>f. x = Again (on_kontext f s2) \<and> debts (on_kontext f s2) = debts s"
        using assms(1) F unfolding after_trap_def Let_def s2_def [symmetric]
        by (simp add: True split: if_splits) (auto intro!: d)
      then show thesis using again [OF True _ f2(1-5)] by blast
    qed
  qed
qed

subsection \<open>What the module's globals and the guest area keep through a turn\<close>

definition turn_frame :: "'a vcpu_scheme \<Rightarrow> _" where
  "turn_frame s = (kkm_cpu_full_tlb_flush s, lazy_flush_tlb s, kkm_xs_format s, kkm_object_id s, kkm_mmu_kx s,
     idt_native_desc s, idt_guest_desc s, kkm_stat s, ga_guest_area_beg (vc_ga s), ga_guest_payload_cr3 (vc_ga s),
     ga_guest_kernel_cr3 (vc_ga s), ga_kkm_kontext (vc_ga s), debts s, history s)"

lemma turn_frame_steps [simp]:
  "turn_frame (kcall e s) = turn_frame s" "turn_frame (on_cpu f s) = turn_frame s" "turn_frame (on_native g s) = turn_frame s"
  "turn_frame (s\<lparr>vc_kernel_xstate := x\<rparr>) = turn_frame s" "turn_frame (s\<lparr>vc_payload_xstate := x\<rparr>) = turn_frame s"
  "turn_frame (kkm_idt_set_id c i s) = turn_frame s" "turn_frame (s\<lparr>current_kontext := k\<rparr>) = turn_frame s"
  "turn_frame (kkm_mmu_set_guest_area c a b d e' s) = turn_frame s" "turn_frame (on_regs h s) = turn_frame s"
  "turn_frame (on_kontext (\<lambda>k. k\<lparr>kn_valid_payload_xsave_area := v\<rparr>) s) = turn_frame s"
  by (simp_all add: turn_frame_def kcall_def on_cpu_def on_native_def on_kontext_def on_regs_def kkm_idt_set_id_def
      kkm_mmu_set_guest_area_def kkm_mmu_insert_page_def kkm_mmu_set_entry_def Let_def debts_def history_def)

lemma turn_frame_on_ga [simp]:
  "ga_guest_area_beg (f (vc_ga s)) = ga_guest_area_beg (vc_ga s) \<Longrightarrow>
   ga_guest_payload_cr3 (f (vc_ga s)) = ga_guest_payload_cr3 (vc_ga s) \<Longrightarrow>
   ga_guest_kernel_cr3 (f (vc_ga s)) = ga_guest_kernel_cr3 (vc_ga s) \<Longrightarrow>
   ga_kkm_kontext (f (vc_ga s)) = ga_kkm_kontext (vc_ga s) \<Longrightarrow> turn_frame (on_ga f s) = turn_frame s"
  by (simp add: turn_frame_def on_ga_def debts_def history_def)

lemma turn_frame_flush [simp]: "turn_frame (kkm_mmu_flush_tlb s) = turn_frame s"
  by (simp add: kkm_mmu_flush_tlb_def)

lemma turn_frame_load_cr3 [simp]: "turn_frame (asm_load_cr3 v s) = turn_frame s"
  by (simp add: asm_load_cr3_def Let_def)

lemma turn_frame_enter [simp]: "turn_frame (switch_enter P E s) = turn_frame s"
  by (simp add: switch_enter_def save_native_def flush_before_entry_def Let_def kkm_idt_get_desc_def)

lemma turn_frame_payload [simp]:
  "turn_frame (payload_state P im E s) = turn_frame s"
  by (simp add: payload_state_def kkm_switch_to_gp_asm_def kkm_guest_kernel_start_payload_def Let_def)

lemma turn_frame_exit [simp]:
  "turn_frame (switch_leave (kkm_switch_to_host_kernel P E (kkm_intr_entry_asm t fr s))) = turn_frame s"
  by (simp add: switch_leave_def kkm_switch_to_host_kernel_def kkm_intr_entry_asm_def Let_def split: prod.split)

lemma world_switch_frame: "world_switch P im E s = Some s' \<Longrightarrow> turn_frame s' = turn_frame s"
  by (auto simp: world_switch_steps split: option.splits)

subsection \<open>One turn, and the loop\<close>

text \<open>What holds before every turn and after it.\<close>

definition turn_ok :: "linux \<Rightarrow> 'a vcpu_scheme \<Rightarrow> bool" where
  "turn_ok E s \<longleftrightarrow> native_ok E s \<and> tlb_ok s \<and> flush_mode_ok s"

text \<open>What the native kernel and the rest of the module see of a turn, and of a whole run: nothing.\<close>

definition unseen :: "linux \<Rightarrow> 'a vcpu_scheme \<Rightarrow> 'a vcpu_scheme \<Rightarrow> bool" where
  "unseen E s s' \<longleftrightarrow> native_view (cpu s') = native_view (cpu s) \<and> vm_kkm s' = vm_kkm s \<and> kkm_mmu_kx s' = kkm_mmu_kx s \<and>
     idt_native_desc s' = idt_native_desc s \<and> outstanding E (klog s') = outstanding E (klog s)"

lemma unseen_refl [simp]: "unseen E s s"
  by (simp add: unseen_def)

lemma unseen_trans: "unseen E s t \<Longrightarrow> unseen E t u \<Longrightarrow> unseen E s u"
  by (simp add: unseen_def)

lemma native_ok_view:
  "native_view c = native_view (cpu s) \<Longrightarrow> native_ok E s \<Longrightarrow>
     c_idtr c = idt_native_desc s \<and> c_ss c = lx_KERNEL_DS E \<and> c_irq_enabled c"
  by (cases c, cases "cpu s") (simp add: native_view_def native_ok_def)

lemma world_switch_contract:
  assumes P: "platform_calls P" and ok: "turn_ok E s" and w: "world_switch P im E s = Some s'"
  shows "turn_ok E s'" and "unseen E s s'" and "debts s' = debts s" and "history s' = history s"
    and "vc_run s' = vc_run s"
proof -
  note fr = world_switch_frame [OF w, unfolded turn_frame_def]
  have fm: "flush_mode_ok s'" using ok fr by (simp add: turn_ok_def flush_mode_ok_def)
  have no: "native_ok E s'" "native_view (cpu s') = native_view (cpu s)"
    using ok fr world_switch_cpu [OF P w] native_view_after [of E s "payload_trap_of P im E s"]
    by (simp_all add: turn_ok_def native_ok_def native_after_def)
  show "turn_ok E s'"
    using no(1) fm world_switch_tlb [OF P _ _ w] ok by (simp add: turn_ok_def)
  show "unseen E s s'"
    using no(2) fr by (auto simp: unseen_def intro: world_switch_facts [OF P w])
  show "debts s' = debts s" "history s' = history s" using fr by simp_all
  show "vc_run s' = vc_run s" by (rule world_switch_facts [OF P w])
qed

lemma turn_ok_config:
  assumes "config s' = config s" "tlb (klog s') = tlb (klog s)" "ga_guest_payload_cr3 (vc_ga s') = ga_guest_payload_cr3 (vc_ga s)"
  shows "turn_ok E s' = turn_ok E s"
  using assms by (simp add: turn_ok_def native_ok_def tlb_ok_def flush_mode_ok_def config_def)

lemma unseen_config:
  "config s' = config s \<Longrightarrow> outstanding E (klog s') = outstanding E (klog s) \<Longrightarrow> unseen E s s'"
  by (simp add: unseen_def config_def)

text \<open>The handlers leave the part of the guest area that belongs to the kernel alone.\<close>

definition kernel_area :: "kkm_guest_area \<Rightarrow> _" where
  "kernel_area g = (ga_kkm_kontext g, ga_guest_area_beg g, ga_guest_kernel_cr3 g, ga_guest_payload_cr3 g, ga_cpu g,
     ga_intr_no g, ga_trap_info g, ga_debug g)"

lemma kernel_area_simps [simp]:
  "kernel_area (vc_ga (on_regs f v)) = kernel_area (vc_ga v)"
  "kernel_area (vc_ga (set_decode bs v)) = kernel_area (vc_ga v)"
  "kernel_area (vc_ga (post_exception gva v)) = kernel_area (vc_ga v)"
  "kernel_area (g\<lparr>ga_sregs := sr\<rparr>) = kernel_area g"
  by (simp_all add: kernel_area_def on_regs_def set_decode_def post_exception_def Let_def kkm_setup_hypercall_def)

lemma copy_area:
  "copy_to_user E d bs v = (l, v') \<Longrightarrow> vc_ga v' = vc_ga (v :: 'a vcpu_scheme)"
  "copy_from_user E d n v = (l, cs, v') \<Longrightarrow> vc_ga v' = vc_ga (v :: 'a vcpu_scheme)"
  by (auto dest: copy_to_user_frame(4) copy_from_user_frame(5) same_more_vcpu(2))

lemma run_class_area:
  assumes "run_class E c s = Some (r, s')"
  shows "kernel_area (vc_ga s') = kernel_area (vc_ga s)"
proof (cases c)
  case Trap_page_fault
  with assms have h: "kkm_process_page_fault E s = (r, s')" by (simp add: run_class_def)
  then obtain s4 g where l: "page_fault_locked E (page_fault_entry s) = (r, s4)"
    and s': "s' = on_stat g (kcall Ev_ktime (kcall (Ev_mutex_unlock Pf_lock) s4))"
    by (rule page_fault_cases)
  have "kernel_area (vc_ga s4) = kernel_area (vc_ga (page_fault_entry s))"
    using l by (auto simp: page_fault_locked_def Let_def copy_area split: prod.splits if_splits)
  then show ?thesis by (simp add: s')
qed (use assms in \<open>auto simp: run_class_def kkm_process_common_without_error_def kkm_process_common_with_error_def
      kkm_process_debug_def kkm_process_breakpoint_def kkm_process_general_protection_def kkm_process_syscall_def
      forward_native_def ktime_get_ns_def kkm_statistics_defs Let_def copy_area
      split: prod.splits if_splits option.splits\<close>)

lemma process_intr_area:
  assumes "kkm_process_intr E s = Some (r, s')"
  shows "kernel_area (vc_ga s') = kernel_area (vc_ga s)"
proof -
  obtain s1 where "run_class E (trap_class (ga_intr_no (vc_ga s))) (no_exit s) = Some (r, s1)"
    "s' = kkm_statistics_intr_count_inc s1"
    using assms by (auto simp: process_intr_dispatch)
  then show ?thesis by (simp add: run_class_area kkm_statistics_defs)
qed

lemma process_intr_turn:
  assumes "kkm_process_intr E s = Some (r, s')"
  shows "turn_ok E s' = turn_ok E s" and "unseen E s s'"
proof -
  note c = process_intr_contract [OF assms]
  have "ga_guest_payload_cr3 (vc_ga s') = ga_guest_payload_cr3 (vc_ga s)"
    using process_intr_area [OF assms] by (simp add: kernel_area_def)
  with c show "turn_ok E s' = turn_ok E s" by (intro turn_ok_config)
  from c show "unseen E s s'" by (intro unseen_config)
qed

lemma after_trap_turn:
  assumes "after_trap E r s = x" "x = Stop r' s' \<or> x = Again s'"
  shows "turn_ok E s' = turn_ok E s" "unseen E s s'" "debts s' = debts s" "vc_run s' = vc_run s"
    and "x = Stop r' s' \<Longrightarrow> r' = r \<and> r \<noteq> KKM_KONTEXT_FAULT_PROCESS_DONE \<or> r' = - EFAULT \<and> r = KKM_KONTEXT_FAULT_PROCESS_DONE"
    and "x = Again s' \<Longrightarrow> r = KKM_KONTEXT_FAULT_PROCESS_DONE"
proof -
  have x: "x \<noteq> Undefined_turn" using assms(2) by auto
  have k: "config (on_kontext f s1) = config s1" for f and s1 :: "'a vcpu_scheme" by simp
  have all: "turn_ok E s' = turn_ok E s \<and> unseen E s s' \<and> debts s' = debts s \<and> vc_run s' = vc_run s \<and>
      (x = Stop r' s' \<longrightarrow> r' = r \<and> r \<noteq> KKM_KONTEXT_FAULT_PROCESS_DONE \<or> r' = - EFAULT \<and> r = KKM_KONTEXT_FAULT_PROCESS_DONE) \<and>
      (x = Again s' \<longrightarrow> r = KKM_KONTEXT_FAULT_PROCESS_DONE)"
  proof (rule after_trap_cases [OF assms(1) x, where E' = E])
    assume "r \<noteq> KKM_KONTEXT_FAULT_PROCESS_DONE" "x = Stop r s"
    with assms(2) show ?thesis by auto
  next
    fix f s1 assume d: "r = KKM_KONTEXT_FAULT_PROCESS_DONE" and X: "x = Stop (- EFAULT) (on_kontext f s1)"
      and c: "config s1 = config s" "outstanding E (klog s1) = outstanding E (klog s)" "tlb (klog s1) = tlb (klog s)"
      "vc_run s1 = vc_run s" "vc_ga s1 = vc_ga s" "debts (on_kontext f s1) = debts s"
    from X assms(2) have s': "s' = on_kontext f s1" "r' = - EFAULT" by auto
    have "turn_ok E s' = turn_ok E s" "unseen E s s'"
      by (intro turn_ok_config unseen_config; simp add: s' c)+
    then show ?thesis using s' c X d by simp
  next
    fix f s1 assume d: "r = KKM_KONTEXT_FAULT_PROCESS_DONE" and X: "x = Again (on_kontext f s1)"
      and c: "config s1 = config s" "outstanding E (klog s1) = outstanding E (klog s)" "tlb (klog s1) = tlb (klog s)"
      "vc_run s1 = vc_run s" "vc_ga s1 = vc_ga s" "debts (on_kontext f s1) = debts s"
    from X assms(2) have s': "s' = on_kontext f s1" by auto
    have "turn_ok E s' = turn_ok E s" "unseen E s s'"
      by (intro turn_ok_config unseen_config; simp add: s' c)+
    then show ?thesis using s' c X d by simp
  qed
  then show "turn_ok E s' = turn_ok E s" "unseen E s s'" "debts s' = debts s" "vc_run s' = vc_run s"
    "x = Stop r' s' \<Longrightarrow> r' = r \<and> r \<noteq> KKM_KONTEXT_FAULT_PROCESS_DONE \<or> r' = - EFAULT \<and> r = KKM_KONTEXT_FAULT_PROCESS_DONE"
    "x = Again s' \<Longrightarrow> r = KKM_KONTEXT_FAULT_PROCESS_DONE" by auto
qed

lemma switch_turn_cases:
  assumes "switch_turn P im E s = x" "x \<noteq> Undefined_turn"
  obtains (signal) "lx_signal_pending E (klog s)"
      "x = Stop (- EINTR) ((kcall Ev_signal_pending s)\<lparr>vc_run := (vc_run s)\<lparr>exit_reason := exit_code KKM_EXIT_INTR\<rparr>\<rparr>)"
  | (ran) s2 r s3 where "\<not> lx_signal_pending E (klog s)"
      "world_switch P im E (kcall Ev_signal_pending s) = Some s2" "kkm_process_intr E s2 = Some (r, s3)"
      "after_trap E r s3 = x"
  using assms by (auto simp: switch_turn_def Let_def split: if_splits option.splits prod.splits)

lemma turn_contract:
  assumes P: "platform_calls P" and ok: "turn_ok E s" and t: "switch_turn P im E s = x"
    and x: "x = Stop r' s' \<or> x = Again s'"
  shows "turn_ok E s'" "unseen E s s'"
    and "x = Stop r' s' \<Longrightarrow> r' = 0 \<or> r' = - EINTR \<or> r' = - EFAULT"
    and "x = Again s' \<or> r' \<noteq> 0 \<Longrightarrow> debts s' = debts s"
proof -
  have "x \<noteq> Undefined_turn" using x by auto
  with t have "turn_ok E s' \<and> unseen E s s' \<and> (x = Stop r' s' \<longrightarrow> r' = 0 \<or> r' = - EINTR \<or> r' = - EFAULT) \<and>
      (x = Again s' \<or> r' \<noteq> 0 \<longrightarrow> debts s' = debts s)"
  proof (cases rule: switch_turn_cases)
    case signal
    then have s': "s' = (kcall Ev_signal_pending s)\<lparr>vc_run := (vc_run s)\<lparr>exit_reason := exit_code KKM_EXIT_INTR\<rparr>\<rparr>"
      and r': "x = Stop r' s'" "r' = - EINTR" using x by auto
    have "turn_ok E s' = turn_ok E s" "unseen E s s'"
      by (intro turn_ok_config unseen_config; simp add: s')+
    then show ?thesis using ok r' by (simp add: s')
  next
    case (ran s2 r s3)
    have ok1: "turn_ok E (kcall Ev_signal_pending s)" using ok turn_ok_config [of "kcall Ev_signal_pending s" s E] by simp
    have u1: "unseen E s (kcall Ev_signal_pending s)" by (rule unseen_config) simp_all
    note w = world_switch_contract [OF P ok1 ran(2)]
    note p = process_intr_contract [OF ran(3)] process_intr_turn [OF ran(3)]
    note a = after_trap_turn [OF ran(4) x]
    have "unseen E s s'" using u1 w(2) p(9) a(2) by (blast intro: unseen_trans)
    moreover have "turn_ok E s'" using w(1) p(8) a(1) by blast
    moreover have "x = Stop r' s' \<longrightarrow> r' = 0 \<or> r' = - EINTR \<or> r' = - EFAULT"
      using a(5) p(1) by auto
    moreover have "x = Again s' \<or> r' \<noteq> 0 \<longrightarrow> debts s' = debts s"
      using a(3,5,6) p(4) w(3) x by auto
    ultimately show ?thesis by blast
  qed
  then show "turn_ok E s'" "unseen E s s'" "x = Stop r' s' \<Longrightarrow> r' = 0 \<or> r' = - EINTR \<or> r' = - EFAULT"
    "x = Again s' \<or> r' \<noteq> 0 \<Longrightarrow> debts s' = debts s" by blast+
qed

text \<open>The whole run: by induction on the turns.\<close>

lemma switch_loop_contract:
  assumes P: "platform_calls P" and "turn_ok E s" and "switch_loop P im E n s = Returns (r, s')"
  shows "turn_ok E s'" "unseen E s s'" "r = 0 \<or> r = - EINTR \<or> r = - EFAULT" "r \<noteq> 0 \<Longrightarrow> debts s' = debts s"
proof -
  from assms(2,3) have "turn_ok E s' \<and> unseen E s s' \<and> (r = 0 \<or> r = - EINTR \<or> r = - EFAULT) \<and>
      (r \<noteq> 0 \<longrightarrow> debts s' = debts s)"
  proof (induction n arbitrary: s)
    case (Suc n)
    show ?case
    proof (cases "switch_turn P im E s")
      case (Stop r1 s1)
      with Suc.prems(2) have "switch_turn P im E s = Stop r s'" by simp
      from turn_contract [OF P Suc.prems(1) this] show ?thesis by blast
    next
      case (Again s1)
      note c = turn_contract [OF P Suc.prems(1) Again, of 0 s1]
      have "turn_ok E s1" "unseen E s s1" "debts s1 = debts s" using c by simp_all
      moreover have "switch_loop P im E n s1 = Returns (r, s')" using Again Suc.prems(2) by simp
      ultimately show ?thesis using Suc.IH [of s1] by (auto intro: unseen_trans)
    next
      case Undefined_turn
      with Suc.prems(2) show ?thesis by simp
    qed
  qed simp
  then show "turn_ok E s'" "unseen E s s'" "r = 0 \<or> r = - EINTR \<or> r = - EFAULT" "r \<noteq> 0 \<Longrightarrow> debts s' = debts s"
    by blast+
qed

text \<open>Before the loop only registers of the payload and the kontext's debts change.\<close>

definition prologue_frame :: "linux \<Rightarrow> 'a vcpu_scheme \<Rightarrow> _" where
  "prologue_frame E s = (config s, tlb (klog s), outstanding E (klog s), ga_guest_payload_cr3 (vc_ga s), vc_run s)"

lemma prologue_frame_simps [simp]:
  "prologue_frame E (on_regs f s) = prologue_frame E s" "prologue_frame E (on_kontext g s) = prologue_frame E s"
  "prologue_frame E (kcall (Ev_copy_from_user d n) s) = prologue_frame E s"
  by (simp_all add: prologue_frame_def)

lemma syscall_response_frame:
  assumes "kkm_kontext_handle_syscall_response E s = (r, s')"
  shows "prologue_frame E s' = prologue_frame E s" "r = 0 \<or> r = - EFAULT" "r = 0 \<Longrightarrow> \<not> kn_syscall_pending (vc_kontext s')"
proof (atomize (full), goal_cases)
  case 1
  show ?case
  proof (cases "kn_syscall_pending (vc_kontext s)")
    case True
    obtain left bs s1 where c: "copy_from_user E (kn_ret_val_mva (vc_kontext s)) 8 s = (left, bs, s1)"
      by (metis prod.exhaust)
    show ?thesis
      using assms by (auto simp: kkm_kontext_handle_syscall_response_def True c copy_from_user_state [OF c] Let_def
          split: if_splits)
  qed (use assms in \<open>simp add: syscall_response_idle\<close>)
qed

lemma switch_prologue_contract:
  assumes "switch_prologue E s = (r, s')"
  shows "turn_ok E s' = turn_ok E s" "unseen E s s'" "r = 0 \<or> r = - EINTR \<or> r = - EFAULT"
    "r = 0 \<Longrightarrow> debts s' = (False, False)" "vc_run s' = vc_run s"
proof -
  have "prologue_frame E s' = prologue_frame E s \<and> (r = 0 \<or> r = - EINTR \<or> r = - EFAULT) \<and>
      (r = 0 \<longrightarrow> debts s' = (False, False))"
  proof (cases "immediate_exit (vc_run s) = 1")
    case True
    then show ?thesis using assms by (simp add: switch_prologue_def)
  next
    case False
    define s1 where "s1 = (if kn_new_thread (vc_kontext s) = True then
        let s0 = on_kontext (\<lambda>k. k\<lparr>kn_new_thread := False\<rparr>) s
        in if kn_first_thread (vc_kontext s0) = False \<and> pa_reason (vc_pa s0) = fault_reason_code FAULT_SYSCALL
           then on_regs (\<lambda>r. r\<lparr>rsp := rsp r + 56 + KKM_ABI_REDZONE\<rparr>) s0 else s0
        else s)"
    have f1: "prologue_frame E s1 = prologue_frame E s" by (simp add: s1_def Let_def)
    obtain q s2 where h: "kkm_kontext_handle_syscall_response E s1 = (q, s2)" by fastforce
    note c = syscall_response_frame [OF h]
    show ?thesis
      using assms False c f1 unfolding switch_prologue_def s1_def [symmetric]
      by (auto simp: h Let_def debts_def split: if_splits)
  qed
  note c = this [unfolded prologue_frame_def]
  from c show "turn_ok E s' = turn_ok E s" by (intro turn_ok_config) blast+
  from c show "unseen E s s'" by (intro unseen_config) blast+
  from c show "r = 0 \<or> r = - EINTR \<or> r = - EFAULT" "r = 0 \<Longrightarrow> debts s' = (False, False)" "vc_run s' = vc_run s"
    by blast+
qed

lemma switch_kernel_contract:
  assumes P: "platform_calls P" and ok: "turn_ok E s" and run: "kkm_kontext_switch_kernel P im E n s = Returns (r, s')"
  shows "turn_ok E s'" "unseen E s s'" "r = 0 \<or> r = - EINTR \<or> r = - EFAULT"
proof -
  obtain q s1 where p: "switch_prologue E s = (q, s1)" by fastforce
  note c = switch_prologue_contract [OF p]
  show "turn_ok E s'" "unseen E s s'" "r = 0 \<or> r = - EINTR \<or> r = - EFAULT"
    using run p c switch_loop_contract [OF P, of E s1 im n r s'] ok
    by (auto simp: kkm_kontext_switch_kernel_def unseen_trans split: if_splits)
qed

subsection \<open>A payload that faults on one page for ever is stopped\<close>

definition faults_at :: "linux \<Rightarrow> u64 \<Rightarrow> u64 \<Rightarrow> bool" where
  "faults_at E a e \<longleftrightarrow> (\<forall>l pe. pt_vector (lx_payload E l pe) = 14 \<and> pt_cr2 (lx_payload E l pe) = a \<and>
     pt_error (lx_payload E l pe) = e)"

definition repeated_fault :: "u64 \<Rightarrow> u64 \<Rightarrow> u64 \<Rightarrow> 'a vcpu_scheme \<Rightarrow> bool" where
  "repeated_fault a e k s \<longleftrightarrow> history s = (14, a, e, k)"

lemma page_fault_kontext:
  assumes "kkm_process_page_fault E s = (r, s')"
  shows "vc_kontext s' = (vc_kontext s)\<lparr>kn_trap_addr := cr2 (ga_sregs (vc_ga s)),
           kn_error_code := ti_error (ga_trap_info (vc_ga s))\<rparr>"
proof -
  obtain s4 g where l: "page_fault_locked E (page_fault_entry s) = (r, s4)"
    and s': "s' = on_stat g (kcall Ev_ktime (kcall (Ev_mutex_unlock Pf_lock) s4))"
    using assms by (rule page_fault_cases)
  have "vc_kontext s4 = vc_kontext (page_fault_entry s)"
    using l by (auto simp: page_fault_locked_def Let_def split: prod.splits if_splits
        dest!: copy_to_user_frame(4) copy_from_user_frame(5) same_more_vcpu(1))
  then show ?thesis by (simp add: s' page_fault_entry_def)
qed

lemma world_switch_fault:
  assumes P: "platform_calls P" and f: "faults_at E a e"
  obtains s2 where "world_switch P im E s = Some s2" "ga_intr_no (vc_ga s2) = 14" "cr2 (ga_sregs (vc_ga s2)) = a"
    "ti_error (ga_trap_info (vc_ga s2)) = e" "history s2 = history s"
proof -
  define t where "t = payload_trap_of P im E s"
  have t: "pt_vector t = 14" "pt_cr2 t = a" "pt_error t = e"
    using f by (simp_all add: t_def payload_trap_of_def faults_at_def)
  have "stub_pushes (replace_error_handlers intr_function_pointers ! 14) e = Some (14, e)"
    using vector_recorded [of 14 e] by (simp add: error_vectors_def)
  moreover have "replace_error_handlers intr_function_pointers ! 14 = Intr_entry_page_fault"
    by (simp add: replace_error_handlers_def)
  ultimately obtain ti where tf: "trap_frame E t = Some (14, ti)" "ti_error ti = e"
    by (simp add: trap_frame_def trap_stub_def t)
  then have "world_switch P im E s \<noteq> None"
    by (simp add: world_switch_steps t_def split: option.splits)
  then obtain s2 where w: "world_switch P im E s = Some s2" by blast
  obtain n ti' where w2: "trap_frame E t = Some (n, ti')" "ga_intr_no (vc_ga s2) = n" "ga_trap_info (vc_ga s2) = ti'"
    "cr2 (ga_sregs (vc_ga s2)) = pt_cr2 t"
    by (rule world_switch_facts [OF P w]) (auto simp: t_def)
  from w2 tf t world_switch_frame [OF w] show thesis
    by (intro that [OF w]) (simp_all add: turn_frame_def)
qed

lemma page_fault_turn:
  assumes P: "platform_calls P" and f: "faults_at E a e"
  shows "(\<exists>r s'. switch_turn P im E s = Stop r s') \<or>
    (\<exists>s' k. switch_turn P im E s = Again s' \<and> repeated_fault a e k s' \<and>
       (\<forall>j. repeated_fault a e j s \<longrightarrow> k = j + 1) \<and> k \<le> KKM_MAX_REPEAT_TRAP)"
proof (cases "lx_signal_pending E (klog s)")
  case True
  then show ?thesis by (simp add: switch_turn_def Let_def)
next
  case False
  obtain s2 where w: "world_switch P im E (kcall Ev_signal_pending s) = Some s2" "ga_intr_no (vc_ga s2) = 14"
    "cr2 (ga_sregs (vc_ga s2)) = a" "ti_error (ga_trap_info (vc_ga s2)) = e" "history s2 = history s"
    by (rule world_switch_fault [OF P f, of im "kcall Ev_signal_pending s"]) simp
  obtain r s3 where h: "kkm_process_page_fault E (no_exit s2) = (r, s3)" by fastforce
  define s4 where "s4 = kkm_statistics_intr_count_inc s3"
  have p: "kkm_process_intr E s2 = Some (r, s4)"
    using h by (simp add: process_intr_dispatch trap_class_def w(2) run_class_def s4_def)
  have k4: "kn_trap_addr (vc_kontext s4) = a" "kn_error_code (vc_kontext s4) = e" "ga_intr_no (vc_ga s4) = 14"
    "history s4 = history s"
    using page_fault_kontext [OF h] w process_intr_area [OF p] process_intr_contract(5) [OF p]
    by (simp_all add: s4_def kkm_statistics_defs kernel_area_def)
  have turn: "switch_turn P im E s = after_trap E r s4"
    by (simp add: switch_turn_def Let_def False w(1) p)
  show ?thesis
  proof (cases "r = KKM_KONTEXT_FAULT_PROCESS_DONE")
    case False
    then show ?thesis by (simp add: turn after_trap_def)
  next
    case True
    then show ?thesis
      using k4 by (auto simp: turn after_trap_def Let_def repeated_fault_def history_def linorder_not_less)
  qed
qed

lemma repeated_fault_bounded:
  assumes P: "platform_calls P" and f: "faults_at E a e"
  shows "\<lbrakk>repeated_fault a e k s; k \<le> KKM_MAX_REPEAT_TRAP; unat k + n = 17\<rbrakk> \<Longrightarrow> \<exists>r s'. switch_loop P im E n s = Returns (r, s')"
proof (induction n arbitrary: k s)
  case 0
  then show ?case by (simp add: word_le_nat_alt)
next
  case (Suc n)
  from page_fault_turn [OF P f, of im s] show ?case
  proof (elim disjE exE conjE)
    fix r s' assume "switch_turn P im E s = Stop r s'"
    then show ?thesis by simp
  next
    fix s' j assume s': "switch_turn P im E s = Again s'" "repeated_fault a e j s'"
      "\<forall>i. repeated_fault a e i s \<longrightarrow> j = i + 1" "j \<le> KKM_MAX_REPEAT_TRAP"
    with Suc.prems have "unat j + n = 17"
      by (auto simp: unat_word_ariths word_le_nat_alt)
    from Suc.IH [OF s'(2,4) this] show ?thesis using s'(1) by simp
  qed
qed

lemma faulting_payload_stopped:
  assumes P: "platform_calls P" and f: "faults_at E a e" and n: "18 \<le> n"
  shows "\<exists>r s'. switch_loop P im E n s = Returns (r, s')"
proof -
  obtain m where m: "n = Suc m" "17 \<le> m" using n by (cases n) auto
  show ?thesis
    using page_fault_turn [OF P f, of im s]
  proof (elim disjE exE conjE)
    fix s' k assume s': "switch_turn P im E s = Again s'" "repeated_fault a e k s'" "k \<le> KKM_MAX_REPEAT_TRAP"
    obtain r t where "switch_loop P im E (17 - unat k) s' = Returns (r, t)"
      using s'(3) repeated_fault_bounded [OF P f s'(2,3), of "17 - unat k" im] by (auto simp: word_le_nat_alt)
    then have "switch_loop P im E m s' = Returns (r, t)"
      using m(2) by (auto intro: switch_loop_more_fuel)
    then show ?thesis using s'(1) m(1) by auto
  qed (use m in auto)
qed

subsection \<open>The flags of the payload\<close>

text \<open>Whatever flags the monitor asks for, the payload runs with interrupts on, without I/O privilege, with
  the resume flag, and single-stepped exactly when the monitor enabled that.\<close>

lemma bit_flags:
  "bit (0x100 :: u64) i \<longleftrightarrow> i = 8" "bit (0x200 :: u64) i \<longleftrightarrow> i = 9" "bit (0x10000 :: u64) i \<longleftrightarrow> i = 16"
  "bit (0x3000 :: u64) i \<longleftrightarrow> i = 12 \<or> i = 13"
  "bit (0x13300 :: u64) i \<longleftrightarrow> i = 8 \<or> i = 9 \<or> i = 12 \<or> i = 13 \<or> i = 16"
proof -
  have m: "(0x100 :: u64) = 2 ^ 8" "(0x200 :: u64) = 2 ^ 9" "(0x10000 :: u64) = 2 ^ 16"
    "(0x3000 :: u64) = 2 ^ 12 OR 2 ^ 13"
    "(0x13300 :: u64) = 2 ^ 8 OR 2 ^ 9 OR 2 ^ 12 OR 2 ^ 13 OR 2 ^ 16"
    by simp_all
  have p: "k < 64 \<longrightarrow> (bit (2 ^ k :: u64) i \<longleftrightarrow> i = k)" for k
    by (auto simp: bit_exp_iff)
  have q: "bit (2 ^ 8 :: u64) i \<longleftrightarrow> i = 8" "bit (2 ^ 9 :: u64) i \<longleftrightarrow> i = 9" "bit (2 ^ 12 :: u64) i \<longleftrightarrow> i = 12"
    "bit (2 ^ 13 :: u64) i \<longleftrightarrow> i = 13" "bit (2 ^ 16 :: u64) i \<longleftrightarrow> i = 16"
    by (rule p [rule_format]; simp)+
  show "bit (0x100 :: u64) i \<longleftrightarrow> i = 8" "bit (0x200 :: u64) i \<longleftrightarrow> i = 9" "bit (0x10000 :: u64) i \<longleftrightarrow> i = 16"
    "bit (0x3000 :: u64) i \<longleftrightarrow> i = 12 \<or> i = 13"
    "bit (0x13300 :: u64) i \<longleftrightarrow> i = 8 \<or> i = 9 \<or> i = 12 \<or> i = 13 \<or> i = 16"
    unfolding m bit_or_iff q by blast+
qed

lemma word_flag_bits: "(w :: u64) = v \<longleftrightarrow> (\<forall>i < 64. bit w i = bit v i)"
  by (auto intro!: bit_word_eqI)

lemma and_flag:
  "fl AND 0x100 = 0 \<longleftrightarrow> \<not> bit (fl :: u64) 8" "fl AND 0x200 = 0 \<longleftrightarrow> \<not> bit fl 9" "fl AND 0x10000 = 0 \<longleftrightarrow> \<not> bit fl 16"
  "fl AND 0x3000 = 0 \<longleftrightarrow> \<not> bit fl 12 \<and> \<not> bit fl 13"
proof -
  have len: "(i :: nat) < 64" if "i \<in> {8, 9, 12, 13, 16}" for i using that by auto
  show "fl AND 0x100 = 0 \<longleftrightarrow> \<not> bit (fl :: u64) 8" "fl AND 0x200 = 0 \<longleftrightarrow> \<not> bit fl 9"
    "fl AND 0x10000 = 0 \<longleftrightarrow> \<not> bit fl 16" "fl AND 0x3000 = 0 \<longleftrightarrow> \<not> bit fl 12 \<and> \<not> bit fl 13"
    unfolding word_flag_bits bit_and_iff bit_flags bit_0_eq bot_fun_def bot_bool_def using len by blast+
qed

lemma payload_rflags_word:
  "payload_rflags control fl =
     (if control AND 3 = 3 then ((fl OR 0x200) AND NOT 0x3000 OR 0x10000) OR 0x100
      else ((fl OR 0x200) AND NOT 0x3000 OR 0x10000) AND NOT 0x100)"
proof -
  have "x OR 0x200 = x" if "bit x 9" for x :: u64
    unfolding word_flag_bits bit_or_iff bit_flags using that by blast
  moreover have "x OR 0x10000 = x" if "bit x 16" for x :: u64
    unfolding word_flag_bits bit_or_iff bit_flags using that by blast
  ultimately have s: "(if x AND 0x200 = 0 then x OR 0x200 else x) = x OR 0x200"
    "(if x AND 0x10000 = 0 then x OR 0x10000 else x) = x OR 0x10000" for x :: u64
    by (simp_all add: and_flag)
  have "x AND NOT 0x3000 = x" if "\<not> bit x 12" "\<not> bit x 13" for x :: u64
    unfolding word_flag_bits bit_and_iff bit_not_iff bit_flags using that by auto
  then have c: "(if x AND 0x3000 \<noteq> 0 then x AND NOT 0x3000 else x) = x AND NOT 0x3000" for x :: u64
    by (cases "bit x 12 \<or> bit x 13") (simp_all add: and_flag)
  show ?thesis
    unfolding payload_rflags_def Let_def s c by simp
qed

lemma bit_payload_rflags:
  "i < 64 \<Longrightarrow> bit (payload_rflags control fl) i \<longleftrightarrow>
     (if i = 9 \<or> i = 16 then True else if i = 12 \<or> i = 13 then False
      else if i = 8 then control AND 3 = 3 else bit fl i)"
  unfolding payload_rflags_word
  by (cases "control AND 3 = 3"; simp only: if_True if_False simp_thms bit_and_iff bit_or_iff bit_not_iff bit_flags; auto)

lemma payload_rflags_safe:
  "payload_rflags control fl AND X86_EFLAGS_IF = X86_EFLAGS_IF" "payload_rflags control fl AND X86_EFLAGS_IOPL = 0"
  "payload_rflags control fl AND X86_EFLAGS_RF = X86_EFLAGS_RF"
  "payload_rflags control fl AND X86_EFLAGS_TF \<noteq> 0 \<longleftrightarrow> control AND 3 = 3"
  "payload_rflags control fl AND NOT 0x13300 = fl AND NOT 0x13300"
proof -
  show "payload_rflags control fl AND X86_EFLAGS_IF = X86_EFLAGS_IF" "payload_rflags control fl AND X86_EFLAGS_RF = X86_EFLAGS_RF"
    by (intro bit_word_eqI, simp only: bit_and_iff bit_flags, auto simp: bit_payload_rflags)+
  show "payload_rflags control fl AND X86_EFLAGS_IOPL = 0"
    "payload_rflags control fl AND X86_EFLAGS_TF \<noteq> 0 \<longleftrightarrow> control AND 3 = 3"
    by (simp_all add: and_flag bit_payload_rflags)
  show "payload_rflags control fl AND NOT 0x13300 = fl AND NOT 0x13300"
    by (intro bit_word_eqI, simp only: bit_and_iff bit_not_iff bit_flags, auto simp: bit_payload_rflags)
qed


subsection \<open>Properties\<close>

lemma replaced_not_syscall:
  assumes "n < NR_VECTORS" shows "replace_error_handlers intr_function_pointers ! n \<noteq> Syscall_entry_asm"
proof (cases "n \<in> error_vectors")
  case True
  then show ?thesis by (auto simp: error_vectors_def replace_error_handlers_def)
next
  case False
  then show ?thesis using replaced_nth_other [OF assms] by simp
qed

text \<open>A turn of the concrete machine: its payload always executes a system call.\<close>

lemma example_turn:
  fixes s :: vcpu
  assumes P: "platform_calls P" and sp: "rsp (ga_regs (vc_ga s)) = 0x300000"
    and gs: "seg_base (sr_gs (ga_sregs (vc_ga s))) = 0x400000"
  shows "\<exists>s'. switch_turn P im example_linux s = Stop 0 s'"
proof -
  define t where "t = payload_trap_of P im example_linux (kcall Ev_signal_pending s)"
  have v: "pt_vector t = 511" "rsp (pt_regs t) = 0x300000"
    using payload_entry_facts(1) [OF P, of im example_linux "kcall Ev_signal_pending s"]
    by (simp_all add: t_def payload_trap_of_def example_payload_def sp)
  obtain ti where f: "trap_frame example_linux t = Some (511, ti)" "ti_rsp ti = 0x300000"
    using v by (auto simp: trap_frame_def trap_stub_def)
  have "world_switch P im example_linux (kcall Ev_signal_pending s) \<noteq> None"
    using f by (simp add: world_switch_steps t_def)
  then obtain s2 where w: "world_switch P im example_linux (kcall Ev_signal_pending s) = Some s2" by blast
  obtain n ti' where g: "trap_frame example_linux t = Some (n, ti')" "ga_regs (vc_ga s2) = (pt_regs t)\<lparr>rsp := ti_rsp ti', rip := ti_rip ti', rflags := ti_rflags ti'\<rparr>"
    "ga_intr_no (vc_ga s2) = n" "seg_base (sr_gs (ga_sregs (vc_ga s2))) = 0x400000"
    using P w by (rule world_switch_facts) (simp add: t_def [symmetric] gs)
  have n: "ga_intr_no (vc_ga s2) = 511" "rsp (ga_regs (vc_ga s2)) = 0x300000"
    using g f by simp_all
  have "fst (kkm_process_syscall example_linux (no_exit s2)) = 0"
    by (simp add: kkm_process_syscall_def copy_to_user_def translate_low n g(4) kkm_consts Let_def)
  then obtain s3 where "kkm_process_syscall example_linux (no_exit s2) = (0, s3)" by (metis prod.collapse)
  then have "kkm_process_intr example_linux s2 = Some (0, kkm_statistics_intr_count_inc s3)"
    using n by (simp add: process_intr_dispatch trap_class_def run_class_def)
  then show ?thesis
    by (simp add: switch_turn_def w after_trap_def Let_def)
qed

lemma example_run:
  assumes P: "platform_calls P"
  shows "\<exists>s'. kkm_kontext_switch_kernel P im example_linux (Suc n) example_vcpu = Returns (0, s')"
proof -
  obtain s1 where p: "switch_prologue example_linux example_vcpu = (0, s1)" "vc_ga s1 = example_ga"
    by (simp add: switch_prologue_def kkm_kontext_handle_syscall_response_def example_kontext_def example_run_def Let_def)
  have "rsp (ga_regs example_ga) = 0x300000" "seg_base (sr_gs (ga_sregs example_ga)) = 0x400000"
    by (simp_all add: example_ga_def zero_regs_def zero_sregs_def zero_segment_def zero_guest_area_def)
  with p example_turn [OF P, of s1 im] obtain s' where "switch_turn P im example_linux s1 = Stop 0 s'" by auto
  with p show ?thesis by (simp add: kkm_kontext_switch_kernel_def)
qed

lemma example_turn_ok: "turn_ok example_linux example_vcpu"
  by (simp add: turn_ok_def native_ok_def tlb_ok_def flush_mode_ok_def example_cpu_def)



text \<open>C28 What the payload starts with in every turn: the general registers of the guest area, flags
  made safe, user code and stack segments, the payload's own page tables, the thread bases the monitor set,
  and the extended state it had when it was last interrupted.\<close>

theorem payload_entry_state:
  "let pe = payload_entry_of (kkm_platform choice) im E s; ga = vc_ga s in
     pe_regs pe = (ga_regs ga)\<lparr>rflags := payload_rflags (dbg_control (ga_debug ga)) (rflags (ga_regs ga))\<rparr> \<and>
     pe_cs pe = lx_USER_CS E \<and> pe_ss pe = lx_USER_DS E \<and> pe_cr3 pe = ga_guest_payload_cr3 ga \<and>
     pe_fs_base pe = seg_base (sr_fs (ga_sregs ga)) \<and> pe_gs_base pe = seg_base (sr_gs (ga_sregs ga)) \<and>
     pe_xstate pe = (if kn_valid_payload_xsave_area (vc_kontext s) then vc_payload_xstate s else c_xstate (cpu s))"
  using payload_entry_facts [OF platform_calls_kkm, of choice im E s] by (simp add: Let_def)

text \<open>C3 A trap loses nothing of the payload: when the payload is entered again after a turn, and nobody changed
  its guest area, it gets back the general registers it had at the trap (flags made safe; after a system
  call \<open>rip\<close> and the flags are the ones the processor put into \<open>rcx\<close> and \<open>r11\<close>) and its extended
  state. Its segment bases are the ones the monitor set, not the ones it trapped with.\<close>

theorem payload_resumes_where_it_trapped:
  assumes "world_switch (kkm_platform choice) im E s = Some s'" "t = payload_trap_of (kkm_platform choice) im E s"
    and "vc_ga s2 = vc_ga s'" "vc_kontext s2 = vc_kontext s'" "vc_payload_xstate s2 = vc_payload_xstate s'"
  shows "let pe = payload_entry_of (kkm_platform choice) im E s2; control = dbg_control (ga_debug (vc_ga s')) in
     pe_regs pe = (if pt_vector t = KKM_INTR_SYSCALL
       then (pt_regs t)\<lparr>rip := rcx (pt_regs t), rflags := payload_rflags control (r11 (pt_regs t))\<rparr>
       else (pt_regs t)\<lparr>rflags := payload_rflags control (rflags (pt_regs t))\<rparr>) \<and>
     pe_xstate pe = pt_xstate t \<and>
     pe_fs_base pe = seg_base (sr_fs (ga_sregs (vc_ga s))) \<and> pe_gs_base pe = seg_base (sr_gs (ga_sregs (vc_ga s)))"
proof -
  note P = platform_calls_kkm [of choice]
  obtain n ti nat where f: "trap_frame E t = Some (n, ti)"
    "ga_regs (vc_ga s') = (pt_regs t)\<lparr>rsp := ti_rsp ti, rip := ti_rip ti, rflags := ti_rflags ti\<rparr>"
    "ga_sregs (vc_ga s') = (ga_sregs (vc_ga s))\<lparr>cr0 := pt_cr0 t, cr2 := pt_cr2 t,
        cr3 := ga_guest_payload_cr3 (vc_ga s) AND 0xFFFFFFFFFFFFEFFF, cr4 := c_cr4 (cpu s), cr8 := pt_cr8 t\<rparr>"
    "vc_payload_xstate s' = pt_xstate t"
    "vc_kontext s' = (vc_kontext s)\<lparr>kn_valid_payload_xsave_area := True, kn_native := nat\<rparr>"
    using P assms(1) by (rule world_switch_facts) (simp only: assms(2))
  have no_call: "st = Syscall_entry_asm \<longleftrightarrow> pt_vector t = KKM_INTR_SYSCALL" if "trap_stub (pt_vector t) = Some st" for st
    using that by (auto simp: trap_stub_def split: if_splits dest: replaced_not_syscall)
  have ti: "ti_rsp ti = rsp (pt_regs t)"
    "ti_rip ti = (if pt_vector t = KKM_INTR_SYSCALL then rcx (pt_regs t) else rip (pt_regs t))"
    "ti_rflags ti = (if pt_vector t = KKM_INTR_SYSCALL then r11 (pt_regs t) else rflags (pt_regs t))"
    using f(1) by (auto simp: trap_frame_def no_call split: option.splits if_splits)
  have u: "(pt_regs t)\<lparr>rsp := rsp (pt_regs t)\<rparr> = pt_regs t" "(pt_regs t)\<lparr>rip := rip (pt_regs t)\<rparr> = pt_regs t" by simp_all
  show ?thesis
    using payload_entry_facts [OF P, of im E s2] f ti
    by (simp add: Let_def assms(3-5) u)
qed

theorem payload_resumes_where_it_trapped_witness:
  "\<exists>s'. world_switch (kkm_platform Platform_native) example_image example_linux example_vcpu = Some s' \<and>
     rax (pe_regs (payload_entry_of (kkm_platform Platform_native) example_image example_linux s')) = 39 \<and>
     pe_gs_base (payload_entry_of (kkm_platform Platform_native) example_image example_linux s') = 0x400000"
proof -
  define t where "t = payload_trap_of (kkm_platform Platform_native) example_image example_linux example_vcpu"
  have v: "pt_vector t = 511" "rax (pt_regs t) = 39"
    by (simp_all add: t_def payload_trap_of_def example_payload_def)
  have "world_switch (kkm_platform Platform_native) example_image example_linux example_vcpu \<noteq> None"
    using v by (simp add: world_switch_steps t_def [symmetric] trap_frame_def trap_stub_def)
  then obtain s' where w: "world_switch (kkm_platform Platform_native) example_image example_linux example_vcpu = Some s'"
    by blast
  have "seg_base (sr_gs (ga_sregs example_ga)) = 0x400000"
    by (simp add: example_ga_def zero_guest_area_def)
  then show ?thesis
    using payload_resumes_where_it_trapped [OF w t_def refl refl refl] w v by (simp add: Let_def)
qed

text \<open>What the prologue does to a kontext that owes the monitor's answer to an exception.\<close>

lemma prologue_exception:
  assumes "kn_exception_posted (vc_kontext s)" "\<not> kn_new_thread (vc_kontext s)" "\<not> kn_syscall_pending (vc_kontext s)"
    and "immediate_exit (vc_run s) \<noteq> 1" "switch_prologue E s = (r, s')"
  shows "r = 0" "ga_regs (vc_ga s') = (ga_regs (vc_ga s))\<lparr>rax := kn_exception_saved_rax (vc_kontext s),
      rbx := kn_exception_saved_rbx (vc_kontext s)\<rparr>" "\<not> kn_exception_posted (vc_kontext s')"
  using assms by (auto simp: switch_prologue_def Let_def syscall_response_idle)

text \<open>The frame an exception leaves on the payload's stack.\<close>

definition exception_frame :: "trap_class \<Rightarrow> kkm_guest_area \<Rightarrow> u64 list" where
  "exception_frame c ga =
     [rax (ga_regs ga), rbx (ga_regs ga), rdx (ga_regs ga)] @
     (if c = Trap_with_error then [ti_error (ga_trap_info ga)] else []) @
     [ti_rip (ga_trap_info ga), ti_cs (ga_trap_info ga), ti_rflags (ga_trap_info ga), ti_rsp (ga_trap_info ga),
      ti_ss (ga_trap_info ga)]"

lemma exception_posted:
  assumes c: "c = Trap_with_error \<or> c = Trap_without_error" and h: "run_class E c s = Some (0, s1)"
    and gva: "gva = rsp (ga_regs (vc_ga s)) - 8 * of_nat (length (exception_frame c (vc_ga s)))"
  obtains mva p s2 where "kkm_guest_va_to_monitor_va s gva = (True, mva, p)"
    "copy_to_user E mva (words_bytes (exception_frame c (vc_ga s))) (on_regs (\<lambda>r. r\<lparr>rsp := gva\<rparr>) s) = (0, s2)"
    "s1 = post_exception gva s2"
  using c
proof
  assume c': "c = Trap_with_error"
  then have "kkm_process_common_with_error E s = (0, s1)" "gva = rsp (ga_regs (vc_ga s)) - 72"
    using h gva by (simp_all add: run_class_def exception_frame_def)
  then show ?thesis by (rule with_error_ok) (rule that, simp_all add: exception_frame_def c')
next
  assume c': "c = Trap_without_error"
  then have "kkm_process_common_without_error E s = (0, s1)" "gva = rsp (ga_regs (vc_ga s)) - 64"
    using h gva by (simp_all add: run_class_def exception_frame_def)
  then show ?thesis by (rule without_error_ok) (rule that, simp_all add: exception_frame_def c')
qed

text \<open>C23 An exception of the payload: the monitor finds the frame, with the error code for the vectors that
  have one, on the payload's stack, and its address and the vector in \<open>rax\<close> and \<open>rbx\<close>; when the
  payload is resumed, \<open>rax\<close> and \<open>rbx\<close> hold again what they held at the exception, over whatever the
  monitor put into the other registers, and nothing is owed any more.\<close>

theorem exception_and_resume:
  assumes "c = Trap_with_error \<or> c = Trap_without_error" "run_class E c s = Some (0, s1)"
    and "gva = rsp (ga_regs (vc_ga s)) - 8 * of_nat (length (exception_frame c (vc_ga s)))"
    and "\<not> kn_new_thread (vc_kontext s)" "\<not> kn_syscall_pending (vc_kontext s)"
    and "vc_kontext s2 = vc_kontext s1" "immediate_exit (vc_run s2) \<noteq> 1" "switch_prologue E s2 = (r, s3)"
  shows "load_words (um s1) (fst (snd (kkm_guest_va_to_monitor_va s gva))) (length (exception_frame c (vc_ga s)))
           = exception_frame c (vc_ga s) \<and>
    ga_regs (vc_ga s1) = (ga_regs (vc_ga s))\<lparr>rsp := gva, rax := gva, rbx := ga_intr_no (vc_ga s)\<rparr> \<and>
    exit_reason (vc_run s1) = exit_code KKM_EXIT_IO \<and> io_port (run_io (vc_run s1)) = KKM_EXCEPTION_IO_PORT \<and>
    r = 0 \<and> ga_regs (vc_ga s3) = (ga_regs (vc_ga s2))\<lparr>rax := rax (ga_regs (vc_ga s)), rbx := rbx (ga_regs (vc_ga s))\<rparr> \<and>
    debts s3 = (False, False)"
proof -
  obtain mva p s4 where o: "kkm_guest_va_to_monitor_va s gva = (True, mva, p)"
    "copy_to_user E mva (words_bytes (exception_frame c (vc_ga s))) (on_regs (\<lambda>r. r\<lparr>rsp := gva\<rparr>) s) = (0, s4)"
    "s1 = post_exception gva s4"
    using assms(1-3) by (rule exception_posted)
  have n: "8 * length (exception_frame c (vc_ga s)) \<le> 2 ^ 64" by (simp add: exception_frame_def)
  note D = exception_delivery [OF o(2,3) n]
  have k: "kn_exception_posted (vc_kontext s2)" "\<not> kn_new_thread (vc_kontext s2)" "\<not> kn_syscall_pending (vc_kontext s2)"
    "kn_exception_saved_rax (vc_kontext s2) = rax (ga_regs (vc_ga s))" "kn_exception_saved_rbx (vc_kontext s2) = rbx (ga_regs (vc_ga s))"
    using assms(4-6) by (simp_all add: D(3))
  note R = prologue_exception [OF k(1-3) assms(7,8)]
  have "debts s3 = (False, False)" using switch_prologue_contract(4) [OF assms(8) R(1)] .
  with D R show ?thesis by (simp add: o(1) k)
qed

lemma example_exception:
  "\<exists>s1. run_class example_linux Trap_with_error example_vcpu = Some (0, s1)"
  by (simp add: run_class_def kkm_process_common_with_error_def copy_to_user_def translate_low example_ga_def zero_regs_def
      zero_guest_area_def kkm_consts Let_def)

theorem exception_and_resume_witness:
  "\<exists>s1. run_class example_linux Trap_with_error example_vcpu = Some (0, s1) \<and>
     load_words (um s1) 0x2FFFB8 9 = exception_frame Trap_with_error example_ga \<and>
     (case switch_prologue example_linux (s1\<lparr>vc_run := example_run\<rparr>) of (r, s3) \<Rightarrow>
        r = 0 \<and> rax (ga_regs (vc_ga s3)) = 39 \<and> debts s3 = (False, False))"
proof -
  obtain s1 where s1: "run_class example_linux Trap_with_error example_vcpu = Some (0, s1)"
    using example_exception by blast
  obtain r s3 where r: "switch_prologue example_linux (s1\<lparr>vc_run := example_run\<rparr>) = (r, s3)" by (rule prod.exhaust)
  have g: "rsp (ga_regs example_ga) = 0x300000" "rax (ga_regs example_ga) = 39"
    by (simp_all add: example_ga_def zero_regs_def zero_guest_area_def)
  have l: "length (exception_frame Trap_with_error example_ga) = 9" by (simp add: exception_frame_def)
  have k: "\<not> kn_new_thread example_kontext" "\<not> kn_syscall_pending example_kontext" by (simp_all add: example_kontext_def)
  have i: "immediate_exit example_run \<noteq> 1" by (simp add: example_run_def)
  show ?thesis
    using exception_and_resume [OF disjI1 [OF refl] s1 refl _ _ _ _ r] s1
    by (simp add: k i g l r translate_low kkm_consts)
qed

text \<open>C24 A payload that keeps faulting on one page cannot hold the processor: whatever its registers and
  whatever state the run starts in, after at most 18 turns the loop returns to the monitor.\<close>

theorem faulting_payload_returns:
  assumes "faults_at E a e" "18 \<le> n"
  shows "\<exists>r s'. switch_loop (kkm_platform choice) im E n s = Returns (r, s')"
  by (rule faulting_payload_stopped [OF platform_calls_kkm assms])

definition faulting_linux :: linux where
  "faulting_linux = example_linux\<lparr>lx_payload := (\<lambda>l pe. (example_payload l pe)\<lparr>pt_vector := 14, pt_error := 4, pt_cr2 := 0x250000\<rparr>)\<rparr>"

theorem faulting_payload_returns_witness:
  "\<exists>r s'. switch_loop (kkm_platform Platform_pv) example_image faulting_linux 18 example_vcpu = Returns (r, s')"
  by (rule faulting_payload_returns [of _ "0x250000" 4]) (simp_all add: faults_at_def faulting_linux_def)

text \<open>Whatever flags the monitor asks for, the payload runs with interrupts enabled, without I/O privilege,
  with the resume flag, single-stepped exactly when the monitor enabled debugging with single step, and
  with every other flag as asked.\<close>

theorem payload_flags_safe:
  "payload_rflags control fl AND X86_EFLAGS_IF = X86_EFLAGS_IF \<and> payload_rflags control fl AND X86_EFLAGS_IOPL = 0 \<and>
   payload_rflags control fl AND X86_EFLAGS_RF = X86_EFLAGS_RF \<and>
   (payload_rflags control fl AND X86_EFLAGS_TF \<noteq> 0) = (control AND 3 = 3) \<and>
   payload_rflags control fl AND NOT 0x13300 = fl AND NOT 0x13300"
  using payload_rflags_safe [of control fl] by blast

end
