(* ===== verification/Kkm_System.thy ===== *)
theory Kkm_System
  imports Kkm_Run
begin

section \<open>Many kontexts on one machine\<close>

text \<open>
  The life of the module's host state from the moment it is loaded: turns of any kontexts of any
  kontainers, on any processors the scheduler chooses, their traps, and whatever else the module and the
  kernel do that does not concern translations. The reachable states are an inductive predicate; that a
  processor holds translations of one kontainer at most is an invariant, proved by rule induction.
\<close>

inductive module_reach :: "kx_image \<Rightarrow> linux \<Rightarrow> host \<Rightarrow> bool" for im E where
  load: "klog (s :: host) = [] \<Longrightarrow> kkm_idt_init E im s = (0, area, s') \<Longrightarrow> module_reach im E s'"
| turn: "module_reach im E (host.truncate (v :: vcpu)) \<Longrightarrow> flush_mode_ok v \<Longrightarrow>
    world_switch (kkm_platform choice) im E v = Some v' \<Longrightarrow> module_reach im E (host.truncate v')"
| trap: "module_reach im E (host.truncate (v :: vcpu)) \<Longrightarrow> kkm_process_intr E v = Some (r, v') \<Longrightarrow>
    module_reach im E (host.truncate v')"
| other: "module_reach im E s \<Longrightarrow> klog s' = e @ klog s \<Longrightarrow> \<not> list_ex tlb_event e \<Longrightarrow> idt_last_id s' = idt_last_id s \<Longrightarrow>
    module_reach im E s'"

inductive_cases module_reach_cases: "module_reach im E s"

lemma truncate_simps [simp]:
  "klog (host.truncate v) = klog v" "idt_last_id (host.truncate v) = idt_last_id v"
  "kkm_cpu_full_tlb_flush (host.truncate v) = kkm_cpu_full_tlb_flush v"
  by (cases v, simp add: host.truncate_def)+

lemma tlb_ok_truncate [simp]: "tlb_ok (host.truncate v) = tlb_ok v"
  by (simp add: tlb_ok_def)

lemma tlb_others: "\<not> list_ex tlb_event e \<Longrightarrow> tlb (e @ l) = tlb l"
  by (induction e) simp_all

lemma module_reach_tlb: "module_reach im E s \<Longrightarrow> tlb_ok s"
proof (induction rule: module_reach.induct)
  case (load s area s')
  have "klog s' = klog s \<or> (\<exists>p. klog s' = [Ev_alloc_pages 2 p])"
    using load by (auto simp: kkm_idt_init_def kkm_idt_descr_init_def kkm_mm_allocate_pages_def alloc_pages_def kcall_def Let_def
        split: if_splits prod.splits)
  then show ?case using load(1) by (auto simp: tlb_ok_def)
next
  case (turn v choice v')
  then show ?case using world_switch_tlb [OF platform_calls_kkm, of v choice im E v'] by simp
next
  case (trap v r v')
  note c = process_intr_contract [OF trap(2)]
  have "idt_last_id v' = idt_last_id v" using c(2) by (simp add: config_def)
  then show ?case using trap c(6) by (simp add: tlb_ok_def)
next
  case (other s s' e)
  then show ?case by (simp add: tlb_ok_def tlb_others)
qed

text \<open>The run loop stays among the reachable states: what it does between two turns is a trap and steps of
  the last kind.\<close>

lemma after_trap_log:
  assumes "after_trap E r s = Again s'"
  obtains e where "klog s' = e @ klog s" "\<not> list_ex tlb_event e" "idt_last_id s' = idt_last_id s"
proof -
  have "\<exists>e. klog s' = e @ klog s \<and> \<not> list_ex tlb_event e \<and> idt_last_id s' = idt_last_id s"
    using assms by (auto simp: after_trap_def Let_def on_kontext_def split: if_splits intro: exI [of _ "[]"]
        exI [of _ "[Ev_schedule]"] exI [of _ "[Ev_schedule, Ev_schedule]"])
  with that show ?thesis by blast
qed

lemma module_reach_turn:
  fixes s :: vcpu
  assumes reach: "module_reach im E (host.truncate s)" and mode: "flush_mode_ok s"
    and again: "switch_turn (kkm_platform choice) im E s = Again s'"
  shows "module_reach im E (host.truncate s') \<and> flush_mode_ok s'"
proof -
  have "switch_turn (kkm_platform choice) im E s \<noteq> Undefined_turn" using again by simp
  with refl show ?thesis
  proof (cases rule: switch_turn_cases)
    case signal
    then show ?thesis using again by simp
  next
    case (ran s2 r s3)
    let ?s1 = "kcall Ev_signal_pending s"
    have r1: "module_reach im E (host.truncate ?s1)"
      by (rule module_reach.other [OF reach, of _ "[Ev_signal_pending]"]) simp_all
    have m1: "flush_mode_ok ?s1" using mode by (simp add: flush_mode_ok_def)
    have "turn_frame s2 = turn_frame ?s1" by (rule world_switch_frame [OF ran(2)])
    then have m2: "flush_mode_ok s2" using m1 by (simp add: flush_mode_ok_def turn_frame_def)
    have r3: "module_reach im E (host.truncate s3)"
      by (rule module_reach.trap [OF module_reach.turn [OF r1 m1 ran(2)] ran(3)])
    have "config s3 = config s2" "ga_guest_payload_cr3 (vc_ga s3) = ga_guest_payload_cr3 (vc_ga s2)"
      using process_intr_contract(2) [OF ran(3)] process_intr_area [OF ran(3)] by (simp_all add: kernel_area_def)
    then have m3: "flush_mode_ok s3" using m2 by (simp add: flush_mode_ok_def config_def)
    have a: "after_trap E r s3 = Again s'" using ran(4) again by simp
    obtain e where e: "klog s' = e @ klog s3" "\<not> list_ex tlb_event e" "idt_last_id s' = idt_last_id s3"
      using a by (rule after_trap_log)
    have "module_reach im E (host.truncate s')"
      by (rule module_reach.other [OF r3, of _ e]) (simp_all add: e)
    moreover have "flush_mode_ok s'"
      using m3 a by (auto simp: after_trap_def Let_def flush_mode_ok_def on_kontext_def split: if_splits)
    ultimately show ?thesis by blast
  qed
qed

text \<open>The mode of flushing agrees with the page-table register of every kontext that was initialised.\<close>

lemma pcid_free: "(x AND - 4096) AND 0xFF = (0 :: u64)"
  by (simp add: and.assoc)

lemma kontext_init_flush_mode:
  assumes "kkm_kontext_init E a s = (0, s')"
  shows "flush_mode_ok s'"
proof -
  let ?pi = "\<lparr>pi_page = kn_guest_area_page (vc_kontext s), pi_va = kn_guest_area (vc_kontext s), pi_pa = 0\<rparr>"
  obtain r1 area s1 where a1: "kkm_mm_allocate_pages E True True False KKM_GUEST_AREA_PAGES ?pi s = (r1, area, s1)"
    by (rule prod_cases3)
  define s2 where "s2 = on_kontext (\<lambda>k. k\<lparr>kn_guest_area_page := pi_page area, kn_guest_area := pi_va area\<rparr>) s1"
  define s4 where "s4 = (on_kontext (\<lambda>k. k\<lparr>kn_guest_area_page0_pa := lx_virt_to_phys E (pi_va area),
      kn_guest_area_page1_pa := lx_virt_to_phys E (pi_va area + PAGE_SIZE)\<rparr>) s2)
    \<lparr>vc_ga := guest_area_init (vm_kkm s2) a (kkm_cpu_full_tlb_flush s2) (pi_va area)\<rparr>"
  obtain r2 xsave s5 where a2: "kkm_mm_allocate_pages E True True True KKM_FPU_XSAVE_ALLOC_PAGES (kn_xsave (vc_kontext s4)) s4
      = (r2, xsave, s5)" by (rule prod_cases3)
  have f: "kkm_cpu_full_tlb_flush s5 = kkm_cpu_full_tlb_flush s2" "vc_ga s5 = vc_ga s4"
    using allocate_pages_frame(4) [OF a2] same_more_vcpu(2) [OF allocate_pages_more [OF a2]]
    by (simp_all add: s4_def on_kontext_def)
  have r: "r1 = 0" "r2 = 0" and s': "kkm_cpu_full_tlb_flush s' = kkm_cpu_full_tlb_flush s5" "vc_ga s' = vc_ga s5"
    using assms a1 a2 unfolding kkm_kontext_init_def Let_def
    by (auto simp: s2_def s4_def on_kontext_def split: if_splits)
  show ?thesis
    unfolding flush_mode_ok_def s' f
    by (simp add: s4_def guest_area_init_def kkm_init_guest_area_redzone_def Let_def pcid_free)
qed

text \<open>C2 Isolation of kontainers in the processor's translations: in every state the module can reach, on every
  processor, when a payload is entered the processor holds no translation of another kontainer's
  payload, whichever kontexts ran there before and whether the lazy or the full flush is in use; and the
  next state is one in which the same holds again.\<close>

theorem payload_alone_on_processor:
  assumes "module_reach im E (host.truncate v)" "flush_mode_ok v"
  shows "snd (tlb (klog (payload_state (kkm_platform choice) im E v))) (turn_cpu E v) \<subseteq> {km_id (vm_kkm v)}"
  using payload_alone_in_tlb [OF platform_calls_kkm _ assms(2)] module_reach_tlb [OF assms(1)] by simp

theorem payload_alone_on_processor_witness:
  "\<exists>v :: vcpu. module_reach example_image example_linux (host.truncate v) \<and>
     snd (tlb (klog (payload_state (kkm_platform Platform_native) example_image example_linux v))) (turn_cpu example_linux v)
       \<subseteq> {km_id example_kkm}"
proof -
  obtain r area s' where k: "kkm_idt_init example_linux example_image example_host = (r, area, s')" by (rule prod_cases3)
  have "r = 0" using example_idt_init k by simp
  then have k0: "kkm_idt_init example_linux example_image example_host = (0, area, s')" using k by simp
  define v :: vcpu where "v = vm.extend (host.extend s' (vm.fields example_kkm))
     (vcpu.fields example_kontext example_ga example_run \<lparr>pa_data = 0, pa_reason = 0\<rparr> (replicate 4096 0) (replicate 4096 0))"
  have t: "host.truncate v = s'" and g: "vc_ga v = example_ga" "vm_kkm v = example_kkm"
    "kkm_cpu_full_tlb_flush v = kkm_cpu_full_tlb_flush s'"
    by (simp_all add: v_def host.truncate_def host.defs vm.defs vcpu.defs)
  have reach: "module_reach example_image example_linux (host.truncate v)"
    unfolding t by (rule module_reach.load [OF _ k0]) (simp add: example_host_def)
  have "kkm_cpu_full_tlb_flush s' = False"
    using k0 by (auto simp: kkm_idt_init_def kkm_idt_descr_init_def Let_def kkm_mmu_set_kx_global_info_def
        kkm_mmu_insert_page_def kkm_mmu_set_entry_def example_host_def dest: allocate_pages_frame(4) split: if_splits prod.splits)
  then have "flush_mode_ok v" by (simp add: flush_mode_ok_def g)
  from payload_alone_on_processor [OF reach this, of Platform_native] reach show ?thesis by (auto simp: g)
qed


subsection \<open>Every trap\<close>



end
