(* ===== verification/Kkm_Trace.thy ===== *)
theory Kkm_Trace
  imports Kkm_Prelude "HOL-Library.Signed_Division"
begin

section \<open>The trace ring (\<open>kkm_trace.c\<close>, \<open>kkm_trace.h\<close>)\<close>

text \<open>
  A ring of 256 entries with a running index that is incremented before an entry is written. An entry is
  a tagged union, here a datatype with one constructor per tag. The index is a signed 64-bit counter whose
  remainder by 256 (C's, so negative for a negative counter) selects the entry: \<open>None\<close> is the access before
  the array that a wrapped counter would make. The locale \<open>bounded_log\<close> is the abstract contract, a
  log that keeps the last entries; the ring is an instance of it.
\<close>

abbreviation (input) KKM_TRACE_DEPTH :: nat where "KKM_TRACE_DEPTH \<equiv> 256"

datatype kkm_trace_entry =
    Trace_set_regs u64 u64
  | Trace_run u64 u64
  | Trace_run_done u64 u64
  | Trace_guest_exit u32
  | Trace_forward u32 u64 u64
  | Trace_forward_done u32 u64 u64
  | Trace_page_fault u64 u64 u64 u64
  | Trace_page_fault_done u64 u64 u64 u64
  | Trace_invalid_entry

fun kkm_trace_type :: "kkm_trace_entry \<Rightarrow> int" where
  "kkm_trace_type (Trace_set_regs _ _) = 1"
| "kkm_trace_type (Trace_run _ _) = 2"
| "kkm_trace_type (Trace_run_done _ _) = 3"
| "kkm_trace_type (Trace_guest_exit _) = 4"
| "kkm_trace_type (Trace_forward _ _ _) = 5"
| "kkm_trace_type (Trace_forward_done _ _ _) = 6"
| "kkm_trace_type (Trace_page_fault _ _ _ _) = 7"
| "kkm_trace_type (Trace_page_fault_done _ _ _ _) = 8"
| "kkm_trace_type Trace_invalid_entry = - 1"

record kkm_trace =
  tr_index :: u64
  tr_entries :: "kkm_trace_entry list"

subsection \<open>Operations\<close>

definition kkm_trace_get_next_entry :: "kkm_trace \<Rightarrow> int \<times> kkm_trace" where
  "kkm_trace_get_next_entry t =
     (let i = tr_index t + 1 in (sint i smod int KKM_TRACE_DEPTH, t\<lparr>tr_index := i\<rparr>))"

definition kkm_trace_init :: "kkm_trace \<Rightarrow> kkm_trace" where
  "kkm_trace_init t = t\<lparr>tr_index := 0, tr_entries := replicate KKM_TRACE_DEPTH Trace_invalid_entry\<rparr>"

text \<open>What is common to the eight functions that add an entry.\<close>

definition add_entry :: "kkm_trace_entry \<Rightarrow> kkm_trace \<Rightarrow> kkm_trace option" where
  "add_entry e t =
     (case kkm_trace_get_next_entry t of (index, t1) \<Rightarrow>
      if index < 0 then None else Some (t1\<lparr>tr_entries := (tr_entries t1)[nat index := e]\<rparr>))"

definition kkm_trace_add_entry_set_regs :: "u64 \<Rightarrow> u64 \<Rightarrow> kkm_trace \<Rightarrow> kkm_trace option" where
  "kkm_trace_add_entry_set_regs rip rsp = add_entry (Trace_set_regs rip rsp)"

definition kkm_trace_add_entry_run :: "u64 \<Rightarrow> u64 \<Rightarrow> kkm_trace \<Rightarrow> kkm_trace option" where
  "kkm_trace_add_entry_run rip rsp = add_entry (Trace_run rip rsp)"

definition kkm_trace_add_entry_run_done :: "u64 \<Rightarrow> u64 \<Rightarrow> kkm_trace \<Rightarrow> kkm_trace option" where
  "kkm_trace_add_entry_run_done rip rsp = add_entry (Trace_run_done rip rsp)"

definition kkm_trace_add_entry_guest_exit :: "u32 \<Rightarrow> kkm_trace \<Rightarrow> kkm_trace option" where
  "kkm_trace_add_entry_guest_exit reason = add_entry (Trace_guest_exit reason)"

definition kkm_trace_add_entry_forward :: "u32 \<Rightarrow> u64 \<Rightarrow> u64 \<Rightarrow> kkm_trace \<Rightarrow> kkm_trace option" where
  "kkm_trace_add_entry_forward intr rip rsp = add_entry (Trace_forward intr rip rsp)"

definition kkm_trace_add_entry_forward_done :: "u32 \<Rightarrow> u64 \<Rightarrow> u64 \<Rightarrow> kkm_trace \<Rightarrow> kkm_trace option" where
  "kkm_trace_add_entry_forward_done intr rip rsp = add_entry (Trace_forward_done intr rip rsp)"

definition kkm_trace_add_entry_page_fault :: "u64 \<Rightarrow> u64 \<Rightarrow> u64 \<Rightarrow> u64 \<Rightarrow> kkm_trace \<Rightarrow> kkm_trace option" where
  "kkm_trace_add_entry_page_fault cr2 error rip rsp = add_entry (Trace_page_fault cr2 error rip rsp)"

definition kkm_trace_add_entry_page_fault_done :: "u64 \<Rightarrow> u64 \<Rightarrow> u64 \<Rightarrow> u64 \<Rightarrow> kkm_trace \<Rightarrow> kkm_trace option" where
  "kkm_trace_add_entry_page_fault_done cr2 error rip rsp = add_entry (Trace_page_fault_done cr2 error rip rsp)"

text \<open>What \<open>kkm_trace_show\<close> prints: the index, and one line per valid entry, oldest first.\<close>

definition kkm_trace_show :: "kkm_trace \<Rightarrow> (u64 \<times> kkm_trace_entry list) option" where
  "kkm_trace_show t =
     (let current_index = tr_index t + 1;
          positions = map (\<lambda>index. sint (current_index + of_nat index) smod int KKM_TRACE_DEPTH) [0..<KKM_TRACE_DEPTH]
      in if list_ex (\<lambda>p. p < 0) positions then None
         else Some (current_index, [e \<leftarrow> map (\<lambda>p. tr_entries t ! nat p) positions. e \<noteq> Trace_invalid_entry]))"

subsection \<open>The contract: a log that keeps the last entries\<close>

definition last_n :: "nat \<Rightarrow> 'a list \<Rightarrow> 'a list" where
  "last_n k xs = drop (length xs - k) xs"

lemma last_n_Nil [simp]: "last_n k [] = []"
  by (simp add: last_n_def)

lemma last_n_snoc: "0 < k \<Longrightarrow> last_n k (last_n k xs @ [x]) = last_n k (xs @ [x])"
  by (cases "length xs < k") (simp_all add: last_n_def Suc_diff_le add.commute)

locale bounded_log =
  fixes start :: 's and add :: "'e \<Rightarrow> 's \<Rightarrow> 's option" and entries :: "'s \<Rightarrow> 'e list option"
    and valid :: "'e \<Rightarrow> bool" and ok :: "nat \<Rightarrow> 's \<Rightarrow> bool" and cap :: nat and limit :: nat
  assumes cap_pos: "0 < cap"
    and start_ok: "ok 0 start"
    and start_entries: "entries start = Some []"
    and add_ok: "\<lbrakk>ok n s; n < limit; valid e; entries s = Some es\<rbrakk> \<Longrightarrow>
      \<exists>s'. add e s = Some s' \<and> ok (Suc n) s' \<and> entries s' = Some (last_n cap (es @ [e]))"
begin

fun log_all :: "'e list \<Rightarrow> 's \<Rightarrow> 's option" where
  "log_all [] s = Some s"
| "log_all (e # es) s = (case add e s of None \<Rightarrow> None | Some s' \<Rightarrow> log_all es s')"

lemma log_all_snoc: "log_all (es @ [e]) s = (case log_all es s of None \<Rightarrow> None | Some s' \<Rightarrow> add e s')"
  by (induction es arbitrary: s) (simp_all split: option.splits)

lemma log_all_entries:
  "\<lbrakk>length es \<le> limit; \<forall>e \<in> set es. valid e\<rbrakk> \<Longrightarrow>
     \<exists>s. log_all es start = Some s \<and> ok (length es) s \<and> entries s = Some (last_n cap es)"
proof (induction es rule: rev_induct)
  case Nil
  then show ?case using start_ok start_entries by simp
next
  case (snoc e es)
  then obtain s where s: "log_all es start = Some s" "ok (length es) s" "entries s = Some (last_n cap es)" by auto
  then obtain s' where "add e s = Some s'" "ok (Suc (length es)) s'" "entries s' = Some (last_n cap (last_n cap es @ [e]))"
    using add_ok [OF s(2) _ _ s(3), of e] snoc.prems by auto
  then show ?case using s by (simp add: log_all_snoc last_n_snoc [OF cap_pos])
qed

end

subsection \<open>The ring keeps the contract\<close>

definition ring_limit :: nat where
  "ring_limit = 2 ^ 63 - 257"

text \<open>The ring read from the position after the newest entry.\<close>

definition ring_view :: "kkm_trace \<Rightarrow> kkm_trace_entry list" where
  "ring_view t = rotate (Suc (unat (tr_index t))) (tr_entries t)"

text \<open>After \<open>n\<close> additions, what was never written is the oldest part of the ring.\<close>

definition ring_ok :: "nat \<Rightarrow> kkm_trace \<Rightarrow> bool" where
  "ring_ok n t \<longleftrightarrow> unat (tr_index t) = n \<and> n \<le> ring_limit \<and> length (tr_entries t) = KKM_TRACE_DEPTH \<and>
     (\<exists>k ys. ring_view t = replicate k Trace_invalid_entry @ ys \<and> Trace_invalid_entry \<notin> set ys)"

lemma sint_small: "n < 2 ^ 63 \<Longrightarrow> sint (of_nat n :: u64) = int n"
  by (simp add: signed_of_nat signed_take_bit_int_eq_self)

lemma smod_small: "int n smod int 256 = int (n mod 256)"
  by (cases "n = 0") (simp_all add: signed_modulo_int_def zmod_int)

lemma show_view:
  assumes "unat (tr_index t) \<le> ring_limit" "length (tr_entries t) = 256"
  shows "kkm_trace_show t = Some (tr_index t + 1, [e \<leftarrow> ring_view t. e \<noteq> Trace_invalid_entry])"
proof -
  define n where "n = unat (tr_index t)"
  have i: "tr_index t = of_nat n" by (simp add: n_def)
  have p: "sint (tr_index t + 1 + of_nat j) smod int 256 = int ((Suc n + j) mod 256)" if "j < 256" for j
  proof -
    have "tr_index t + 1 + of_nat j = of_nat (Suc n + j)" by (simp add: i)
    moreover have "Suc n + j < 2 ^ 63" using assms(1) that by (simp add: n_def [symmetric] ring_limit_def)
    ultimately show ?thesis by (simp only: sint_small smod_small)
  qed
  have v: "ring_view t = map (\<lambda>j. tr_entries t ! ((Suc n + j) mod 256)) [0..<256]"
    using assms(2) by (intro nth_equalityI)
      (simp_all add: ring_view_def n_def nth_rotate del: rotate_Suc upt_Suc)
  have m: "map (\<lambda>p. tr_entries t ! nat p) (map (\<lambda>j. sint (tr_index t + 1 + of_nat j) smod int 256) [0..<256]) = ring_view t"
    unfolding v map_map by (intro map_cong refl) (simp only: p comp_def nat_int atLeastLessThan_iff set_upt)
  have "\<not> list_ex (\<lambda>p. p < 0) (map (\<lambda>j. sint (tr_index t + 1 + of_nat j) smod int 256) [0..<256])"
    by (auto simp: list_ex_iff p [simplified] simp del: of_nat_add of_nat_Suc)
  then show ?thesis unfolding kkm_trace_show_def Let_def by (simp only: m) simp
qed

lemma ring_view_add:
  assumes "unat (tr_index t) = n" "n < ring_limit" "length (tr_entries t) = 256"
  shows "\<exists>t'. add_entry e t = Some t' \<and> unat (tr_index t') = Suc n \<and> length (tr_entries t') = 256 \<and>
     ring_view t' = tl (ring_view t) @ [e]"
proof -
  have i: "tr_index t + 1 = of_nat (Suc n)" using assms(1) by (simp flip: assms(1) add: add.commute)
  have s: "Suc n < 2 ^ 63" using assms(2) by (simp add: ring_limit_def)
  have u: "unat (of_nat (Suc n) :: u64) = Suc n"
    using s by (simp add: unat_of_nat mod_less del: of_nat_Suc)
  have a: "add_entry e t = Some (t\<lparr>tr_index := of_nat (Suc n), tr_entries := (tr_entries t)[Suc n mod 256 := e]\<rparr>)"
    unfolding add_entry_def kkm_trace_get_next_entry_def Let_def i sint_small [OF s] smod_small by simp
  have v: "rotate (Suc (Suc n)) ((tr_entries t)[Suc n mod 256 := e]) = tl (rotate (Suc n) (tr_entries t)) @ [e]"
    (is "?l = ?r")
  proof (rule nth_equalityI)
    show "length ?l = length ?r" using assms(3) by simp
  next
    fix j assume "j < length ?l"
    then have j: "j < 256" using assms(3) by simp
    have "Suc (n + 256) mod 256 = Suc n mod 256" using mod_add_self2 [of "Suc n" 256] by (simp only: add_Suc)
    then have last: "j = 255 \<Longrightarrow> (Suc (Suc n) + j) mod 256 = Suc n mod 256" by simp
    have other: "j \<noteq> 255 \<Longrightarrow> (Suc (Suc n) + j) mod 256 \<noteq> Suc n mod 256"
      using j mod_eq_dvd_iff_nat [of "Suc n" "Suc (Suc n) + j" 256] by (auto dest: dvd_imp_le)
    show "?l ! j = ?r ! j"
    proof (cases "j = 255")
      case True
      then show ?thesis using last [OF True] assms(3) by (simp add: nth_rotate nth_append del: rotate_Suc)
    next
      case False
      have "(Suc n + Suc j) mod 256 = (Suc (Suc n) + j) mod 256" by simp
      then show ?thesis using other [OF False] j False assms(3)
        by (simp add: nth_rotate nth_append nth_tl del: rotate_Suc)
    qed
  qed
  show ?thesis using a v assms by (simp add: ring_view_def u del: rotate_Suc of_nat_Suc)
qed

text \<open>A call of the module, by the entry it leaves.\<close>

fun trace_call :: "kkm_trace_entry \<Rightarrow> kkm_trace \<Rightarrow> kkm_trace option" where
  "trace_call (Trace_set_regs rip rsp) = kkm_trace_add_entry_set_regs rip rsp"
| "trace_call (Trace_run rip rsp) = kkm_trace_add_entry_run rip rsp"
| "trace_call (Trace_run_done rip rsp) = kkm_trace_add_entry_run_done rip rsp"
| "trace_call (Trace_guest_exit reason) = kkm_trace_add_entry_guest_exit reason"
| "trace_call (Trace_forward intr rip rsp) = kkm_trace_add_entry_forward intr rip rsp"
| "trace_call (Trace_forward_done intr rip rsp) = kkm_trace_add_entry_forward_done intr rip rsp"
| "trace_call (Trace_page_fault cr2 error rip rsp) = kkm_trace_add_entry_page_fault cr2 error rip rsp"
| "trace_call (Trace_page_fault_done cr2 error rip rsp) = kkm_trace_add_entry_page_fault_done cr2 error rip rsp"
| "trace_call Trace_invalid_entry = (\<lambda>t. None)"

fun trace_calls :: "kkm_trace_entry list \<Rightarrow> kkm_trace \<Rightarrow> kkm_trace option" where
  "trace_calls [] t = Some t"
| "trace_calls (e # es) t = (case trace_call e t of None \<Rightarrow> None | Some t' \<Rightarrow> trace_calls es t')"

definition shown :: "kkm_trace \<Rightarrow> kkm_trace_entry list option" where
  "shown t = map_option snd (kkm_trace_show t)"

lemma trace_call_add: "e \<noteq> Trace_invalid_entry \<Longrightarrow> trace_call e t = add_entry e t"
  by (cases e)
    (simp_all add: kkm_trace_add_entry_set_regs_def kkm_trace_add_entry_run_def kkm_trace_add_entry_run_done_def
      kkm_trace_add_entry_guest_exit_def kkm_trace_add_entry_forward_def kkm_trace_add_entry_forward_done_def
      kkm_trace_add_entry_page_fault_def kkm_trace_add_entry_page_fault_done_def)

lemma shown_view: "ring_ok n t \<Longrightarrow> shown t = Some [e \<leftarrow> ring_view t. e \<noteq> Trace_invalid_entry]"
  by (auto simp: shown_def ring_ok_def show_view)

lemma filter_valid: "x \<notin> set ys \<Longrightarrow> [e \<leftarrow> replicate k x @ ys. e \<noteq> x] = ys"
  by (auto simp: filter_id_conv)

lemma rotate_replicate: "rotate n (replicate k x) = replicate k x"
  by (rule nth_equalityI) (simp_all add: nth_rotate)

lemma ring_view_init: "ring_view (kkm_trace_init t) = replicate 256 Trace_invalid_entry"
  by (cases t) (simp only: ring_view_def kkm_trace_init_def kkm_trace.simps rotate_replicate)

lemma ring_init: "ring_ok 0 (kkm_trace_init t)"
  unfolding ring_ok_def
proof (intro conjI exI)
  show "ring_view (kkm_trace_init t) = replicate 256 Trace_invalid_entry @ []" by (simp only: ring_view_init append_Nil2)
qed (simp_all add: kkm_trace_init_def ring_limit_def)

lemma ring_add:
  assumes "ring_ok n t" "n < ring_limit" "e \<noteq> Trace_invalid_entry" "shown t = Some es"
  shows "\<exists>t'. trace_call e t = Some t' \<and> ring_ok (Suc n) t' \<and> shown t' = Some (last_n 256 (es @ [e]))"
proof -
  obtain k ys where v: "ring_view t = replicate k Trace_invalid_entry @ ys" and ys: "Trace_invalid_entry \<notin> set ys"
    and n: "unat (tr_index t) = n" and l: "length (tr_entries t) = 256"
    using assms(1) by (auto simp: ring_ok_def)
  have len: "k + length ys = 256" using arg_cong [OF v, of length] l by (simp add: ring_view_def)
  have es: "es = ys" using assms(4) shown_view [OF assms(1)] by (simp add: v filter_valid [OF ys] del: filter_append)
  obtain t' where t': "trace_call e t = Some t'" "unat (tr_index t') = Suc n" "length (tr_entries t') = 256"
    "ring_view t' = tl (ring_view t) @ [e]"
    using ring_view_add [OF n assms(2) l, of e] by (auto simp: trace_call_add [OF assms(3)])
  have new: "ring_view t' = replicate (k - 1) Trace_invalid_entry @ last_n 256 (ys @ [e])"
    using len by (cases k; cases ys) (auto simp: t'(4) v last_n_def)
  have mem: "Trace_invalid_entry \<notin> set (last_n 256 (ys @ [e]))"
    using ys assms(3) by (auto simp: last_n_def dest: in_set_dropD)
  have ok: "ring_ok (Suc n) t'" unfolding ring_ok_def new using t'(2,3) mem assms(2) by (intro conjI exI) auto
  then show ?thesis using t'(1) mem by (simp add: shown_view [OF ok] new filter_valid es del: filter_append)
qed

interpretation trace_ring: bounded_log "kkm_trace_init t" trace_call shown "\<lambda>e. e \<noteq> Trace_invalid_entry"
  ring_ok 256 ring_limit for t
proof unfold_locales
  show "shown (kkm_trace_init t) = Some []"
    using shown_view [OF ring_init, of t] by (simp only: ring_view_init filter_replicate) simp
qed (use ring_init ring_add in auto)

lemma trace_calls_log_all: "trace_calls es s = trace_ring.log_all es s"
  by (induction es arbitrary: s) (simp_all split: option.splits)

text \<open>C18 The trace ring is a log of its last 256 entries: after any sequence of calls, fewer than
  \<open>2 ^ 63 - 257\<close>, no call fails, and the listing prints the last 256 of the entries, oldest first, with
  every field as it was given, and the number of the next entry.\<close>

theorem trace_shows_last_entries:
  assumes "length es \<le> ring_limit" "Trace_invalid_entry \<notin> set es"
  shows "\<exists>t'. trace_calls es (kkm_trace_init t) = Some t' \<and>
    kkm_trace_show t' = Some (of_nat (length es) + 1, last_n KKM_TRACE_DEPTH es)"
proof -
  obtain t' where t': "trace_calls es (kkm_trace_init t) = Some t'" "ring_ok (length es) t'" "shown t' = Some (last_n 256 es)"
    using trace_ring.log_all_entries [OF assms(1), of t] assms(2) by (auto simp: trace_calls_log_all)
  then have n: "unat (tr_index t') = length es" by (simp add: ring_ok_def)
  have "kkm_trace_show t' = Some (tr_index t' + 1, last_n 256 es)"
    using t'(2,3) show_view [of t'] by (auto simp: ring_ok_def shown_def)
  then show ?thesis using t'(1) by (simp flip: n)
qed

theorem trace_shows_last_entries_witness:
  "\<exists>t'. trace_calls [Trace_run 1 2, Trace_guest_exit 3] (kkm_trace_init \<lparr>tr_index = 7, tr_entries = []\<rparr>) = Some t' \<and>
    kkm_trace_show t' = Some (3, [Trace_run 1 2, Trace_guest_exit 3])"
  using trace_shows_last_entries [of "[Trace_run 1 2, Trace_guest_exit 3]" "\<lparr>tr_index = 7, tr_entries = []\<rparr>"]
  by (simp add: ring_limit_def last_n_def)

end
