(* ===== verification/Kkm_Kontainer.thy ===== *)
theory Kkm_Kontainer
  imports Kkm_Translate
begin

section \<open>The page tables of a kontainer (\<open>kkm_kontainer.c\<close>)\<close>

text \<open>
  Allocation and release of what a kontainer owns: the two adjacent top-level tables of the guest (kernel
  and payload), with five-level paging also the two tables of the next level and the table of the low
  addresses, and the private hierarchy of the monitor's areas. The operations work on the kontainer of a
  \<open>vm\<close> state. The ledger says exactly what each way through \<open>kkm_kontainer_init\<close> leaves behind.
\<close>

abbreviation (input) KKM_USER_PGTABLE_MASK :: u64 where "KKM_USER_PGTABLE_MASK \<equiv> 0x1000"
abbreviation (input) KKM_KONTAINER_LVL_PAGE_COUNT :: nat where "KKM_KONTAINER_LVL_PAGE_COUNT \<equiv> 2"
abbreviation (input) KKM_KONTAINER_LOW_PAGE_COUNT :: nat where "KKM_KONTAINER_LOW_PAGE_COUNT \<equiv> 1"

definition on_kkm :: "(kkm_kontainer \<Rightarrow> kkm_kontainer) \<Rightarrow> 'a vm_scheme \<Rightarrow> 'a vm_scheme" where
  "on_kkm f s = s\<lparr>vm_kkm := f (vm_kkm s)\<rparr>"

subsection \<open>Operations\<close>

definition kkm_kontainer_allocate_lvl_pages ::
  "linux \<Rightarrow> kkm_mmu_page_info \<Rightarrow> kkm_mmu_page_info \<Rightarrow> 'a host_scheme
     \<Rightarrow> int \<times> kkm_mmu_page_info \<times> kkm_mmu_page_info \<times> 'a host_scheme" where
  "kkm_kontainer_allocate_lvl_pages E k_page p_page s =
     (case kkm_mm_allocate_pages E True True True KKM_KONTAINER_LVL_PAGE_COUNT k_page s of (r, k, s1) \<Rightarrow>
      if r \<noteq> 0 then (r, k, p_page, s1)
      else if pi_va k AND KKM_USER_PGTABLE_MASK = KKM_USER_PGTABLE_MASK then (- EINVAL, k, p_page, s1)
      else (0, k, p_page\<lparr>pi_va := pi_va k + PAGE_SIZE, pi_pa := pi_pa k + PAGE_SIZE\<rparr>, s1))"

definition kkm_kontainer_allocate_pgd_pages :: "linux \<Rightarrow> 'a vm_scheme \<Rightarrow> int \<times> 'a vm_scheme" where
  "kkm_kontainer_allocate_pgd_pages E s =
     (case kkm_kontainer_allocate_lvl_pages E (km_gk_pgd (vm_kkm s)) (km_gp_pgd (vm_kkm s)) s of (r, k, p, s1) \<Rightarrow>
      (r, on_kkm (\<lambda>kkm. kkm\<lparr>km_gk_pgd := k, km_gp_pgd := p\<rparr>) s1))"

definition kkm_kontainer_allocate_p4d_pages :: "linux \<Rightarrow> 'a vm_scheme \<Rightarrow> int \<times> 'a vm_scheme" where
  "kkm_kontainer_allocate_p4d_pages E s =
     (case kkm_kontainer_allocate_lvl_pages E (km_gk_p4d (vm_kkm s)) (km_gp_p4d (vm_kkm s)) s of (r, k, p, s1) \<Rightarrow>
      (r, on_kkm (\<lambda>kkm. kkm\<lparr>km_gk_p4d := k, km_gp_p4d := p\<rparr>) s1))"

definition kkm_kontainer_cleanup_lvl_pages ::
  "kkm_mmu_page_info \<Rightarrow> kkm_mmu_page_info \<Rightarrow> 'a host_scheme
     \<Rightarrow> kkm_mmu_page_info \<times> kkm_mmu_page_info \<times> 'a host_scheme" where
  "kkm_kontainer_cleanup_lvl_pages k_page p_page s =
     (if pi_page k_page \<noteq> 0
      then (no_page, p_page\<lparr>pi_va := 0, pi_pa := 0\<rparr>, kkm_mm_free_pages (pi_va k_page) KKM_KONTAINER_LVL_PAGE_COUNT s)
      else (k_page, p_page, s))"

definition kkm_kontainer_cleanup_pgd_pages :: "'a vm_scheme \<Rightarrow> 'a vm_scheme" where
  "kkm_kontainer_cleanup_pgd_pages s =
     (case kkm_kontainer_cleanup_lvl_pages (km_gk_pgd (vm_kkm s)) (km_gp_pgd (vm_kkm s)) s of (k, p, s1) \<Rightarrow>
      on_kkm (\<lambda>kkm. kkm\<lparr>km_gk_pgd := k, km_gp_pgd := p\<rparr>) s1)"

definition kkm_kontainer_cleanup_p4d_pages :: "'a vm_scheme \<Rightarrow> 'a vm_scheme" where
  "kkm_kontainer_cleanup_p4d_pages s =
     (case kkm_kontainer_cleanup_lvl_pages (km_gk_p4d (vm_kkm s)) (km_gp_p4d (vm_kkm s)) s of (k, p, s1) \<Rightarrow>
      on_kkm (\<lambda>kkm. kkm\<lparr>km_gk_p4d := k, km_gp_p4d := p\<rparr>) s1)"

text \<open>The low page is reset; the private hierarchy is freed, but its record is kept.\<close>

definition kkm_kontainer_cleanup :: "'a vm_scheme \<Rightarrow> 'a vm_scheme" where
  "kkm_kontainer_cleanup s =
     (let low = km_low_p4d (vm_kkm s);
          s1 = (if pi_page low \<noteq> 0
                then on_kkm (\<lambda>kkm. kkm\<lparr>km_low_p4d := no_page\<rparr>)
                       (kkm_mm_free_pages (pi_va low) KKM_KONTAINER_LOW_PAGE_COUNT s)
                else s);
          s2 = kkm_cleanup_pml4 (km_guest_pml4e (vm_kkm s1)) s1
      in kkm_kontainer_cleanup_p4d_pages (kkm_kontainer_cleanup_pgd_pages s2))"

definition kkm_kontainer_init :: "linux \<Rightarrow> 'a vm_scheme \<Rightarrow> int \<times> 'a vm_scheme" where
  "kkm_kontainer_init E s =
     (let error = (\<lambda>r s. (r, kkm_kontainer_cleanup s));
          pml4 = (\<lambda>s. case kkm_create_pml4 E False KKM_KM_GUEST_PRIVATE_MEM_START_VA s of (r, kmu, s1) \<Rightarrow>
                    let s2 = on_kkm (\<lambda>kkm. kkm\<lparr>km_guest_pml4e := kmu\<rparr>) s1
                    in if r \<noteq> 0 then error r s2 else (0, s2))
      in case kkm_kontainer_allocate_pgd_pages E s of (r1, s1) \<Rightarrow>
      if r1 \<noteq> 0 then error r1 s1
      else if lx_pgtable_l5_enabled E = True then
        case kkm_kontainer_allocate_p4d_pages E s1 of (r2, s2) \<Rightarrow>
        if r2 \<noteq> 0 then error r2 s2
        else case kkm_mm_allocate_pages E True True True KKM_KONTAINER_LOW_PAGE_COUNT (km_low_p4d (vm_kkm s2)) s2 of
               (r3, low, s3) \<Rightarrow>
             let s4 = on_kkm (\<lambda>kkm. kkm\<lparr>km_low_p4d := low\<rparr>) s3
             in if r3 \<noteq> 0 then (r3, s4) else pml4 s4
      else pml4 s1)"

subsection \<open>Frames\<close>

lemma on_kkm_simps [simp]:
  "vm_kkm (on_kkm f s) = f (vm_kkm s)" "klog (on_kkm f s) = klog s" "kmem (on_kkm f s) = kmem s"
  "kkm_mmu_kx (on_kkm f s) = kkm_mmu_kx s" "cpu (on_kkm f s) = cpu s" "um (on_kkm f s) = um s"
  "kkm_cpu_full_tlb_flush (on_kkm f s) = kkm_cpu_full_tlb_flush s" "read_entry va i (on_kkm f s) = read_entry va i s"
  by (simp_all add: on_kkm_def read_entry_def)

lemma allocate_pages_kkm:
  "kkm_mm_allocate_pages E pp vp ap n pi s = (r, pi', s') \<Longrightarrow> vm_kkm s' = vm_kkm (s :: 'a vm_scheme)"
  by (auto simp: kkm_mm_allocate_pages_def alloc_pages_def Let_def split: if_splits)

lemma free_pages_kkm [simp]: "vm_kkm (kkm_mm_free_pages va n s) = vm_kkm (s :: 'a vm_scheme)"
  by (simp add: kkm_mm_free_pages_def free_pages_def)

lemma cleanup_pml4_kkm [simp]: "vm_kkm (kkm_cleanup_pml4 kmu s) = vm_kkm (s :: 'a vm_scheme)"
  by (simp add: kkm_cleanup_pml4_def Let_def kkm_mm_free_page_def)

lemma mmu_cleanup_kkm [simp]: "vm_kkm (kkm_mmu_cleanup s) = vm_kkm (s :: 'a vm_scheme)"
  by (simp add: kkm_mmu_cleanup_def kkm_mmu_flush_tlb_def Let_def)

lemma mmu_write_kkm [simp]:
  "vm_kkm (kkm_mmu_set_entry va i e s) = vm_kkm (s :: 'a vm_scheme)"
  "vm_kkm (kkm_mmu_insert_page va i pa f s) = vm_kkm s" "vm_kkm (store_kx b kmu s) = vm_kkm s"
  "vm_kkm (kkm_mmu_copy_range a oa d od n s) = vm_kkm s"
  by (simp_all add: kkm_mmu_insert_page_def kkm_mmu_set_entry_def store_kx_def kkm_mmu_copy_range_def)

lemma create_pml4_kkm:
  assumes "kkm_create_pml4 E is_kx a s = (r, kmu, s')" shows "vm_kkm s' = vm_kkm (s :: 'a vm_scheme)"
  using assms
proof (cases rule: create_pml4_cases)
  case (no_pud pud s1)
  then show ?thesis by (simp add: allocate_pages_kkm [OF no_pud(1) [unfolded kkm_mm_allocate_page_def]])
next
  case (no_pmd pud s1 pmd s2)
  then show ?thesis
    by (simp add: allocate_pages_kkm [OF no_pmd(1) [unfolded kkm_mm_allocate_page_def]]
        allocate_pages_kkm [OF no_pmd(2) [unfolded kkm_mm_allocate_page_def]])
next
  case (no_pt pud s1 pmd s2 pt s3)
  then show ?thesis
    by (simp add: allocate_pages_kkm [OF no_pt(1) [unfolded kkm_mm_allocate_page_def]]
        allocate_pages_kkm [OF no_pt(2) [unfolded kkm_mm_allocate_page_def]]
        allocate_pages_kkm [OF no_pt(3) [unfolded kkm_mm_allocate_page_def]])
next
  case (ok pud s1 pmd s2 pt s3)
  then show ?thesis
    by (simp add: allocate_pages_kkm [OF ok(1) [unfolded kkm_mm_allocate_page_def]]
        allocate_pages_kkm [OF ok(2) [unfolded kkm_mm_allocate_page_def]]
        allocate_pages_kkm [OF ok(3) [unfolded kkm_mm_allocate_page_def]])
qed

subsection \<open>What a kontainer owns\<close>

definition lvl_block :: "kkm_mmu_page_info \<Rightarrow> (u64 \<times> nat) multiset" where
  "lvl_block pi = (if pi_page pi = 0 then {#} else {#(pi_va pi, 1)#})"

definition kontainer_blocks :: "kkm_kontainer \<Rightarrow> (u64 \<times> nat) multiset" where
  "kontainer_blocks kkm = page_block (km_low_p4d kkm) + pml4e_blocks (km_guest_pml4e kkm) +
     lvl_block (km_gk_pgd kkm) + lvl_block (km_gk_p4d kkm)"

text \<open>A kontainer as \<open>kzalloc\<close> delivers it.\<close>

definition fresh_kontainer :: "kkm_kontainer \<Rightarrow> bool" where
  "fresh_kontainer kkm \<longleftrightarrow> km_gk_pgd kkm = no_page \<and> km_gp_pgd kkm = no_page \<and> km_gk_p4d kkm = no_page \<and>
     km_gp_p4d kkm = no_page \<and> km_low_p4d kkm = no_page \<and> km_guest_pml4e kkm = no_pml4e"

lemma no_page_sel [simp]: "pi_page no_page = 0" "pi_va no_page = 0" "pi_pa no_page = 0"
  by (simp_all add: no_page_def)

lemma lvl_block_none [simp]: "lvl_block no_page = {#}"
  by (simp add: lvl_block_def)

lemma fresh_kontainer_blocks: "fresh_kontainer kkm \<Longrightarrow> kontainer_blocks kkm = {#}"
  by (simp add: fresh_kontainer_def kontainer_blocks_def)

lemma order_base_2_1 [simp]: "order_base_2 1 = 0"
  by simp

lemma kontainer_cleanup_ledger:
  "outstanding E (klog (kkm_kontainer_cleanup s)) = outstanding E (klog s) - kontainer_blocks (vm_kkm s)"
  by (simp add: kkm_kontainer_cleanup_def kkm_kontainer_cleanup_p4d_pages_def kkm_kontainer_cleanup_pgd_pages_def
      kkm_kontainer_cleanup_lvl_pages_def Let_def free_pages_ledger cleanup_pml4_ledger kontainer_blocks_def
      lvl_block_def page_block_def diff_diff_add add_mset_commute ac_simps)

lemma allocate_lvl_ledger:
  assumes "kkm_kontainer_allocate_lvl_pages E no_page p s = (r, k, p', s')"
  shows "outstanding E (klog s') = lvl_block k + outstanding E (klog s)" "frees_ok E (klog s') = frees_ok E (klog s)"
    "kkm_mmu_kx s' = kkm_mmu_kx s"
    "r = 0 \<Longrightarrow> pi_page k \<noteq> 0 \<and> pi_va k = lx_page_address E (pi_page k) \<and> pi_pa k = lx_virt_to_phys E (pi_va k) \<and>
       pi_va k AND KKM_USER_PGTABLE_MASK = 0 \<and> p' = p\<lparr>pi_va := pi_va k + PAGE_SIZE, pi_pa := pi_pa k + PAGE_SIZE\<rparr>"
proof -
  obtain r1 k1 s1 where a: "kkm_mm_allocate_pages E True True True KKM_KONTAINER_LVL_PAGE_COUNT no_page s = (r1, k1, s1)"
    by (rule prod_cases3)
  have k: "k1 = k" "s1 = s'" using assms a by (auto simp: kkm_kontainer_allocate_lvl_pages_def split: if_splits)
  note L = allocate_pages_ledger [OF a] and R = allocate_pages_result [OF a]
  have z: "r1 \<noteq> 0 \<longleftrightarrow> pi_page k1 = 0" using R by simp
  show "outstanding E (klog s') = lvl_block k + outstanding E (klog s)" using L(1) z by (simp add: k lvl_block_def)
  show "frees_ok E (klog s') = frees_ok E (klog s)" using L(2) by (simp add: k)
  show "kkm_mmu_kx s' = kkm_mmu_kx s" using allocate_pages_frame(2) [OF a] by (simp add: k)
  have m: "x AND 0x1000 = 0" if "x AND 0x1000 \<noteq> 0x1000" for x :: u64
  proof (rule bit_word_eqI)
    fix n assume "n < LENGTH(64)"
    have b: "bit (0x1000 :: u64) n \<longleftrightarrow> n = 12" for n
      using bit_exp_iff [of 12 n, where 'a = u64] bit_imp_le_length [of "0x1000 :: u64" n] by auto
    have "\<not> bit x 12"
    proof
      assume "bit x 12"
      then have "x AND 0x1000 = 0x1000" by (intro bit_word_eqI) (auto simp only: bit_and_iff b)
      with that show False by simp
    qed
    then show "bit (x AND 0x1000) n = bit 0 n" by (auto simp only: bit_and_iff b bit_0_eq bot_apply bot_bool_def)
  qed
  show "pi_page k \<noteq> 0 \<and> pi_va k = lx_page_address E (pi_page k) \<and> pi_pa k = lx_virt_to_phys E (pi_va k) \<and>
       pi_va k AND KKM_USER_PGTABLE_MASK = 0 \<and> p' = p\<lparr>pi_va := pi_va k + PAGE_SIZE, pi_pa := pi_pa k + PAGE_SIZE\<rparr>"
    if "r = 0"
  proof -
    have r1: "r1 = 0" and p': "pi_va k1 AND 0x1000 \<noteq> 0x1000" "p' = p\<lparr>pi_va := pi_va k1 + PAGE_SIZE, pi_pa := pi_pa k1 + PAGE_SIZE\<rparr>"
      using assms a that by (auto simp: kkm_kontainer_allocate_lvl_pages_def split: if_splits)
    show ?thesis using allocate_pages_info(2,3,4) [OF a [unfolded r1]] p' m [OF p'(1)] by (simp add: k)
  qed
qed

subsection \<open>The ways through \<open>kkm_kontainer_init\<close>\<close>

lemma pml4_step:
  assumes c: "kkm_create_pml4 E False a s = (r, kmu, s1)" and b: "km_guest_pml4e (vm_kkm s) = no_pml4e"
    and kx: "pml4e_blocks (kkm_mmu_kx s) \<subseteq># outstanding E (klog s) - kontainer_blocks (vm_kkm s)"
    and own: "kontainer_blocks (vm_kkm s) \<subseteq># outstanding E (klog s)"
  defines "s2 \<equiv> on_kkm (\<lambda>kkm. kkm\<lparr>km_guest_pml4e := kmu\<rparr>) s1"
  shows "r = 0 \<Longrightarrow> outstanding E (klog s2) = pml4e_blocks kmu + outstanding E (klog s)"
    "r = 0 \<Longrightarrow> kontainer_blocks (vm_kkm s2) = pml4e_blocks kmu + kontainer_blocks (vm_kkm s)"
    "r \<noteq> 0 \<Longrightarrow> outstanding E (klog (kkm_kontainer_cleanup s2))
       = outstanding E (klog s) - kontainer_blocks (vm_kkm s) - pml4e_blocks (kkm_mmu_kx s)"
proof -
  note L = create_pml4_ledger [OF c]
  have v: "vm_kkm s2 = (vm_kkm s)\<lparr>km_guest_pml4e := kmu\<rparr>" using create_pml4_kkm [OF c] by (simp add: s2_def)
  show k: "kontainer_blocks (vm_kkm s2) = pml4e_blocks kmu + kontainer_blocks (vm_kkm s)"
    using b by (simp add: v kontainer_blocks_def ac_simps)
  show "r = 0 \<Longrightarrow> outstanding E (klog s2) = pml4e_blocks kmu + outstanding E (klog s)"
    using L by (simp add: s2_def)
  assume "r \<noteq> 0"
  then have o: "outstanding E (klog s2) = pml4e_blocks kmu + outstanding E (klog s) - pml4e_blocks (kkm_mmu_kx s)"
    using L by (simp add: s2_def)
  obtain X where X: "outstanding E (klog s) = kontainer_blocks (vm_kkm s) + X" using own by (auto simp: mset_subset_eq_exists_conv)
  then have "pml4e_blocks (kkm_mmu_kx s) \<subseteq># X" using kx by simp
  then show "outstanding E (klog (kkm_kontainer_cleanup s2))
       = outstanding E (klog s) - kontainer_blocks (vm_kkm s) - pml4e_blocks (kkm_mmu_kx s)"
    using k v by (simp add: kontainer_cleanup_ledger o X)
qed

text \<open>The kontainer owns what it allocated, on top of what was allocated before.\<close>

definition owns :: "linux \<Rightarrow> (u64 \<times> nat) multiset \<Rightarrow> kkm_mmu_pml4e \<Rightarrow> 'a vm_scheme \<Rightarrow> bool" where
  "owns E X kx s \<longleftrightarrow> outstanding E (klog s) = kontainer_blocks (vm_kkm s) + X \<and> kkm_mmu_kx s = kx"

lemma owns_cleanup: "owns E X kx s \<Longrightarrow> outstanding E (klog (kkm_kontainer_cleanup s)) = X"
  by (simp add: owns_def kontainer_cleanup_ledger)

lemma allocate_pages_zeroed:
  "kkm_mm_allocate_pages E True True ap n pi s = (0, pi', s') \<Longrightarrow> kmem s' = zero_block (pi_va pi') (order_base_2 n) (kmem s)"
  by (auto simp: kkm_mm_allocate_pages_def alloc_pages_def Let_def split: if_splits)

lemma allocate_lvl_zeroed:
  assumes "kkm_kontainer_allocate_lvl_pages E k p s = (0, k', p', s')"
  shows "kmem s' = zero_block (pi_va k') 1 (kmem s)"
  using assms by (auto simp: kkm_kontainer_allocate_lvl_pages_def dest: allocate_pages_zeroed split: prod.splits if_splits)

lemma pgd_step:
  assumes "kkm_kontainer_allocate_pgd_pages E s = (r, s')" "km_gk_pgd (vm_kkm s) = no_page" "owns E X kx s"
  shows "owns E X kx s'" "vm_kkm s' = (vm_kkm s)\<lparr>km_gk_pgd := km_gk_pgd (vm_kkm s'), km_gp_pgd := km_gp_pgd (vm_kkm s')\<rparr>"
    "r = 0 \<Longrightarrow> pi_page (km_gk_pgd (vm_kkm s')) \<noteq> 0 \<and> pi_va (km_gk_pgd (vm_kkm s')) AND KKM_USER_PGTABLE_MASK = 0 \<and>
       pi_va (km_gp_pgd (vm_kkm s')) = pi_va (km_gk_pgd (vm_kkm s')) + PAGE_SIZE \<and>
       pi_va (km_gk_pgd (vm_kkm s')) = lx_page_address E (pi_page (km_gk_pgd (vm_kkm s')))"
    "r = 0 \<Longrightarrow> kmem s' = zero_block (pi_va (km_gk_pgd (vm_kkm s'))) 1 (kmem s)"
proof -
  obtain k p s1 where a: "kkm_kontainer_allocate_lvl_pages E no_page (km_gp_pgd (vm_kkm s)) s = (r, k, p, s1)"
    and s': "s' = on_kkm (\<lambda>kkm. kkm\<lparr>km_gk_pgd := k, km_gp_pgd := p\<rparr>) s1"
    using assms(1) by (auto simp: kkm_kontainer_allocate_pgd_pages_def assms(2) split: prod.splits)
  have v: "vm_kkm s1 = vm_kkm s"
    using a by (auto simp: kkm_kontainer_allocate_lvl_pages_def dest: allocate_pages_kkm split: prod.splits if_splits)
  note L = allocate_lvl_ledger [OF a]
  show "owns E X kx s'"
    using assms(2,3) L(1,3) by (simp add: owns_def s' v kontainer_blocks_def ac_simps)
  show "vm_kkm s' = (vm_kkm s)\<lparr>km_gk_pgd := km_gk_pgd (vm_kkm s'), km_gp_pgd := km_gp_pgd (vm_kkm s')\<rparr>"
    by (simp add: s' v)
  show "r = 0 \<Longrightarrow> pi_page (km_gk_pgd (vm_kkm s')) \<noteq> 0 \<and> pi_va (km_gk_pgd (vm_kkm s')) AND KKM_USER_PGTABLE_MASK = 0 \<and>
       pi_va (km_gp_pgd (vm_kkm s')) = pi_va (km_gk_pgd (vm_kkm s')) + PAGE_SIZE \<and>
       pi_va (km_gk_pgd (vm_kkm s')) = lx_page_address E (pi_page (km_gk_pgd (vm_kkm s')))"
    using L(4) by (auto simp: s')
  show "r = 0 \<Longrightarrow> kmem s' = zero_block (pi_va (km_gk_pgd (vm_kkm s'))) 1 (kmem s)"
    using a allocate_lvl_zeroed by (auto simp: s')
qed

lemma p4d_step:
  assumes "kkm_kontainer_allocate_p4d_pages E s = (r, s')" "km_gk_p4d (vm_kkm s) = no_page" "owns E X kx s"
  shows "owns E X kx s'" "vm_kkm s' = (vm_kkm s)\<lparr>km_gk_p4d := km_gk_p4d (vm_kkm s'), km_gp_p4d := km_gp_p4d (vm_kkm s')\<rparr>"
proof -
  obtain k p s1 where a: "kkm_kontainer_allocate_lvl_pages E no_page (km_gp_p4d (vm_kkm s)) s = (r, k, p, s1)"
    and s': "s' = on_kkm (\<lambda>kkm. kkm\<lparr>km_gk_p4d := k, km_gp_p4d := p\<rparr>) s1"
    using assms(1) by (auto simp: kkm_kontainer_allocate_p4d_pages_def assms(2) split: prod.splits)
  have v: "vm_kkm s1 = vm_kkm s"
    using a by (auto simp: kkm_kontainer_allocate_lvl_pages_def dest: allocate_pages_kkm split: prod.splits if_splits)
  note L = allocate_lvl_ledger [OF a]
  show "owns E X kx s'"
    using assms(2,3) L(1,3) by (simp add: owns_def s' v kontainer_blocks_def ac_simps)
  show "vm_kkm s' = (vm_kkm s)\<lparr>km_gk_p4d := km_gk_p4d (vm_kkm s'), km_gp_p4d := km_gp_p4d (vm_kkm s')\<rparr>"
    by (simp add: s' v)
qed

lemma low_step:
  assumes a: "kkm_mm_allocate_pages E True True True KKM_KONTAINER_LOW_PAGE_COUNT (km_low_p4d (vm_kkm s)) s = (r, low, s1)"
    and b: "km_low_p4d (vm_kkm s) = no_page" and o: "owns E X kx s"
  defines "s' \<equiv> on_kkm (\<lambda>kkm. kkm\<lparr>km_low_p4d := low\<rparr>) s1"
  shows "owns E X kx s'" "vm_kkm s' = (vm_kkm s)\<lparr>km_low_p4d := low\<rparr>" "r \<noteq> 0 \<Longrightarrow> km_low_p4d (vm_kkm s') = no_page"
proof -
  have v: "vm_kkm s1 = vm_kkm s" by (rule allocate_pages_kkm [OF a])
  note L = allocate_page_ledger [OF a [folded kkm_mm_allocate_page_def, unfolded b]]
  show "owns E X kx s'"
    using o L(1,3) b by (simp add: owns_def s'_def v kontainer_blocks_def ac_simps)
  show "vm_kkm s' = (vm_kkm s)\<lparr>km_low_p4d := low\<rparr>" by (simp add: s'_def v)
  show "r \<noteq> 0 \<Longrightarrow> km_low_p4d (vm_kkm s') = no_page"
    using a b by (auto simp: s'_def kkm_mm_allocate_pages_def no_page_def Let_def split: if_splits prod.splits)
qed

text \<open>The results of an initialisation, by the way it took.\<close>

lemma kontainer_init_cases:
  assumes init: "kkm_kontainer_init E s = (r, s')" and fresh: "fresh_kontainer (vm_kkm s)"
    and X: "X = outstanding E (klog s)" and kx: "pml4e_blocks (kkm_mmu_kx s) \<subseteq># X"
  obtains (no_tables) "r \<noteq> 0" "outstanding E (klog s') = X"
  | (no_low) "r \<noteq> 0" "lx_pgtable_l5_enabled E" "outstanding E (klog s') = kontainer_blocks (vm_kkm s') + X"
  | (no_pml4) "r \<noteq> 0" "outstanding E (klog s') = X - pml4e_blocks (kkm_mmu_kx s)"
  | (ok) "r = 0" "outstanding E (klog s') = kontainer_blocks (vm_kkm s') + X"
proof -
  let ?kx = "kkm_mmu_kx s"
  have f: "km_gk_pgd (vm_kkm s) = no_page" "km_gk_p4d (vm_kkm s) = no_page" "km_low_p4d (vm_kkm s) = no_page"
    "km_guest_pml4e (vm_kkm s) = no_pml4e"
    using fresh by (simp_all add: fresh_kontainer_def)
  have o: "owns E X ?kx s" by (simp add: owns_def fresh_kontainer_blocks [OF fresh] X)
  obtain r1 s1 where p: "kkm_kontainer_allocate_pgd_pages E s = (r1, s1)" by (rule prod.exhaust)
  note P = pgd_step [OF p f(1) o]
  have last: thesis
    if o4: "owns E X ?kx s4" and n: "km_guest_pml4e (vm_kkm s4) = no_pml4e"
      and res: "(r, s') = (case kkm_create_pml4 E False KKM_KM_GUEST_PRIVATE_MEM_START_VA s4 of (r, kmu, s1) \<Rightarrow>
                  let s2 = on_kkm (\<lambda>kkm. kkm\<lparr>km_guest_pml4e := kmu\<rparr>) s1
                  in if r \<noteq> 0 then (r, kkm_kontainer_cleanup s2) else (0, s2))" for s4
  proof -
    obtain r5 kmu s5 where c: "kkm_create_pml4 E False KKM_KM_GUEST_PRIVATE_MEM_START_VA s4 = (r5, kmu, s5)" by (rule prod_cases3)
    have own: "kontainer_blocks (vm_kkm s4) \<subseteq># outstanding E (klog s4)"
      "pml4e_blocks (kkm_mmu_kx s4) \<subseteq># outstanding E (klog s4) - kontainer_blocks (vm_kkm s4)"
      using o4 kx by (simp_all add: owns_def)
    note S = pml4_step [OF c n own(2,1)]
    show thesis
    proof (cases "r5 = 0")
      case True
      then show thesis using S(1,2) res o4 by (intro ok) (simp_all add: c owns_def ac_simps)
    next
      case False
      then show thesis using S(3) [OF False] res o4 by (intro no_pml4) (simp_all add: c owns_def)
    qed
  qed
  show thesis
  proof (cases "r1 = 0")
    case False
    then show thesis
      using init owns_cleanup [OF P(1)] by (intro no_tables) (auto simp: kkm_kontainer_init_def p Let_def)
  next
    case r1: True
    show thesis
    proof (cases "lx_pgtable_l5_enabled E")
      case False
      have "km_guest_pml4e (vm_kkm s1) = no_pml4e" using f(4) by (subst P(2)) simp
      then show thesis
        by (rule last [OF P(1)]) (use init r1 False in \<open>simp_all add: kkm_kontainer_init_def p Let_def\<close>)
    next
      case l5: True
      obtain r2 s2 where q: "kkm_kontainer_allocate_p4d_pages E s1 = (r2, s2)" by (rule prod.exhaust)
      have "km_gk_p4d (vm_kkm s1) = no_page" using f(2) by (subst P(2)) simp
      note Q = p4d_step [OF q this P(1)]
      show thesis
      proof (cases "r2 = 0")
        case False
        then show thesis
          using init owns_cleanup [OF Q(1)] r1 l5 by (intro no_tables) (auto simp: kkm_kontainer_init_def p q Let_def)
      next
        case r2: True
        obtain r3 low s3 where l: "kkm_mm_allocate_pages E True True True KKM_KONTAINER_LOW_PAGE_COUNT (km_low_p4d (vm_kkm s2)) s2
            = (r3, low, s3)" by (rule prod_cases3)
        have "km_low_p4d (vm_kkm s2) = no_page" using f(3) by (subst Q(2), subst P(2)) simp
        note R = low_step [OF l this Q(1)]
        let ?s4 = "on_kkm (\<lambda>kkm. kkm\<lparr>km_low_p4d := low\<rparr>) s3"
        show thesis
        proof (cases "r3 = 0")
          case False
          then have "r = r3" "s' = ?s4" using init r1 r2 l5 by (auto simp: kkm_kontainer_init_def p q l [simplified] Let_def)
          then show thesis using R(1) False l5 by (intro no_low) (simp_all add: owns_def)
        next
          case r3: True
          have n: "km_guest_pml4e (vm_kkm ?s4) = no_pml4e" using f(4) by (subst R(2), subst Q(2), subst P(2)) simp
          show thesis
            by (rule last [OF R(1) n]) (use init r1 r2 r3 l5 in \<open>simp add: kkm_kontainer_init_def p q l [simplified] Let_def\<close>)
        qed
      qed
    qed
  qed
qed

subsection \<open>The tables an initialised kontainer has\<close>

lemma disjoint_offset:
  assumes "blocks_disjoint (b, k) (c, n)" "unat (a - b) < 4096 * 2 ^ k"
  shows "4096 * 2 ^ n \<le> unat (a - c)"
proof -
  have d: "4096 * 2 ^ k \<le> unat (c - b)" "4096 * 2 ^ n \<le> unat (b - c)"
    using assms(1) by (simp_all add: blocks_disjoint_def)
  have pos: "0 < 4096 * (2 :: nat) ^ n" by simp
  have "unat (b - c) + unat (c - b) = 2 ^ 64"
  proof -
    have "b \<noteq> c" using d(2) pos by auto
    then have "unat b \<noteq> unat c" by (simp add: word_unat_eq_iff)
    moreover have "unat b < 2 ^ 64" "unat c < 2 ^ 64" using unsigned_less [of b] unsigned_less [of c] by simp_all
    ultimately show ?thesis by (auto simp: unat_sub_if')
  qed
  then have "unat (a - b) + unat (b - c) < 2 ^ 64" using assms(2) d(1) by linarith
  then have "unat ((a - b) + (b - c)) = unat (a - b) + unat (b - c)"
    by (simp only: unat_word_ariths(1)) simp
  then show ?thesis using d(2) by simp
qed

lemma disjoint_not_inside: "blocks_disjoint (b, k) (c, n) \<Longrightarrow> unat (c - b) < 4096 * 2 ^ k \<Longrightarrow> False"
  by (simp add: blocks_disjoint_def)

lemma create_pml4_fresh:
  assumes env: "lx_alloc_fresh E" and create: "kkm_create_pml4 E is_kx address s = (0, kmu, s')"
    and b: "(va, k) \<in># outstanding E (klog s)"
  shows "blocks_disjoint (va, k) (pi_va (pml_pud kmu), 0)" "blocks_disjoint (va, k) (pi_va (pml_pmd kmu), 0)"
    "blocks_disjoint (va, k) (pi_va (pml_pt kmu), 0)"
proof (atomize (full), goal_cases)
  case 1
  show ?case
    using create
  proof (cases rule: create_pml4_cases)
    case (ok pud s1 pmd s2 pt s3)
    have b1: "(va, k) \<in># outstanding E (klog s1)" using allocate_page_ledger(1) [OF ok(1)] b by simp
    have b2: "(va, k) \<in># outstanding E (klog s2)" using allocate_page_ledger(1) [OF ok(2)] b1 by simp
    show ?thesis
      using allocate_page_fresh [OF env ok(1) b] allocate_page_fresh [OF env ok(2) b1] allocate_page_fresh [OF env ok(3) b2]
      by (simp add: ok(5))
  qed simp_all
qed

text \<open>What was in a block that is still allocated stays there.\<close>

lemma create_pml4_keeps:
  assumes env: "lx_alloc_fresh E" "lx_paging_ok E" and create: "kkm_create_pml4 E is_kx address s = (0, kmu, s')"
    and b: "(va, k) \<in># outstanding E (klog s)" and a: "unat (a - va) < 4096 * 2 ^ k"
  shows "kmem s' a = kmem s a"
  using create
proof (cases rule: create_pml4_cases)
  case (ok pud s1 pmd s2 pt s3)
  note D = create_pml4_fresh [OF env(1) create b, unfolded ok(5), simplified]
  have far: "4096 \<le> unat (a - pi_va pud)" "4096 \<le> unat (a - pi_va pmd)" "4096 \<le> unat (a - pi_va pt)"
    using disjoint_offset [OF D(1) a] disjoint_offset [OF D(2) a] disjoint_offset [OF D(3) a] by simp_all
  have Z: "kmem s1 = zero_block (pi_va pud) 0 (kmem s)" "kmem s2 = zero_block (pi_va pmd) 0 (kmem s1)"
    "kmem s3 = zero_block (pi_va pt) 0 (kmem s2)"
    using allocate_page_zeroed(1) [OF ok(1)] allocate_page_zeroed(1) [OF ok(2)] allocate_page_zeroed(1) [OF ok(3)] by blast+
  then have k3: "kmem s3 a = kmem s a" using far by (simp add: zero_block_def)
  have w: "a \<noteq> entry_addr t i" if "4096 \<le> unat (a - t)" "i < 512" for t i
    using that by (auto simp: entry_addr_def unat_8_of_nat)
  have "a \<noteq> entry_addr (pi_va pud) (pud_index address)" "a \<noteq> entry_addr (pi_va pmd) (pmd_index address)"
    using w far table_index_less by blast+
  then show ?thesis
    by (simp add: ok(6) k3 kkm_mmu_insert_page_def kkm_mmu_set_entry_def)
qed simp_all

lemma kontainer_init_tables:
  assumes env: "lx_paging_ok E" "lx_alloc_fresh E" and l4: "\<not> lx_pgtable_l5_enabled E"
    and init: "kkm_kontainer_init E s = (0, s')" and fresh: "fresh_kontainer (vm_kkm s)"
  defines "kkm \<equiv> vm_kkm s'"
  shows "pml4e_ok E KKM_KM_GUEST_PRIVATE_MEM_START_VA (km_guest_pml4e kkm) s'"
    and "pi_va (km_gk_pgd kkm) AND KKM_USER_PGTABLE_MASK = 0" "pi_va (km_gp_pgd kkm) = pi_va (km_gk_pgd kkm) + PAGE_SIZE"
    and "distinct_tables [pi_va (km_gk_pgd kkm), pi_va (km_gp_pgd kkm), pi_va (pml_pud (km_guest_pml4e kkm)),
      pi_va (pml_pmd (km_guest_pml4e kkm)), pi_va (pml_pt (km_guest_pml4e kkm))]"
    and "\<And>t i. t \<in> {pi_va (km_gk_pgd kkm), pi_va (km_gp_pgd kkm)} \<Longrightarrow> i < 512 \<Longrightarrow> read_entry t i s' = 0"
    and "kkm_mmu_kx s' = kkm_mmu_kx s" "km_id kkm = km_id (vm_kkm s)" "km_mm kkm = km_mm (vm_kkm s)"
    and "(pi_va (km_gk_pgd kkm), 1) \<in># outstanding E (klog s')"
proof -
  let ?A = KKM_KM_GUEST_PRIVATE_MEM_START_VA
  have f: "km_gk_pgd (vm_kkm s) = no_page" "km_guest_pml4e (vm_kkm s) = no_pml4e"
    using fresh by (simp_all add: fresh_kontainer_def)
  have o: "owns E (outstanding E (klog s)) (kkm_mmu_kx s) s" by (simp add: owns_def fresh_kontainer_blocks [OF fresh])
  obtain r1 s1 where p: "kkm_kontainer_allocate_pgd_pages E s = (r1, s1)" by (rule prod.exhaust)
  obtain r5 kmu s5 where c: "kkm_create_pml4 E False ?A s1 = (r5, kmu, s5)" by (rule prod_cases3)
  have r: "r1 = 0" "r5 = 0" and s': "s' = on_kkm (\<lambda>kkm. kkm\<lparr>km_guest_pml4e := kmu\<rparr>) s5"
    using init l4 by (auto simp: kkm_kontainer_init_def p c Let_def split: if_splits)
  note P = pgd_step [OF p f(1) o]
  note c0 = c [unfolded r]
  have v: "vm_kkm s5 = vm_kkm s1" by (rule create_pml4_kkm [OF c])
  have k: "km_guest_pml4e kkm = kmu" "km_gk_pgd kkm = km_gk_pgd (vm_kkm s1)" "km_gp_pgd kkm = km_gp_pgd (vm_kkm s1)"
    by (simp_all add: kkm_def s' v)
  define gk where "gk = pi_va (km_gk_pgd (vm_kkm s1))"
  have g: "pi_page (km_gk_pgd (vm_kkm s1)) \<noteq> 0" "gk AND 0x1000 = 0" "pi_va (km_gp_pgd (vm_kkm s1)) = gk + 0x1000"
    "gk = lx_page_address E (pi_page (km_gk_pgd (vm_kkm s1)))"
    using P(3) [OF r(1)] by (auto simp: gk_def)
  have blk: "(gk, 1) \<in># outstanding E (klog s1)"
    using P(1) g(1) by (simp add: owns_def kontainer_blocks_def lvl_block_def gk_def)
  have al: "gk AND 4095 = 0" using env(1) by (simp add: g(4) lx_paging_ok_def)
  have al2: "(gk + 0x1000) AND 4095 = 0"
  proof -
    have "gk + 0x1000 = gk OR 0x1000" using g(2) by (rule disjunctive_add_eq_or)
    then have "(gk + 0x1000) AND 4095 = (gk AND 4095) OR (0x1000 AND 4095)" by (simp only: bit.conj_disj_distrib2)
    then show ?thesis using al by simp
  qed
  note D = create_pml4_fresh [OF env(2) c0 blk]
  have ne: "pi_va (pml_pud kmu) \<noteq> gk" "pi_va (pml_pmd kmu) \<noteq> gk" "pi_va (pml_pt kmu) \<noteq> gk"
    "pi_va (pml_pud kmu) \<noteq> gk + 0x1000" "pi_va (pml_pmd kmu) \<noteq> gk + 0x1000" "pi_va (pml_pt kmu) \<noteq> gk + 0x1000"
    using D [THEN disjoint_not_inside] by auto
  have ok: "pml4e_ok E ?A kmu s5" by (rule create_pml4_ok(1) [OF env c0])
  then show ok': "pml4e_ok E ?A (km_guest_pml4e kkm) s'" by (simp add: k s' pml4e_ok_def)
  show "pi_va (km_gk_pgd kkm) AND KKM_USER_PGTABLE_MASK = 0" "pi_va (km_gp_pgd kkm) = pi_va (km_gk_pgd kkm) + PAGE_SIZE"
    using g by (simp_all add: k gk_def)
  show "distinct_tables [pi_va (km_gk_pgd kkm), pi_va (km_gp_pgd kkm), pi_va (pml_pud (km_guest_pml4e kkm)),
      pi_va (pml_pmd (km_guest_pml4e kkm)), pi_va (pml_pt (km_guest_pml4e kkm))]"
    using ok al al2 ne ne [symmetric] g(3) by (simp add: k gk_def [symmetric] pml4e_ok_def distinct_tables_def)
  have zero: "kmem s1 a = 0" if "unat (a - gk) < 8192" for a
    using that P(4) [OF r(1)] by (simp add: zero_block_def gk_def)
  show "read_entry t i s' = 0" if t: "t \<in> {pi_va (km_gk_pgd kkm), pi_va (km_gp_pgd kkm)}" and i: "i < 512" for t i
  proof -
    have "unat (8 * of_nat i :: u64) < 8192" "unat (8 * of_nat (512 + i) :: u64) < 8192"
      using i by (subst unat_8_of_nat; simp)+
    moreover have "entry_addr t i - gk = 8 * of_nat i \<or> entry_addr t i - gk = 8 * of_nat (512 + i)"
      using t g(3) by (auto simp: k gk_def [symmetric] entry_addr_def)
    ultimately have "unat (entry_addr t i - gk) < 8192" by metis
    then show ?thesis
      using zero create_pml4_keeps [OF env(2,1) c0 blk] by (simp add: s' read_entry_def)
  qed
  show "kkm_mmu_kx s' = kkm_mmu_kx s"
    using create_pml4_kx [OF c0] P(1) by (simp add: s' owns_def)
  show "km_id kkm = km_id (vm_kkm s)" "km_mm kkm = km_mm (vm_kkm s)"
    using arg_cong [OF P(2), of km_id] arg_cong [OF P(2), of km_mm] by (simp_all add: kkm_def s' v)
  show "(pi_va (km_gk_pgd kkm), 1) \<in># outstanding E (klog s')"
    using create_pml4_ledger [OF c0] blk by (simp add: s' k gk_def)
qed

subsection \<open>Properties\<close>

definition example_fresh :: vm where
  "example_fresh = example_vm\<lparr>vm_kkm := example_kkm\<lparr>km_gk_pgd := no_page, km_gp_pgd := no_page\<rparr>\<rparr>"

lemma example_fresh_simps [simp]:
  "klog example_fresh = []" "kkm_mmu_kx example_fresh = no_pml4e" "fresh_kontainer (vm_kkm example_fresh)"
  by (simp_all add: example_fresh_def fresh_kontainer_def example_kkm_def)

lemma example_kontainer_init:
  assumes "fresh_kontainer (vm_kkm s)" "heap_top (klog s) = 0x100000"
  shows "\<exists>s'. kkm_kontainer_init example_linux s = (0, s')"
proof -
  have f: "km_gk_pgd (vm_kkm s) = no_page" "km_gp_pgd (vm_kkm s) = no_page"
    using assms(1) by (simp_all add: fresh_kontainer_def)
  obtain r k s1 where a: "kkm_mm_allocate_pages example_linux True True True KKM_KONTAINER_LVL_PAGE_COUNT no_page s = (r, k, s1)"
    by (rule prod_cases3)
  have r: "r = 0" "heap_top (klog s1) \<le> heap_top (klog s) + 8192 * 2"
    using example_allocate [OF a] assms(2) by simp_all
  have "example_alloc (klog s) 1 = 0x100000" by (simp add: example_alloc_def round_up_def assms(2))
  then have k: "pi_va k = 0x100000"
    using a by (auto simp: kkm_mm_allocate_pages_def alloc_pages_def Let_def)
  have p: "\<exists>s2. kkm_kontainer_allocate_pgd_pages example_linux s = (0, s2) \<and> klog s2 = klog s1"
    using a r k by (auto simp: kkm_kontainer_allocate_pgd_pages_def kkm_kontainer_allocate_lvl_pages_def f)
  then obtain s2 where s2: "kkm_kontainer_allocate_pgd_pages example_linux s = (0, s2)" "klog s2 = klog s1" by blast
  obtain r3 kmu s3 where c: "kkm_create_pml4 example_linux False KKM_KM_GUEST_PRIVATE_MEM_START_VA s2 = (r3, kmu, s3)"
    by (rule prod_cases3)
  have "r3 = 0" by (rule example_create_pml4 [OF c]) (use r s2 assms(2) in simp)
  then show ?thesis by (simp add: kkm_kontainer_init_def s2 c Let_def)
qed

text \<open>C17 The pages of a kontainer on every way through its initialisation. On success it owns exactly the
  blocks its record names, and the cleanup gives exactly these back. On failure nothing is left allocated,
  with two exceptions that the code has: with five-level paging, a failed allocation of the low table returns
  without the cleanup, and a failed private hierarchy takes the pages of the global kx area with it.\<close>

theorem kontainer_init_accounts:
  assumes "kkm_kontainer_init E s = (r, s')" "fresh_kontainer (vm_kkm s)" "X = outstanding E (klog s)"
    and "pml4e_blocks (kkm_mmu_kx s) \<subseteq># X"
  shows "(r = 0 \<longrightarrow> outstanding E (klog s') = kontainer_blocks (vm_kkm s') + X \<and>
             outstanding E (klog (kkm_kontainer_cleanup s')) = X) \<and>
    (r \<noteq> 0 \<longrightarrow> outstanding E (klog s') = X \<or>
       lx_pgtable_l5_enabled E \<and> outstanding E (klog s') = kontainer_blocks (vm_kkm s') + X \<or>
       outstanding E (klog s') = X - pml4e_blocks (kkm_mmu_kx s))"
  using assms by (cases rule: kontainer_init_cases) (simp_all add: kontainer_cleanup_ledger)

theorem kontainer_init_accounts_witness:
  "\<exists>s'. kkm_kontainer_init example_linux example_fresh = (0, s') \<and>
     outstanding example_linux (klog s') = kontainer_blocks (vm_kkm s') \<and>
     outstanding example_linux (klog (kkm_kontainer_cleanup s')) = {#}"
proof -
  obtain s' where i: "kkm_kontainer_init example_linux example_fresh = (0, s')" using example_kontainer_init [of example_fresh] by auto
  from kontainer_init_accounts [OF i _ refl] i show ?thesis by simp
qed

end
