(* ===== verification/Kkm_Layout.thy ===== *)
theory Kkm_Layout
  imports Kkm_Prelude
begin

section \<open>The memory layout of the structures (\<open>kkm_ioctl.h\<close>, \<open>kkm_run.h\<close>, \<open>kkm_kontext.h\<close>, \<open>kkm_offsets.h\<close>)\<close>

text \<open>
  The structures that cross a boundary: the ioctls copy them to and from the monitor, and the assembly code
  reaches into the guest area with hand-written offsets. A C type is a datatype; \<open>sizeof\<close>, \<open>alignof\<close> and
  the offsets of members follow the x86-64 rules (natural alignment, padding between members and at the
  end, unions at offset 0, packed structures without padding, members of unnamed members visible from
  outside). An enumeration is 4 bytes, \<open>bool\<close> is 1, a pointer is 8.
\<close>

datatype ctype =
    C_int nat
  | C_array nat ctype
  | C_struct "(string \<times> ctype) list"
  | C_packed "(string \<times> ctype) list"
  | C_union "(string \<times> ctype) list"

subsection \<open>Placement\<close>

definition align_up :: "nat \<Rightarrow> nat \<Rightarrow> nat" where
  "align_up a n = (n + a - 1) div a * a"

text \<open>Members are alignments and sizes; the offsets, and the first byte after the last member.\<close>

fun offsets :: "nat \<Rightarrow> (nat \<times> nat) list \<Rightarrow> nat list" where
  "offsets n [] = []"
| "offsets n ((a, s) # ms) = align_up a n # offsets (align_up a n + s) ms"

fun end_of :: "nat \<Rightarrow> (nat \<times> nat) list \<Rightarrow> nat" where
  "end_of n [] = n"
| "end_of n ((a, s) # ms) = end_of (align_up a n + s) ms"

fun shape :: "ctype \<Rightarrow> nat \<times> nat" where
  "shape (C_int n) = (n, n)"
| "shape (C_array n t) = (case shape t of (a, s) \<Rightarrow> (a, n * s))"
| "shape (C_struct fs) = (let ms = map (\<lambda>(f, t). shape t) fs; a = fold (max \<circ> fst) ms 1 in (a, align_up a (end_of 0 ms)))"
| "shape (C_packed fs) = (1, sum_list (map (\<lambda>(f, t). snd (shape t)) fs))"
| "shape (C_union fs) = (let ms = map (\<lambda>(f, t). shape t) fs; a = fold (max \<circ> fst) ms 1
     in (a, align_up a (fold (max \<circ> snd) ms 0)))"

definition alignof :: "ctype \<Rightarrow> nat" where
  "alignof t = fst (shape t)"

definition sizeof :: "ctype \<Rightarrow> nat" where
  "sizeof t = snd (shape t)"

text \<open>Every member that can be named, with its path, offset and type.\<close>

definition member_offsets :: "ctype \<Rightarrow> nat list" where
  "member_offsets t =
     (case t of C_struct fs \<Rightarrow> offsets 0 (map (shape \<circ> snd) fs)
      | C_packed fs \<Rightarrow> offsets 0 (map (\<lambda>(f, t). (1, sizeof t)) fs)
      | C_union fs \<Rightarrow> map (\<lambda>_. 0) fs
      | _ \<Rightarrow> [])"

text \<open>A path of names is looked up from the outside in.\<close>

function member :: "ctype \<Rightarrow> string list \<Rightarrow> (nat \<times> ctype) option"
  and member_in :: "nat list \<Rightarrow> (string \<times> ctype) list \<Rightarrow> string list \<Rightarrow> (nat \<times> ctype) option" where
  "member t [] = Some (0, t)"
| "member (C_int n) (g # q) = None"
| "member (C_array n t) (g # q) = None"
| "member (C_struct fs) (g # q) = member_in (member_offsets (C_struct fs)) fs (g # q)"
| "member (C_packed fs) (g # q) = member_in (member_offsets (C_packed fs)) fs (g # q)"
| "member (C_union fs) (g # q) = member_in (member_offsets (C_union fs)) fs (g # q)"
| "member_in (off # offs) ((f, t) # fs) p =
     (if f = [] then (case member t p of Some (d, u) \<Rightarrow> Some (off + d, u) | None \<Rightarrow> member_in offs fs p)
      else if [f] = take 1 p then map_option (\<lambda>(d, u). (off + d, u)) (member t (tl p))
      else member_in offs fs p)"
| "member_in [] fs p = None"
| "member_in (off # offs) [] p = None"
  by pat_completeness auto
termination
  by (relation "measure (\<lambda>x. case x of Inl (t, p) \<Rightarrow> 2 * size t | Inr (offs, fs, p) \<Rightarrow> 2 * size_list (size_prod (\<lambda>_. 0) size) fs + 1)")
    auto

definition offset_of :: "ctype \<Rightarrow> string list \<Rightarrow> nat option" where
  "offset_of t p = map_option fst (member t p)"

abbreviation (input) U8 :: ctype where "U8 \<equiv> C_int 1"
abbreviation (input) U16 :: ctype where "U16 \<equiv> C_int 2"
abbreviation (input) U32 :: ctype where "U32 \<equiv> C_int 4"
abbreviation (input) U64 :: ctype where "U64 \<equiv> C_int 8"

subsection \<open>The structures of the ioctls (\<open>kkm_ioctl.h\<close>)\<close>

definition t_kkm_ec_entry :: ctype where
  "t_kkm_ec_entry = C_struct
    [(''function'', U32), (''index'', U32), (''flags'', U32), (''eax'', U32), (''ebx'', U32), (''ecx'', U32),
    (''edx'', U32), (''reserved'', C_array 3 U32)]"

definition t_kkm_cpuid :: ctype where
  "t_kkm_cpuid = C_struct
    [(''entry_count'', U32), (''reserved'', U32), (''entries'', C_array 0 t_kkm_ec_entry)]"

definition t_kkm_regs :: ctype where
  "t_kkm_regs = C_struct
    [(''rax'', U64), (''rbx'', U64), (''rcx'', U64), (''rdx'', U64), (''rsi'', U64), (''rdi'', U64),
    (''rsp'', U64), (''rbp'', U64), (''r8'', U64), (''r9'', U64), (''r10'', U64), (''r11'', U64), (''r12'', U64),
    (''r13'', U64), (''r14'', U64), (''r15'', U64), (''rip'', U64), (''rflags'', U64)]"

definition t_kkm_segment :: ctype where
  "t_kkm_segment = C_struct
    [(''base'', U64), (''limit'', U32), (''selector'', U16), (''type'', U8), (''present'', U8), (''dpl'', U8),
    (''db'', U8), (''s'', U8), (''l'', U8), (''g'', U8), (''avl'', U8), (''unusable'', U8), (''reserved'', U8)]"

definition t_kkm_dtable :: ctype where
  "t_kkm_dtable = C_struct
    [(''base'', U64), (''limit'', U16), (''reserved'', C_array 3 U16)]"

definition t_kkm_msr_entry :: ctype where
  "t_kkm_msr_entry = C_struct
    [(''index'', U32), (''reserved'', U32), (''data'', U64)]"

definition t_kkm_msrs :: ctype where
  "t_kkm_msrs = C_struct
    [(''nmsrs'', U32), (''pad'', U32), (''entries'', C_array 0 t_kkm_msr_entry)]"

definition t_kkm_sregs :: ctype where
  "t_kkm_sregs = C_struct
    [(''cs'', t_kkm_segment), (''ds'', t_kkm_segment), (''es'', t_kkm_segment), (''fs'', t_kkm_segment),
    (''gs'', t_kkm_segment), (''ss'', t_kkm_segment), (''tr'', t_kkm_segment), (''ldt'', t_kkm_segment),
    (''gdt'', t_kkm_dtable), (''idt'', t_kkm_dtable), (''cr0'', U64), (''cr2'', U64), (''cr3'', U64),
    (''cr4'', U64), (''cr8'', U64), (''efer'', U64), (''apic_base'', U64), (''intr_bitmap'', C_array 4 U64)]"

definition t_kkm_fpu :: ctype where
  "t_kkm_fpu = C_struct
    [(''fpr'', C_array 8 (C_array 16 U8)), (''fcw'', U16), (''fsw'', U16), (''ftwx'', U8), (''pad1'', U8),
    (''last_opcode'', U16), (''last_ip'', U64), (''last_dp'', U64), (''xmm'', C_array 16 (C_array 16 U8)),
    (''mxcsr'', U32), (''pad2'', U32)]"

definition t_kkm_debug :: ctype where
  "t_kkm_debug = C_struct
    [(''control'', U32), (''reserved'', U32), (''registers'', C_array 8 U64)]"

definition t_kkm_ec_events :: ctype where
  "t_kkm_ec_events = C_struct
    [(''exception'', C_struct [(''injected'', U8), (''nr'', U8), (''has_error_code'', U8), (''pending'', U8), (''error_code'', U32)]),
    (''interrupt'', C_struct [(''interrupt'', U8), (''nr'', U8), (''soft'', U8), (''shadow'', U8)]),
    (''nmi'', C_struct [(''injected'', U8), (''pending'', U8), (''masked'', U8), (''reserved_nmi'', U8)]),
    (''sipi_vector'', U32), (''flags'', U32),
    (''smi'', C_struct [(''smm'', U8), (''pending'', U8), (''smm_inside_nmi'', U8), (''latched_init'', U8)]),
    (''reserved'', C_array 27 U8), (''exception_has_payload'', U8), (''exception_payload'', U64)]"

definition t_kkm_memory_region :: ctype where
  "t_kkm_memory_region = C_struct
    [(''slot'', U32), (''flags'', U32), (''guest_phys_addr'', U64), (''memory_size'', U64),
    (''userspace_addr'', U64)]"

definition t_kkm_private_area :: ctype where
  "t_kkm_private_area = C_struct
    [(''data'', U32), (''reason'', U32)]"

definition t_kkm_xsave :: ctype where
  "t_kkm_xsave = C_struct
    [(''regions'', C_array 4096 U8)]"

definition t_kkm_xcr :: ctype where
  "t_kkm_xcr = C_struct
    [(''xcr'', U32), (''padding'', U32), (''value'', U64)]"

definition t_kkm_xcrs :: ctype where
  "t_kkm_xcrs = C_struct
    [(''nr_xcrs'', U32), (''flags'', U32), (''xcrs'', C_array 16 t_kkm_xcr), (''padding'', C_array 16 U64)]"

definition t_kkm_save_info :: ctype where
  "t_kkm_save_info = C_struct
    [('''', C_union
    [('''', C_struct [(''syscall_pending'', U8), (''ret_val_mva'', U64), (''exception_posted'', U8), (''first_thread'', U8), (''new_thread'', U8), (''exception_saved_rax'', U64), (''exception_saved_rbx'', U64), (''hypercall_data'', U32), (''reason'', U32)]), (''data'', C_array 64 U8)])]"

definition t_kkm_xstate :: ctype where
  "t_kkm_xstate = C_struct
    [(''data'', C_array 4084 U8), ('''', C_union [(''valid'', U8), (''padding'', U32)]), (''format'', U32),
    (''crc32'', U32)]"

subsection \<open>The run page (\<open>kkm_run.h\<close>)\<close>

definition t_kkm_debug_exit_arch :: ctype where
  "t_kkm_debug_exit_arch = C_struct
    [(''exception'', U32), (''reserved'', U32), (''pc'', U64), (''dr6'', U64), (''dr7'', U64)]"

definition t_kkm_sync_regs :: ctype where
  "t_kkm_sync_regs = C_struct
    [(''regs'', t_kkm_regs), (''sregs'', t_kkm_sregs), (''events'', t_kkm_ec_events)]"

definition t_kkm_run_exit :: ctype where
  "t_kkm_run_exit = C_union
    [(''hw'', C_struct [(''hardware_exit_reason'', U64)]),
    (''fail_entry'', C_struct [(''hardware_entry_failure_reason'', U64)]),
    (''ex'', C_struct [(''exception'', U32), (''error_code'', U32)]),
    (''io'', C_struct [(''direction'', U8), (''size'', U8), (''port'', U16), (''count'', U32), (''data_offset'', U64)]),
    (''debug'', C_struct [(''arch'', t_kkm_debug_exit_arch)]),
    (''mmio'', C_struct [(''phys_addr'', U64), (''data'', C_array 8 U8), (''len'', U32), (''is_write'', U8)]),
    (''hypercall'', C_struct [(''nr'', U64), (''args'', C_array 6 U64), (''ret'', U64), (''longmode'', U32), (''pad'', U32)]),
    (''osi'', C_struct [(''gprs'', C_array 32 U64)]),
    (''papr_hcall'', C_struct [(''nr'', U64), (''ret'', U64), (''args'', C_array 9 U64)]),
    (''epr'', C_struct [(''epr'', U32)]), (''system_event'', C_struct [(''type'', U32), (''flags'', U64)]),
    (''eoi'', C_struct [(''vector'', U8)]), (''reserved1'', C_array 256 U8)]"

definition t_kkm_run :: ctype where
  "t_kkm_run = C_struct
    [(''request_interrupt_window'', U8), (''immediate_exit'', U8), (''reserved'', C_array 6 U8),
    (''exit_reason'', U32), (''ready_for_interrupt_injection'', U8), (''if_flag'', U8), (''flags'', U16),
    (''cr8'', U64), (''apic_base'', U64), ('''', t_kkm_run_exit), (''kkm_valid_regs'', U64),
    (''kkm_dirty_regs'', U64), (''s'', C_union [(''regs'', t_kkm_sync_regs), (''reserved2'', C_array 2048 U8)])]"

subsection \<open>The guest area (\<open>kkm_kontext.h\<close>)\<close>

definition t_kkm_intr_stack_no_error_code :: ctype where
  "t_kkm_intr_stack_no_error_code = C_struct
    [(''rax'', U64), (''rbx'', U64), (''rdx'', U64), (''rip'', U64), (''cs'', U64), (''rflags'', U64),
    (''rsp'', U64), (''ss'', U64)]"

definition t_kkm_intr_stack_with_error_code :: ctype where
  "t_kkm_intr_stack_with_error_code = C_struct
    [(''rax'', U64), (''rbx'', U64), (''rdx'', U64), (''error'', U64), (''rip'', U64), (''cs'', U64),
    (''rflags'', U64), (''rsp'', U64), (''ss'', U64)]"

definition t_kkm_trap_info :: ctype where
  "t_kkm_trap_info = C_struct
    [(''error'', U64), (''rip'', U64), (''cs'', U64), (''rflags'', U64), (''rsp'', U64), (''ss'', U64)]"

definition t_payload_entry_stack :: ctype where
  "t_payload_entry_stack = C_struct
    [(''words'', C_array 64 U64)]"

definition t_desc_ptr :: ctype where
  "t_desc_ptr = C_packed
    [(''size'', U16), (''address'', U64)]"

abbreviation (input) KKM_GUEST_AREA_SIZE :: nat where "KKM_GUEST_AREA_SIZE \<equiv> 2 * 4096"
abbreviation (input) GUEST_PRIVATE_DATA_SIZE :: nat where "GUEST_PRIVATE_DATA_SIZE \<equiv> 4096"
abbreviation (input) GUEST_STACK_SIZE :: nat where
  "GUEST_STACK_SIZE \<equiv> KKM_GUEST_AREA_SIZE - GUEST_PRIVATE_DATA_SIZE - 256 * 2"

definition t_guest_area_data :: ctype where
  "t_guest_area_data = C_struct
    [(''kkm_kontext'', U64), (''guest_area_beg'', U64), (''native_kernel_stack'', U64),
    (''guest_kernel_cr3'', U64), (''guest_kernel_cr4'', U64), (''guest_payload_cr3'', U64), (''cpu'', U64),
    (''guest_payload_cs'', U64), (''guest_payload_ss'', U64),
    ('''', C_union [(''native_idt_desc'', t_desc_ptr), (''native'', C_array 2 U64)]),
    ('''', C_union [(''guest_idt_desc'', t_desc_ptr), (''guest'', C_array 2 U64)]),
    (''native_save_tss_sp0'', U64), (''native_save_tss_sp1'', U64), (''native_save_tss_sp2'', U64),
    (''regs'', t_kkm_regs), (''sregs'', t_kkm_sregs), (''debug'', t_kkm_debug), (''fpu'', t_kkm_fpu),
    (''trap_info'', t_kkm_trap_info), (''intr_no'', U64), (''reserved'', C_array 2328 U8),
    (''instruction_decode'', C_array 128 U8), (''payload_entry_stack'', t_payload_entry_stack)]"

definition t_kkm_guest_area :: ctype where
  "t_kkm_guest_area = C_struct
    [('''', C_union [('''', t_guest_area_data), (''data'', C_array GUEST_PRIVATE_DATA_SIZE U8)]),
    (''redzone_top'', C_array 256 U8), (''stack'', C_array GUEST_STACK_SIZE U8),
    (''redzone_bottom'', C_array 256 U8)]"

subsection \<open>The offsets the assembly code uses (\<open>kkm_offsets.h\<close>)\<close>

text \<open>Name, value, and the member it stands for. The two stacks are named by their upper ends, which are
  the addresses of the members that follow them.\<close>

abbreviation (input) REG_BASE_OFF :: nat where "REG_BASE_OFF \<equiv> 128"

definition kkm_offsets :: "(string \<times> nat \<times> string list) list" where
  "kkm_offsets =
    [(''OFF_KONTEXT'', 8 * 0, [''kkm_kontext'']), (''OFF_GAB'', 8 * 1, [''guest_area_beg'']),
    (''OFF_NK_STACK'', 8 * 2, [''native_kernel_stack'']), (''OFF_GK_CR3'', 8 * 3, [''guest_kernel_cr3'']),
    (''OFF_GK_CR4'', 8 * 4, [''guest_kernel_cr4'']), (''OFF_GP_CR3'', 8 * 5, [''guest_payload_cr3'']),
    (''OFF_CPU'', 8 * 6, [''cpu'']), (''OFF_GP_CS'', 8 * 7, [''guest_payload_cs'']),
    (''OFF_GP_SS'', 8 * 8, [''guest_payload_ss'']), (''OFF_RAX'', REG_BASE_OFF + 8 * 0, [''regs'', ''rax'']),
    (''OFF_RBX'', REG_BASE_OFF + 8 * 1, [''regs'', ''rbx'']),
    (''OFF_RCX'', REG_BASE_OFF + 8 * 2, [''regs'', ''rcx'']),
    (''OFF_RDX'', REG_BASE_OFF + 8 * 3, [''regs'', ''rdx'']),
    (''OFF_RSI'', REG_BASE_OFF + 8 * 4, [''regs'', ''rsi'']),
    (''OFF_RDI'', REG_BASE_OFF + 8 * 5, [''regs'', ''rdi'']),
    (''OFF_RSP'', REG_BASE_OFF + 8 * 6, [''regs'', ''rsp'']),
    (''OFF_RBP'', REG_BASE_OFF + 8 * 7, [''regs'', ''rbp'']),
    (''OFF_R8'', REG_BASE_OFF + 8 * 8, [''regs'', ''r8'']),
    (''OFF_R9'', REG_BASE_OFF + 8 * 9, [''regs'', ''r9'']),
    (''OFF_R10'', REG_BASE_OFF + 8 * 10, [''regs'', ''r10'']),
    (''OFF_R11'', REG_BASE_OFF + 8 * 11, [''regs'', ''r11'']),
    (''OFF_R12'', REG_BASE_OFF + 8 * 12, [''regs'', ''r12'']),
    (''OFF_R13'', REG_BASE_OFF + 8 * 13, [''regs'', ''r13'']),
    (''OFF_R14'', REG_BASE_OFF + 8 * 14, [''regs'', ''r14'']),
    (''OFF_R15'', REG_BASE_OFF + 8 * 15, [''regs'', ''r15'']),
    (''OFF_RIP'', REG_BASE_OFF + 8 * 16, [''regs'', ''rip'']),
    (''OFF_RFLAGS'', REG_BASE_OFF + 8 * 17, [''regs'', ''rflags'']),
    (''OFF_CR0'', REG_BASE_OFF + 8 * 46, [''sregs'', ''cr0'']),
    (''OFF_CR2'', REG_BASE_OFF + 8 * 47, [''sregs'', ''cr2'']),
    (''OFF_CR3'', REG_BASE_OFF + 8 * 48, [''sregs'', ''cr3'']),
    (''OFF_CR4'', REG_BASE_OFF + 8 * 49, [''sregs'', ''cr4'']),
    (''OFF_CR8'', REG_BASE_OFF + 8 * 50, [''sregs'', ''cr8'']),
    (''OFF_TI_ERROR'', REG_BASE_OFF + 8 * 118, [''trap_info'', ''error'']),
    (''OFF_TI_RIP'', REG_BASE_OFF + 8 * 119, [''trap_info'', ''rip'']),
    (''OFF_TI_CS'', REG_BASE_OFF + 8 * 120, [''trap_info'', ''cs'']),
    (''OFF_TI_RFLAGS'', REG_BASE_OFF + 8 * 121, [''trap_info'', ''rflags'']),
    (''OFF_TI_RSP'', REG_BASE_OFF + 8 * 122, [''trap_info'', ''rsp'']),
    (''OFF_TI_SS'', REG_BASE_OFF + 8 * 123, [''trap_info'', ''ss'']),
    (''OFF_TI_INTR_NO'', REG_BASE_OFF + 8 * 124, [''intr_no'']), (''OFF_PAY_ENT_STK'', 4096, [''redzone_top'']),
    (''OFF_GUEST_STK'', 7936, [''redzone_bottom''])]"

subsection \<open>Sizes\<close>

named_theorems shapes \<open>alignment and size of the structures\<close>
named_theorems ioctl_values \<open>the numbers of the ioctls\<close>

lemma align_up_1 [simp]: "align_up 1 n = n" "align_up (Suc 0) n = n"
  by (simp_all add: align_up_def)

lemma shape_basic [shapes]:
  "shape t_kkm_ec_entry = (4, 40)" "shape t_kkm_regs = (8, 144)" "shape t_kkm_segment = (8, 24)"
  "shape t_kkm_dtable = (8, 16)" "shape t_kkm_msr_entry = (8, 16)" "shape t_kkm_fpu = (8, 416)"
  "shape t_kkm_debug = (8, 72)" "shape t_kkm_ec_events = (8, 64)" "shape t_kkm_memory_region = (8, 32)"
  "shape t_kkm_private_area = (4, 8)" "shape t_kkm_xsave = (1, 4096)" "shape t_kkm_xcr = (8, 16)"
  "shape t_kkm_save_info = (8, 64)" "shape t_kkm_xstate = (4, 4096)" "shape t_kkm_debug_exit_arch = (8, 32)"
  "shape t_kkm_trap_info = (8, 48)" "shape t_payload_entry_stack = (8, 512)" "shape t_desc_ptr = (1, 10)"
  "shape t_kkm_run_exit = (8, 256)" "shape t_kkm_intr_stack_no_error_code = (8, 64)"
  "shape t_kkm_intr_stack_with_error_code = (8, 72)"
  by (simp_all add: align_up_def shapes
    t_kkm_ec_entry_def t_kkm_regs_def t_kkm_segment_def t_kkm_dtable_def t_kkm_msr_entry_def t_kkm_fpu_def
    t_kkm_debug_def t_kkm_ec_events_def t_kkm_memory_region_def t_kkm_private_area_def t_kkm_xsave_def
    t_kkm_xcr_def t_kkm_save_info_def t_kkm_xstate_def t_kkm_debug_exit_arch_def t_kkm_trap_info_def
    t_payload_entry_stack_def t_desc_ptr_def t_kkm_run_exit_def t_kkm_intr_stack_no_error_code_def
    t_kkm_intr_stack_with_error_code_def)

lemma shape_tables [shapes]:
  "shape t_kkm_sregs = (8, 312)" "shape t_kkm_cpuid = (4, 8)" "shape t_kkm_msrs = (8, 8)"
  "shape t_kkm_xcrs = (8, 392)"
  by (simp_all add: align_up_def shapes
    t_kkm_sregs_def t_kkm_cpuid_def t_kkm_msrs_def t_kkm_xcrs_def)

lemma shape_sync_regs [shapes]:
  "shape t_kkm_sync_regs = (8, 520)"
  by (simp_all add: align_up_def shapes
    t_kkm_sync_regs_def)

lemma shape_pages [shapes]:
  "shape t_kkm_run = (8, 2352)" "shape t_guest_area_data = (8, 4096)"
  by (simp_all add: align_up_def shapes
    t_kkm_run_def t_guest_area_data_def)

lemma shape_guest_area [shapes]:
  "shape t_kkm_guest_area = (8, 8192)"
  by (simp_all add: align_up_def shapes
    t_kkm_guest_area_def)

text \<open>The rules of placement do what a layout has to: members are aligned, in order and apart.\<close>

lemma align_up_ge: "0 < a \<Longrightarrow> n \<le> align_up a n"
proof -
  assume a: "0 < a"
  have "n + a - 1 = (n + a - 1) div a * a + (n + a - 1) mod a" by simp
  moreover have "(n + a - 1) mod a < a" using a by simp
  ultimately show ?thesis using a unfolding align_up_def by linarith
qed

lemma end_of_ge: "\<forall>(a, s) \<in> set ms. 0 < a \<Longrightarrow> n \<le> end_of n ms"
proof (induction ms arbitrary: n)
  case (Cons m ms)
  obtain a s where m: "m = (a, s)" by (cases m)
  have "n \<le> align_up a n" using Cons.prems m by (auto intro: align_up_ge)
  moreover have "align_up a n + s \<le> end_of (align_up a n + s) ms" using Cons by auto
  ultimately show ?case by (simp add: m)
qed simp

lemma length_offsets [simp]: "length (offsets n ms) = length ms"
  by (induction n ms rule: offsets.induct) simp_all

lemma offsets_sound:
  assumes "\<forall>(a, s) \<in> set ms. 0 < a" "i < length ms"
  shows "fst (ms ! i) dvd offsets n ms ! i \<and> n \<le> offsets n ms ! i \<and> offsets n ms ! i + snd (ms ! i) \<le> end_of n ms \<and>
    (\<forall>j. i < j \<and> j < length ms \<longrightarrow> offsets n ms ! i + snd (ms ! i) \<le> offsets n ms ! j)"
  using assms
proof (induction ms arbitrary: n i)
  case (Cons m ms)
  obtain a s where m: "m = (a, s)" by (cases m)
  have a: "n \<le> align_up a n" using Cons.prems m by (auto intro: align_up_ge)
  have d: "a dvd align_up a n" by (simp add: align_up_def)
  let ?n = "align_up a n + s"
  have pos: "\<forall>(a, s) \<in> set ms. 0 < a" using Cons.prems by simp
  note IH = Cons.IH [OF pos, of _ ?n]
  show ?case
  proof (cases i)
    case 0
    have "?n \<le> offsets ?n ms ! k" if "k < length ms" for k using IH [OF that] by simp
    then show ?thesis using 0 m a d end_of_ge [OF pos, of ?n] by (auto simp: nth_Cons split: nat.splits)
  next
    case (Suc k)
    then have "k < length ms" using Cons.prems by simp
    from IH [OF this] show ?thesis using Suc m a d by (auto simp: nth_Cons split: nat.splits)
  qed
qed simp

subsection \<open>The numbers of the ioctls\<close>

text \<open>Linux's encoding: direction, size of the argument, type and number.\<close>

abbreviation (input) KKM_IO :: u32 where "KKM_IO \<equiv> 0xAE"

definition IOC :: "u32 \<Rightarrow> nat \<Rightarrow> u32 \<Rightarrow> u32" where
  "IOC dir n nr = push_bit 30 dir OR push_bit 16 (of_nat n) OR push_bit 8 KKM_IO OR nr"

definition KKM_GET_VERSION :: u32 where "KKM_GET_VERSION = IOC 0 0 0"
definition KKM_CREATE_KONTAINER :: u32 where "KKM_CREATE_KONTAINER = IOC 0 0 1"
definition KKM_CHECK_EXTENSION :: u32 where "KKM_CHECK_EXTENSION = IOC 0 0 3"
definition KKM_GET_CONTEXT_MAP_SIZE :: u32 where "KKM_GET_CONTEXT_MAP_SIZE = IOC 0 0 4"
definition KKM_GET_SUPPORTED_CONTEXT_INFO :: u32 where "KKM_GET_SUPPORTED_CONTEXT_INFO = IOC 3 (sizeof t_kkm_cpuid) 5"
definition KKM_ADD_EXECUTION_CONTEXT :: u32 where "KKM_ADD_EXECUTION_CONTEXT = IOC 0 0 0x41"
definition KKM_MEMORY :: u32 where "KKM_MEMORY = IOC 1 (sizeof t_kkm_memory_region) 0x46"
definition KKM_SET_ID_MAP_ADDR :: u32 where "KKM_SET_ID_MAP_ADDR = IOC 1 (sizeof U64) 0x48"
definition KKM_RUN :: u32 where "KKM_RUN = IOC 0 0 0x80"
definition KKM_GET_REGS :: u32 where "KKM_GET_REGS = IOC 2 (sizeof t_kkm_regs) 0x81"
definition KKM_SET_REGS :: u32 where "KKM_SET_REGS = IOC 1 (sizeof t_kkm_regs) 0x82"
definition KKM_GET_SREGS :: u32 where "KKM_GET_SREGS = IOC 2 (sizeof t_kkm_sregs) 0x83"
definition KKM_SET_SREGS :: u32 where "KKM_SET_SREGS = IOC 1 (sizeof t_kkm_sregs) 0x84"
definition KKM_SET_MSRS :: u32 where "KKM_SET_MSRS = IOC 1 (sizeof t_kkm_msrs) 0x89"
definition KKM_GET_FPU :: u32 where "KKM_GET_FPU = IOC 2 (sizeof t_kkm_fpu) 0x8c"
definition KKM_SET_FPU :: u32 where "KKM_SET_FPU = IOC 1 (sizeof t_kkm_fpu) 0x8d"
definition KKM_SET_CPUID :: u32 where "KKM_SET_CPUID = IOC 1 (sizeof t_kkm_cpuid) 0x90"
definition KKM_SET_DEBUG :: u32 where "KKM_SET_DEBUG = IOC 1 (sizeof t_kkm_debug) 0x9b"
definition KKM_GET_EVENTS :: u32 where "KKM_GET_EVENTS = IOC 2 (sizeof t_kkm_ec_events) 0x9f"
definition KKM_GET_XSAVE :: u32 where "KKM_GET_XSAVE = IOC 2 (sizeof t_kkm_xsave) 0xa4"
definition KKM_SET_XSAVE :: u32 where "KKM_SET_XSAVE = IOC 1 (sizeof t_kkm_xsave) 0xa5"
definition KKM_GET_XCRS :: u32 where "KKM_GET_XCRS = IOC 2 (sizeof t_kkm_xcrs) 0xa6"
definition KKM_SET_XCRS :: u32 where "KKM_SET_XCRS = IOC 1 (sizeof t_kkm_xcrs) 0xa7"
definition KKM_KONTEXT_REUSE :: u32 where "KKM_KONTEXT_REUSE = IOC 0 0 0xf5"
definition KKM_KONTEXT_GET_SAVE_INFO :: u32 where "KKM_KONTEXT_GET_SAVE_INFO = IOC 2 (sizeof t_kkm_save_info) 0xf6"
definition KKM_KONTEXT_SET_SAVE_INFO :: u32 where "KKM_KONTEXT_SET_SAVE_INFO = IOC 1 (sizeof t_kkm_save_info) 0xf7"
definition KKM_KONTEXT_GET_XSTATE :: u32 where "KKM_KONTEXT_GET_XSTATE = IOC 2 (sizeof t_kkm_xstate) 0xf8"
definition KKM_KONTEXT_SET_XSTATE :: u32 where "KKM_KONTEXT_SET_XSTATE = IOC 1 (sizeof t_kkm_xstate) 0xf9"
definition KKM_CPU_SUPPORTED :: u32 where "KKM_CPU_SUPPORTED = IOC 0 0 0xfe"
definition KKM_GET_IDENTITY :: u32 where "KKM_GET_IDENTITY = IOC 0 0 0xff"

lemma ioctl_value_eqs [ioctl_values]:
  "KKM_GET_VERSION = 0xAE00" "KKM_CREATE_KONTAINER = 0xAE01" "KKM_CHECK_EXTENSION = 0xAE03"
  "KKM_GET_CONTEXT_MAP_SIZE = 0xAE04" "KKM_GET_SUPPORTED_CONTEXT_INFO = 0xC008AE05"
  "KKM_ADD_EXECUTION_CONTEXT = 0xAE41" "KKM_MEMORY = 0x4020AE46" "KKM_SET_ID_MAP_ADDR = 0x4008AE48"
  "KKM_RUN = 0xAE80" "KKM_GET_REGS = 0x8090AE81" "KKM_SET_REGS = 0x4090AE82" "KKM_GET_SREGS = 0x8138AE83"
  "KKM_SET_SREGS = 0x4138AE84" "KKM_SET_MSRS = 0x4008AE89" "KKM_GET_FPU = 0x81A0AE8C" "KKM_SET_FPU = 0x41A0AE8D"
  "KKM_SET_CPUID = 0x4008AE90" "KKM_SET_DEBUG = 0x4048AE9B" "KKM_GET_EVENTS = 0x8040AE9F"
  "KKM_GET_XSAVE = 0x9000AEA4" "KKM_SET_XSAVE = 0x5000AEA5" "KKM_GET_XCRS = 0x8188AEA6"
  "KKM_SET_XCRS = 0x4188AEA7" "KKM_KONTEXT_REUSE = 0xAEF5" "KKM_KONTEXT_GET_SAVE_INFO = 0x8040AEF6"
  "KKM_KONTEXT_SET_SAVE_INFO = 0x4040AEF7" "KKM_KONTEXT_GET_XSTATE = 0x9000AEF8"
  "KKM_KONTEXT_SET_XSTATE = 0x5000AEF9" "KKM_CPU_SUPPORTED = 0xAEFE" "KKM_GET_IDENTITY = 0xAEFF"
  by (simp_all add: IOC_def sizeof_def shapes
    KKM_GET_VERSION_def KKM_CREATE_KONTAINER_def KKM_CHECK_EXTENSION_def KKM_GET_CONTEXT_MAP_SIZE_def
    KKM_GET_SUPPORTED_CONTEXT_INFO_def KKM_ADD_EXECUTION_CONTEXT_def KKM_MEMORY_def KKM_SET_ID_MAP_ADDR_def
    KKM_RUN_def KKM_GET_REGS_def KKM_SET_REGS_def KKM_GET_SREGS_def KKM_SET_SREGS_def KKM_SET_MSRS_def
    KKM_GET_FPU_def KKM_SET_FPU_def KKM_SET_CPUID_def KKM_SET_DEBUG_def KKM_GET_EVENTS_def KKM_GET_XSAVE_def
    KKM_SET_XSAVE_def KKM_GET_XCRS_def KKM_SET_XCRS_def KKM_KONTEXT_REUSE_def KKM_KONTEXT_GET_SAVE_INFO_def
    KKM_KONTEXT_SET_SAVE_INFO_def KKM_KONTEXT_GET_XSTATE_def KKM_KONTEXT_SET_XSTATE_def KKM_CPU_SUPPORTED_def
    KKM_GET_IDENTITY_def)

definition kkm_ioctls :: "u32 list" where
  "kkm_ioctls =
    [KKM_GET_VERSION, KKM_CREATE_KONTAINER, KKM_CHECK_EXTENSION, KKM_GET_CONTEXT_MAP_SIZE,
    KKM_GET_SUPPORTED_CONTEXT_INFO, KKM_ADD_EXECUTION_CONTEXT, KKM_MEMORY, KKM_SET_ID_MAP_ADDR, KKM_RUN,
    KKM_GET_REGS, KKM_SET_REGS, KKM_GET_SREGS, KKM_SET_SREGS, KKM_SET_MSRS, KKM_GET_FPU, KKM_SET_FPU,
    KKM_SET_CPUID, KKM_SET_DEBUG, KKM_GET_EVENTS, KKM_GET_XSAVE, KKM_SET_XSAVE, KKM_GET_XCRS, KKM_SET_XCRS,
    KKM_KONTEXT_REUSE, KKM_KONTEXT_GET_SAVE_INFO, KKM_KONTEXT_SET_SAVE_INFO, KKM_KONTEXT_GET_XSTATE,
    KKM_KONTEXT_SET_XSTATE, KKM_CPU_SUPPORTED, KKM_GET_IDENTITY]"

subsection \<open>The members of the guest area\<close>

lemma member_offsets_values:
  "member_offsets t_kkm_guest_area = [0, 4096, 4352, 7936]"
  "member_offsets t_guest_area_data = [0, 8, 16, 24, 32, 40, 48, 56, 64, 72, 88, 104, 112, 120, 128, 272, 584, 656, 1072,
     1120, 1128, 3456, 3584]"
  "member_offsets t_kkm_regs = [0, 8, 16, 24, 32, 40, 48, 56, 64, 72, 80, 88, 96, 104, 112, 120, 128, 136]"
  "member_offsets t_kkm_sregs = [0, 24, 48, 72, 96, 120, 144, 168, 192, 208, 224, 232, 240, 248, 256, 264, 272, 280]"
  "member_offsets t_kkm_trap_info = [0, 8, 16, 24, 32, 40]"
  by (simp_all add: member_offsets_def align_up_def shapes t_kkm_guest_area_def t_guest_area_data_def t_kkm_regs_def
      t_kkm_sregs_def t_kkm_trap_info_def)

lemma member_struct: "t = C_struct fs \<Longrightarrow> member t (g # q) = member_in (member_offsets t) fs (g # q)"
  by simp

lemma member_offsets_union: "member_offsets (C_union fs) = map (\<lambda>_. 0) fs"
  by (simp add: member_offsets_def)

lemmas member_steps = member_struct [OF t_kkm_guest_area_def] member_struct [OF t_guest_area_data_def]
  member_struct [OF t_kkm_regs_def] member_struct [OF t_kkm_sregs_def] member_struct [OF t_kkm_trap_info_def]
  member_offsets_values member_offsets_union

lemma offsets_agree: "list_all (\<lambda>(name, value, path). offset_of t_kkm_guest_area path = Some value) kkm_offsets"
  unfolding kkm_offsets_def list.pred_inject prod.case offset_of_def
  by (intro conjI TrueI; simp add: member_steps)

lemma redzone_offsets: "offset_of t_kkm_guest_area [''redzone_top''] = Some 4096"
  "offset_of t_kkm_guest_area [''redzone_bottom''] = Some 7936"
  by (simp_all add: offset_of_def member_steps)

subsection \<open>Properties\<close>


end
