(* ===== verification/Kkm_Bytes.thy ===== *)
theory Kkm_Bytes
  imports Kkm_Kernel Kkm_Layout
begin

section \<open>Structures as bytes\<close>

text \<open>
  What \<open>copy_to_user\<close> and \<open>copy_from_user\<close> move for a structure of the ioctls. The locale
  \<open>struct_image\<close> is the contract between a structure and its bytes; every structure without padding is
  an instance, with the size its layout has. \<open>struct kkm_save_info\<close> has padding, whose bytes are an
  argument.
\<close>

subsection \<open>Cutting a buffer\<close>

fun cut :: "nat list \<Rightarrow> 'a list \<Rightarrow> 'a list list" where
  "cut [] bs = []"
| "cut (n # ns) bs = take n bs # cut ns (drop n bs)"

lemma length_cut [simp]: "length (cut ns bs) = length ns"
  by (induction ns bs rule: cut.induct) simp_all

lemma concat_cut: "length bs = sum_list ns \<Longrightarrow> concat (cut ns bs) = bs"
  by (induction ns bs rule: cut.induct) simp_all

lemma length_nth_cut: "\<lbrakk>length bs = sum_list ns; i < length ns\<rbrakk> \<Longrightarrow> length (cut ns bs ! i) = ns ! i"
  by (induction ns bs arbitrary: i rule: cut.induct) (auto simp: nth_Cons split: nat.splits)

lemma cut_concat: "cut (map length bss) (concat bss) = bss"
  by (induction bss) simp_all

lemma cut_concat_eq: "map length bss = ns \<Longrightarrow> cut ns (concat bss) = bss"
  using cut_concat by metis

lemma le_bytes_of_le:
  assumes "length bs = n" "8 * n \<le> LENGTH('a)"
  shows "le_bytes n (of_le bs :: 'a::len word) = bs"
proof (rule nth_equalityI)
  fix i assume "i < length (le_bytes n (of_le bs :: 'a word))"
  then have i: "i < n" by simp
  show "le_bytes n (of_le bs :: 'a word) ! i = bs ! i"
  proof (rule bit_word_eqI)
    fix j assume j: "j < LENGTH(8)"
    then have "(8 * i + j) div 8 = i" "(8 * i + j) mod 8 = j" "8 * i + j < LENGTH('a)"
      using i assms(2) by (auto simp: div_mult_self4 mult.commute)
    then show "bit (le_bytes n (of_le bs :: 'a word) ! i) j = bit (bs ! i) j"
      using i j assms(1) by (simp add: bit_ucast_byte bit_of_le)
  qed
qed (simp add: assms)

lemma of_le_byte [simp]: "of_le (le_bytes 1 (b :: u8)) = b" "of_le (le_bytes (Suc 0) b) = b"
  using of_le_le_bytes [of 1 b] by simp_all

lemma list_of_nths: "length xs = n \<Longrightarrow> map (\<lambda>i. xs ! i) [0..<n] = xs"
  using map_nth [of xs] by simp

subsection \<open>The contract\<close>

locale struct_image =
  fixes enc :: "'a \<Rightarrow> u8 list" and dec :: "u8 list \<Rightarrow> 'a" and size :: nat and valid :: "'a \<Rightarrow> bool"
  assumes length_enc: "valid x \<Longrightarrow> length (enc x) = size"
    and dec_enc: "valid x \<Longrightarrow> dec (enc x) = x"
    and dec_valid: "length bs = size \<Longrightarrow> valid (dec bs)"
    and enc_dec: "length bs = size \<Longrightarrow> enc (dec bs) = bs"
begin

text \<open>What a complete copy moves.\<close>

lemma copied_out:
  assumes "valid x" "copy_to_user E dest (enc x) s = (0, s')" "size \<le> 2 ^ 64"
  shows "mem_load (um s') dest size = enc x" "dec (mem_load (um s') dest size) = x"
proof -
  have l: "length (enc x) = size" using assms(1) by (rule length_enc)
  show m: "mem_load (um s') dest size = enc x"
    using copy_to_user_state [OF assms(2)] mem_load_mem_store [of "enc x" dest] assms(3) by (simp add: l)
  show "dec (mem_load (um s') dest size) = x" unfolding m by (rule dec_enc [OF assms(1)])
qed

lemma copied_in:
  assumes "copy_from_user E src size s = (0, bs, s')"
  shows "valid (dec bs)" "enc (dec bs) = mem_load (um s) src size"
  using copy_from_user_ok [OF assms] dec_valid [of bs] enc_dec [of bs] by simp_all

text \<open>What was copied in and then out is the same bytes.\<close>

lemma in_and_out:
  assumes "copy_from_user E src size s = (0, bs, s1)" "copy_to_user E dest (enc (dec bs)) s2 = (0, s3)" "size \<le> 2 ^ 64"
  shows "mem_load (um s3) dest size = mem_load (um s) src size"
  using copied_out(1) [OF copied_in(1) [OF assms(1)] assms(2,3)] copied_in(2) [OF assms(1)] by simp

end

subsection \<open>The structures\<close>

definition regs_widths :: "nat list" where
  "regs_widths = [8, 8, 8, 8, 8, 8, 8, 8, 8, 8, 8, 8, 8, 8, 8, 8, 8, 8]"

definition regs_bytes :: "kkm_regs \<Rightarrow> u8 list" where
  "regs_bytes x = concat
    [le_bytes 8 (rax x), le_bytes 8 (rbx x), le_bytes 8 (rcx x), le_bytes 8 (rdx x), le_bytes 8 (rsi x),
    le_bytes 8 (rdi x), le_bytes 8 (rsp x), le_bytes 8 (rbp x), le_bytes 8 (r8 x), le_bytes 8 (r9 x),
    le_bytes 8 (r10 x), le_bytes 8 (r11 x), le_bytes 8 (r12 x), le_bytes 8 (r13 x), le_bytes 8 (r14 x),
    le_bytes 8 (r15 x), le_bytes 8 (rip x), le_bytes 8 (rflags x)]"

definition bytes_regs :: "u8 list \<Rightarrow> kkm_regs" where
  "bytes_regs bs = (let f = cut regs_widths bs in
    \<lparr>rax = of_le (f ! 0), rbx = of_le (f ! 1), rcx = of_le (f ! 2), rdx = of_le (f ! 3), rsi = of_le (f ! 4),
     rdi = of_le (f ! 5), rsp = of_le (f ! 6), rbp = of_le (f ! 7), r8 = of_le (f ! 8), r9 = of_le (f ! 9),
     r10 = of_le (f ! 10), r11 = of_le (f ! 11), r12 = of_le (f ! 12), r13 = of_le (f ! 13),
     r14 = of_le (f ! 14), r15 = of_le (f ! 15), rip = of_le (f ! 16), rflags = of_le (f ! 17)\<rparr>)"

definition segment_widths :: "nat list" where
  "segment_widths = [8, 4, 2, 1, 1, 1, 1, 1, 1, 1, 1, 1, 1]"

definition segment_bytes :: "kkm_segment \<Rightarrow> u8 list" where
  "segment_bytes x = concat
    [le_bytes 8 (seg_base x), le_bytes 4 (seg_limit x), le_bytes 2 (seg_selector x), le_bytes 1 (seg_type x),
    le_bytes 1 (seg_present x), le_bytes 1 (seg_dpl x), le_bytes 1 (seg_db x), le_bytes 1 (seg_s x),
    le_bytes 1 (seg_l x), le_bytes 1 (seg_g x), le_bytes 1 (seg_avl x), le_bytes 1 (seg_unusable x),
    le_bytes 1 (seg_reserved x)]"

definition bytes_segment :: "u8 list \<Rightarrow> kkm_segment" where
  "bytes_segment bs = (let f = cut segment_widths bs in
    \<lparr>seg_base = of_le (f ! 0), seg_limit = of_le (f ! 1), seg_selector = of_le (f ! 2), seg_type = of_le (f ! 3),
     seg_present = of_le (f ! 4), seg_dpl = of_le (f ! 5), seg_db = of_le (f ! 6), seg_s = of_le (f ! 7),
     seg_l = of_le (f ! 8), seg_g = of_le (f ! 9), seg_avl = of_le (f ! 10), seg_unusable = of_le (f ! 11),
     seg_reserved = of_le (f ! 12)\<rparr>)"

definition dtable_bytes :: "kkm_dtable \<Rightarrow> u8 list" where
  "dtable_bytes x = (case dt_reserved x of (a, b, c) \<Rightarrow>
     concat [le_bytes 8 (dt_base x), le_bytes 2 (dt_limit x), le_bytes 2 a, le_bytes 2 b, le_bytes 2 c])"

definition bytes_dtable :: "u8 list \<Rightarrow> kkm_dtable" where
  "bytes_dtable bs = (let f = cut [8, 2, 2, 2, 2] bs in
     \<lparr>dt_base = of_le (f ! 0), dt_limit = of_le (f ! 1), dt_reserved = (of_le (f ! 2), of_le (f ! 3), of_le (f ! 4))\<rparr>)"

definition sregs_widths :: "nat list" where
  "sregs_widths = [24, 24, 24, 24, 24, 24, 24, 24, 16, 16, 8, 8, 8, 8, 8, 8, 8, 8, 8, 8, 8]"

definition sregs_bytes :: "kkm_sregs \<Rightarrow> u8 list" where
  "sregs_bytes x = (case intr_bitmap x of (b0, b1, b2, b3) \<Rightarrow> concat
    [segment_bytes (sr_cs x), segment_bytes (sr_ds x), segment_bytes (sr_es x), segment_bytes (sr_fs x),
     segment_bytes (sr_gs x), segment_bytes (sr_ss x), segment_bytes (sr_tr x), segment_bytes (sr_ldt x),
     dtable_bytes (sr_gdt x), dtable_bytes (sr_idt x), le_bytes 8 (cr0 x), le_bytes 8 (cr2 x), le_bytes 8 (cr3 x),
     le_bytes 8 (cr4 x), le_bytes 8 (cr8 x), le_bytes 8 (efer x), le_bytes 8 (apic_base x),
     le_bytes 8 b0, le_bytes 8 b1, le_bytes 8 b2, le_bytes 8 b3])"

definition bytes_sregs :: "u8 list \<Rightarrow> kkm_sregs" where
  "bytes_sregs bs = (let f = cut sregs_widths bs in
    \<lparr>sr_cs = bytes_segment (f ! 0), sr_ds = bytes_segment (f ! 1), sr_es = bytes_segment (f ! 2),
     sr_fs = bytes_segment (f ! 3), sr_gs = bytes_segment (f ! 4), sr_ss = bytes_segment (f ! 5),
     sr_tr = bytes_segment (f ! 6), sr_ldt = bytes_segment (f ! 7), sr_gdt = bytes_dtable (f ! 8),
     sr_idt = bytes_dtable (f ! 9), cr0 = of_le (f ! 10), cr2 = of_le (f ! 11), cr3 = of_le (f ! 12),
     cr4 = of_le (f ! 13), cr8 = of_le (f ! 14), efer = of_le (f ! 15), apic_base = of_le (f ! 16),
     intr_bitmap = (of_le (f ! 17), of_le (f ! 18), of_le (f ! 19), of_le (f ! 20))\<rparr>)"

definition fpu_widths :: "nat list" where
  "fpu_widths = [128, 2, 2, 1, 1, 2, 8, 8, 256, 4, 4]"

definition fpu_bytes :: "kkm_fpu \<Rightarrow> u8 list" where
  "fpu_bytes x = concat
    [fpr x, le_bytes 2 (fcw x), le_bytes 2 (fsw x), le_bytes 1 (ftwx x), le_bytes 1 (pad1 x),
    le_bytes 2 (last_opcode x), le_bytes 8 (last_ip x), le_bytes 8 (last_dp x), xmm x, le_bytes 4 (mxcsr x),
    le_bytes 4 (pad2 x)]"

definition bytes_fpu :: "u8 list \<Rightarrow> kkm_fpu" where
  "bytes_fpu bs = (let f = cut fpu_widths bs in
    \<lparr>fpr = f ! 0, fcw = of_le (f ! 1), fsw = of_le (f ! 2), ftwx = of_le (f ! 3), pad1 = of_le (f ! 4),
     last_opcode = of_le (f ! 5), last_ip = of_le (f ! 6), last_dp = of_le (f ! 7), xmm = f ! 8,
     mxcsr = of_le (f ! 9), pad2 = of_le (f ! 10)\<rparr>)"

definition memory_region_widths :: "nat list" where
  "memory_region_widths = [4, 4, 8, 8, 8]"

definition memory_region_bytes :: "kkm_memory_region \<Rightarrow> u8 list" where
  "memory_region_bytes x = concat
    [le_bytes 4 (mr_slot x), le_bytes 4 (mr_flags x), le_bytes 8 (guest_phys_addr x), le_bytes 8 (memory_size x),
    le_bytes 8 (userspace_addr x)]"

definition bytes_memory_region :: "u8 list \<Rightarrow> kkm_memory_region" where
  "bytes_memory_region bs = (let f = cut memory_region_widths bs in
    \<lparr>mr_slot = of_le (f ! 0), mr_flags = of_le (f ! 1), guest_phys_addr = of_le (f ! 2),
     memory_size = of_le (f ! 3), userspace_addr = of_le (f ! 4)\<rparr>)"

definition debug_bytes :: "kkm_debug \<Rightarrow> u8 list" where
  "debug_bytes x = concat [le_bytes 4 (dbg_control x), le_bytes 4 (dbg_reserved x), words_bytes (dbg_registers x)]"

definition bytes_debug :: "u8 list \<Rightarrow> kkm_debug" where
  "bytes_debug bs = (let f = cut [4, 4, 64] bs in
     \<lparr>dbg_control = of_le (f ! 0), dbg_reserved = of_le (f ! 1),
      dbg_registers = map of_le (cut (replicate 8 8) (f ! 2))\<rparr>)"

subsection \<open>The instances\<close>

lemma all_parts:
  assumes "length bs = sum_list ns" "parts = map (\<lambda>i. cut ns bs ! i) [0..<length ns]"
  shows "concat parts = bs"
  using assms list_of_nths [of "cut ns bs" "length ns"] by (simp add: concat_cut)

lemma regs_enc: "length (regs_bytes x) = 144" "bytes_regs (regs_bytes x) = x"
proof -
  show "length (regs_bytes x) = 144" by (simp add: regs_bytes_def)
  show "bytes_regs (regs_bytes x) = x"
    unfolding bytes_regs_def regs_bytes_def Let_def by (subst cut_concat_eq) (simp_all add: regs_widths_def)
qed

lemma regs_dec:
  assumes "length bs = 144" shows "regs_bytes (bytes_regs bs) = bs"
proof -
  have l: "length bs = sum_list regs_widths" using assms by (simp add: regs_widths_def)
  show ?thesis unfolding regs_bytes_def bytes_regs_def Let_def
    by (rule all_parts [OF l]) (simp add: le_bytes_of_le regs_widths_def assms upt_rec)
qed

lemma segment_enc: "length (segment_bytes x) = 24" "bytes_segment (segment_bytes x) = x"
proof -
  show "length (segment_bytes x) = 24" by (simp add: segment_bytes_def)
  show "bytes_segment (segment_bytes x) = x"
    unfolding bytes_segment_def segment_bytes_def Let_def by (subst cut_concat_eq) (simp_all add: segment_widths_def)
qed

lemma segment_dec:
  assumes "length bs = 24" shows "segment_bytes (bytes_segment bs) = bs"
proof -
  have l: "length bs = sum_list segment_widths" using assms by (simp add: segment_widths_def)
  show ?thesis unfolding segment_bytes_def bytes_segment_def Let_def
    by (rule all_parts [OF l]) (simp add: le_bytes_of_le segment_widths_def assms upt_rec)
qed

lemma memory_region_enc: "length (memory_region_bytes x) = 32" "bytes_memory_region (memory_region_bytes x) = x"
proof -
  show "length (memory_region_bytes x) = 32" by (simp add: memory_region_bytes_def)
  show "bytes_memory_region (memory_region_bytes x) = x"
    unfolding bytes_memory_region_def memory_region_bytes_def Let_def by (subst cut_concat_eq) (simp_all add: memory_region_widths_def)
qed

lemma memory_region_dec:
  assumes "length bs = 32" shows "memory_region_bytes (bytes_memory_region bs) = bs"
proof -
  have l: "length bs = sum_list memory_region_widths" using assms by (simp add: memory_region_widths_def)
  show ?thesis unfolding memory_region_bytes_def bytes_memory_region_def Let_def
    by (rule all_parts [OF l]) (simp add: le_bytes_of_le memory_region_widths_def assms upt_rec)
qed

lemma dtable_enc: "length (dtable_bytes x) = 16" "bytes_dtable (dtable_bytes x) = x"
proof -
  obtain a b c where r: "dt_reserved x = (a, b, c)" by (rule prod_cases3)
  show "length (dtable_bytes x) = 16" by (simp add: dtable_bytes_def r)
  show "bytes_dtable (dtable_bytes x) = x"
    unfolding bytes_dtable_def dtable_bytes_def Let_def r prod.case by (subst cut_concat_eq) (simp_all flip: r)
qed

lemma dtable_dec: "length bs = 16 \<Longrightarrow> dtable_bytes (bytes_dtable bs) = bs"
  unfolding dtable_bytes_def bytes_dtable_def Let_def kkm_dtable.select_convs prod.case
  by (rule all_parts [of _ "[8, 2, 2, 2, 2]"]) (simp_all add: le_bytes_of_le upt_rec)

lemma sregs_enc: "length (sregs_bytes x) = 312" "bytes_sregs (sregs_bytes x) = x"
proof -
  obtain a b c d where r: "intr_bitmap x = (a, b, c, d)" by (rule prod_cases4)
  show "length (sregs_bytes x) = 312" by (simp add: sregs_bytes_def r segment_enc dtable_enc)
  show "bytes_sregs (sregs_bytes x) = x"
    unfolding bytes_sregs_def sregs_bytes_def Let_def r prod.case
    by (subst cut_concat_eq) (simp_all add: sregs_widths_def segment_enc dtable_enc flip: r)
qed

lemma sregs_dec:
  assumes "length bs = 312" shows "sregs_bytes (bytes_sregs bs) = bs"
proof -
  have l: "length bs = sum_list sregs_widths" using assms by (simp add: sregs_widths_def)
  show ?thesis unfolding sregs_bytes_def bytes_sregs_def Let_def kkm_sregs.select_convs prod.case
    by (rule all_parts [OF l]) (simp add: le_bytes_of_le segment_dec dtable_dec sregs_widths_def assms upt_rec)
qed

lemma fpu_enc:
  assumes "length (fpr x) = 128" "length (xmm x) = 256"
  shows "length (fpu_bytes x) = 416" "bytes_fpu (fpu_bytes x) = x"
proof -
  show "length (fpu_bytes x) = 416" by (simp add: fpu_bytes_def assms)
  show "bytes_fpu (fpu_bytes x) = x"
    unfolding bytes_fpu_def fpu_bytes_def Let_def by (subst cut_concat_eq) (simp_all add: fpu_widths_def assms)
qed

lemma fpu_dec:
  assumes "length bs = 416"
  shows "fpu_bytes (bytes_fpu bs) = bs" "length (fpr (bytes_fpu bs)) = 128" "length (xmm (bytes_fpu bs)) = 256"
proof -
  have l: "length bs = sum_list fpu_widths" using assms by (simp add: fpu_widths_def)
  show "fpu_bytes (bytes_fpu bs) = bs" unfolding fpu_bytes_def bytes_fpu_def Let_def
    by (rule all_parts [OF l]) (simp add: le_bytes_of_le fpu_widths_def assms upt_rec)
qed (simp_all add: bytes_fpu_def fpu_widths_def assms)

lemma words_of_cut: "length bs = 8 * n \<Longrightarrow> words_bytes (map of_le (cut (replicate n 8) bs)) = bs"
  by (induction n arbitrary: bs) (simp_all add: words_bytes_def le_bytes_of_le)

lemma cut_of_words: "map of_le (cut (replicate (length ws) 8) (words_bytes ws)) = ws"
  by (induction ws) (simp_all add: words_bytes_def)

lemma debug_enc:
  assumes "length (dbg_registers x) = 8"
  shows "length (debug_bytes x) = 72" "bytes_debug (debug_bytes x) = x"
proof -
  show "length (debug_bytes x) = 72" by (simp add: debug_bytes_def assms)
  show "bytes_debug (debug_bytes x) = x"
    unfolding bytes_debug_def debug_bytes_def Let_def
    using cut_of_words [of "dbg_registers x"] by (subst cut_concat_eq) (simp_all add: assms)
qed

lemma debug_dec:
  assumes "length bs = 72"
  shows "debug_bytes (bytes_debug bs) = bs" "length (dbg_registers (bytes_debug bs)) = 8"
proof -
  have w: "words_bytes (map of_le (cut (replicate 8 8) (cut [4, 4, 64] bs ! 2))) = cut [4, 4, 64] bs ! 2"
    by (rule words_of_cut) (simp add: assms)
  show "debug_bytes (bytes_debug bs) = bs" unfolding debug_bytes_def bytes_debug_def Let_def kkm_debug.select_convs w
    by (rule all_parts [of _ "[4, 4, 64]"]) (simp_all add: le_bytes_of_le assms upt_rec)
qed (simp add: bytes_debug_def)

abbreviation (input) fpu_lengths :: "kkm_fpu \<Rightarrow> bool" where
  "fpu_lengths f \<equiv> length (fpr f) = 128 \<and> length (xmm f) = 256"

abbreviation (input) debug_lengths :: "kkm_debug \<Rightarrow> bool" where
  "debug_lengths d \<equiv> length (dbg_registers d) = 8"

interpretation regs_image: struct_image regs_bytes bytes_regs "sizeof t_kkm_regs" "\<lambda>_. True"
  by unfold_locales (simp_all add: sizeof_def shapes regs_enc regs_dec)

interpretation segment_image: struct_image segment_bytes bytes_segment "sizeof t_kkm_segment" "\<lambda>_. True"
  by unfold_locales (simp_all add: sizeof_def shapes segment_enc segment_dec)

interpretation dtable_image: struct_image dtable_bytes bytes_dtable "sizeof t_kkm_dtable" "\<lambda>_. True"
  by unfold_locales (simp_all add: sizeof_def shapes dtable_enc dtable_dec)

interpretation sregs_image: struct_image sregs_bytes bytes_sregs "sizeof t_kkm_sregs" "\<lambda>_. True"
  by unfold_locales (simp_all add: sizeof_def shapes sregs_enc sregs_dec)

interpretation memory_region_image: struct_image memory_region_bytes bytes_memory_region "sizeof t_kkm_memory_region" "\<lambda>_. True"
  by unfold_locales (simp_all add: sizeof_def shapes memory_region_enc memory_region_dec)

interpretation fpu_image: struct_image fpu_bytes bytes_fpu "sizeof t_kkm_fpu" "\<lambda>f. fpu_lengths f"
  by unfold_locales (simp_all add: sizeof_def shapes fpu_enc fpu_dec)

interpretation debug_image: struct_image debug_bytes bytes_debug "sizeof t_kkm_debug" "\<lambda>d. debug_lengths d"
  by unfold_locales (simp_all add: sizeof_def shapes debug_enc debug_dec)

subsection \<open>The save info\<close>

text \<open>\<open>bool\<close> members are bytes; a byte that is not zero reads as true. \<open>pad\<close> is the 64 bytes the structure's
  memory held before its members were written.\<close>

definition bool_byte :: "bool \<Rightarrow> u8" where
  "bool_byte b = (if b then 1 else 0)"

definition save_info_bytes :: "u8 list \<Rightarrow> kkm_save_info \<Rightarrow> u8 list" where
  "save_info_bytes pad si = fold (\<lambda>(off, bs) buf. put_bytes off bs buf)
     [(0, [bool_byte (si_syscall_pending si)]), (8, le_bytes 8 (si_ret_val_mva si)), (16, [bool_byte (si_exception_posted si)]),
      (17, [bool_byte (si_first_thread si)]), (18, [bool_byte (si_new_thread si)]), (24, le_bytes 8 (si_exception_saved_rax si)),
      (32, le_bytes 8 (si_exception_saved_rbx si)), (40, le_bytes 4 (si_hypercall_data si)), (44, le_bytes 4 (si_reason si))] pad"

definition bytes_save_info :: "u8 list \<Rightarrow> kkm_save_info" where
  "bytes_save_info bs =
     \<lparr>si_syscall_pending = (bs ! 0 \<noteq> 0), si_ret_val_mva = of_le (get_bytes 8 8 bs), si_exception_posted = (bs ! 16 \<noteq> 0),
      si_first_thread = (bs ! 17 \<noteq> 0), si_new_thread = (bs ! 18 \<noteq> 0), si_exception_saved_rax = of_le (get_bytes 24 8 bs),
      si_exception_saved_rbx = of_le (get_bytes 32 8 bs), si_hypercall_data = of_le (get_bytes 40 4 bs),
      si_reason = of_le (get_bytes 44 4 bs)\<rparr>"

lemma get_put_exact: "\<lbrakk>off + n \<le> length buf; length bs = n\<rbrakk> \<Longrightarrow> get_bytes off n (put_bytes off bs buf) = bs"
  using get_put_same by metis

lemma save_info_enc:
  assumes "length pad = 64"
  shows "length (save_info_bytes pad si) = 64" "bytes_save_info (save_info_bytes pad si) = si"
proof -
  note l = length_put_bytes [of _ _ pad] assms
  show "length (save_info_bytes pad si) = 64" by (simp add: save_info_bytes_def length_put_bytes assms)
  show "bytes_save_info (save_info_bytes pad si) = si"
    by (simp add: save_info_bytes_def bytes_save_info_def length_put_bytes nth_put_bytes get_put_other get_put_exact assms bool_byte_def)
qed

text \<open>The members are where the layout has them.\<close>

lemma save_info_offsets:
  "map (\<lambda>f. offset_of t_kkm_save_info [f]) [''syscall_pending'', ''ret_val_mva'', ''exception_posted'', ''first_thread'',
     ''new_thread'', ''exception_saved_rax'', ''exception_saved_rbx'', ''hypercall_data'', ''reason'']
   = map Some [0, 8, 16, 17, 18, 24, 32, 40, 44]"
  by (simp add: offset_of_def t_kkm_save_info_def member_offsets_def align_up_def)

end
