(* ===== verification/Kkm_Ioctl.thy ===== *)
theory Kkm_Ioctl
  imports Kkm_Run Kkm_Bytes
begin

section \<open>The ioctls of a kontext (\<open>kkm_main.c\<close>)\<close>

text \<open>
  What the monitor can ask of one kontext: run it, read and write its registers, floating-point and extended
  state, its debug registers, its pending work. The run page carries registers too: members that the
  monitor marked dirty are taken over before a run, members it declared valid are delivered after it.
\<close>

abbreviation (input) KKM_SYNC_X86_REGS :: u64 where "KKM_SYNC_X86_REGS \<equiv> 1"
abbreviation (input) KKM_SYNC_X86_SREGS :: u64 where "KKM_SYNC_X86_SREGS \<equiv> 2"
abbreviation (input) KKM_XSTATE_DATA_SIZE :: nat where "KKM_XSTATE_DATA_SIZE \<equiv> 4084"
abbreviation (input) KKM_CONTEXT_MAP_PAGE_COUNT :: nat where "KKM_CONTEXT_MAP_PAGE_COUNT \<equiv> 3"
abbreviation (input) KKM_CONTEXT_MAP_SIZE :: int where "KKM_CONTEXT_MAP_SIZE \<equiv> int KKM_CONTEXT_MAP_PAGE_COUNT * 4096"

subsection \<open>Registers in the run page\<close>

definition kkm_set_regs :: "'a vcpu_scheme \<Rightarrow> 'a vcpu_scheme" where
  "kkm_set_regs s =
     (let s1 = (if kkm_dirty_regs (vc_run s) AND KKM_SYNC_X86_REGS \<noteq> 0
                then s\<lparr>vc_ga := (vc_ga s)\<lparr>ga_regs := run_regs (vc_run s)\<rparr>,
                       vc_run := (vc_run s)\<lparr>kkm_dirty_regs := kkm_dirty_regs (vc_run s) AND NOT KKM_SYNC_X86_REGS\<rparr>\<rparr>
                else s)
      in if kkm_dirty_regs (vc_run s1) AND KKM_SYNC_X86_SREGS \<noteq> 0
         then s1\<lparr>vc_ga := (vc_ga s1)\<lparr>ga_sregs := run_sregs (vc_run s1)\<rparr>,
                 vc_run := (vc_run s1)\<lparr>kkm_dirty_regs := kkm_dirty_regs (vc_run s1) AND NOT KKM_SYNC_X86_SREGS\<rparr>\<rparr>
         else s1)"

definition kkm_get_regs :: "'a vcpu_scheme \<Rightarrow> 'a vcpu_scheme" where
  "kkm_get_regs s =
     (let s1 = (if kkm_valid_regs (vc_run s) AND KKM_SYNC_X86_REGS \<noteq> 0
                then s\<lparr>vc_run := (vc_run s)\<lparr>run_regs := ga_regs (vc_ga s)\<rparr>\<rparr> else s)
      in if kkm_valid_regs (vc_run s1) AND KKM_SYNC_X86_SREGS \<noteq> 0
         then s1\<lparr>vc_run := (vc_run s1)\<lparr>run_sregs := ga_sregs (vc_ga s1)\<rparr>\<rparr> else s1)"

definition kkm_run ::
  "kkm_platform_calls \<Rightarrow> kx_image \<Rightarrow> linux \<Rightarrow> nat \<Rightarrow> 'a vcpu_scheme \<Rightarrow> (int \<times> 'a vcpu_scheme) outcome" where
  "kkm_run P im E fuel s =
     (case kkm_kontext_switch_kernel P im E fuel (kkm_set_regs s) of
        Returns (r, s1) \<Rightarrow> Returns (r, kkm_get_regs s1)
      | Undefined \<Rightarrow> Undefined | Out_of_fuel \<Rightarrow> Out_of_fuel)"

subsection \<open>Copies\<close>

definition kkm_to_user :: "linux \<Rightarrow> u64 \<Rightarrow> u8 list \<Rightarrow> 'a host_scheme \<Rightarrow> int \<times> 'a host_scheme" where
  "kkm_to_user E dest bs s = (case copy_to_user E dest bs s of (left, s1) \<Rightarrow> (if left \<noteq> 0 then - EFAULT else 0, s1))"

text \<open>The destination is written whatever the result: its new bytes are returned with it.\<close>

definition kkm_from_user :: "linux \<Rightarrow> u64 \<Rightarrow> nat \<Rightarrow> 'a host_scheme \<Rightarrow> int \<times> u8 list \<times> 'a host_scheme" where
  "kkm_from_user E src n s =
     (case copy_from_user E src n s of (left, bs, s1) \<Rightarrow> (if left \<noteq> 0 then - EFAULT else 0, bs, s1))"

text \<open>The count is returned through an \<open>int\<close>, so a count of \<open>2 ^ 31\<close> and more comes out negative.\<close>

definition kkm_set_msrs :: "linux \<Rightarrow> u64 \<Rightarrow> 'a host_scheme \<Rightarrow> int \<times> 'a host_scheme" where
  "kkm_set_msrs E arg s =
     (case kkm_from_user E arg (sizeof t_kkm_msrs) s of (r, bs, s1) \<Rightarrow>
      (if r = 0 then sint (of_le (get_bytes 0 4 bs) :: u32) else r, s1))"

subsection \<open>The extended state with its header\<close>

definition xs_valid :: "u8 list \<Rightarrow> bool" where
  "xs_valid xs \<longleftrightarrow> xs ! 4084 \<noteq> 0"

definition xs_format :: "u8 list \<Rightarrow> u32" where
  "xs_format xs = of_le (get_bytes 4088 4 xs)"

definition xs_crc32 :: "u8 list \<Rightarrow> u32" where
  "xs_crc32 xs = of_le (get_bytes 4092 4 xs)"

definition xs_data :: "u8 list \<Rightarrow> u8 list" where
  "xs_data xs = get_bytes 0 KKM_XSTATE_DATA_SIZE xs"

text \<open>\<open>padding\<close>, \<open>format\<close> and \<open>crc32\<close> are cleared when the header is done with.\<close>

definition xs_clear :: "u8 list \<Rightarrow> u8 list" where
  "xs_clear xs = put_bytes 4092 (le_bytes 4 (0 :: u32))
     (put_bytes 4088 (le_bytes 4 (xstate_format_code KKM_NONE)) (put_bytes 4084 (le_bytes 4 (0 :: u32)) xs))"

definition xs_seal :: "linux \<Rightarrow> bool \<Rightarrow> kkm_xstate_format \<Rightarrow> u8 list \<Rightarrow> u8 list" where
  "xs_seal E valid fmt xs =
     (let xs1 = put_bytes 4088 (le_bytes 4 (xstate_format_code fmt)) (put_bytes 4084 [bool_byte valid] xs)
      in put_bytes 4092 (le_bytes 4 (lx_crc32 E (xs_data xs1))) xs1)"

definition get_xstate :: "linux \<Rightarrow> u64 \<Rightarrow> 'a vcpu_scheme \<Rightarrow> int \<times> 'a vcpu_scheme" where
  "get_xstate E arg s =
     (let xs = xs_seal E (kn_valid_payload_xsave_area (vc_kontext s)) (kkm_xs_format s) (vc_payload_xstate s)
      in case kkm_to_user E arg xs (s\<lparr>vc_payload_xstate := xs\<rparr>) of (r, s1) \<Rightarrow> (r, s1\<lparr>vc_payload_xstate := xs_clear xs\<rparr>))"

definition set_xstate :: "linux \<Rightarrow> u64 \<Rightarrow> 'a vcpu_scheme \<Rightarrow> int \<times> 'a vcpu_scheme" where
  "set_xstate E arg s =
     (case kkm_from_user E arg (sizeof t_kkm_xstate) s of (r, xs, s1) \<Rightarrow>
      let s2 = s1\<lparr>vc_payload_xstate := xs\<rparr>; valid = (\<lambda>b. on_kontext (\<lambda>k. k\<lparr>kn_valid_payload_xsave_area := b\<rparr>))
      in if r \<noteq> 0 then (r, s2)
         else if xs_format xs \<noteq> xstate_format_code (kkm_xs_format s) then (- EINVAL, valid False s2)
         else if xs_crc32 xs \<noteq> lx_crc32 E (xs_data xs) then (- EINVAL, valid False s2)
         else (0, valid (xs_valid xs) (s2\<lparr>vc_payload_xstate := xs_clear xs\<rparr>)))"

subsection \<open>The ioctls\<close>

text \<open>\<open>stack\<close> is what the memory of the local variable \<open>si\<close> holds when the call begins.\<close>

definition kkm_execution_kontext_ioctl ::
  "kkm_platform_calls \<Rightarrow> kx_image \<Rightarrow> linux \<Rightarrow> nat \<Rightarrow> u8 list \<Rightarrow> u32 \<Rightarrow> u64 \<Rightarrow> 'a vcpu_scheme
     \<Rightarrow> (int \<times> 'a vcpu_scheme) outcome" where
  "kkm_execution_kontext_ioctl P im E fuel stack ioctl_type arg s =
     (let ga = vc_ga s
      in if ioctl_type = KKM_RUN then kkm_run P im E fuel s
      else Returns
       (if ioctl_type = KKM_GET_REGS then kkm_to_user E arg (regs_bytes (ga_regs ga)) s
        else if ioctl_type = KKM_SET_REGS then
          case kkm_from_user E arg (sizeof t_kkm_regs) s of (r, bs, s1) \<Rightarrow>
          (r, s1\<lparr>vc_ga := (vc_ga s1)\<lparr>ga_regs := bytes_regs bs\<rparr>\<rparr>)
        else if ioctl_type = KKM_GET_SREGS then kkm_to_user E arg (sregs_bytes (ga_sregs ga)) s
        else if ioctl_type = KKM_SET_SREGS then
          case kkm_from_user E arg (sizeof t_kkm_sregs) s of (r, bs, s1) \<Rightarrow>
          (r, s1\<lparr>vc_ga := (vc_ga s1)\<lparr>ga_sregs := bytes_sregs bs\<rparr>\<rparr>)
        else if ioctl_type = KKM_SET_MSRS then kkm_set_msrs E arg s
        else if ioctl_type = KKM_GET_FPU then
          let f = kkm_copy_xstate_to_kkm_fpu (vc_payload_xstate s)
          in kkm_to_user E arg (fpu_bytes f) (s\<lparr>vc_ga := ga\<lparr>ga_fpu := f\<rparr>\<rparr>)
        else if ioctl_type = KKM_SET_FPU then
          case kkm_from_user E arg (sizeof t_kkm_fpu) s of (r, bs, s1) \<Rightarrow>
          (r, s1\<lparr>vc_ga := (vc_ga s1)\<lparr>ga_fpu := bytes_fpu bs\<rparr>,
                 vc_payload_xstate := kkm_copy_kkm_fpu_to_xstate (bytes_fpu bs) (vc_payload_xstate s1)\<rparr>)
        else if ioctl_type = KKM_SET_CPUID then (0, s)
        else if ioctl_type = KKM_SET_DEBUG then
          case kkm_from_user E arg (sizeof t_kkm_debug) s of (r, bs, s1) \<Rightarrow>
          (r, on_kontext (\<lambda>k. k\<lparr>kn_debug_registers_set := True\<rparr>) (s1\<lparr>vc_ga := (vc_ga s1)\<lparr>ga_debug := bytes_debug bs\<rparr>\<rparr>))
        else if ioctl_type = KKM_GET_XCRS \<or> ioctl_type = KKM_SET_XCRS then (0, s)
        else if ioctl_type = KKM_KONTEXT_REUSE then kkm_kontext_reinit s
        else if ioctl_type = KKM_KONTEXT_GET_SAVE_INFO then
          case kkm_kontext_get_save_info s of (si, s1) \<Rightarrow> kkm_to_user E arg (save_info_bytes stack si) s1
        else if ioctl_type = KKM_KONTEXT_SET_SAVE_INFO then
          case kkm_from_user E arg (sizeof t_kkm_save_info) s of (r, bs, s1) \<Rightarrow>
          (r, if r = 0 then kkm_kontext_set_save_info (bytes_save_info bs) s1 else s1)
        else if ioctl_type = KKM_KONTEXT_GET_XSTATE then get_xstate E arg s
        else if ioctl_type = KKM_KONTEXT_SET_XSTATE then set_xstate E arg s
        else if ioctl_type = KKM_GET_EVENTS then (0, s)
        else (- EOPNOTSUPP, s)))"

text \<open>The page behind an offset of the kontext's mapping; \<open>None\<close> is \<open>VM_FAULT_SIGBUS\<close>.\<close>

definition kkm_execution_kontext_fault :: "kkm_kontext \<Rightarrow> u64 \<Rightarrow> u64 option" where
  "kkm_execution_kontext_fault kn pgoff =
     (if pgoff \<ge> of_nat KKM_CONTEXT_MAP_PAGE_COUNT then None else Some (ma_kvaddr (kn_mmap_area kn ! unat pgoff)))"

subsection \<open>What an ioctl leaves alone\<close>

text \<open>Identity, ownership and addresses of a kontext: fixed from its creation to its release.\<close>

definition kontext_home :: "kkm_kontext \<Rightarrow> _" where
  "kontext_home k = (kn_id k, kn_index k, kn_used k, kn_kontext_fd k, kn_task k, kn_kkm k, kn_mmap_area k,
     kn_guest_area_page k, kn_guest_area k, kn_guest_area_page0_pa k, kn_guest_area_page1_pa k, kn_xsave k,
     kn_kernel_xsave k, kn_payload_xsave k)"

lemma copy_kontext:
  "copy_to_user E d bs v = (l, v') \<Longrightarrow> vc_kontext v' = vc_kontext (v :: 'a vcpu_scheme)"
  "copy_from_user E d n v = (l, cs, v') \<Longrightarrow> vc_kontext v' = vc_kontext (v :: 'a vcpu_scheme)"
  by (auto dest: copy_to_user_frame(4) copy_from_user_frame(5) same_more_vcpu(1))

lemma kontext_home_fields [simp]:
  "kontext_home (k\<lparr>kn_first_thread := b\<rparr>) = kontext_home k" "kontext_home (k\<lparr>kn_new_thread := b\<rparr>) = kontext_home k"
  "kontext_home (k\<lparr>kn_debug_registers_set := b\<rparr>) = kontext_home k"
  "kontext_home (k\<lparr>kn_valid_payload_xsave_area := b\<rparr>) = kontext_home k" "kontext_home (k\<lparr>kn_native := n\<rparr>) = kontext_home k"
  "kontext_home (k\<lparr>kn_syscall_pending := b\<rparr>) = kontext_home k" "kontext_home (k\<lparr>kn_ret_val_mva := x\<rparr>) = kontext_home k"
  "kontext_home (k\<lparr>kn_exception_posted := b\<rparr>) = kontext_home k" "kontext_home (k\<lparr>kn_exception_saved_rax := x\<rparr>) = kontext_home k"
  "kontext_home (k\<lparr>kn_exception_saved_rbx := x\<rparr>) = kontext_home k" "kontext_home (k\<lparr>kn_trap_addr := x\<rparr>) = kontext_home k"
  "kontext_home (k\<lparr>kn_error_code := x\<rparr>) = kontext_home k" "kontext_home (k\<lparr>kn_prev_trap_no := x\<rparr>) = kontext_home k"
  "kontext_home (k\<lparr>kn_prev_trap_addr := x\<rparr>) = kontext_home k" "kontext_home (k\<lparr>kn_prev_error_code := x\<rparr>) = kontext_home k"
  "kontext_home (k\<lparr>kn_trap_repeat_counter := x\<rparr>) = kontext_home k"
  by (simp_all add: kontext_home_def)

lemma kontext_home_steps [simp]:
  "kontext_home (vc_kontext (on_regs f v)) = kontext_home (vc_kontext v)"
  "kontext_home (vc_kontext (set_decode bs v)) = kontext_home (vc_kontext v)"
  "kontext_home (vc_kontext (post_exception gva v)) = kontext_home (vc_kontext v)"
  by (simp_all add: on_regs_def set_decode_def post_exception_def Let_def kkm_setup_hypercall_def)

lemma run_class_home:
  assumes "run_class E c s = Some (r, s')"
  shows "kontext_home (vc_kontext s') = kontext_home (vc_kontext s)"
proof (cases c)
  case Trap_page_fault
  with assms have "kkm_process_page_fault E s = (r, s')" by (simp add: run_class_def)
  then show ?thesis by (simp add: page_fault_kontext)
qed (use assms in \<open>auto simp: run_class_def kkm_process_common_without_error_def kkm_process_common_with_error_def
      kkm_process_debug_def kkm_process_breakpoint_def kkm_process_general_protection_def kkm_process_syscall_def
      forward_native_def ktime_get_ns_def kkm_statistics_defs Let_def copy_kontext
      split: prod.splits if_splits option.splits\<close>)

lemma process_intr_home:
  assumes "kkm_process_intr E s = Some (r, s')"
  shows "kontext_home (vc_kontext s') = kontext_home (vc_kontext s)"
proof -
  obtain s1 where "run_class E (trap_class (ga_intr_no (vc_ga s))) (no_exit s) = Some (r, s1)"
    "s' = kkm_statistics_intr_count_inc s1"
    using assms by (auto simp: process_intr_dispatch)
  then show ?thesis by (simp add: run_class_home kkm_statistics_defs)
qed

lemma after_trap_home:
  assumes "after_trap E r s = x" "x = Stop r' s' \<or> x = Again s'"
  shows "kontext_home (vc_kontext s') = kontext_home (vc_kontext s)"
  using assms by (auto simp: after_trap_def Let_def split: if_splits)

lemma switch_turn_home:
  assumes P: "platform_calls P" and t: "switch_turn P im E s = x" and x: "x = Stop r' s' \<or> x = Again s'"
  shows "kontext_home (vc_kontext s') = kontext_home (vc_kontext s)"
proof -
  have "x \<noteq> Undefined_turn" using x by auto
  with t show ?thesis
  proof (cases rule: switch_turn_cases)
    case signal
    with x show ?thesis by auto
  next
    case (ran s2 r s3)
    obtain n where "vc_kontext s2 = (vc_kontext (kcall Ev_signal_pending s))\<lparr>kn_valid_payload_xsave_area := True, kn_native := n\<rparr>"
      using P ran(2) by (rule world_switch_facts)
    then have "kontext_home (vc_kontext s2) = kontext_home (vc_kontext s)" by simp
    then show ?thesis using process_intr_home [OF ran(3)] after_trap_home [OF ran(4) x] by simp
  qed
qed

lemma switch_loop_home:
  assumes P: "platform_calls P" and "switch_loop P im E n s = Returns (r, s')"
  shows "kontext_home (vc_kontext s') = kontext_home (vc_kontext s)"
  using assms(2)
proof (induction n arbitrary: s)
  case (Suc n)
  then show ?case
    using switch_turn_home [OF P, of im E s]
    by (auto split: turn.splits)
qed simp

lemma switch_prologue_home:
  assumes "switch_prologue E s = (r, s')"
  shows "kontext_home (vc_kontext s') = kontext_home (vc_kontext s)"
proof -
  have "kontext_home (vc_kontext u') = kontext_home (vc_kontext u)"
    if "kkm_kontext_handle_syscall_response E u = (q, u')" for u u' :: "'a vcpu_scheme" and q
    using that by (auto simp: kkm_kontext_handle_syscall_response_def Let_def copy_kontext split: if_splits prod.splits)
  then show ?thesis using assms
    by (auto simp: switch_prologue_def Let_def split: if_splits prod.splits)
qed

lemma switch_kernel_home:
  assumes P: "platform_calls P" and run: "kkm_kontext_switch_kernel P im E n s = Returns (r, s')"
  shows "kontext_home (vc_kontext s') = kontext_home (vc_kontext s)"
proof -
  obtain q s1 where p: "switch_prologue E s = (q, s1)" by fastforce
  show ?thesis
    using run p switch_prologue_home [OF p] switch_loop_home [OF P, of im E n s1 r s']
    by (auto simp: kkm_kontext_switch_kernel_def split: if_splits)
qed

definition page_frame :: "linux \<Rightarrow> 'a vcpu_scheme \<Rightarrow> _" where
  "page_frame E s = (vm_kkm s, kkm_mmu_kx s, outstanding E (klog s), kontext_home (vc_kontext s))"

lemma page_frame_more:
  "\<lbrakk>host.more s' = host.more s; kkm_mmu_kx s' = kkm_mmu_kx s; outstanding E (klog s') = outstanding E (klog s)\<rbrakk> \<Longrightarrow>
     page_frame E s' = page_frame E (s :: 'a vcpu_scheme)"
  using same_more_vm [of s' s] same_more_vcpu(1) [of s' s] by (simp add: page_frame_def)

lemma page_frame_steps [simp]:
  "page_frame E (s\<lparr>vc_ga := g\<rparr>) = page_frame E s" "page_frame E (s\<lparr>vc_run := x\<rparr>) = page_frame E s"
  "page_frame E (s\<lparr>vc_payload_xstate := y\<rparr>) = page_frame E s" "page_frame E (s\<lparr>vc_pa := z\<rparr>) = page_frame E s"
  by (simp_all add: page_frame_def)

lemma page_frame_on_kontext [simp]:
  "kontext_home (f (vc_kontext s)) = kontext_home (vc_kontext s) \<Longrightarrow> page_frame E (on_kontext f s) = page_frame E s"
  by (simp add: page_frame_def on_kontext_def)

lemma to_user_frame: "kkm_to_user E dest bs s = (r, s') \<Longrightarrow> page_frame E s' = page_frame E s"
  by (auto simp: kkm_to_user_def split: prod.splits intro: page_frame_more dest: copy_to_user_frame)

lemma from_user_frame: "kkm_from_user E src n s = (r, bs, s') \<Longrightarrow> page_frame E s' = page_frame E s"
  by (auto simp: kkm_from_user_def split: prod.splits intro: page_frame_more dest: copy_from_user_frame)

lemma set_regs_frame:
  "config (kkm_set_regs s) = config s" "klog (kkm_set_regs s) = klog s" "vc_kontext (kkm_set_regs s) = vc_kontext s"
  "ga_guest_payload_cr3 (vc_ga (kkm_set_regs s)) = ga_guest_payload_cr3 (vc_ga s)"
  by (simp_all add: kkm_set_regs_def Let_def config_def)

lemma get_regs_frame [simp]: "page_frame E (kkm_get_regs s) = page_frame E s"
  by (simp add: kkm_get_regs_def Let_def)

lemma run_contract:
  assumes P: "platform_calls P" and ok: "turn_ok E s" and run: "kkm_run P im E n s = Returns (r, s')"
  shows "page_frame E s' = page_frame E s" "r = 0 \<or> r = - EINTR \<or> r = - EFAULT"
proof -
  obtain s1 where k: "kkm_kontext_switch_kernel P im E n (kkm_set_regs s) = Returns (r, s1)" and s': "s' = kkm_get_regs s1"
    using run by (auto simp: kkm_run_def split: outcome.splits prod.splits)
  have ok': "turn_ok E (kkm_set_regs s)" using ok turn_ok_config [of "kkm_set_regs s" s E] by (simp add: set_regs_frame)
  have "unseen E (kkm_set_regs s) s1" by (rule switch_kernel_contract [OF P ok' k])
  moreover have "page_frame E (kkm_set_regs s) = page_frame E s"
    using set_regs_frame(1) [of s] by (simp add: page_frame_def set_regs_frame config_def)
  moreover have "page_frame E s1 = page_frame E (kkm_set_regs s)"
    using calculation(1) switch_kernel_home [OF P k] by (simp add: unseen_def page_frame_def)
  ultimately show "page_frame E s' = page_frame E s" by (simp add: s')
  show "r = 0 \<or> r = - EINTR \<or> r = - EFAULT" by (rule switch_kernel_contract [OF P ok' k])
qed

lemma save_info_frame [simp]:
  "page_frame E (kkm_kontext_set_save_info si s) = page_frame E s"
  "kkm_kontext_get_save_info s = (si', s1) \<Longrightarrow> page_frame E s1 = page_frame E s"
  "kkm_kontext_reinit s = (r, s1) \<Longrightarrow> page_frame E s1 = page_frame E s"
  by (auto simp: kkm_kontext_set_save_info_def kkm_kontext_get_save_info_def kkm_kontext_reinit_def reset_pending_def Let_def)

lemma ioctl_contract:
  assumes P: "platform_calls P" and ok: "turn_ok E s"
    and i: "kkm_execution_kontext_ioctl P im E n stack t arg s = Returns (r, s')"
  shows "page_frame E s' = page_frame E s"
proof (cases "t = KKM_RUN")
  case True
  then show ?thesis using i run_contract [OF P ok] by (simp add: kkm_execution_kontext_ioctl_def)
next
  case False
  then show ?thesis using i
    by (auto simp: kkm_execution_kontext_ioctl_def kkm_set_msrs_def get_xstate_def set_xstate_def Let_def
        split: if_splits prod.splits dest!: to_user_frame from_user_frame)
qed

subsection \<open>Registers written are the registers read\<close>

lemma ioctl_regs:
  "kkm_execution_kontext_ioctl P im E n stack KKM_SET_REGS src s =
     (case kkm_from_user E src 144 s of (r, bs, s1) \<Rightarrow> Returns (r, s1\<lparr>vc_ga := (vc_ga s1)\<lparr>ga_regs := bytes_regs bs\<rparr>\<rparr>))"
  "kkm_execution_kontext_ioctl P im E n stack KKM_GET_REGS dest s = Returns (kkm_to_user E dest (regs_bytes (ga_regs (vc_ga s))) s)"
  "kkm_execution_kontext_ioctl P im E n stack KKM_SET_SREGS src s =
     (case kkm_from_user E src 312 s of (r, bs, s1) \<Rightarrow> Returns (r, s1\<lparr>vc_ga := (vc_ga s1)\<lparr>ga_sregs := bytes_sregs bs\<rparr>\<rparr>))"
  "kkm_execution_kontext_ioctl P im E n stack KKM_GET_SREGS dest s = Returns (kkm_to_user E dest (sregs_bytes (ga_sregs (vc_ga s))) s)"
  by (simp_all add: kkm_execution_kontext_ioctl_def ioctl_values sizeof_def shapes split: prod.split)

lemma from_user_ok: "kkm_from_user E src n s = (0, bs, s') \<Longrightarrow> copy_from_user E src n s = (0, bs, s')"
  by (auto simp: kkm_from_user_def split: prod.splits if_splits)

lemma to_user_ok: "kkm_to_user E dest bs s = (0, s') \<Longrightarrow> copy_to_user E dest bs s = (0, s')"
  by (auto simp: kkm_to_user_def split: prod.splits if_splits)


lemma example_copies:
  "\<exists>s'. kkm_to_user example_linux dest bs s = (0, s')"
  "\<exists>bs s'. kkm_from_user example_linux src n s = (0, bs, s')"
  by (simp_all add: kkm_to_user_def kkm_from_user_def copy_to_user_def copy_from_user_def Let_def example_linux_def)


subsection \<open>The extended state\<close>

lemma length_xs_parts:
  assumes "length xs = 4096"
  shows "length (xs_seal E b f xs) = 4096" "length (xs_clear xs) = 4096"
  using assms by (simp_all add: xs_seal_def xs_clear_def Let_def length_put_bytes)

lemma xs_seal_parts:
  assumes "length xs = 4096"
  shows "xs_valid (xs_seal E b f xs) = b" "xs_format (xs_seal E b f xs) = xstate_format_code f"
    "xs_data (xs_seal E b f xs) = xs_data xs" "xs_crc32 (xs_seal E b f xs) = lx_crc32 E (xs_data xs)"
  using assms
  by (simp_all add: xs_seal_def xs_valid_def xs_format_def xs_data_def xs_crc32_def Let_def length_put_bytes nth_put_bytes
      get_put_other get_put_exact bool_byte_def)

lemma xs_clear_data: "length xs = 4096 \<Longrightarrow> xs_data (xs_clear xs) = xs_data xs"
  by (simp add: xs_clear_def xs_data_def length_put_bytes get_put_other)

lemma ioctl_xstate:
  "kkm_execution_kontext_ioctl P im E n stack KKM_KONTEXT_GET_XSTATE arg s = Returns (get_xstate E arg s)"
  "kkm_execution_kontext_ioctl P im E n stack KKM_KONTEXT_SET_XSTATE arg s = Returns (set_xstate E arg s)"
  by (simp_all add: kkm_execution_kontext_ioctl_def ioctl_values)

text \<open>C15 The extended state survives a signal handler: what one ioctl delivered, the other takes back, restoring the data and
  whether it is valid, as long as the format of the module is the same. Any other bytes are refused with
  -EINVAL and leave the kontext without a valid extended state, unless they carry the module's format and the
  checksum of their data.\<close>

theorem xstate_saved_and_restored:
  assumes "length (vc_payload_xstate s) = 4096"
    and "kkm_execution_kontext_ioctl P im E fuel stack KKM_KONTEXT_GET_XSTATE a s = Returns (0, s1)"
    and "kkm_execution_kontext_ioctl P im E fuel stack KKM_KONTEXT_SET_XSTATE b s2 = Returns (r, s3)" "r \<noteq> - EFAULT"
    and "xs = mem_load (um s2) b 4096" "kkm_xs_format s2 = kkm_xs_format s"
  shows "(r = 0 \<longleftrightarrow> xs_format xs = xstate_format_code (kkm_xs_format s) \<and> xs_crc32 xs = lx_crc32 E (xs_data xs)) \<and>
    (r \<noteq> 0 \<longrightarrow> r = - EINVAL \<and> \<not> kn_valid_payload_xsave_area (vc_kontext s3)) \<and>
    (xs = mem_load (um s1) a 4096 \<longrightarrow> r = 0 \<and> xs_data (vc_payload_xstate s3) = xs_data (vc_payload_xstate s) \<and>
       kn_valid_payload_xsave_area (vc_kontext s3) = kn_valid_payload_xsave_area (vc_kontext s))"
proof -
  define sealed where "sealed = xs_seal E (kn_valid_payload_xsave_area (vc_kontext s)) (kkm_xs_format s) (vc_payload_xstate s)"
  obtain t where g: "kkm_to_user E a sealed (s\<lparr>vc_payload_xstate := sealed\<rparr>) = (0, t)" "um s1 = um t"
    using assms(2) by (auto simp: ioctl_xstate get_xstate_def Let_def sealed_def split: prod.splits)
  have sealed: "mem_load (um s1) a 4096 = sealed"
    using copy_to_user_state [OF to_user_ok [OF g(1)]] g(2) mem_load_mem_store [of sealed a "um s"]
    by (simp add: sealed_def length_xs_parts [OF assms(1)])
  obtain q u where f: "kkm_from_user E b 4096 s2 = (q, xs, u)" "q = 0"
  proof -
    obtain left bs u where c: "copy_from_user E b 4096 s2 = (left, bs, u)" by (rule prod_cases3)
    have "left = 0" using assms(3,4) c
      by (auto simp: ioctl_xstate set_xstate_def kkm_from_user_def Let_def sizeof_def shapes split: if_splits)
    with c copy_from_user_ok [of E b 4096 s2 bs u] assms(5) show thesis
      by (intro that) (simp_all add: kkm_from_user_def)
  qed
  have fmt: "kkm_xs_format u = kkm_xs_format s"
    using copy_from_user_state [OF from_user_ok [OF f(1) [unfolded f(2)]]] assms(6) by simp
  have len: "length xs = 4096" by (simp add: assms(5))
  note facts = xs_seal_parts [OF assms(1)] xs_clear_data [OF len]
  show ?thesis
    using assms(3,6) f fmt sealed facts
    by (auto simp: ioctl_xstate set_xstate_def Let_def sizeof_def shapes sealed_def split: if_splits)
qed

theorem xstate_saved_and_restored_witness:
  "\<exists>s1 r s3. kkm_execution_kontext_ioctl (kkm_platform Platform_pv) example_image example_linux 0 [] KKM_KONTEXT_GET_XSTATE 0x5000
       example_vcpu = Returns (0, s1) \<and>
     kkm_execution_kontext_ioctl (kkm_platform Platform_pv) example_image example_linux 0 [] KKM_KONTEXT_SET_XSTATE 0x5000 s1
       = Returns (0, s3) \<and> xs_data (vc_payload_xstate s3) = xs_data (vc_payload_xstate example_vcpu)"
proof -
  let ?i = "kkm_execution_kontext_ioctl (kkm_platform Platform_pv) example_image example_linux 0 []"
  obtain s1 where a: "?i KKM_KONTEXT_GET_XSTATE 0x5000 example_vcpu = Returns (0, s1)"
    and f: "kkm_xs_format s1 = kkm_xs_format example_vcpu"
    by (auto simp: ioctl_xstate get_xstate_def kkm_to_user_def copy_to_user_def Let_def example_linux_def kcall_def)
  obtain r s3 where b: "?i KKM_KONTEXT_SET_XSTATE 0x5000 s1 = Returns (r, s3)" and r: "r \<noteq> - EFAULT"
  proof -
    obtain r s3 where q: "set_xstate example_linux 0x5000 s1 = (r, s3)" by fastforce
    have "r \<noteq> - EFAULT" using q example_copies(2) [of "0x5000" 4096 s1]
      by (auto simp: set_xstate_def Let_def sizeof_def shapes split: if_splits)
    with q show thesis by (intro that) (simp_all add: ioctl_xstate)
  qed
  have "length (vc_payload_xstate example_vcpu) = 4096" by (simp add: example_vcpu_def vm.defs vcpu.defs)
  from xstate_saved_and_restored [OF this a b r refl f] a b show ?thesis by auto
qed

end
