(* ===== verification/Kkm_Main.thy ===== *)
theory Kkm_Main
  imports Kkm_Kontainer Kkm_Ioctl
begin

section \<open>Kontainers and their files (\<open>kkm_main.c\<close>)\<close>

text \<open>
  A kontainer with everything that hangs off it: the structure \<open>kkm\<close> itself, the kontext objects it points
  to, by address, and whether the structure was freed. The user reaches it through file descriptors: one
  for the kontainer, one for each kontext; the structure is reference counted by them. An operation that the C code
  would perform on memory it does not own (a slot beyond an array, an object that is gone) is \<open>None\<close>.
\<close>

record kontext_obj =
  ko_kontext :: kkm_kontext
  ko_ga :: kkm_guest_area
  ko_run :: kkm_run_page
  ko_pa :: kkm_private_area
  ko_kernel_xstate :: "u8 list"
  ko_payload_xstate :: "u8 list"

record guest = vm +
  gs_kkm_addr :: u64
  gs_freed :: bool
  gs_kontexts :: "u64 \<Rightarrow> kontext_obj option"

subsection \<open>A kontext of a kontainer as a state of its own\<close>

definition enter_kontext :: "kontext_obj \<Rightarrow> 'a guest_scheme \<Rightarrow> vcpu" where
  "enter_kontext ko g = vm.extend (vm.truncate g)
     (vcpu.fields (ko_kontext ko) (ko_ga ko) (ko_run ko) (ko_pa ko) (ko_kernel_xstate ko) (ko_payload_xstate ko))"

definition kontext_of :: "vcpu \<Rightarrow> kontext_obj" where
  "kontext_of v = \<lparr>ko_kontext = vc_kontext v, ko_ga = vc_ga v, ko_run = vc_run v, ko_pa = vc_pa v,
     ko_kernel_xstate = vc_kernel_xstate v, ko_payload_xstate = vc_payload_xstate v\<rparr>"

definition set_kontext :: "u64 \<Rightarrow> kontext_obj \<Rightarrow> 'a guest_scheme \<Rightarrow> 'a guest_scheme" where
  "set_kontext a ko g = g\<lparr>gs_kontexts := (gs_kontexts g)(a \<mapsto> ko)\<rparr>"

definition leave_kontext :: "u64 \<Rightarrow> vcpu \<Rightarrow> 'a guest_scheme \<Rightarrow> 'a guest_scheme" where
  "leave_kontext a v g = vm.extend (vm.truncate v) (vm.more (set_kontext a (kontext_of v) g))"

definition on_object :: "u64 \<Rightarrow> (kkm_kontext \<Rightarrow> kkm_kontext) \<Rightarrow> 'a guest_scheme \<Rightarrow> 'a guest_scheme" where
  "on_object a f g =
     (case gs_kontexts g a of None \<Rightarrow> g | Some ko \<Rightarrow> set_kontext a (ko\<lparr>ko_kontext := f (ko_kontext ko)\<rparr>) g)"

subsection \<open>Zeroed objects\<close>

definition zero_native :: kkm_native where
  "zero_native = \<lparr>native_kernel_cr3 = 0, native_kernel_cr4 = 0, native_kernel_ds = 0, native_kernel_es = 0,
     native_kernel_fs = 0, native_kernel_fs_base = 0, native_kernel_gs = 0, native_kernel_gs_base = 0,
     native_kernel_gs_kern_base = 0, native_kernel_ss = 0, native_kernel_entry_syscall_64 = 0,
     native_debug_registers = replicate 8 0\<rparr>"

definition zero_kontext :: kkm_kontext where
  "zero_kontext =
     \<lparr>kn_id = 0, kn_index = 0, kn_used = False, kn_first_thread = False, kn_new_thread = False,
      kn_debug_registers_set = False, kn_kontext_fd = 0, kn_task = 0, kn_kkm = 0,
      kn_mmap_area = replicate KKM_CONTEXT_MAP_PAGE_COUNT \<lparr>ma_page = 0, ma_kvaddr = 0, ma_offset = 0\<rparr>,
      kn_guest_area_page = 0, kn_guest_area = 0, kn_guest_area_page0_pa = 0, kn_guest_area_page1_pa = 0,
      kn_xsave = no_page, kn_kernel_xsave = 0, kn_payload_xsave = 0, kn_valid_payload_xsave_area = False,
      kn_native = zero_native, kn_syscall_pending = False, kn_ret_val_mva = 0, kn_exception_posted = False,
      kn_exception_saved_rax = 0, kn_exception_saved_rbx = 0, kn_trap_addr = 0, kn_error_code = 0,
      kn_prev_trap_no = 0, kn_prev_trap_addr = 0, kn_prev_error_code = 0, kn_trap_repeat_counter = 0\<rparr>"

definition zero_run :: kkm_run_page where
  "zero_run =
     \<lparr>immediate_exit = 0, exit_reason = 0,
      run_io = \<lparr>io_direction = 0, io_size = 0, io_port = 0, io_count = 0, io_data_offset = 0\<rparr>,
      run_debug = \<lparr>arch_exception = 0, arch_reserved = 0, arch_pc = 0, arch_dr6 = 0, arch_dr7 = 0\<rparr>,
      kkm_valid_regs = 0, kkm_dirty_regs = 0, run_regs = zero_regs, run_sregs = zero_sregs\<rparr>"

definition zero_obj :: kontext_obj where
  "zero_obj = \<lparr>ko_kontext = zero_kontext, ko_ga = zero_guest_area, ko_run = zero_run,
     ko_pa = \<lparr>pa_data = 0, pa_reason = 0\<rparr>, ko_kernel_xstate = replicate 4096 0, ko_payload_xstate = replicate 4096 0\<rparr>"

definition zero_slot :: kkm_mem_slot where
  "zero_slot = \<lparr>ms_used = False, ms_npages = 0, ms_user_pfn = 0,
     ms_mr = \<lparr>mr_slot = 0, mr_flags = 0, guest_phys_addr = 0, memory_size = 0, userspace_addr = 0\<rparr>\<rparr>"

definition zero_kkm :: kkm_kontainer where
  "zero_kkm =
     \<lparr>km_id = 0, km_kontainer_fd = 0, km_reference_count = 0, km_mm = 0, km_mem_slot_count = 0,
      km_mem_slot = replicate KKM_MAX_MEMORY_SLOTS zero_slot, km_id_map_addr = 0, km_kontext_count = 0,
      km_kontext = replicate KKM_MAX_CONTEXTS 0, km_gk_pgd = no_page, km_gp_pgd = no_page, km_gk_p4d = no_page,
      km_gp_p4d = no_page, km_low_p4d = no_page, km_guest_pml4e = no_pml4e\<rparr>"

subsection \<open>Reference counts\<close>

text \<open>Linux's \<open>refcount_t\<close>: an increment of 0 and a decrement of 0 saturate the counter for ever.\<close>

abbreviation (input) REFCOUNT_SATURATED :: u32 where "REFCOUNT_SATURATED \<equiv> 0xC0000000"

definition refcount_inc :: "u32 \<Rightarrow> u32" where
  "refcount_inc n = (if n = 0 \<or> n \<ge> 0x7FFFFFFF then REFCOUNT_SATURATED else n + 1)"

definition refcount_dec_and_test :: "u32 \<Rightarrow> bool \<times> u32" where
  "refcount_dec_and_test n = (if n = 1 then (True, 0) else if n = 0 \<or> n > 0x7FFFFFFF then (False, REFCOUNT_SATURATED) else (False, n - 1))"

text \<open>Every kontext object is freed, then the tables and the structure itself.\<close>

definition kkm_destroy_app :: "'a guest_scheme \<Rightarrow> 'a guest_scheme" where
  "kkm_destroy_app g =
     (let g1 = fold (\<lambda>a g. if a \<noteq> 0 then (kcall (Ev_kfree a) g)\<lparr>gs_kontexts := (gs_kontexts g)(a := None)\<rparr> else g)
                 (km_kontext (vm_kkm g)) g;
          g2 = on_kkm (\<lambda>k. k\<lparr>km_kontext := replicate KKM_MAX_CONTEXTS 0\<rparr>) g1;
          g3 = kkm_kontainer_cleanup g2
      in (kcall (Ev_kfree (gs_kkm_addr g3)) g3)\<lparr>gs_freed := True\<rparr>)"

definition kkm_reference_count_init :: "'a guest_scheme \<Rightarrow> 'a guest_scheme" where
  "kkm_reference_count_init = on_kkm (\<lambda>k. k\<lparr>km_reference_count := 1\<rparr>)"

definition kkm_reference_count_up :: "'a guest_scheme \<Rightarrow> 'a guest_scheme" where
  "kkm_reference_count_up = on_kkm (\<lambda>k. k\<lparr>km_reference_count := refcount_inc (km_reference_count k)\<rparr>)"

definition kkm_reference_count_down :: "'a guest_scheme \<Rightarrow> 'a guest_scheme" where
  "kkm_reference_count_down g =
     (case refcount_dec_and_test (km_reference_count (vm_kkm g)) of (was_last, n) \<Rightarrow>
      let g1 = on_kkm (\<lambda>k. k\<lparr>km_reference_count := n\<rparr>) g
      in if was_last then kkm_destroy_app g1 else g1)"

subsection \<open>The release of a kontext file\<close>

text \<open>Its mapped pages are freed, those that were allocated.\<close>

definition free_map_pages :: "u64 \<Rightarrow> kontext_obj \<Rightarrow> 'a guest_scheme \<Rightarrow> 'a guest_scheme" where
  "free_map_pages a ko g =
     fold (\<lambda>i g. let va = ma_kvaddr (kn_mmap_area (ko_kontext ko) ! i)
                 in if va \<noteq> 0
                    then on_object a (\<lambda>k. k\<lparr>kn_mmap_area := (kn_mmap_area k)[i := (kn_mmap_area k ! i)\<lparr>ma_kvaddr := 0\<rparr>]\<rparr>)
                           (free_pages va 0 g)
                    else g)
       [0..<KKM_CONTEXT_MAP_PAGE_COUNT] g"

definition kkm_execution_kontext_release :: "u64 \<Rightarrow> 'a guest_scheme \<Rightarrow> 'a guest_scheme option" where
  "kkm_execution_kontext_release a g =
     (case gs_kontexts g a of
        None \<Rightarrow> None
      | Some ko \<Rightarrow>
          let g1 = leave_kontext a (kkm_kontext_cleanup (enter_kontext ko g)) g;
              g2 = free_map_pages a ko g1;
              g3 = on_object a (\<lambda>k. k\<lparr>kn_used := False, kn_first_thread := False\<rparr>) g2;
              g4 = kcall (Ev_mutex_lock Kontext_lock) g3;
              g5 = on_kkm (\<lambda>k. k\<lparr>km_kontext_count := km_kontext_count k - 1\<rparr>) g4;
              g6 = kcall (Ev_mutex_unlock Kontext_lock) g5
          in Some (kkm_reference_count_down g6))"

subsection \<open>Adding a kontext\<close>

text \<open>The first slot that is empty or whose kontext is not in use; \<open>KKM_MAX_CONTEXTS\<close> when there is none.\<close>

fun find_slot :: "(u64 \<Rightarrow> kontext_obj option) \<Rightarrow> u64 list \<Rightarrow> nat \<Rightarrow> nat" where
  "find_slot m [] i = i"
| "find_slot m (a # as) i =
     (if a = 0 then i
      else case m a of None \<Rightarrow> i | Some ko \<Rightarrow> if kn_used (ko_kontext ko) = False then i else find_slot m as (Suc i))"

text \<open>The pages of the mapping, until an allocation fails. Page 0 is the run page, page 1 the private area.\<close>

fun map_pages :: "linux \<Rightarrow> u64 \<Rightarrow> nat list \<Rightarrow> 'a guest_scheme \<Rightarrow> bool \<times> 'a guest_scheme" where
  "map_pages E a [] g = (True, g)"
| "map_pages E a (i # is) g =
     (case alloc_pages E 0 g of (p, g1) \<Rightarrow>
      let area = (\<lambda>f. on_object a (\<lambda>k. k\<lparr>kn_mmap_area := (kn_mmap_area k)[i := f (kn_mmap_area k ! i)]\<rparr>));
          g2 = area (\<lambda>ma. ma\<lparr>ma_offset := i, ma_page := p\<rparr>) g1
      in if p = 0 then (False, g2)
         else let g3 = area (\<lambda>ma. ma\<lparr>ma_kvaddr := lx_page_address E p\<rparr>) g2;
                  zero = (\<lambda>ko. if i = 0 then ko\<lparr>ko_run := zero_run\<rparr> else if i = 1 then ko\<lparr>ko_pa := \<lparr>pa_data = 0, pa_reason = 0\<rparr>\<rparr> else ko)
              in map_pages E a is (g3\<lparr>gs_kontexts := (gs_kontexts g3)(a := map_option zero (gs_kontexts g3 a))\<rparr>))"

text \<open>From the kontext in its slot to the result.\<close>

definition start_kontext :: "linux \<Rightarrow> u32 \<Rightarrow> u64 \<Rightarrow> 'a guest_scheme \<Rightarrow> (int \<times> 'a guest_scheme) option" where
  "start_kontext E vcpu_id a g =
     (let g1 = g\<lparr>kkm_object_id := kkm_object_id g + 1\<rparr>;
          g2 = on_object a (\<lambda>k. k\<lparr>kn_id := kkm_object_id g1, kn_index := ucast vcpu_id, kn_used := True,
                 kn_first_thread := (km_kontext_count (vm_kkm g1) = 0), kn_task := lx_current E, kn_kkm := gs_kkm_addr g1\<rparr>) g1;
          fd = lx_anon_inode_getfd E (klog g2);
          g3 = on_object a (\<lambda>k. k\<lparr>kn_kontext_fd := fd\<rparr>) (kcall (Ev_anon_inode_getfd fd) g2);
          ret_val = (if fd \<ge> 0 then fd else 0)
      in case map_pages E a [0..<KKM_CONTEXT_MAP_PAGE_COUNT] g3 of (ok, g4) \<Rightarrow>
      case gs_kontexts g4 a of
        None \<Rightarrow> None
      | Some ko \<Rightarrow>
          if \<not> ok then Some (- ENOMEM, g4)
          else case kkm_kontext_init E a (enter_kontext ko g4) of (r, v) \<Rightarrow>
            let g5 = leave_kontext a v g4
            in if r \<noteq> 0 then Some (ret_val, g5)
               else Some (ret_val, kkm_statistics_kontext_count_inc
                      (on_kkm (\<lambda>k. k\<lparr>km_kontext_count := km_kontext_count k + 1\<rparr>) (kkm_reference_count_up g5))))"

definition kkm_add_execution_kontext :: "linux \<Rightarrow> u64 \<Rightarrow> 'a guest_scheme \<Rightarrow> (int \<times> 'a guest_scheme) option" where
  "kkm_add_execution_kontext E arg g =
     (let vcpu_id = (ucast arg :: u32);
          g1 = kcall (Ev_mutex_lock Kontext_lock) g;
          unlock = (\<lambda>(r, g). (r, kcall (Ev_mutex_unlock Kontext_lock) g))
      in if km_mm (vm_kkm g1) \<noteq> lx_current_mm E then Some (unlock (- EINVAL, g1))
      else if unat vcpu_id \<ge> KKM_MAX_CONTEXTS then Some (unlock (- EINVAL, g1))
      else if unat (km_kontext_count (vm_kkm g1)) \<ge> KKM_MAX_CONTEXTS then Some (unlock (- EINVAL, g1))
      else
        let i = find_slot (gs_kontexts g1) (km_kontext (vm_kkm g1)) 0
        in if i = KKM_MAX_CONTEXTS then None
        else if km_kontext (vm_kkm g1) ! i = 0 then
          let a = lx_kzalloc E (klog g1);
              g2 = on_kkm (\<lambda>k. k\<lparr>km_kontext := (km_kontext k)[i := a]\<rparr>) (kcall (Ev_kzalloc a) g1)
          in if a = 0 then Some (unlock (- ENOMEM, g2))
             else map_option unlock (start_kontext E vcpu_id a (set_kontext a zero_obj g2))
        else map_option unlock (start_kontext E vcpu_id (km_kontext (vm_kkm g1) ! i) g1))"

subsection \<open>Memory slots\<close>

definition aligned :: "u64 \<Rightarrow> bool" where
  "aligned x \<longleftrightarrow> x AND (PAGE_SIZE - 1) = 0"

text \<open>The loop that looks for an overlap, left at the first one. Slots in use are skipped.\<close>

fun find_overlap :: "kkm_memory_region \<Rightarrow> kkm_mem_slot list \<Rightarrow> bool" where
  "find_overlap mr [] = False"
| "find_overlap mr (current_slot # slots) =
     (if ms_used current_slot = True then find_overlap mr slots
      else if userspace_addr (ms_mr current_slot) \<le> userspace_addr mr \<and>
              userspace_addr mr < userspace_addr (ms_mr current_slot) + memory_size (ms_mr current_slot) then True
      else if guest_phys_addr (ms_mr current_slot) \<le> guest_phys_addr mr \<and>
              guest_phys_addr mr < guest_phys_addr (ms_mr current_slot) + memory_size (ms_mr current_slot) then True
      else find_overlap mr slots)"

definition slot_of :: "kkm_memory_region \<Rightarrow> kkm_mem_slot" where
  "slot_of mr = \<lparr>ms_used = True, ms_npages = drop_bit PAGE_SHIFT (memory_size mr),
     ms_user_pfn = drop_bit PAGE_SHIFT (userspace_addr mr), ms_mr = mr\<rparr>"

text \<open>What becomes of the slot table, under the lock; the result is 0 or an error.\<close>

definition change_slot :: "kkm_memory_region \<Rightarrow> kkm_kontainer \<Rightarrow> int \<times> kkm_kontainer" where
  "change_slot mr kkm =
     (let i = unat (mr_slot mr); slot = km_mem_slot kkm ! i
      in if memory_size mr = 0 \<and> ms_used slot = False then (- EINVAL, kkm)
         else if memory_size mr \<noteq> 0 \<and> ms_used slot = True then (- EINVAL, kkm)
         else if memory_size mr = 0
         then (0, kkm\<lparr>km_mem_slot := (km_mem_slot kkm)[i := zero_slot], km_mem_slot_count := km_mem_slot_count kkm - 1\<rparr>)
         else (if find_overlap mr (km_mem_slot kkm) then - EINVAL else 0,
               kkm\<lparr>km_mem_slot := (km_mem_slot kkm)[i := slot_of mr], km_mem_slot_count := km_mem_slot_count kkm + 1\<rparr>))"

definition slot_refused :: "kkm_memory_region \<Rightarrow> kkm_kontainer \<Rightarrow> bool" where
  "slot_refused mr kkm \<longleftrightarrow> (memory_size mr = 0) = (ms_used (km_mem_slot kkm ! unat (mr_slot mr)) = False)"

definition kkm_set_kontainer_memory :: "linux \<Rightarrow> u64 \<Rightarrow> 'a guest_scheme \<Rightarrow> (int \<times> 'a guest_scheme) option" where
  "kkm_set_kontainer_memory E arg g =
     (case copy_from_user E arg (sizeof t_kkm_memory_region) g of (left, bs, g1) \<Rightarrow>
      if left \<noteq> 0 then Some (- EFAULT, g1)
      else let mr = bytes_memory_region bs in
      if unat (mr_slot mr) > KKM_MAX_MEMORY_SLOTS then Some (- EINVAL, g1)
      else if \<not> aligned (guest_phys_addr mr) \<or> \<not> aligned (memory_size mr) \<or> \<not> aligned (userspace_addr mr) then Some (- EINVAL, g1)
      else if unat (mr_slot mr) = KKM_MAX_MEMORY_SLOTS then None
      else
        let g2 = kcall (Ev_mutex_lock Mem_lock) g1
        in case change_slot mr (vm_kkm g2) of (ret_val, kkm) \<Rightarrow>
        let g3 = on_kkm (\<lambda>_. kkm) g2;
            g4 = (if slot_refused mr (vm_kkm g2) then g3
                  else snd (kkm_mmu_sync E (lx_pgd_of_mm E (km_mm kkm)) (pi_va (km_gk_pgd kkm)) (pi_va (km_gp_pgd kkm))
                              (km_guest_pml4e kkm) (pi_va (km_low_p4d kkm)) (pi_pa (km_low_p4d kkm)) g3))
        in Some (ret_val, kcall (Ev_mutex_unlock Mem_lock) g4))"

definition kkm_set_id_map_addr :: "linux \<Rightarrow> u64 \<Rightarrow> 'a guest_scheme \<Rightarrow> int \<times> 'a guest_scheme" where
  "kkm_set_id_map_addr E arg g =
     (case copy_from_user E arg 8 g of (left, bs, g1) \<Rightarrow>
      if left \<noteq> 0 then (- EFAULT, g1) else (0, on_kkm (\<lambda>k. k\<lparr>km_id_map_addr := of_le bs\<rparr>) g1))"

subsection \<open>The files of a kontainer\<close>

definition kkm_kontainer_release :: "'a guest_scheme \<Rightarrow> 'a guest_scheme" where
  "kkm_kontainer_release = kkm_reference_count_down"

definition kkm_kontainer_ioctl :: "linux \<Rightarrow> u32 \<Rightarrow> u64 \<Rightarrow> 'a guest_scheme \<Rightarrow> (int \<times> 'a guest_scheme) option" where
  "kkm_kontainer_ioctl E ioctl_type arg g =
     (if ioctl_type = KKM_ADD_EXECUTION_CONTEXT then kkm_add_execution_kontext E arg g
      else if ioctl_type = KKM_MEMORY then kkm_set_kontainer_memory E arg g
      else if ioctl_type = KKM_SET_ID_MAP_ADDR then Some (kkm_set_id_map_addr E arg g)
      else Some (- EOPNOTSUPP, g))"

text \<open>The new kontainer takes the place of whatever kontainer the state had: other kontainers are other
  structures.\<close>

definition kkm_create_kontainer :: "linux \<Rightarrow> 'a guest_scheme \<Rightarrow> int \<times> 'a guest_scheme" where
  "kkm_create_kontainer E g =
     (let addr = lx_kzalloc E (klog g); g1 = kcall (Ev_kzalloc addr) g
      in if addr = 0 then (- ENOMEM, g1)
      else
        let g2 = (on_kkm (\<lambda>_. zero_kkm) g1)\<lparr>gs_kkm_addr := addr, gs_freed := False, gs_kontexts := (\<lambda>_. None)\<rparr>;
            fd = lx_anon_inode_getfd E (klog g2);
            g3 = on_kkm (\<lambda>k. k\<lparr>km_kontainer_fd := fd\<rparr>) (kcall (Ev_anon_inode_getfd fd) g2)
        in if fd < 0 then (fd, g3)
        else
          let g4 = g3\<lparr>kkm_object_id := kkm_object_id g3 + 1\<rparr>;
              g5 = on_kkm (\<lambda>k. k\<lparr>km_id := kkm_object_id g4, km_mm := lx_current_mm E\<rparr>) g4
          in case kkm_kontainer_init E g5 of (r1, g6) \<Rightarrow>
          if r1 \<noteq> 0 then (r1, g6)
          else let k = vm_kkm g6 in
            case kkm_mmu_copy_kernel_pgd E (lx_pgd_of_mm E (km_mm k)) (pi_va (km_gk_pgd k)) (pi_va (km_gp_pgd k))
                   (pi_va (km_gk_p4d k)) (pi_va (km_gp_p4d k)) g6 of (r2, g7) \<Rightarrow>
            if r2 \<noteq> 0 then (r2, g7)
            else (km_kontainer_fd k, kkm_statistics_kontainer_count_inc (kkm_reference_count_init g7)))"

end
