(* ===== verification/Kkm_Slots.thy ===== *)
theory Kkm_Slots
  imports Kkm_Main
begin

section \<open>The table of memory slots\<close>

text \<open>
  The table is a finite map from slot numbers to regions. The representation invariant, the abstraction, and
  that \<open>KKM_MEMORY\<close> refines insertion and deletion of the map.
\<close>

subsection \<open>The invariant\<close>

definition region_ok :: "nat \<Rightarrow> kkm_memory_region \<Rightarrow> bool" where
  "region_ok i mr \<longleftrightarrow> unat (mr_slot mr) = i \<and> memory_size mr \<noteq> 0 \<and> aligned (guest_phys_addr mr) \<and> aligned (memory_size mr) \<and>
     aligned (userspace_addr mr)"

definition slot_ok :: "nat \<Rightarrow> kkm_mem_slot \<Rightarrow> bool" where
  "slot_ok i slot \<longleftrightarrow> (if ms_used slot then slot = slot_of (ms_mr slot) \<and> region_ok i (ms_mr slot) else slot = zero_slot)"

definition slots_ok :: "kkm_kontainer \<Rightarrow> bool" where
  "slots_ok k \<longleftrightarrow> length (km_mem_slot k) = KKM_MAX_MEMORY_SLOTS \<and> (\<forall>i < KKM_MAX_MEMORY_SLOTS. slot_ok i (km_mem_slot k ! i)) \<and>
     km_mem_slot_count k = of_nat (length (filter ms_used (km_mem_slot k)))"

definition slot_map :: "kkm_kontainer \<Rightarrow> nat \<Rightarrow> kkm_memory_region option" where
  "slot_map k i = (if i < KKM_MAX_MEMORY_SLOTS \<and> ms_used (km_mem_slot k ! i) then Some (ms_mr (km_mem_slot k ! i)) else None)"

text \<open>What the ioctl means: insertion of an absent slot, deletion of a present one.\<close>

definition slot_spec :: "kkm_memory_region \<Rightarrow> (nat \<Rightarrow> kkm_memory_region option) \<Rightarrow> int \<times> (nat \<Rightarrow> kkm_memory_region option)" where
  "slot_spec mr m =
     (let i = unat (mr_slot mr)
      in if i > KKM_MAX_MEMORY_SLOTS \<or> \<not> aligned (guest_phys_addr mr) \<or> \<not> aligned (memory_size mr) \<or> \<not> aligned (userspace_addr mr)
            \<or> (memory_size mr = 0) = (m i = None)
         then (- EINVAL, m)
         else (0, m(i := if memory_size mr = 0 then None else Some mr)))"

lemma slot_sel [simp]: "ms_used zero_slot = False" "ms_used (slot_of mr) = True" "ms_mr (slot_of mr) = mr"
  by (simp_all add: zero_slot_def slot_of_def)

lemma slots_ok_zero: "slots_ok zero_kkm"
  by (simp add: slots_ok_def zero_kkm_def slot_ok_def filter_empty_conv)

text \<open>Unused slots are zero, so the search compares with empty regions only.\<close>

lemma find_overlap_never:
  assumes "\<forall>slot \<in> set slots. ms_used slot \<or> slot = zero_slot"
  shows "\<not> find_overlap mr slots"
  using assms by (induction slots) (auto simp: zero_slot_def)

lemma slots_ok_no_overlap: "slots_ok k \<Longrightarrow> \<not> find_overlap mr (km_mem_slot k)"
  by (rule find_overlap_never) (auto simp: slots_ok_def slot_ok_def in_set_conv_nth split: if_splits)

lemma filter_length_update:
  assumes "i < length xs"
  shows "length (filter P (xs[i := y])) + of_bool (P (xs ! i)) = length (filter P xs) + of_bool (P y)"
  using assms
proof (induction xs arbitrary: i)
  case (Cons x xs)
  show ?case
  proof (cases i)
    case (Suc j)
    with Cons have "length (filter P (xs[j := y])) + of_bool (P (xs ! j)) = length (filter P xs) + of_bool (P y)" by simp
    then show ?thesis using Suc by simp
  qed auto
qed simp

lemma change_slot_map:
  assumes ok: "slots_ok k" and i: "unat (mr_slot mr) < KKM_MAX_MEMORY_SLOTS"
    and al: "aligned (guest_phys_addr mr)" "aligned (memory_size mr)" "aligned (userspace_addr mr)"
    and c: "change_slot mr k = (r, k')"
  shows "slots_ok k' \<and> (r, slot_map k') = slot_spec mr (slot_map k)"
proof -
  let ?i = "unat (mr_slot mr)" and ?xs = "km_mem_slot k"
  have len: "?i < length ?xs" "length ?xs = KKM_MAX_MEMORY_SLOTS" using ok i by (simp_all add: slots_ok_def)
  have m: "slot_map k ?i = None \<longleftrightarrow> \<not> ms_used (?xs ! ?i)" using i by (simp add: slot_map_def)
  have upd: "slots_ok (k\<lparr>km_mem_slot := ?xs[?i := s], km_mem_slot_count := n\<rparr>)"
    if "slot_ok ?i s" "n = of_nat (length (filter ms_used (?xs[?i := s])))" for s n
    using that ok len by (auto simp: slots_ok_def nth_list_update)
  have map: "slot_map (k\<lparr>km_mem_slot := ?xs[?i := s], km_mem_slot_count := n\<rparr>) =
      (slot_map k)(?i := if ms_used s then Some (ms_mr s) else None)" for s n
    using len by (auto simp: slot_map_def fun_eq_iff nth_list_update)
  note cnt = filter_length_update [OF len(1), of ms_used]
  show ?thesis
  proof (cases "(memory_size mr = 0) = (slot_map k ?i = None)")
    case True
    then show ?thesis using c ok by (auto simp: change_slot_def slot_spec_def Let_def m split: if_splits)
  next
    case refused: False
    show ?thesis
    proof (cases "memory_size mr = 0")
      case True
      then have used: "ms_used (?xs ! ?i)" using refused m by simp
      have "k' = k\<lparr>km_mem_slot := ?xs[?i := zero_slot], km_mem_slot_count := km_mem_slot_count k - 1\<rparr>" "r = 0"
        using c True used by (simp_all add: change_slot_def Let_def)
      moreover have "slots_ok k'"
        unfolding calculation(1)
      proof (rule upd)
        have "length (filter ms_used ?xs) = Suc (length (filter ms_used (?xs[?i := zero_slot])))"
          using cnt [of zero_slot] used by simp
        then show "km_mem_slot_count k - 1 = of_nat (length (filter ms_used (?xs[?i := zero_slot])))"
          using ok by (simp add: slots_ok_def)
      qed (simp add: slot_ok_def)
      ultimately show ?thesis using map refused True al i by (simp add: slot_spec_def Let_def)
    next
      case False
      then have unused: "\<not> ms_used (?xs ! ?i)" using refused m by simp
      have "k' = k\<lparr>km_mem_slot := ?xs[?i := slot_of mr], km_mem_slot_count := km_mem_slot_count k + 1\<rparr>" "r = 0"
        using c False unused slots_ok_no_overlap [OF ok, of mr] by (simp_all add: change_slot_def Let_def)
      moreover have "slots_ok k'"
        unfolding calculation(1)
        using cnt [of "slot_of mr"] unused ok False al
        by (intro upd) (simp_all add: slot_ok_def slots_ok_def region_ok_def)
      ultimately show ?thesis using map refused False al i by (simp add: slot_spec_def Let_def)
    qed
  qed
qed

subsection \<open>The ioctl\<close>

lemma copied_region:
  assumes "copy_from_user E arg 32 g = (0, bs, g1)"
  shows "bytes_memory_region bs = bytes_memory_region (mem_load (um g) arg 32)" "vm_kkm g1 = vm_kkm (g :: 'a vm_scheme)"
  using copy_from_user_ok [OF assms] same_more_vm [OF copy_from_user_frame(5) [OF assms]] by simp_all

lemma mmu_sync_kkm [simp]: "vm_kkm (snd (kkm_mmu_sync E a b c d e f s)) = vm_kkm (s :: 'a vm_scheme)"
  by (simp add: kkm_mmu_sync_def Let_def split: prod.split)

lemma ioctl_memory: "kkm_kontainer_ioctl E KKM_MEMORY arg g = kkm_set_kontainer_memory E arg g"
  by (simp add: kkm_kontainer_ioctl_def ioctl_values)

lemma memory_undefined_iff:
  assumes "copy_from_user E arg 32 g = (0, bs, g1)" "mr = bytes_memory_region (mem_load (um g) arg 32)"
  shows "kkm_kontainer_ioctl E KKM_MEMORY arg g = None \<longleftrightarrow>
    mr_slot mr = 64 \<and> aligned (guest_phys_addr mr) \<and> aligned (memory_size mr) \<and> aligned (userspace_addr mr)"
proof -
  have "unat (mr_slot mr) = 64 \<longleftrightarrow> mr_slot mr = 64" by (simp add: word_unat_eq_iff)
  with copied_region(1) [OF assms(1), folded assms(2)] show ?thesis
    by (auto simp: ioctl_memory kkm_set_kontainer_memory_def assms(1) sizeof_def shapes Let_def
        split: prod.splits)
qed

lemma memory_not_fault:
  assumes "copy_from_user E arg 32 g = (0, bs, g1)" "kkm_kontainer_ioctl E KKM_MEMORY arg g = Some (r, g')"
  shows "r \<noteq> - EFAULT"
  using assms by (auto simp: ioctl_memory kkm_set_kontainer_memory_def change_slot_def sizeof_def shapes Let_def
      split: if_splits prod.splits)

text \<open>What the ioctl leaves of the kontainer.\<close>

definition but_slots :: "kkm_kontainer \<Rightarrow> kkm_kontainer" where
  "but_slots k = k\<lparr>km_mem_slot := [], km_mem_slot_count := 0\<rparr>"

lemma change_slot_fields: "change_slot mr k = (r, k') \<Longrightarrow> but_slots k' = but_slots k"
  by (auto simp: change_slot_def but_slots_def Let_def split: if_splits)

lemma memory_map:
  assumes ok: "slots_ok (vm_kkm g)" and s: "kkm_set_kontainer_memory E arg g = Some (r, g')"
    and c: "copy_from_user E arg 32 g = (0, bs, g1)"
  shows "slots_ok (vm_kkm g') \<and> (r, slot_map (vm_kkm g')) = slot_spec (bytes_memory_region bs) (slot_map (vm_kkm g)) \<and>
    but_slots (vm_kkm g') = but_slots (vm_kkm g)"
proof -
  define mr where "mr = bytes_memory_region bs"
  note b = copied_region [OF c]
  show ?thesis
  proof (cases "unat (mr_slot mr) > KKM_MAX_MEMORY_SLOTS \<or> \<not> aligned (guest_phys_addr mr) \<or> \<not> aligned (memory_size mr) \<or>
      \<not> aligned (userspace_addr mr)")
    case True
    then have "r = - EINVAL" "vm_kkm g' = vm_kkm g" using s c b
      by (auto simp: kkm_set_kontainer_memory_def sizeof_def shapes Let_def mr_def split: if_splits prod.splits)
    then show ?thesis using True ok by (auto simp: slot_spec_def Let_def mr_def)
  next
    case False
    obtain r1 k where k: "change_slot mr (vm_kkm g) = (r1, k)" by fastforce
    have i: "unat (mr_slot mr) < KKM_MAX_MEMORY_SLOTS" "r = r1" "vm_kkm g' = k"
      using False s c b k by (auto simp: kkm_set_kontainer_memory_def sizeof_def shapes Let_def mr_def split: if_splits)
    from change_slot_map [OF ok i(1) _ _ _ k] change_slot_fields [OF k] False i show ?thesis by (simp add: mr_def)
  qed
qed

subsection \<open>Properties\<close>

definition example_region :: kkm_memory_region where
  "example_region = \<lparr>mr_slot = 3, mr_flags = 0, guest_phys_addr = 0x200000, memory_size = 0x1000, userspace_addr = 0x7000\<rparr>"

definition example_guest :: guest where
  "example_guest = vm.extend (on_kkm (\<lambda>_. zero_kkm) (example_vm\<lparr>um := mem_store 0x5000 (memory_region_bytes example_region) (\<lambda>_. 0)\<rparr>))
     (guest.fields 0x900000 False (\<lambda>_. None))"

lemma example_guest_simps [simp]:
  "vm_kkm example_guest = zero_kkm" "klog example_guest = []"
  "bytes_memory_region (mem_load (um example_guest) 0x5000 32) = example_region"
  "\<exists>g1. copy_from_user example_linux 0x5000 32 example_guest = (0, mem_load (um example_guest) 0x5000 32, g1)"
proof -
  have "mem_load (um example_guest) 0x5000 32 = memory_region_bytes example_region"
    using mem_load_mem_store [of "memory_region_bytes example_region" "0x5000" "\<lambda>_. 0"]
    by (simp add: example_guest_def vm.defs memory_region_enc example_vm_def host.defs on_kkm_def)
  then show "bytes_memory_region (mem_load (um example_guest) 0x5000 32) = example_region"
    by (simp add: memory_region_enc)
qed (simp_all add: example_guest_def vm.defs example_vm_def host.defs on_kkm_def example_host_def copy_from_user_def
      example_linux_def Let_def)

text \<open>C11 The slot table is a finite map: \<open>KKM_MEMORY\<close> with the region the monitor wrote keeps the table well formed
  (unused slots are zero, used ones describe their own region, the count is the number of used slots)
  and is insertion into or deletion from the map of slots, refused exactly for a slot number beyond the table, an
  unaligned region, a present slot to be inserted or an absent one to be deleted. Regions that overlap are not
  refused.\<close>

theorem memory_ioctl_refines_map:
  assumes "slots_ok (vm_kkm g)" "kkm_kontainer_ioctl E KKM_MEMORY arg g = Some (r, g')" "r \<noteq> - EFAULT"
    and "mr = bytes_memory_region (mem_load (um g) arg 32)"
  shows "slots_ok (vm_kkm g') \<and> (r, slot_map (vm_kkm g')) = slot_spec mr (slot_map (vm_kkm g))"
proof -
  obtain left bs g1 where c: "copy_from_user E arg 32 g = (left, bs, g1)" by (rule prod_cases3)
  have s: "kkm_set_kontainer_memory E arg g = Some (r, g')" using assms(2) by (simp add: ioctl_memory)
  have "left = 0" using s c assms(3) by (auto simp: kkm_set_kontainer_memory_def sizeof_def shapes split: if_splits)
  with c have c: "copy_from_user E arg 32 g = (0, bs, g1)" by simp
  from memory_map [OF assms(1) s c] copied_region(1) [OF c] assms(4) show ?thesis by simp
qed

theorem memory_ioctl_refines_map_witness:
  "\<exists>g'. kkm_kontainer_ioctl example_linux KKM_MEMORY 0x5000 example_guest = Some (0, g') \<and> slots_ok (vm_kkm g') \<and>
     slot_map (vm_kkm g') 3 = Some example_region"
proof -
  obtain g1 where c: "copy_from_user example_linux 0x5000 32 example_guest = (0, mem_load (um example_guest) 0x5000 32, g1)"
    using example_guest_simps(4) by blast
  have "kkm_kontainer_ioctl example_linux KKM_MEMORY 0x5000 example_guest \<noteq> None"
    using memory_undefined_iff [OF c refl] by (simp add: example_region_def)
  then obtain r g' where i: "kkm_kontainer_ioctl example_linux KKM_MEMORY 0x5000 example_guest = Some (r, g')" by auto
  have z: "slot_map zero_kkm = (\<lambda>_. None)" by (auto simp: slot_map_def zero_kkm_def)
  from memory_ioctl_refines_map [OF _ i memory_not_fault [OF c i] refl] i show ?thesis
    by (auto simp: slots_ok_zero z slot_spec_def Let_def example_region_def aligned_def)
qed



end
