(* ===== verification/Kkm_Life.thy ===== *)
theory Kkm_Life
  imports Kkm_Slots
begin

section \<open>The life of a kontainer\<close>

text \<open>
  A kontainer from its creation to the release of its last file: kontexts are added, run, asked and released,
  memory is attached, the kontainer's own file is closed before or after its kontexts. The states are an
  inductive predicate; the invariant says what the structure is worth in each of them: the reference count is the
  number of open files, the slots of the kontext table are the kontext objects, and every page the module
  holds beyond those it held before is accounted for by an object that will free it.
\<close>

subsection \<open>A kontext inside its kontainer\<close>

lemma enter_simps [simp]:
  "vc_kontext (enter_kontext ko g) = ko_kontext ko" "vc_ga (enter_kontext ko g) = ko_ga ko"
  "vc_run (enter_kontext ko g) = ko_run ko" "vc_pa (enter_kontext ko g) = ko_pa ko"
  "vm_kkm (enter_kontext ko g) = vm_kkm g" "klog (enter_kontext ko g) = klog g"
  "kkm_mmu_kx (enter_kontext ko g) = kkm_mmu_kx g" "um (enter_kontext ko g) = um g"
  by (simp_all add: enter_kontext_def vm.defs vcpu.defs)

lemma leave_simps [simp]:
  "vm_kkm (leave_kontext a v g) = vm_kkm v" "klog (leave_kontext a v g) = klog v"
  "kkm_mmu_kx (leave_kontext a v g) = kkm_mmu_kx v"
  "gs_kontexts (leave_kontext a v g) = (gs_kontexts g)(a \<mapsto> kontext_of v)"
  "gs_freed (leave_kontext a v g) = gs_freed g" "gs_kkm_addr (leave_kontext a v g) = gs_kkm_addr g"
  by (cases v; cases g; simp add: leave_kontext_def set_kontext_def vm.defs)+

lemma set_kontext_simps [simp]:
  "vm_kkm (set_kontext a ko g) = vm_kkm g" "klog (set_kontext a ko g) = klog g"
  "kkm_mmu_kx (set_kontext a ko g) = kkm_mmu_kx g" "gs_kontexts (set_kontext a ko g) = (gs_kontexts g)(a \<mapsto> ko)"
  "gs_freed (set_kontext a ko g) = gs_freed g" "gs_kkm_addr (set_kontext a ko g) = gs_kkm_addr g"
  by (simp_all add: set_kontext_def)

lemma on_object_simps [simp]:
  "vm_kkm (on_object a f g) = vm_kkm g" "klog (on_object a f g) = klog g" "kkm_mmu_kx (on_object a f g) = kkm_mmu_kx g"
  "gs_freed (on_object a f g) = gs_freed g" "gs_kkm_addr (on_object a f g) = gs_kkm_addr g"
  "gs_kontexts (on_object a f g) = (gs_kontexts g)(a := map_option (\<lambda>ko. ko\<lparr>ko_kontext := f (ko_kontext ko)\<rparr>) (gs_kontexts g a))"
  by (auto simp: on_object_def fun_eq_iff split: option.splits)

lemma host_steps_guest [simp]:
  "gs_kontexts (kcall e g) = gs_kontexts g" "gs_freed (kcall e g) = gs_freed g" "gs_kkm_addr (kcall e g) = gs_kkm_addr g"
  "gs_kontexts (on_kkm f g) = gs_kontexts g" "gs_freed (on_kkm f g) = gs_freed g" "gs_kkm_addr (on_kkm f g) = gs_kkm_addr g"
  "gs_kontexts (on_stat h g) = gs_kontexts g" "gs_freed (on_stat h g) = gs_freed g"
  by (simp_all add: kcall_def on_kkm_def on_stat_def)

lemma kontext_of_simps [simp]:
  "ko_kontext (kontext_of v) = vc_kontext v" by (simp add: kontext_of_def)

text \<open>A host operation that keeps the extension keeps the guest.\<close>

lemma same_more_guest:
  assumes "host.more g' = host.more (g :: 'a guest_scheme)"
  shows "gs_kontexts g' = gs_kontexts g" "gs_freed g' = gs_freed g" "gs_kkm_addr g' = gs_kkm_addr g" "vm_kkm g' = vm_kkm g"
  using assms by (cases g, cases g', simp)+

lemma free_pages_guest [simp]:
  "gs_kontexts (kkm_mm_free_pages va n g) = gs_kontexts g" "gs_freed (kkm_mm_free_pages va n g) = gs_freed g"
  "gs_kkm_addr (kkm_mm_free_pages va n g) = gs_kkm_addr g"
  "gs_kontexts (free_pages va n g) = gs_kontexts g" "gs_freed (free_pages va n g) = gs_freed g"
  "gs_kkm_addr (free_pages va n g) = gs_kkm_addr g" "vm_kkm (free_pages va n g) = vm_kkm g"
  by (simp_all add: kkm_mm_free_pages_def free_pages_def)

lemma cleanup_guest [simp]:
  "gs_kontexts (kkm_kontainer_cleanup g) = gs_kontexts g" "gs_freed (kkm_kontainer_cleanup g) = gs_freed g"
  "gs_kkm_addr (kkm_kontainer_cleanup g) = gs_kkm_addr g"
  by (simp_all add: kkm_kontainer_cleanup_def kkm_kontainer_cleanup_p4d_pages_def kkm_kontainer_cleanup_pgd_pages_def
      kkm_kontainer_cleanup_lvl_pages_def kkm_cleanup_pml4_def kkm_mm_free_page_def Let_def split: prod.split)

lemma kontainer_blocks_fields [simp]:
  "kontainer_blocks (k\<lparr>km_kontext := x\<rparr>) = kontainer_blocks k" "kontainer_blocks (k\<lparr>km_kontext_count := n\<rparr>) = kontainer_blocks k"
  "kontainer_blocks (k\<lparr>km_reference_count := n\<rparr>) = kontainer_blocks k" "kontainer_blocks (k\<lparr>km_id_map_addr := w\<rparr>) = kontainer_blocks k"
  "kontainer_blocks (k\<lparr>km_mem_slot := y, km_mem_slot_count := n\<rparr>) = kontainer_blocks k"
  by (simp_all add: kontainer_blocks_def)

subsection \<open>What the objects own\<close>

definition map_page :: "kkm_kontext_mmap_area \<Rightarrow> (u64 \<times> nat) multiset" where
  "map_page ma = (if ma_kvaddr ma = 0 then {#} else {#(ma_kvaddr ma, 0)#})"

definition map_blocks :: "kkm_kontext \<Rightarrow> (u64 \<times> nat) multiset" where
  "map_blocks k = sum_list (map map_page (kn_mmap_area k))"

definition obj_blocks :: "kontext_obj \<Rightarrow> (u64 \<times> nat) multiset" where
  "obj_blocks ko = kontext_blocks (ko_kontext ko) + map_blocks (ko_kontext ko)"

definition objs_blocks :: "(u64 \<Rightarrow> kontext_obj option) \<Rightarrow> (u64 \<times> nat) multiset" where
  "objs_blocks m = (\<Sum>a\<in>dom m. obj_blocks (the (m a)))"

lemma objs_blocks_split:
  assumes "finite (dom m)" "m a = Some ko"
  shows "objs_blocks m = obj_blocks ko + objs_blocks (m(a := None))"
proof -
  have "dom m = insert a (dom m - {a})" using assms(2) by auto
  then have "objs_blocks m = obj_blocks (the (m a)) + (\<Sum>x\<in>dom m - {a}. obj_blocks (the (m x)))"
    unfolding objs_blocks_def using assms(1) by (simp add: sum.remove [of _ a] assms(2) domI)
  moreover have "(\<Sum>x\<in>dom m - {a}. obj_blocks (the (m x))) = objs_blocks (m(a := None))"
    unfolding objs_blocks_def by (rule sum.cong) auto
  ultimately show ?thesis using assms(2) by simp
qed

lemma objs_blocks_update:
  assumes "finite (dom m)"
  shows "objs_blocks (m(a \<mapsto> ko)) = obj_blocks ko + objs_blocks (m(a := None))"
  using objs_blocks_split [of "m(a \<mapsto> ko)" a ko] assms by simp

definition used_kontexts :: "'a guest_scheme \<Rightarrow> u64 set" where
  "used_kontexts g = {a. \<exists>ko. gs_kontexts g a = Some ko \<and> kn_used (ko_kontext ko)}"

text \<open>An object that no file refers to owns nothing; every object has its three mapping entries.\<close>

definition obj_ok :: "kontext_obj \<Rightarrow> bool" where
  "obj_ok ko \<longleftrightarrow> length (kn_mmap_area (ko_kontext ko)) = KKM_CONTEXT_MAP_PAGE_COUNT \<and>
     (\<not> kn_used (ko_kontext ko) \<longrightarrow> kn_guest_area_page (ko_kontext ko) = 0 \<and> pi_page (kn_xsave (ko_kontext ko)) = 0 \<and>
        (\<forall>ma \<in> set (kn_mmap_area (ko_kontext ko)). ma_kvaddr ma = 0))"

definition table_ok :: "kkm_kontainer \<Rightarrow> (u64 \<Rightarrow> kontext_obj option) \<Rightarrow> bool" where
  "table_ok k m \<longleftrightarrow> length (km_kontext k) = KKM_MAX_CONTEXTS \<and> distinct (filter (\<lambda>a. a \<noteq> 0) (km_kontext k)) \<and>
     dom m = set (km_kontext k) - {0} \<and> (\<forall>a ko. m a = Some ko \<longrightarrow> obj_ok ko)"

text \<open>\<open>open_file\<close> says whether the kontainer's own file is open, \<open>X\<close> is what the module held before.\<close>

definition guest_ok :: "linux \<Rightarrow> (u64 \<times> nat) multiset \<Rightarrow> bool \<Rightarrow> 'a guest_scheme \<Rightarrow> bool" where
  "guest_ok E X open_file g \<longleftrightarrow> \<not> gs_freed g \<and> table_ok (vm_kkm g) (gs_kontexts g) \<and> slots_ok (vm_kkm g) \<and>
     km_kontext_count (vm_kkm g) = of_nat (card (used_kontexts g)) \<and>
     km_reference_count (vm_kkm g) = of_nat (card (used_kontexts g) + of_bool open_file) \<and>
     outstanding E (klog g) = kontainer_blocks (vm_kkm g) + objs_blocks (gs_kontexts g) + X"

definition guest_gone :: "linux \<Rightarrow> (u64 \<times> nat) multiset \<Rightarrow> 'a guest_scheme \<Rightarrow> bool" where
  "guest_gone E X g \<longleftrightarrow> gs_freed g \<and> gs_kontexts g = (\<lambda>_. None) \<and> outstanding E (klog g) = X"

lemma table_finite: "table_ok k m \<Longrightarrow> finite (dom m)"
  by (simp add: table_ok_def)

lemma no_map_pages: "\<forall>ma \<in> set xs. ma_kvaddr ma = 0 \<Longrightarrow> sum_list (map map_page xs) = {#}"
  by (induction xs) (simp_all add: map_page_def)

lemma obj_ok_unused: "obj_ok ko \<Longrightarrow> \<not> kn_used (ko_kontext ko) \<Longrightarrow> obj_blocks ko = {#}"
  by (auto simp: obj_ok_def obj_blocks_def kontext_blocks_def map_blocks_def no_map_pages)

lemma used_in_table: "table_ok (vm_kkm g) (gs_kontexts g) \<Longrightarrow> used_kontexts g \<subseteq> set (km_kontext (vm_kkm g)) - {0}"
  by (auto simp: table_ok_def used_kontexts_def)

lemma used_card: "table_ok (vm_kkm g) (gs_kontexts g) \<Longrightarrow> card (used_kontexts g) \<le> KKM_MAX_CONTEXTS"
proof -
  assume t: "table_ok (vm_kkm g) (gs_kontexts g)"
  have "card (used_kontexts g) \<le> card (set (km_kontext (vm_kkm g)))"
    using used_in_table [OF t] by (intro card_mono) auto
  also have "\<dots> \<le> KKM_MAX_CONTEXTS" using card_length t by (metis table_ok_def)
  finally show ?thesis .
qed

lemma unused_objs_blocks:
  assumes "table_ok (vm_kkm g) (gs_kontexts g)" "used_kontexts g = {}"
  shows "objs_blocks (gs_kontexts g) = {#}"
proof -
  have "obj_blocks (the (gs_kontexts g a)) = {#}" if a: "a \<in> dom (gs_kontexts g)" for a
  proof -
    obtain ko where ko: "gs_kontexts g a = Some ko" using a by auto
    moreover have "\<not> kn_used (ko_kontext ko)" using ko assms(2) by (auto simp: used_kontexts_def)
    ultimately show ?thesis using assms(1) obj_ok_unused by (simp add: table_ok_def)
  qed
  then show ?thesis by (simp add: objs_blocks_def)
qed

subsection \<open>The last reference\<close>

lemma destroy_objects:
  defines "free \<equiv> \<lambda>a (g :: 'a guest_scheme). if a \<noteq> 0 then (kcall (Ev_kfree a) g)\<lparr>gs_kontexts := (gs_kontexts g)(a := None)\<rparr> else g"
  shows "outstanding E (klog (fold free as g)) = outstanding E (klog g) \<and> vm_kkm (fold free as g) = vm_kkm g \<and>
    gs_kontexts (fold free as g) = (\<lambda>a. if a \<in> set as - {0} then None else gs_kontexts g a)"
  by (induction as arbitrary: g) (auto simp: free_def fun_eq_iff)

lemma destroy_gone:
  assumes t: "table_ok (vm_kkm g) (gs_kontexts g)" and u: "used_kontexts g = {}"
    and o: "outstanding E (klog g) = kontainer_blocks (vm_kkm g) + objs_blocks (gs_kontexts g) + X"
  shows "guest_gone E X (kkm_destroy_app g)"
proof -
  define free where "free = (\<lambda>a (g :: 'a guest_scheme). if a \<noteq> 0 then (kcall (Ev_kfree a) g)\<lparr>gs_kontexts := (gs_kontexts g)(a := None)\<rparr> else g)"
  define g2 where "g2 = on_kkm (\<lambda>k. k\<lparr>km_kontext := replicate KKM_MAX_CONTEXTS 0\<rparr>) (fold free (km_kontext (vm_kkm g)) g)"
  note d = destroy_objects [where 'a='a, of E "km_kontext (vm_kkm g)" g, folded free_def]
  have k: "kontainer_blocks (vm_kkm g2) = kontainer_blocks (vm_kkm g)" using d by (simp add: g2_def)
  have "outstanding E (klog g2) = kontainer_blocks (vm_kkm g2) + X"
    using d o unused_objs_blocks [OF t u] by (simp add: g2_def)
  then have x: "outstanding E (klog (kkm_kontainer_cleanup g2)) = X" by (simp add: kontainer_cleanup_ledger)
  have "gs_kontexts g2 = (\<lambda>_. None)"
    using d t by (auto simp: g2_def table_ok_def fun_eq_iff dom_def)
  moreover have "gs_kontexts (kkm_kontainer_cleanup g2) = gs_kontexts g2" by simp
  ultimately show ?thesis
    using x by (simp add: guest_gone_def kkm_destroy_app_def Let_def g2_def [symmetric] free_def [symmetric])
qed

lemma down_ok:
  assumes t: "table_ok (vm_kkm g) (gs_kontexts g)" and sl: "slots_ok (vm_kkm g)" and nf: "\<not> gs_freed g"
    and o: "outstanding E (klog g) = kontainer_blocks (vm_kkm g) + objs_blocks (gs_kontexts g) + X"
    and c: "km_kontext_count (vm_kkm g) = of_nat (card (used_kontexts g))"
    and r: "km_reference_count (vm_kkm g) = of_nat (Suc n)" and n: "n = card (used_kontexts g) + of_bool open_file"
  shows "n = 0 \<Longrightarrow> guest_gone E X (kkm_reference_count_down g)"
    and "n \<noteq> 0 \<Longrightarrow> guest_ok E X open_file (kkm_reference_count_down g) \<and> used_kontexts (kkm_reference_count_down g) = used_kontexts g"
proof -
  have small: "n \<le> 289" using used_card [OF t] n by simp
  let ?g = "\<lambda>m. on_kkm (\<lambda>k. k\<lparr>km_reference_count := m\<rparr>) g"
  have used: "used_kontexts (?g m) = used_kontexts g" for m by (simp add: used_kontexts_def)
  { assume "n = 0"
    then have d: "kkm_reference_count_down g = kkm_destroy_app (?g 0)"
      using r by (simp add: kkm_reference_count_down_def refcount_dec_and_test_def)
    show "guest_gone E X (kkm_reference_count_down g)"
      unfolding d using t o \<open>n = 0\<close> n finite_subset [OF used_in_table [OF t]]
      by (intro destroy_gone) (simp_all add: table_ok_def used) }
  { assume "n \<noteq> 0"
    have u: "unat (of_nat (Suc n) :: u32) = Suc n" using small by (simp add: unat_of_nat take_bit_eq_mod del: of_nat_Suc)
    have "of_nat (Suc n) \<noteq> (1 :: u32)" "of_nat (Suc n) \<noteq> (0 :: u32)" "\<not> of_nat (Suc n) > (0x7FFFFFFF :: u32)"
      using u small \<open>n \<noteq> 0\<close> by (auto simp: word_less_nat_alt word_unat_eq_iff simp del: of_nat_Suc)
    then have d: "kkm_reference_count_down g = ?g (of_nat n)"
      using r by (simp add: kkm_reference_count_down_def refcount_dec_and_test_def del: of_nat_Suc) simp
    show "guest_ok E X open_file (kkm_reference_count_down g) \<and> used_kontexts (kkm_reference_count_down g) = used_kontexts g"
      unfolding d using assms by (simp add: guest_ok_def used) (simp add: table_ok_def slots_ok_def) }
qed

subsection \<open>The release of a kontext\<close>

lemma kontext_cleanup_keeps:
  "vm_kkm (kkm_kontext_cleanup s) = vm_kkm s" "kn_mmap_area (vc_kontext (kkm_kontext_cleanup s)) = kn_mmap_area (vc_kontext s)"
  "kn_used (vc_kontext (kkm_kontext_cleanup s)) = kn_used (vc_kontext s)"
  "kn_kontext_fd (vc_kontext (kkm_kontext_cleanup s)) = kn_kontext_fd (vc_kontext s)"
  by (simp_all add: kkm_kontext_cleanup_def Let_def)

lemma free_map_pages_ok:
  assumes m: "gs_kontexts g a = Some ko'" and eq: "kn_mmap_area (ko_kontext ko') = kn_mmap_area (ko_kontext ko)"
    and len: "length (kn_mmap_area (ko_kontext ko)) = KKM_CONTEXT_MAP_PAGE_COUNT"
  defines "g' \<equiv> free_map_pages a ko g"
  shows "outstanding E (klog g') = outstanding E (klog g) - map_blocks (ko_kontext ko)"
    and "vm_kkm g' = vm_kkm g" and "gs_freed g' = gs_freed g" and "gs_kkm_addr g' = gs_kkm_addr g"
    and "gs_kontexts g' = (gs_kontexts g)(a \<mapsto> ko'\<lparr>ko_kontext :=
           (ko_kontext ko')\<lparr>kn_mmap_area := map (\<lambda>ma. ma\<lparr>ma_kvaddr := 0\<rparr>) (kn_mmap_area (ko_kontext ko))\<rparr>\<rparr>)"
proof -
  obtain x y z where xyz: "kn_mmap_area (ko_kontext ko) = [x, y, z]"
    using len by (auto simp: numeral_3_eq_3 length_Suc_conv)
  have r: "[0..<KKM_CONTEXT_MAP_PAGE_COUNT] = [0, 1, 2]" by (simp add: upt_rec)
  have z: "ma\<lparr>ma_kvaddr := 0\<rparr> = ma" if "ma_kvaddr ma = 0" for ma :: kkm_kontext_mmap_area using that by (cases ma) simp
  show "outstanding E (klog g') = outstanding E (klog g) - map_blocks (ko_kontext ko)"
    by (simp add: g'_def free_map_pages_def r xyz map_blocks_def map_page_def Let_def free_pages_def add_mset_commute)
  show "vm_kkm g' = vm_kkm g" "gs_freed g' = gs_freed g" "gs_kkm_addr g' = gs_kkm_addr g"
    by (simp_all add: g'_def free_map_pages_def r Let_def)
  show "gs_kontexts g' = (gs_kontexts g)(a \<mapsto> ko'\<lparr>ko_kontext :=
           (ko_kontext ko')\<lparr>kn_mmap_area := map (\<lambda>ma. ma\<lparr>ma_kvaddr := 0\<rparr>) (kn_mmap_area (ko_kontext ko))\<rparr>\<rparr>)"
    using m eq xyz z by (cases ko'; cases "ko_kontext ko'"; auto simp: g'_def free_map_pages_def r Let_def)
qed

lemma release_ok:
  assumes ok: "guest_ok E X open_file g" and a: "a \<in> used_kontexts g"
    and rel: "kkm_execution_kontext_release a g = Some g'"
  shows "used_kontexts g - {a} = {} \<and> \<not> open_file \<Longrightarrow> guest_gone E X g'"
    and "used_kontexts g - {a} \<noteq> {} \<or> open_file \<Longrightarrow> guest_ok E X open_file g' \<and> used_kontexts g' = used_kontexts g - {a}"
proof -
  note G = ok [unfolded guest_ok_def]
  have t: "table_ok (vm_kkm g) (gs_kontexts g)" using G by simp
  note fin = table_finite [OF t]
  obtain ko where ko: "gs_kontexts g a = Some ko" and u: "kn_used (ko_kontext ko)" using a by (auto simp: used_kontexts_def)
  have len: "length (kn_mmap_area (ko_kontext ko)) = KKM_CONTEXT_MAP_PAGE_COUNT" using t ko by (simp add: table_ok_def obj_ok_def)
  define v where "v = kkm_kontext_cleanup (enter_kontext ko g)"
  define g1 where "g1 = leave_kontext a v g"
  define g2 where "g2 = free_map_pages a ko g1"
  define g3 where "g3 = on_object a (\<lambda>k. k\<lparr>kn_used := False, kn_first_thread := False\<rparr>) g2"
  define g6 where "g6 = kcall (Ev_mutex_unlock Kontext_lock) (on_kkm (\<lambda>k. k\<lparr>km_kontext_count := km_kontext_count k - 1\<rparr>)
      (kcall (Ev_mutex_lock Kontext_lock) g3))"
  have g': "g' = kkm_reference_count_down g6"
    using rel ko by (simp add: kkm_execution_kontext_release_def Let_def g6_def g3_def g2_def g1_def v_def)
  have v: "vm_kkm v = vm_kkm g" "kn_mmap_area (vc_kontext v) = kn_mmap_area (ko_kontext ko)" "kontext_ready v"
    "outstanding E (klog v) = outstanding E (klog g) - kontext_blocks (ko_kontext ko)"
    using kontext_cleanup_ledger(1) [where E=E and s="enter_kontext ko g"] kontext_cleanup_ledger(2) [where s="enter_kontext ko g"] by (simp_all add: v_def kontext_cleanup_keeps)
  have k1: "gs_kontexts g1 a = Some (kontext_of v)" by (simp add: g1_def)
  have eq: "kn_mmap_area (ko_kontext (kontext_of v)) = kn_mmap_area (ko_kontext ko)" by (simp add: v(2))
  note f = free_map_pages_ok(1) [where E=E, OF k1 eq len, folded g2_def] free_map_pages_ok(2-5) [OF k1 eq len, folded g2_def]
  define ko3 where "ko3 = (kontext_of v)\<lparr>ko_kontext := (vc_kontext v)\<lparr>
      kn_mmap_area := map (\<lambda>ma. ma\<lparr>ma_kvaddr := 0\<rparr>) (kn_mmap_area (ko_kontext ko)), kn_used := False, kn_first_thread := False\<rparr>\<rparr>"
  have m6: "gs_kontexts g6 = (gs_kontexts g)(a \<mapsto> ko3)" "gs_freed g6 = gs_freed g"
    and kkm6: "vm_kkm g6 = (vm_kkm g)\<lparr>km_kontext_count := km_kontext_count (vm_kkm g) - 1\<rparr>"
    using f by (simp_all add: g6_def g3_def g1_def v(1) ko3_def)
  have ok3: "obj_ok ko3" "\<not> kn_used (ko_kontext ko3)"
    using len v(3) by (simp_all add: ko3_def obj_ok_def kontext_ready_def)
  have o6: "outstanding E (klog g6) = kontainer_blocks (vm_kkm g6) + objs_blocks (gs_kontexts g6) + X"
  proof -
    have "outstanding E (klog g) = kontainer_blocks (vm_kkm g) + (obj_blocks ko + objs_blocks ((gs_kontexts g)(a := None))) + X"
      using G objs_blocks_split [OF fin ko] by simp
    moreover have "outstanding E (klog g6) = outstanding E (klog g) - kontext_blocks (ko_kontext ko) - map_blocks (ko_kontext ko)"
      using f(1) v(4) by (simp add: g6_def g3_def g1_def)
    ultimately show ?thesis
      using objs_blocks_update [OF fin, of a ko3] obj_ok_unused [OF ok3] by (simp add: m6 kkm6 obj_blocks_def)
  qed
  have used6: "used_kontexts g6 = used_kontexts g - {a}"
    using ok3 by (auto simp: used_kontexts_def m6)
  have finu: "finite (used_kontexts g)" using used_in_table [OF t] by (rule finite_subset) simp
  have t6: "table_ok (vm_kkm g6) (gs_kontexts g6)"
    using t ok3 ko by (auto simp: table_ok_def m6 kkm6)
  have card: "card (used_kontexts g) = Suc (card (used_kontexts g6))"
    using card.remove [OF finu a] by (simp add: used6)
  note D = down_ok [OF t6 _ _ o6, where n="card (used_kontexts g6) + of_bool open_file" and open_file=open_file, folded g']
  have pre: "slots_ok (vm_kkm g6)" "\<not> gs_freed g6" "km_kontext_count (vm_kkm g6) = of_nat (card (used_kontexts g6))"
    "km_reference_count (vm_kkm g6) = of_nat (Suc (card (used_kontexts g6) + of_bool open_file))"
    using G card by (simp_all add: kkm6 m6 slots_ok_def)
  have z: "card (used_kontexts g6) = 0 \<longleftrightarrow> used_kontexts g - {a} = {}" using finu by (simp add: used6)
  show "used_kontexts g - {a} = {} \<and> \<not> open_file \<Longrightarrow> guest_gone E X g'"
    using D(1) [OF pre] z by simp
  show "used_kontexts g - {a} \<noteq> {} \<or> open_file \<Longrightarrow> guest_ok E X open_file g' \<and> used_kontexts g' = used_kontexts g - {a}"
    using D(2) [OF pre] z used6 by auto
qed

subsection \<open>Adding a kontext\<close>

text \<open>\<open>page_address\<close> of a page that was allocated is not the null pointer.\<close>

definition lx_address_ok :: "linux \<Rightarrow> bool" where
  "lx_address_ok E \<longleftrightarrow> (\<forall>l n. lx_alloc_pages E l n \<noteq> 0 \<longrightarrow> lx_page_address E (lx_alloc_pages E l n) \<noteq> 0)"

lemma sum_list_update_empty:
  "\<lbrakk>i < length xs; f (xs ! i) = ({#} :: 'b multiset)\<rbrakk> \<Longrightarrow> sum_list (map f (xs[i := y])) = f y + sum_list (map f xs)"
proof (induction xs arbitrary: i)
  case (Cons x xs)
  then show ?case by (cases i) (auto simp: union_assoc union_commute union_lcomm)
qed simp

lemma alloc_pages_guest:
  assumes "alloc_pages E n g = (p, g1)"
  shows "gs_kontexts g1 = gs_kontexts g" "gs_freed g1 = gs_freed g" "gs_kkm_addr g1 = gs_kkm_addr g"
    "vm_kkm g1 = vm_kkm (g :: 'a guest_scheme)"
    "outstanding E (klog g1) = (if p = 0 then {#} else {#(lx_page_address E p, n)#}) + outstanding E (klog g)"
  using assms by (auto simp: alloc_pages_def Let_def split: if_splits)

text \<open>A kontext but for its mapping.\<close>

definition but_map :: "kkm_kontext \<Rightarrow> kkm_kontext" where
  "but_map k = k\<lparr>kn_mmap_area := []\<rparr>"

lemma map_pages_ok:
  assumes env: "lx_address_ok E" and "map_pages E a is g = (ok, g')" "gs_kontexts g a = Some ko" "distinct is"
    and "\<forall>i \<in> set is. i < length (kn_mmap_area (ko_kontext ko)) \<and> ma_kvaddr (kn_mmap_area (ko_kontext ko) ! i) = 0"
  shows "\<exists>ko'. gs_kontexts g' = (gs_kontexts g)(a \<mapsto> ko') \<and> but_map (ko_kontext ko') = but_map (ko_kontext ko) \<and>
    length (kn_mmap_area (ko_kontext ko')) = length (kn_mmap_area (ko_kontext ko)) \<and>
    outstanding E (klog g') + map_blocks (ko_kontext ko) = map_blocks (ko_kontext ko') + outstanding E (klog g) \<and>
    vm_kkm g' = vm_kkm g \<and> gs_freed g' = gs_freed g \<and> gs_kkm_addr g' = gs_kkm_addr g"
  using assms(2-)
proof (induction "is" arbitrary: g ko)
  case Nil
  then show ?case by (auto simp: fun_eq_iff intro!: exI [of _ ko])
next
  case (Cons i "is")
  obtain p g1 where p: "alloc_pages E 0 g = (p, g1)" by fastforce
  note A = alloc_pages_guest [OF p]
  have pv: "p \<noteq> 0 \<Longrightarrow> lx_page_address E p \<noteq> 0"
    using p env by (auto simp: alloc_pages_def lx_address_ok_def Let_def split: if_splits)
  define area where "area = (\<lambda>f. on_object a (\<lambda>k. k\<lparr>kn_mmap_area := (kn_mmap_area k)[i := f (kn_mmap_area k ! i)]\<rparr>) :: 'a guest_scheme \<Rightarrow> _)"
  define g2 where "g2 = area (\<lambda>ma. ma\<lparr>ma_offset := i, ma_page := p\<rparr>) g1"
  let ?ar = "kn_mmap_area (ko_kontext ko)"
  have i: "i < length ?ar" "ma_kvaddr (?ar ! i) = 0" using Cons.prems by simp_all
  define k2 where "k2 = (ko_kontext ko)\<lparr>kn_mmap_area := ?ar[i := (?ar ! i)\<lparr>ma_offset := i, ma_page := p\<rparr>]\<rparr>"
  have g2: "gs_kontexts g2 = (gs_kontexts g)(a \<mapsto> ko\<lparr>ko_kontext := k2\<rparr>)" "vm_kkm g2 = vm_kkm g" "klog g2 = klog g1"
    "gs_freed g2 = gs_freed g" "gs_kkm_addr g2 = gs_kkm_addr g"
    using A Cons.prems(2) by (simp_all add: g2_def area_def k2_def)
  have b2: "map_blocks k2 = map_blocks (ko_kontext ko)"
    using sum_list_update_empty [OF i(1), of map_page "(?ar ! i)\<lparr>ma_offset := i, ma_page := p\<rparr>"] i(2)
    by (simp add: k2_def map_blocks_def map_page_def)
  show ?case
  proof (cases "p = 0")
    case True
    then have "g' = g2" using Cons.prems(1) p by (simp add: Let_def g2_def area_def)
    then show ?thesis using g2 b2 A(5) True
      by (intro exI [of _ "ko\<lparr>ko_kontext := k2\<rparr>"]) (simp add: k2_def but_map_def union_commute)
  next
    case False
    define zero where "zero = (\<lambda>ko :: kontext_obj. if i = 0 then ko\<lparr>ko_run := zero_run\<rparr> else if i = 1 then ko\<lparr>ko_pa := \<lparr>pa_data = 0, pa_reason = 0\<rparr>\<rparr> else ko)"
    have zk: "ko_kontext (zero u) = ko_kontext u" for u by (simp add: zero_def)
    define g3 where "g3 = area (\<lambda>ma. ma\<lparr>ma_kvaddr := lx_page_address E p\<rparr>) g2"
    define g4 where "g4 = g3\<lparr>gs_kontexts := (gs_kontexts g3)(a := map_option zero (gs_kontexts g3 a))\<rparr>"
    define k4 where "k4 = k2\<lparr>kn_mmap_area := (kn_mmap_area k2)[i := (kn_mmap_area k2 ! i)\<lparr>ma_kvaddr := lx_page_address E p\<rparr>]\<rparr>"
    have rest: "map_pages E a is g4 = (ok, g')"
      using Cons.prems(1) p False by (simp add: Let_def g2_def area_def g3_def g4_def zero_def)
    obtain ko4 where g4: "gs_kontexts g4 = (gs_kontexts g)(a \<mapsto> ko4)" and k: "ko_kontext ko4 = k4"
      and gf: "vm_kkm g4 = vm_kkm g" "klog g4 = klog g1" "gs_freed g4 = gs_freed g" "gs_kkm_addr g4 = gs_kkm_addr g"
      using g2 by (intro that [of "zero (ko\<lparr>ko_kontext := k4\<rparr>)"]) (simp_all add: g4_def g3_def area_def k4_def zk)
    have i2: "i < length (kn_mmap_area k2)" "map_page (kn_mmap_area k2 ! i) = {#}" using i by (simp_all add: k2_def map_page_def)
    have b4: "map_blocks k4 = {#(lx_page_address E p, 0)#} + map_blocks (ko_kontext ko)"
      using sum_list_update_empty [where f=map_page, OF i2, of "(kn_mmap_area k2 ! i)\<lparr>ma_kvaddr := lx_page_address E p\<rparr>"] b2 pv False
      by (simp add: k4_def map_blocks_def map_page_def)
    have "\<forall>j \<in> set is. j < length (kn_mmap_area (ko_kontext ko4)) \<and> ma_kvaddr (kn_mmap_area (ko_kontext ko4) ! j) = 0"
      using Cons.prems by (auto simp: k k4_def k2_def nth_list_update)
    moreover have "gs_kontexts g4 a = Some ko4" "distinct is" using g4 Cons.prems(3) by simp_all
    ultimately obtain ko' where raw: "gs_kontexts g' = (gs_kontexts g4)(a \<mapsto> ko')"
        "but_map (ko_kontext ko') = but_map (ko_kontext ko4)"
        "length (kn_mmap_area (ko_kontext ko')) = length (kn_mmap_area (ko_kontext ko4))"
        "outstanding E (klog g') + map_blocks (ko_kontext ko4) = map_blocks (ko_kontext ko') + outstanding E (klog g4)"
        "vm_kkm g' = vm_kkm g4 \<and> gs_freed g' = gs_freed g4 \<and> gs_kkm_addr g' = gs_kkm_addr g4"
      using Cons.IH [OF rest] by blast
    have ko': "gs_kontexts g' = (gs_kontexts g)(a \<mapsto> ko')" "but_map (ko_kontext ko') = but_map k4"
        "length (kn_mmap_area (ko_kontext ko')) = length (kn_mmap_area k4)"
        "outstanding E (klog g') + map_blocks k4 = map_blocks (ko_kontext ko') + outstanding E (klog g1)"
        "vm_kkm g' = vm_kkm g \<and> gs_freed g' = gs_freed g \<and> gs_kkm_addr g' = gs_kkm_addr g"
      using raw by (simp_all add: g4 gf k)
    have "outstanding E (klog g') + map_blocks (ko_kontext ko) = map_blocks (ko_kontext ko') + outstanding E (klog g)"
      using ko'(4) A(5) False b4 by (simp add: union_assoc union_commute union_lcomm)
    then show ?thesis using ko' by (intro exI [of _ ko']) (simp add: k4_def k2_def but_map_def)
  qed
qed

lemma kontext_init_keeps:
  assumes "kkm_kontext_init E a s = (r, s')"
  shows "vm_kkm s' = vm_kkm s \<and> kn_mmap_area (vc_kontext s') = kn_mmap_area (vc_kontext s) \<and>
    kn_used (vc_kontext s') = kn_used (vc_kontext s) \<and> kn_kontext_fd (vc_kontext s') = kn_kontext_fd (vc_kontext s)"
proof -
  have more: "vm_kkm u' = vm_kkm u \<and> vc_kontext u' = vc_kontext u"
    if "kkm_mm_allocate_pages E pp vp ap n pi u = (q, pi', u')" for pp vp ap n pi q pi' and u u' :: "'a vcpu_scheme"
    using same_more_vm [OF allocate_pages_more [OF that]] same_more_vcpu(1) [OF allocate_pages_more [OF that]] by simp
  have upd: "vm_kkm (u\<lparr>vc_ga := x\<rparr>) = vm_kkm u" for u :: "'a vcpu_scheme" and x by simp
  show ?thesis
    using assms unfolding kkm_kontext_init_def Let_def
    by (auto split: prod.splits if_splits dest!: more simp: kontext_cleanup_keeps reset_pending_def)
qed

lemma kontext_init_blocks:
  assumes "kontext_ready s" "kkm_kontext_init E a s = (r, s')"
  shows "outstanding E (klog s') = kontext_blocks (vc_kontext s') + outstanding E (klog s)"
proof (cases "r = 0")
  case True
  then show ?thesis using kontext_init_ledger(2) [OF assms] by simp
next
  case False
  then have "kontext_ready s'" "outstanding E (klog s') = outstanding E (klog s)" using kontext_init_ledger(1) [OF assms] by simp_all
  then show ?thesis by (simp add: kontext_ready_def kontext_blocks_def)
qed

text \<open>Whatever becomes of a new kontext, its object owns what was allocated for it; the counts are raised
  only when everything went well.\<close>

lemma start_cases:
  assumes env: "lx_address_ok E" and ko: "gs_kontexts g a = Some ko" "obj_ok ko" "\<not> kn_used (ko_kontext ko)"
    and s: "start_kontext E vid a g = Some (r, g')"
  obtains ko' where "gs_kontexts g' = (gs_kontexts g)(a \<mapsto> ko')" "kn_used (ko_kontext ko')" "obj_ok ko'"
    "gs_freed g' = gs_freed g" "outstanding E (klog g') = obj_blocks ko' + outstanding E (klog g)"
    "vm_kkm g' = vm_kkm g \<or> vm_kkm g' = (vm_kkm g)\<lparr>km_reference_count := refcount_inc (km_reference_count (vm_kkm g)),
       km_kontext_count := km_kontext_count (vm_kkm g) + 1\<rparr>"
proof -
  define g1 where "g1 = g\<lparr>kkm_object_id := kkm_object_id g + 1\<rparr>"
  define g2 where "g2 = on_object a (\<lambda>k. k\<lparr>kn_id := kkm_object_id g1, kn_index := ucast vid, kn_used := True,
                 kn_first_thread := (km_kontext_count (vm_kkm g1) = 0), kn_task := lx_current E, kn_kkm := gs_kkm_addr g1\<rparr>) g1"
  define fd where "fd = lx_anon_inode_getfd E (klog g2)"
  define g3 where "g3 = on_object a (\<lambda>k. k\<lparr>kn_kontext_fd := fd\<rparr>) (kcall (Ev_anon_inode_getfd fd) g2)"
  obtain ok g4 where m: "map_pages E a [0..<KKM_CONTEXT_MAP_PAGE_COUNT] g3 = (ok, g4)" by fastforce
  obtain ko3 where g3: "gs_kontexts g3 = (gs_kontexts g)(a \<mapsto> ko3)" "vm_kkm g3 = vm_kkm g" "gs_freed g3 = gs_freed g"
      "outstanding E (klog g3) = outstanding E (klog g)"
    and k3: "kn_used (ko_kontext ko3)" "kn_mmap_area (ko_kontext ko3) = kn_mmap_area (ko_kontext ko)"
      "kn_guest_area_page (ko_kontext ko3) = 0" "pi_page (kn_xsave (ko_kontext ko3)) = 0"
    using ko by (simp add: g3_def g2_def g1_def obj_ok_def)
  have z: "\<forall>ma \<in> set (kn_mmap_area (ko_kontext ko)). ma_kvaddr ma = 0" "length (kn_mmap_area (ko_kontext ko)) = 3"
    using ko by (simp_all add: obj_ok_def)
  then have pre: "\<forall>i \<in> set [0..<KKM_CONTEXT_MAP_PAGE_COUNT]. i < length (kn_mmap_area (ko_kontext ko3)) \<and>
      ma_kvaddr (kn_mmap_area (ko_kontext ko3) ! i) = 0" by (simp add: k3)
  have b0: "map_blocks (ko_kontext ko3) = {#}" using z by (simp add: map_blocks_def k3 no_map_pages)
  obtain ko4 where g4: "gs_kontexts g4 = (gs_kontexts g)(a \<mapsto> ko4)" "but_map (ko_kontext ko4) = but_map (ko_kontext ko3)"
      "length (kn_mmap_area (ko_kontext ko4)) = 3" "outstanding E (klog g4) = map_blocks (ko_kontext ko4) + outstanding E (klog g)"
      "vm_kkm g4 = vm_kkm g" "gs_freed g4 = gs_freed g"
    using map_pages_ok [OF env m _ distinct_upt pre] g3 b0 z by (auto simp: k3)
  have "kn_used (but_map (ko_kontext ko4)) = kn_used (but_map (ko_kontext ko3))"
    "kn_guest_area_page (but_map (ko_kontext ko4)) = kn_guest_area_page (but_map (ko_kontext ko3))"
    "kn_xsave (but_map (ko_kontext ko4)) = kn_xsave (but_map (ko_kontext ko3))" by (simp_all only: g4(2))
  then have k4: "kn_used (ko_kontext ko4)" "kontext_ready (enter_kontext ko4 g4)" "kontext_blocks (ko_kontext ko4) = {#}"
    using k3 by (simp_all add: but_map_def kontext_ready_def kontext_blocks_def)
  show thesis
  proof (cases ok)
    case False
    then have "g' = g4" using s m g4(1) unfolding start_kontext_def Let_def g1_def [symmetric] g2_def [symmetric] fd_def [symmetric] g3_def [symmetric]
      by simp
    then show ?thesis using g4 k4 by (intro that [of ko4]) (simp_all add: obj_ok_def obj_blocks_def)
  next
    case True
    obtain q v where i: "kkm_kontext_init E a (enter_kontext ko4 g4) = (q, v)" by fastforce
    note K = kontext_init_keeps [OF i] kontext_init_blocks [OF k4(2) i]
    define g5 where "g5 = leave_kontext a v g4"
    have g5: "gs_kontexts g5 = (gs_kontexts g)(a \<mapsto> kontext_of v)" "vm_kkm g5 = vm_kkm g" "gs_freed g5 = gs_freed g"
      "outstanding E (klog g5) = obj_blocks (kontext_of v) + outstanding E (klog g)"
      using K g4 by (simp_all add: g5_def obj_blocks_def map_blocks_def)
    have o: "obj_ok (kontext_of v)" "kn_used (ko_kontext (kontext_of v))" using K k4 g4 by (simp_all add: obj_ok_def)
    have "g' = g5 \<or> g' = kkm_statistics_kontext_count_inc
           (on_kkm (\<lambda>k. k\<lparr>km_kontext_count := km_kontext_count k + 1\<rparr>) (kkm_reference_count_up g5))"
      using s m g4(1) True i unfolding start_kontext_def Let_def g1_def [symmetric] g2_def [symmetric] fd_def [symmetric] g3_def [symmetric]
      by (auto simp: g5_def split: if_splits)
    then show ?thesis
    proof
      assume "g' = g5"
      then show ?thesis using g5 o by (intro that [of "kontext_of v"]) simp_all
    next
      assume e: "g' = kkm_statistics_kontext_count_inc
           (on_kkm (\<lambda>k. k\<lparr>km_kontext_count := km_kontext_count k + 1\<rparr>) (kkm_reference_count_up g5))"
      show ?thesis using g5 o
        by (intro that [of "kontext_of v"]) (simp_all add: e kkm_statistics_defs kkm_reference_count_up_def)
    qed
  qed
qed


lemma find_slot_bounds: "i \<le> find_slot m as i \<and> find_slot m as i \<le> i + length as"
  by (induction m as i rule: find_slot.induct) (auto split: option.splits)

lemma find_slot_found:
  "find_slot m as i = i + j \<Longrightarrow> j < length as \<Longrightarrow> as ! j = 0 \<or> m (as ! j) = None \<or> (\<exists>ko. m (as ! j) = Some ko \<and> \<not> kn_used (ko_kontext ko))"
proof (induction m as i arbitrary: j rule: find_slot.induct)
  case (2 m a as i)
  show ?case
  proof (cases "a = 0 \<or> m a = None \<or> (\<exists>ko. m a = Some ko \<and> \<not> kn_used (ko_kontext ko))")
    case True
    then have "find_slot m (a # as) i = i" by auto
    then show ?thesis using 2(2) True by auto
  next
    case False
    then obtain ko where ko: "a \<noteq> 0" "m a = Some ko" "kn_used (ko_kontext ko)" by auto
    then have f: "find_slot m as (Suc i) = i + j" using 2(2) by simp
    then obtain l where "j = Suc l" using find_slot_bounds [of "Suc i" m as] by (cases j) auto
    then show ?thesis using 2(1) [of ko l] ko f 2(3) by simp
  qed
qed simp

lemma find_slot_full:
  "find_slot m as i = i + length as \<Longrightarrow> a \<in> set as \<Longrightarrow> a \<noteq> 0 \<and> (\<exists>ko. m a = Some ko \<and> kn_used (ko_kontext ko))"
proof (induction m as i rule: find_slot.induct)
  case (2 m b as i)
  show ?case
  proof (cases "b = 0 \<or> m b = None \<or> (\<exists>ko. m b = Some ko \<and> \<not> kn_used (ko_kontext ko))")
    case True
    then have "find_slot m (b # as) i = i" by auto
    then show ?thesis using 2(2) by simp
  next
    case False
    then obtain ko where "b \<noteq> 0" "m b = Some ko" "kn_used (ko_kontext ko)" by auto
    then show ?thesis using 2 by auto
  qed
qed simp

lemma used_finite: "table_ok (vm_kkm g) (gs_kontexts g) \<Longrightarrow> finite (used_kontexts g)"
  by (rule finite_subset [OF used_in_table]) simp_all

text \<open>A table that is not full has a slot for a new kontext: the search never runs out of it.\<close>

lemma find_slot_room:
  assumes t: "table_ok (vm_kkm g) (gs_kontexts g)" and c: "card (used_kontexts g) < KKM_MAX_CONTEXTS"
  defines "i \<equiv> find_slot (gs_kontexts g) (km_kontext (vm_kkm g)) 0"
  shows "i < KKM_MAX_CONTEXTS"
proof (rule ccontr)
  let ?ks = "km_kontext (vm_kkm g)"
  have len: "length ?ks = KKM_MAX_CONTEXTS" using t by (simp add: table_ok_def)
  assume "\<not> i < KKM_MAX_CONTEXTS"
  then have "i = 0 + length ?ks" using find_slot_bounds [of 0 "gs_kontexts g" ?ks] len by (simp add: i_def)
  then have full: "\<And>a. a \<in> set ?ks \<Longrightarrow> a \<noteq> 0 \<and> a \<in> used_kontexts g"
    using find_slot_full [of "gs_kontexts g" ?ks 0] by (auto simp: i_def used_kontexts_def)
  then have "filter (\<lambda>a. a \<noteq> 0) ?ks = ?ks" by (simp add: filter_id_conv)
  then have "distinct ?ks" using t by (simp add: table_ok_def)
  then have "card (set ?ks) = KKM_MAX_CONTEXTS" using len by (simp add: distinct_card)
  moreover have "set ?ks \<subseteq> used_kontexts g" using full by auto
  ultimately have "KKM_MAX_CONTEXTS \<le> card (used_kontexts g)" using card_mono [OF used_finite [OF t], of "set ?ks"] by simp
  then show False using c by simp
qed

lemma zero_obj_ok [simp]: "obj_ok zero_obj" "\<not> kn_used (ko_kontext zero_obj)"
  by (simp_all add: obj_ok_def zero_obj_def zero_kontext_def)

lemma table_insert:
  assumes t: "table_ok k m" and i: "i < KKM_MAX_CONTEXTS" "km_kontext k ! i = 0" and a: "a \<noteq> 0" "m a = None" and ko: "obj_ok ko"
  shows "table_ok (k\<lparr>km_kontext := (km_kontext k)[i := a]\<rparr>) (m(a \<mapsto> ko))"
proof -
  let ?ks = "km_kontext k"
  have il: "i < length ?ks" using t i by (simp add: table_ok_def)
  have new: "a \<notin> set ?ks" using t a by (auto simp: table_ok_def)
  have split: "?ks = take i ?ks @ 0 # drop (Suc i) ?ks" using id_take_nth_drop [OF il] i by simp
  have upd: "?ks[i := a] = take i ?ks @ a # drop (Suc i) ?ks" using upd_conv_take_nth_drop [OF il] by simp
  have f: "filter (\<lambda>a. a \<noteq> 0) ?ks = filter (\<lambda>a. a \<noteq> 0) (take i ?ks) @ filter (\<lambda>a. a \<noteq> 0) (drop (Suc i) ?ks)"
    by (subst split) simp
  have "set (take i ?ks) \<union> set (drop (Suc i) ?ks) \<subseteq> set ?ks" using set_take_subset set_drop_subset by fast
  then have out: "a \<notin> set (take i ?ks)" "a \<notin> set (drop (Suc i) ?ks)" using new by auto
  have "distinct (filter (\<lambda>a. a \<noteq> 0) ?ks)" using t by (simp add: table_ok_def)
  then have "distinct (filter (\<lambda>a. a \<noteq> 0) (?ks[i := a]))" unfolding upd f using a out by simp
  moreover have "set (?ks[i := a]) - {0} = insert a (set ?ks - {0})"
  proof -
    have "set ?ks = insert 0 (set (take i ?ks) \<union> set (drop (Suc i) ?ks))" by (subst split) simp
    moreover have "set (?ks[i := a]) = insert a (set (take i ?ks) \<union> set (drop (Suc i) ?ks))" by (simp add: upd)
    ultimately show ?thesis using a by auto
  qed
  ultimately show ?thesis using t ko by (simp add: table_ok_def)
qed


text \<open>Adding a kontext: refused with nothing changed, or a kontext that was not in use is, and the two counts
  are both as they were or both raised by one.\<close>

definition counts_raised :: "kkm_kontainer \<Rightarrow> kkm_kontainer \<Rightarrow> bool" where
  "counts_raised k k' \<longleftrightarrow> km_reference_count k' = refcount_inc (km_reference_count k) \<and> km_kontext_count k' = km_kontext_count k + 1"

definition counts_kept :: "kkm_kontainer \<Rightarrow> kkm_kontainer \<Rightarrow> bool" where
  "counts_kept k k' \<longleftrightarrow> km_reference_count k' = km_reference_count k \<and> km_kontext_count k' = km_kontext_count k"

lemma add_cases:
  assumes env: "lx_address_ok E" and fresh: "gs_kontexts g (lx_kzalloc E (klog (kcall (Ev_mutex_lock Kontext_lock) g))) = None"
    and t: "table_ok (vm_kkm g) (gs_kontexts g)" and c: "km_kontext_count (vm_kkm g) = of_nat (card (used_kontexts g))"
    and add: "kkm_add_execution_kontext E arg g = Some (r, g')"
  obtains (refused) "vm_kkm g' = vm_kkm g" "gs_kontexts g' = gs_kontexts g" "gs_freed g' = gs_freed g"
      "outstanding E (klog g') = outstanding E (klog g)" "r = - EINVAL \<or> r = - ENOMEM"
  | (started) a ko where "a \<notin> used_kontexts g" "gs_kontexts g' = (gs_kontexts g)(a \<mapsto> ko)" "kn_used (ko_kontext ko)" "obj_ok ko"
      "\<And>ko'. gs_kontexts g a = Some ko' \<Longrightarrow> \<not> kn_used (ko_kontext ko')" "table_ok (vm_kkm g') (gs_kontexts g')" "gs_freed g' = gs_freed g"
      "outstanding E (klog g') = obj_blocks ko + outstanding E (klog g)"
      "but_slots (vm_kkm g') = (but_slots (vm_kkm g))\<lparr>km_kontext := km_kontext (vm_kkm g'),
         km_reference_count := km_reference_count (vm_kkm g'), km_kontext_count := km_kontext_count (vm_kkm g')\<rparr>"
      "slots_ok (vm_kkm g') = slots_ok (vm_kkm g)" "kontainer_blocks (vm_kkm g') = kontainer_blocks (vm_kkm g)"
      "counts_kept (vm_kkm g) (vm_kkm g') \<or> counts_raised (vm_kkm g) (vm_kkm g')"
proof -
  define g1 where "g1 = kcall (Ev_mutex_lock Kontext_lock) g"
  define i where "i = find_slot (gs_kontexts g) (km_kontext (vm_kkm g)) 0"
  define vid where "vid = (ucast arg :: u32)"
  show thesis
  proof (cases "km_mm (vm_kkm g) \<noteq> lx_current_mm E \<or> unat vid \<ge> KKM_MAX_CONTEXTS \<or> unat (km_kontext_count (vm_kkm g)) \<ge> KKM_MAX_CONTEXTS")
    case True
    then have "r = - EINVAL" "g' = kcall (Ev_mutex_unlock Kontext_lock) g1"
      using add by (auto simp: kkm_add_execution_kontext_def Let_def g1_def vid_def split: if_splits)
    then show thesis by (intro refused) (simp_all add: g1_def)
  next
    case False
    then have "card (used_kontexts g) < KKM_MAX_CONTEXTS"
      using used_card [OF t] by (simp add: c unat_of_nat take_bit_eq_mod)
    from find_slot_room [OF t this] have i: "i < KKM_MAX_CONTEXTS" by (simp add: i_def)
    have len: "length (km_kontext (vm_kkm g)) = KKM_MAX_CONTEXTS" using t by (simp add: table_ok_def)
    define a where "a = lx_kzalloc E (klog g1)"
    define g2 where "g2 = on_kkm (\<lambda>k. k\<lparr>km_kontext := (km_kontext k)[i := a]\<rparr>) (kcall (Ev_kzalloc a) g1)"
    have go: "kkm_add_execution_kontext E arg g =
       (if km_kontext (vm_kkm g) ! i = 0 then
          if a = 0 then Some (- ENOMEM, kcall (Ev_mutex_unlock Kontext_lock) g2)
          else map_option (\<lambda>(r, g). (r, kcall (Ev_mutex_unlock Kontext_lock) g)) (start_kontext E vid a (set_kontext a zero_obj g2))
        else map_option (\<lambda>(r, g). (r, kcall (Ev_mutex_unlock Kontext_lock) g)) (start_kontext E vid (km_kontext (vm_kkm g) ! i) g1))"
      using False i unfolding kkm_add_execution_kontext_def Let_def g1_def [symmetric] vid_def [symmetric] a_def [symmetric]
      by (simp add: g1_def i_def [symmetric] a_def g2_def)
    have start: thesis
      if s: "start_kontext E vid b h = Some (r, h')" and g': "g' = kcall (Ev_mutex_unlock Kontext_lock) h'"
        and b: "gs_kontexts h b = Some ko" "obj_ok ko" "\<not> kn_used (ko_kontext ko)" "b \<notin> used_kontexts g"
        and th: "\<And>ko'. obj_ok ko' \<Longrightarrow> table_ok (vm_kkm h) ((gs_kontexts g)(b \<mapsto> ko'))"
        and h: "(gs_kontexts h)(b := None) = (gs_kontexts g)(b := None)" "gs_freed h = gs_freed g" "outstanding E (klog h) = outstanding E (klog g)"
          "vm_kkm h = (vm_kkm g)\<lparr>km_kontext := km_kontext (vm_kkm h)\<rparr>" for b h h' ko
    proof -
      obtain ko' where k: "gs_kontexts h' = (gs_kontexts h)(b \<mapsto> ko')" "kn_used (ko_kontext ko')" "obj_ok ko'" "gs_freed h' = gs_freed h"
          "outstanding E (klog h') = obj_blocks ko' + outstanding E (klog h)"
        and v: "vm_kkm h' = vm_kkm h \<or> vm_kkm h' = (vm_kkm h)\<lparr>km_reference_count := refcount_inc (km_reference_count (vm_kkm h)),
            km_kontext_count := km_kontext_count (vm_kkm h) + 1\<rparr>"
        by (rule start_cases [OF env b(1-3) s]) metis
      have m: "gs_kontexts h' = (gs_kontexts g)(b \<mapsto> ko')" using k(1) h(1) by (metis fun_upd_upd)
      define ks where "ks = km_kontext (vm_kkm h)"
      have vh: "vm_kkm h = (vm_kkm g)\<lparr>km_kontext := ks\<rparr>" using h(4) by (simp add: ks_def)
      have v': "vm_kkm h' = (vm_kkm g)\<lparr>km_kontext := ks\<rparr> \<or> vm_kkm h' = (vm_kkm g)\<lparr>km_kontext := ks,
          km_reference_count := refcount_inc (km_reference_count (vm_kkm g)), km_kontext_count := km_kontext_count (vm_kkm g) + 1\<rparr>"
        using v by (simp add: vh)
      have th': "table_ok ((vm_kkm g)\<lparr>km_kontext := ks\<rparr>) (gs_kontexts h')" using th [OF k(3)] by (simp add: m vh)
      show thesis
      proof (rule started [of b ko'])
        show "\<And>ko'. gs_kontexts g b = Some ko' \<Longrightarrow> \<not> kn_used (ko_kontext ko')" using b(4) by (auto simp: used_kontexts_def)
        show "table_ok (vm_kkm g') (gs_kontexts g')" using th' v' by (auto simp: g' table_ok_def)
        show "but_slots (vm_kkm g') = (but_slots (vm_kkm g))\<lparr>km_kontext := km_kontext (vm_kkm g'),
         km_reference_count := km_reference_count (vm_kkm g'), km_kontext_count := km_kontext_count (vm_kkm g')\<rparr>"
          using v' by (auto simp: g' but_slots_def)
        show "slots_ok (vm_kkm g') = slots_ok (vm_kkm g)" using v' by (auto simp: g' slots_ok_def)
        show "kontainer_blocks (vm_kkm g') = kontainer_blocks (vm_kkm g)" using v' by (auto simp: g')
        show "counts_kept (vm_kkm g) (vm_kkm g') \<or> counts_raised (vm_kkm g) (vm_kkm g')" using v'
          by (auto simp: g' counts_kept_def counts_raised_def)
      qed (use k m h b in \<open>simp_all add: g'\<close>)
    qed
    consider (fresh0) "km_kontext (vm_kkm g) ! i = 0" "a = 0" | (fresh) "km_kontext (vm_kkm g) ! i = 0" "a \<noteq> 0"
      | (reuse) "km_kontext (vm_kkm g) ! i \<noteq> 0" by blast
    then show thesis
    proof cases
      case fresh0
      then have same: "vm_kkm g2 = vm_kkm g" using list_update_id [of "km_kontext (vm_kkm g)" i] by (simp add: g2_def g1_def)
      have "r = - ENOMEM" "g' = kcall (Ev_mutex_unlock Kontext_lock) g2" using add go fresh0 by auto
      then show thesis using same by (intro refused) (simp_all add: g2_def g1_def)
    next
      case fresh
      have n: "gs_kontexts g a = None" using assms(2) by (simp add: a_def g1_def)
      obtain h' where s: "start_kontext E vid a (set_kontext a zero_obj g2) = Some (r, h')" "g' = kcall (Ev_mutex_unlock Kontext_lock) h'"
        using add go fresh by auto
      show thesis
      proof (rule start [where ko=zero_obj, OF s])
        show "a \<notin> used_kontexts g" using n by (simp add: used_kontexts_def)
        show "table_ok (vm_kkm (set_kontext a zero_obj g2)) ((gs_kontexts g)(a \<mapsto> ko'))" if "obj_ok ko'" for ko'
          using table_insert [OF t i fresh n that] by (simp add: g2_def g1_def)
      qed (simp_all add: g2_def g1_def)
    next
      case reuse
      define b where "b = km_kontext (vm_kkm g) ! i"
      have bin: "b \<in> set (km_kontext (vm_kkm g)) - {0}" using reuse i len by (simp add: b_def)
      then have "b \<in> dom (gs_kontexts g)" using t by (simp add: table_ok_def)
      then obtain ko where ko: "gs_kontexts g b = Some ko" by auto
      have unused: "\<not> kn_used (ko_kontext ko)"
        using find_slot_found [of "gs_kontexts g" "km_kontext (vm_kkm g)" 0 i] i len reuse ko by (simp add: i_def [symmetric] b_def)
      obtain h' where s: "start_kontext E vid b g1 = Some (r, h')" "g' = kcall (Ev_mutex_unlock Kontext_lock) h'"
        using add go reuse by (auto simp: b_def)
      show thesis
      proof (rule start [OF s])
        show "gs_kontexts g1 b = Some ko" "obj_ok ko" "\<not> kn_used (ko_kontext ko)" using ko t unused by (simp_all add: g1_def table_ok_def)
        show "b \<notin> used_kontexts g" using ko unused by (simp add: used_kontexts_def)
        show "table_ok (vm_kkm g1) ((gs_kontexts g)(b \<mapsto> ko'))" if "obj_ok ko'" for ko'
          using t bin that by (auto simp: g1_def table_ok_def)
      qed (simp_all add: g1_def)
    qed
  qed
qed

end
