(* ===== verification/Kkm_Files.thy ===== *)
theory Kkm_Files
  imports Kkm_Life
begin

section \<open>The files of a kontainer\<close>

text \<open>
  The histories of a kontainer as its files see them: it is created, kontexts are added, run, asked and released,
  memory is attached, its own file is closed before or after those of its kontexts, and the rest of the kernel
  and other kontainers work in between. The invariant of \<open>Kkm_Life\<close> holds in every reachable state.
\<close>

subsection \<open>Every operation keeps the invariant\<close>

lemma counted_up:
  assumes "c \<le> 288" "n = of_nat (c + of_bool b)" "b \<or> c \<noteq> 0"
  shows "refcount_inc n = (of_nat (Suc c + of_bool b) :: u32)"
proof -
  have u: "unat n = c + of_bool b" using assms(1,2) by (simp add: unat_of_nat take_bit_eq_mod del: of_nat_add)
  then have "n \<noteq> 0" "n < 0x7FFFFFFF" using assms by (auto simp: word_less_nat_alt word_unat_eq_iff simp del: of_nat_add)
  then have "refcount_inc n = n + 1" by (simp add: refcount_inc_def not_le [symmetric])
  then show ?thesis using assms(2) by simp
qed

lemma used_update:
  assumes "gs_kontexts g' = (gs_kontexts g)(a \<mapsto> ko)" "kn_used (ko_kontext ko)"
  shows "used_kontexts g' = insert a (used_kontexts g)"
  using assms by (auto simp: used_kontexts_def)

lemma add_ok:
  assumes env: "lx_address_ok E" and fresh: "gs_kontexts g (lx_kzalloc E (klog (kcall (Ev_mutex_lock Kontext_lock) g))) = None"
    and ok: "guest_ok E X True g" and add: "kkm_add_execution_kontext E arg g = Some (r, g')"
  shows "used_kontexts g' = used_kontexts g \<Longrightarrow> guest_ok E X True g'"
    and "km_kontext_count (vm_kkm g') = km_kontext_count (vm_kkm g) + 1 \<Longrightarrow>
      guest_ok E X True g' \<and> (\<exists>a. a \<notin> used_kontexts g \<and> used_kontexts g' = insert a (used_kontexts g))"
proof -
  note G = ok [unfolded guest_ok_def]
  have t: "table_ok (vm_kkm g) (gs_kontexts g)" and c: "km_kontext_count (vm_kkm g) = of_nat (card (used_kontexts g))"
    using G by simp_all
  note fin = table_finite [OF t]
  have
    "(used_kontexts g' = used_kontexts g \<longrightarrow> guest_ok E X True g') \<and>
     (km_kontext_count (vm_kkm g') = km_kontext_count (vm_kkm g) + 1 \<longrightarrow>
      guest_ok E X True g' \<and> (\<exists>a. a \<notin> used_kontexts g \<and> used_kontexts g' = insert a (used_kontexts g)))"
    using env fresh t c add
  proof (cases rule: add_cases)
    case refused
    then have "used_kontexts g' = used_kontexts g" by (simp add: used_kontexts_def)
    then have "guest_ok E X True g'" using G refused by (simp add: guest_ok_def)
    then show ?thesis using refused by simp
  next
    case (started a ko)
    have u: "used_kontexts g' = insert a (used_kontexts g)" by (rule used_update [OF started(2,3)])
    have blocks: "outstanding E (klog g') = kontainer_blocks (vm_kkm g') + objs_blocks (gs_kontexts g') + X"
    proof -
      have "objs_blocks (gs_kontexts g) = objs_blocks ((gs_kontexts g)(a := None))"
      proof (cases "gs_kontexts g a")
        case (Some ko')
        then have "obj_blocks ko' = {#}" using started(5) t by (intro obj_ok_unused) (auto simp: table_ok_def)
        then show ?thesis using objs_blocks_split [OF fin Some] by simp
      next
        case None
        then show ?thesis by (simp add: fun_upd_idem)
      qed
      then have "objs_blocks (gs_kontexts g') = obj_blocks ko + objs_blocks (gs_kontexts g)"
        using objs_blocks_update [OF fin, of a ko] by (simp add: started(2))
      then show ?thesis using started(8,11) G by simp
    qed
    have "guest_ok E X True g'" if up: "km_kontext_count (vm_kkm g') = km_kontext_count (vm_kkm g) + 1"
    proof -
      have "counts_raised (vm_kkm g) (vm_kkm g')" using started(12) up by (auto simp: counts_kept_def)
      moreover have "card (used_kontexts g') = Suc (card (used_kontexts g))"
        using u started(1) used_finite [OF t] by simp
      ultimately show ?thesis
        using counted_up [of "card (used_kontexts g)" _ True] used_card [OF t] G started(6,7,10) blocks
        by (simp add: guest_ok_def counts_raised_def)
    qed
    then show ?thesis using u started(1) by auto
  qed
  then show "used_kontexts g' = used_kontexts g \<Longrightarrow> guest_ok E X True g'"
    "km_kontext_count (vm_kkm g') = km_kontext_count (vm_kkm g) + 1 \<Longrightarrow>
      guest_ok E X True g' \<and> (\<exists>a. a \<notin> used_kontexts g \<and> used_kontexts g' = insert a (used_kontexts g))" by blast+
qed

text \<open>What the invariant reads of the objects.\<close>

definition home_map :: "'a guest_scheme \<Rightarrow> u64 \<Rightarrow> _" where
  "home_map g = (\<lambda>a. map_option (\<lambda>ko. kontext_home (ko_kontext ko)) (gs_kontexts g a))"

lemma home_obj:
  assumes "kontext_home (ko_kontext ko') = kontext_home (ko_kontext ko)"
  shows "obj_ok ko' = obj_ok ko" "obj_blocks ko' = obj_blocks ko" "kn_used (ko_kontext ko') = kn_used (ko_kontext ko)"
  using assms by (simp_all add: kontext_home_def obj_ok_def obj_blocks_def kontext_blocks_def map_blocks_def)

lemma home_map_used:
  assumes h: "home_map g' = home_map g"
  shows "used_kontexts g' = used_kontexts g" "objs_blocks (gs_kontexts g') = objs_blocks (gs_kontexts g)"
    "table_ok k (gs_kontexts g') = table_ok k (gs_kontexts g)" "gs_kontexts g' = (\<lambda>_. None) \<longleftrightarrow> gs_kontexts g = (\<lambda>_. None)"
proof -
  have some: "\<exists>ko'. gs_kontexts g' a = Some ko' \<and> kontext_home (ko_kontext ko') = kontext_home (ko_kontext ko)"
    if "gs_kontexts g a = Some ko" for a ko using fun_cong [OF h, of a] that by (auto simp: home_map_def)
  have some': "\<exists>ko. gs_kontexts g a = Some ko \<and> kontext_home (ko_kontext ko') = kontext_home (ko_kontext ko)"
    if "gs_kontexts g' a = Some ko'" for a ko' using fun_cong [OF h, of a] that
    by (cases "gs_kontexts g a") (auto simp: home_map_def)
  have none: "gs_kontexts g' a = None \<longleftrightarrow> gs_kontexts g a = None" for a
    using fun_cong [OF h, of a] by (auto simp: home_map_def)
  then have dom: "dom (gs_kontexts g') = dom (gs_kontexts g)" by (auto simp: dom_def)
  show "used_kontexts g' = used_kontexts g"
    using some some' home_obj(3) unfolding used_kontexts_def by (intro Collect_cong) fast
  have ob: "obj_blocks (the (gs_kontexts g' a)) = obj_blocks (the (gs_kontexts g a))" if a: "a \<in> dom (gs_kontexts g)" for a
  proof -
    obtain ko where ko: "gs_kontexts g a = Some ko" using a by auto
    then obtain ko' where "gs_kontexts g' a = Some ko'" and home: "kontext_home (ko_kontext ko') = kontext_home (ko_kontext ko)"
      using some by blast
    then show ?thesis using ko home_obj(2) [OF home] by simp
  qed
  show "objs_blocks (gs_kontexts g') = objs_blocks (gs_kontexts g)"
    unfolding objs_blocks_def dom by (rule sum.cong [OF refl ob])
  show "table_ok k (gs_kontexts g') = table_ok k (gs_kontexts g)"
    using some some' home_obj(1) unfolding table_ok_def dom by metis
  show "gs_kontexts g' = (\<lambda>_. None) \<longleftrightarrow> gs_kontexts g = (\<lambda>_. None)"
    using none by (auto simp: fun_eq_iff)
qed

definition but_id_map :: "kkm_kontainer \<Rightarrow> kkm_kontainer" where
  "but_id_map k = (but_slots k)\<lparr>km_id_map_addr := 0\<rparr>"

lemma but_id_map_fields:
  assumes "but_id_map k' = but_id_map k"
  shows "km_kontext k' = km_kontext k" "km_kontext_count k' = km_kontext_count k"
    "km_reference_count k' = km_reference_count k" "kontainer_blocks k' = kontainer_blocks k"
  using assms by (cases k, cases k', simp add: but_id_map_def but_slots_def kontainer_blocks_def)+

text \<open>Whatever keeps this much of the state keeps the invariant; other parts of the module may allocate
  and free pages of their own.\<close>

lemma same_guest_ok:
  assumes "guest_ok E X b g" "home_map g' = home_map g" "gs_freed g' = gs_freed g" "but_id_map (vm_kkm g') = but_id_map (vm_kkm g)"
    and "slots_ok (vm_kkm g')" "outstanding E (klog g') + X = outstanding E (klog g) + X'"
  shows "guest_ok E X' b g' \<and> used_kontexts g' = used_kontexts g"
proof -
  note H = home_map_used [OF assms(2)] but_id_map_fields [OF assms(4)]
  have "table_ok (vm_kkm g') (gs_kontexts g)" using assms(1) H by (simp add: guest_ok_def table_ok_def)
  then show ?thesis using assms(1,3,5,6) H
    by (simp add: guest_ok_def add.assoc)
qed

lemma same_guest_gone:
  assumes "guest_gone E X g" "home_map g' = home_map g" "gs_freed g' = gs_freed g"
    and "outstanding E (klog g') + X = outstanding E (klog g) + X'"
  shows "guest_gone E X' g'"
  using assms home_map_used(4) [OF assms(2)] by (simp add: guest_gone_def add.commute)


subsection \<open>Page-table operations keep the guest\<close>

lemma mmu_more [simp]:
  "host.more (kkm_mmu_set_entry va i e s) = host.more s" "host.more (kkm_mmu_insert_page va i pa f s) = host.more s"
  "host.more (store_kx b kmu s) = host.more s" "host.more (kkm_mmu_copy_range a oa d od n s) = host.more s"
  "host.more (kkm_mm_free_pages va n s) = host.more s" "host.more (kkm_cleanup_pml4 kmu s) = host.more s"
  "host.more (kkm_mmu_cleanup s) = host.more s"
  by (simp_all add: kkm_mmu_insert_page_def kkm_mmu_set_entry_def store_kx_def kkm_mmu_copy_range_def kkm_mm_free_pages_def
      free_pages_def kkm_cleanup_pml4_def kkm_mm_free_page_def kkm_mmu_cleanup_def Let_def)

lemma create_pml4_more:
  assumes "kkm_create_pml4 E is_kx a s = (r, kmu, s')"
  shows "host.more s' = host.more s" "r = 0 \<or> r = - ENOMEM"
proof -
  have a: "host.more u' = host.more u \<and> (q = 0 \<or> q = - ENOMEM)" if "kkm_mm_allocate_page E True True True pi u = (q, pi', u')"
    for q pi pi' and u u' :: "'a host_scheme"
    using that allocate_pages_more [OF that [unfolded kkm_mm_allocate_page_def]]
    by (auto simp: kkm_mm_allocate_page_def kkm_mm_allocate_pages_def Let_def split: prod.splits if_splits)
  have "host.more s' = host.more s \<and> (r = 0 \<or> r = - ENOMEM)"
    using assms
  proof (cases rule: create_pml4_cases)
    case no_pud
    then show ?thesis using a [OF no_pud(1)] by simp
  next
    case no_pmd
    then show ?thesis using a [OF no_pmd(1)] a [OF no_pmd(2)] by simp
  next
    case no_pt
    then show ?thesis using a [OF no_pt(1)] a [OF no_pt(2)] a [OF no_pt(3)] by simp
  next
    case ok
    then show ?thesis using a [OF ok(1)] a [OF ok(2)] a [OF ok(3)] by simp
  qed
  then show "host.more s' = host.more s" "r = 0 \<or> r = - ENOMEM" by simp_all
qed

lemma setup_pgd_more [simp]:
  "host.more (kkm_mmu_setup_one_pgd E a b c s) = host.more s" "host.more (snd (kkm_mmu_sync E a' b' c' d e f s)) = host.more s"
  "klog (snd (kkm_mmu_sync E a' b' c' d e f s)) = klog s" "kkm_mmu_kx (snd (kkm_mmu_sync E a' b' c' d e f s)) = kkm_mmu_kx s"
  "klog (kkm_mmu_setup_one_pgd E a b c s) = klog s"
  by (simp_all add: kkm_mmu_setup_one_pgd_def kkm_mmu_sync_def Let_def split: prod.split)

lemma more_vm: "host.more s' = host.more (s :: 'a vm_scheme) \<Longrightarrow> vm.more s' = vm.more s"
  by (cases s, cases s', simp)

lemma vm_more_guest:
  assumes "vm.more g' = vm.more (g :: 'a guest_scheme)"
  shows "gs_kontexts g' = gs_kontexts g" "gs_freed g' = gs_freed g" "gs_kkm_addr g' = gs_kkm_addr g"
  using assms by (cases g, cases g', simp)+

lemma on_kkm_more [simp]: "vm.more (on_kkm f s) = vm.more s" by (simp add: on_kkm_def)

lemma kontainer_cleanup_more [simp]: "vm.more (kkm_kontainer_cleanup s) = vm.more s"
proof -
  have f: "vm.more (kkm_mm_free_pages va n u) = vm.more u" "vm.more (kkm_cleanup_pml4 kmu u) = vm.more u" for va n kmu and u :: "'a vm_scheme"
    by (rule more_vm; simp)+
  show ?thesis
    by (simp add: kkm_kontainer_cleanup_def kkm_kontainer_cleanup_p4d_pages_def kkm_kontainer_cleanup_pgd_pages_def
      kkm_kontainer_cleanup_lvl_pages_def Let_def f split: prod.split)
qed

text \<open>A kontainer but for its tables.\<close>

definition but_tables :: "kkm_kontainer \<Rightarrow> kkm_kontainer" where
  "but_tables k = k\<lparr>km_gk_pgd := no_page, km_gp_pgd := no_page, km_gk_p4d := no_page, km_gp_p4d := no_page, km_low_p4d := no_page,
     km_guest_pml4e := no_pml4e\<rparr>"

lemma kontainer_cleanup_tables: "but_tables (vm_kkm (kkm_kontainer_cleanup s)) = but_tables (vm_kkm s)"
  by (simp add: kkm_kontainer_cleanup_def kkm_kontainer_cleanup_p4d_pages_def kkm_kontainer_cleanup_pgd_pages_def
      kkm_kontainer_cleanup_lvl_pages_def Let_def but_tables_def split: prod.split)

lemma kontainer_init_frame:
  assumes "kkm_kontainer_init E s = (r, s')"
  shows "vm.more s' = vm.more s \<and> but_tables (vm_kkm s') = but_tables (vm_kkm s) \<and> r \<le> 0"
proof -
  have a: "vm.more u' = vm.more u \<and> vm_kkm u' = vm_kkm u \<and> q \<le> 0"
    if "kkm_mm_allocate_pages E True True True n pi u = (q, pi', u')" for q n pi pi' and u u' :: "'a vm_scheme"
    using that more_vm [OF allocate_pages_more [OF that]] allocate_pages_kkm [OF that]
    by (auto simp: kkm_mm_allocate_pages_def Let_def split: prod.splits if_splits)
  have c: "vm.more u' = vm.more u \<and> vm_kkm u' = vm_kkm u \<and> q \<le> 0" if "kkm_create_pml4 E b x u = (q, kmu, u')" for q b x kmu and u u' :: "'a vm_scheme"
    using create_pml4_more [OF that] create_pml4_kkm [OF that] more_vm by auto
  have l: "vm.more u' = vm.more u \<and> vm_kkm u' = vm_kkm u \<and> q \<le> 0"
    if "kkm_kontainer_allocate_lvl_pages E k p u = (q, k', p', u')" for q k p k' p' and u u' :: "'a vm_scheme"
    using that by (auto simp: kkm_kontainer_allocate_lvl_pages_def split: prod.splits if_splits dest!: a)
  have pg: "vm.more u' = vm.more u \<and> but_tables (vm_kkm u') = but_tables (vm_kkm u) \<and> q \<le> 0"
    if "kkm_kontainer_allocate_pgd_pages E u = (q, u')" for q and u u' :: "'a vm_scheme"
    using that by (auto simp: kkm_kontainer_allocate_pgd_pages_def but_tables_def split: prod.splits dest!: l)
  have p4: "vm.more u' = vm.more u \<and> but_tables (vm_kkm u') = but_tables (vm_kkm u) \<and> q \<le> 0"
    if "kkm_kontainer_allocate_p4d_pages E u = (q, u')" for q and u u' :: "'a vm_scheme"
    using that by (auto simp: kkm_kontainer_allocate_p4d_pages_def but_tables_def split: prod.splits dest!: l)
  have tab: "but_tables (k\<lparr>km_guest_pml4e := x\<rparr>) = but_tables k" "but_tables (k\<lparr>km_low_p4d := y\<rparr>) = but_tables k" for k x y
    by (simp_all add: but_tables_def)
  show ?thesis
    using assms unfolding kkm_kontainer_init_def Let_def
    by (auto split: prod.splits if_splits dest!: pg p4 a c simp: tab kontainer_cleanup_tables)
qed

subsection \<open>The other operations\<close>

lemma zero_guest_ok:
  assumes "gs_kontexts g = (\<lambda>_. None)" "\<not> gs_freed g" "but_tables (vm_kkm g) = but_tables (zero_kkm\<lparr>km_kontainer_fd := fd, km_id := i,
      km_mm := mm, km_reference_count := 1\<rparr>)" "outstanding E (klog g) = kontainer_blocks (vm_kkm g) + X"
  shows "guest_ok E X True g \<and> used_kontexts g = {}"
proof -
  have "km_kontext (vm_kkm g) = replicate KKM_MAX_CONTEXTS 0" "km_kontext_count (vm_kkm g) = 0" "km_reference_count (vm_kkm g) = 1"
    "km_mem_slot (vm_kkm g) = km_mem_slot zero_kkm" "km_mem_slot_count (vm_kkm g) = km_mem_slot_count zero_kkm"
    using assms(3) by (cases "vm_kkm g", simp add: but_tables_def zero_kkm_def)+
  moreover have "used_kontexts g = {}" using assms(1) by (simp add: used_kontexts_def)
  moreover have "distinct (filter (\<lambda>a. a \<noteq> 0) (replicate KKM_MAX_CONTEXTS (0 :: u64)))" by (simp add: filter_empty_conv)
  ultimately show ?thesis
    using assms slots_ok_zero by (simp add: guest_ok_def table_ok_def slots_ok_def objs_blocks_def)
qed

lemma fresh_zero: "fresh_kontainer (zero_kkm\<lparr>km_kontainer_fd := fd, km_id := i, km_mm := mm\<rparr>)"
  by (simp add: fresh_kontainer_def zero_kkm_def)

lemma kcall_guest_more [simp]: "guest.more (kcall e g) = guest.more g"
  by (simp add: kcall_def)

text \<open>The states between the steps of a successful creation.\<close>

lemma create_steps:
  assumes c: "kkm_create_kontainer E g0 = (fd, g)" and fd: "0 \<le> fd"
  obtains g5 g6 g7 where
    "vm_kkm g5 = zero_kkm\<lparr>km_kontainer_fd := fd, km_id := kkm_object_id g0 + 1, km_mm := lx_current_mm E\<rparr>"
    "outstanding E (klog g5) = outstanding E (klog g0)" "kkm_mmu_kx g5 = kkm_mmu_kx g0" "kmem g5 = kmem g0" "um g5 = um g0"
    "klog g5 = Ev_anon_inode_getfd fd # Ev_kzalloc (lx_kzalloc E (klog g0)) # klog g0"
    "fd = lx_anon_inode_getfd E (Ev_kzalloc (lx_kzalloc E (klog g0)) # klog g0)" "guest.more g5 = guest.more g0"
    "gs_kontexts g5 = (\<lambda>_. None)" "\<not> gs_freed g5" "kkm_kontainer_init E g5 = (0, g6)"
    "kkm_mmu_copy_kernel_pgd E (lx_pgd_of_mm E (lx_current_mm E)) (pi_va (km_gk_pgd (vm_kkm g6))) (pi_va (km_gp_pgd (vm_kkm g6)))
       (pi_va (km_gk_p4d (vm_kkm g6))) (pi_va (km_gp_p4d (vm_kkm g6))) g6 = (0, g7)"
    "g = kkm_statistics_kontainer_count_inc (kkm_reference_count_init g7)"
    "vm.more g6 = vm.more g5" "but_tables (vm_kkm g6) = but_tables (vm_kkm g5)"
proof -
  define addr where "addr = lx_kzalloc E (klog g0)"
  define g2 where "g2 = (on_kkm (\<lambda>_. zero_kkm) (kcall (Ev_kzalloc addr) g0))\<lparr>gs_kkm_addr := addr, gs_freed := False, gs_kontexts := (\<lambda>_. None)\<rparr>"
  define n where "n = lx_anon_inode_getfd E (klog g2)"
  define g5 where "g5 = on_kkm (\<lambda>k. k\<lparr>km_id := kkm_object_id g2 + 1, km_mm := lx_current_mm E\<rparr>)
      ((on_kkm (\<lambda>k. k\<lparr>km_kontainer_fd := n\<rparr>) (kcall (Ev_anon_inode_getfd n) g2))\<lparr>kkm_object_id := kkm_object_id g2 + 1\<rparr>)"
  obtain r1 g6 where i: "kkm_kontainer_init E g5 = (r1, g6)" by fastforce
  define k where "k = vm_kkm g6"
  obtain r2 g7 where cp: "kkm_mmu_copy_kernel_pgd E (lx_pgd_of_mm E (km_mm k)) (pi_va (km_gk_pgd k)) (pi_va (km_gp_pgd k))
                   (pi_va (km_gk_p4d k)) (pi_va (km_gp_p4d k)) g6 = (r2, g7)" by fastforce
  have v5: "vm_kkm g5 = zero_kkm\<lparr>km_kontainer_fd := n, km_id := kkm_object_id g0 + 1, km_mm := lx_current_mm E\<rparr>"
    by (simp add: g5_def g2_def on_kkm_def kcall_def)
  note F = kontainer_init_frame [OF i]
  have "km_mm (but_tables k) = km_mm (but_tables (vm_kkm g5))" "km_kontainer_fd (but_tables k) = km_kontainer_fd (but_tables (vm_kkm g5))"
    using F by (simp_all add: k_def)
  then have k: "km_mm k = lx_current_mm E" "km_kontainer_fd k = n" by (simp_all add: but_tables_def v5)
  have r2: "r2 \<le> 0" using cp by (auto simp: kkm_mmu_copy_kernel_pgd_def Let_def split: if_splits)
  have n0: "\<not> n < 0" "addr \<noteq> 0"
    using c fd unfolding kkm_create_kontainer_def Let_def addr_def [symmetric] g2_def [symmetric] n_def [symmetric]
    by (auto split: if_splits)
  have "on_kkm (\<lambda>k. k\<lparr>km_id := kkm_object_id h, km_mm := lx_current_mm E\<rparr>) h = g5"
    if "h = (let u = on_kkm (\<lambda>k. k\<lparr>km_kontainer_fd := n\<rparr>) (kcall (Ev_anon_inode_getfd n) g2) in u\<lparr>kkm_object_id := kkm_object_id u + 1\<rparr>)" for h
    unfolding that g5_def by (simp add: on_kkm_def kcall_def Let_def)
  then have "kkm_create_kontainer E g0 = (if r1 \<noteq> 0 then (r1, g6) else if r2 \<noteq> 0 then (r2, g7)
      else (n, kkm_statistics_kontainer_count_inc (kkm_reference_count_init g7)))"
    using n0 i cp unfolding kkm_create_kontainer_def Let_def addr_def [symmetric] g2_def [symmetric] n_def [symmetric]
    by (simp add: k_def [symmetric] k(2))
  then have fin: "r1 = 0" "r2 = 0" "n = fd" "g = kkm_statistics_kontainer_count_inc (kkm_reference_count_init g7)"
    using c fd F r2 by (auto split: if_splits)
  have "outstanding E (klog g5) = outstanding E (klog g0)" "kkm_mmu_kx g5 = kkm_mmu_kx g0" "kmem g5 = kmem g0" "um g5 = um g0"
    "klog g5 = Ev_anon_inode_getfd n # Ev_kzalloc (lx_kzalloc E (klog g0)) # klog g0"
    "n = lx_anon_inode_getfd E (Ev_kzalloc (lx_kzalloc E (klog g0)) # klog g0)" "guest.more g5 = guest.more g0"
    "gs_kontexts g5 = (\<lambda>_. None)" "\<not> gs_freed g5" by (simp_all add: g5_def g2_def addr_def n_def on_kkm_def)
  then show thesis
    using v5 i cp F fin k by (intro that [of g5 g6 g7]) (simp_all add: k_def)
qed

lemma create_ok:
  assumes c: "kkm_create_kontainer E g0 = (fd, g)" and fd: "0 \<le> fd" and X: "outstanding E (klog g0) = X"
    and kx: "pml4e_blocks (kkm_mmu_kx g0) \<subseteq># X"
  shows "guest_ok E X True g \<and> used_kontexts g = {}"
proof -
  from create_steps [OF c fd] obtain g5 g6 g7 where
    s5: "vm_kkm g5 = zero_kkm\<lparr>km_kontainer_fd := fd, km_id := kkm_object_id g0 + 1, km_mm := lx_current_mm E\<rparr>"
      "outstanding E (klog g5) = outstanding E (klog g0)" "kkm_mmu_kx g5 = kkm_mmu_kx g0"
      "gs_kontexts g5 = (\<lambda>_. None)" "\<not> gs_freed g5"
    and i: "kkm_kontainer_init E g5 = (0, g6)"
    and cp: "kkm_mmu_copy_kernel_pgd E (lx_pgd_of_mm E (lx_current_mm E)) (pi_va (km_gk_pgd (vm_kkm g6))) (pi_va (km_gp_pgd (vm_kkm g6)))
       (pi_va (km_gk_p4d (vm_kkm g6))) (pi_va (km_gp_p4d (vm_kkm g6))) g6 = (0, g7)"
    and g: "g = kkm_statistics_kontainer_count_inc (kkm_reference_count_init g7)"
    and m: "vm.more g6 = vm.more g5" "but_tables (vm_kkm g6) = but_tables (vm_kkm g5)" by metis
  have "host.more g7 = host.more g6" "klog g7 = klog g6"
    using cp by (auto simp: kkm_mmu_copy_kernel_pgd_def Let_def split: if_splits)
  then have g7: "vm_kkm g7 = vm_kkm g6" "klog g7 = klog g6" "gs_kontexts g7 = (\<lambda>_. None)" "\<not> gs_freed g7"
    using s5 vm_more_guest [OF m(1)] same_more_guest [of g7 g6] by simp_all
  have "outstanding E (klog g6) = kontainer_blocks (vm_kkm g6) + X"
    using i fresh_zero [where fd=fd and i="kkm_object_id g0 + 1" and mm="lx_current_mm E", folded s5(1)] s5(2) [unfolded X, symmetric]
      kx [folded s5(3)]
    by (cases rule: kontainer_init_cases) simp_all
  then have o: "outstanding E (klog g) = kontainer_blocks (vm_kkm g) + X"
    using g7 by (simp add: g kkm_reference_count_init_def kkm_statistics_defs)
  have bt: "but_tables (vm_kkm g) = (but_tables (vm_kkm g6))\<lparr>km_reference_count := 1\<rparr>"
    using g7 by (simp add: g kkm_reference_count_init_def kkm_statistics_defs but_tables_def)
  show ?thesis
  proof (rule zero_guest_ok [where fd=fd and i="kkm_object_id g0 + 1" and mm="lx_current_mm E"])
    show "gs_kontexts g = (\<lambda>_. None)" "\<not> gs_freed g" using g7 by (simp_all add: g kkm_reference_count_init_def kkm_statistics_defs)
    show "but_tables (vm_kkm g) = but_tables (zero_kkm\<lparr>km_kontainer_fd := fd, km_id := kkm_object_id g0 + 1,
      km_mm := lx_current_mm E, km_reference_count := 1\<rparr>)"
      unfolding bt m(2) s5(1) by (simp add: but_tables_def)
  qed (rule o)
qed

lemma created_fields:
  assumes c: "kkm_create_kontainer E g0 = (fd, g)" and fd: "0 \<le> fd"
  shows "gs_kontexts g = (\<lambda>_. None)" "km_kontext (vm_kkm g) = replicate KKM_MAX_CONTEXTS 0" "km_kontext_count (vm_kkm g) = 0"
    "km_mm (vm_kkm g) = lx_current_mm E" "slots_ok (vm_kkm g)" "slot_map (vm_kkm g) = (\<lambda>_. None)"
    "guest.more g = guest.more g0"
proof -
  obtain g5 g6 g7 where
    s5: "vm_kkm g5 = zero_kkm\<lparr>km_kontainer_fd := fd, km_id := kkm_object_id g0 + 1, km_mm := lx_current_mm E\<rparr>"
      "gs_kontexts g5 = (\<lambda>_. None)" "guest.more g5 = guest.more g0"
    and cp: "kkm_mmu_copy_kernel_pgd E (lx_pgd_of_mm E (lx_current_mm E)) (pi_va (km_gk_pgd (vm_kkm g6))) (pi_va (km_gp_pgd (vm_kkm g6)))
       (pi_va (km_gk_p4d (vm_kkm g6))) (pi_va (km_gp_p4d (vm_kkm g6))) g6 = (0, g7)"
    and g: "g = kkm_statistics_kontainer_count_inc (kkm_reference_count_init g7)"
    and m: "vm.more g6 = vm.more g5" "but_tables (vm_kkm g6) = but_tables (vm_kkm g5)"
    by (rule create_steps [OF c fd]) blast
  have h7: "host.more g7 = host.more g6"
    using cp by (auto simp: kkm_mmu_copy_kernel_pgd_def Let_def split: if_splits)
  have "guest.more g6 = guest.more g5" "guest.more g7 = guest.more g6" "guest.more g = guest.more g7"
    using m(1) h7 by (cases g5, cases g6, cases g7, simp add: g kkm_reference_count_init_def kkm_statistics_defs on_kkm_def on_stat_def)+
  then show "guest.more g = guest.more g0" using s5(3) by simp
  from h7 have g7: "vm_kkm g7 = vm_kkm g6" "gs_kontexts g = (\<lambda>_. None)"
    using s5 vm_more_guest [OF m(1)] same_more_guest [of g7 g6] by (simp_all add: g kkm_reference_count_init_def kkm_statistics_defs)
  then show "gs_kontexts g = (\<lambda>_. None)" by simp
  have k: "vm_kkm g = (vm_kkm g6)\<lparr>km_reference_count := 1\<rparr>" by (simp add: g kkm_reference_count_init_def kkm_statistics_defs g7)
  have "km_kontext (but_tables (vm_kkm g6)) = km_kontext (but_tables (vm_kkm g5))" "km_mm (but_tables (vm_kkm g6)) = km_mm (but_tables (vm_kkm g5))"
    "km_kontext_count (but_tables (vm_kkm g6)) = km_kontext_count (but_tables (vm_kkm g5))"
    "km_mem_slot (but_tables (vm_kkm g6)) = km_mem_slot (but_tables (vm_kkm g5))"
    "km_mem_slot_count (but_tables (vm_kkm g6)) = km_mem_slot_count (but_tables (vm_kkm g5))" by (simp_all only: m(2))
  then have f: "km_kontext (vm_kkm g) = km_kontext zero_kkm" "km_kontext_count (vm_kkm g) = 0" "km_mm (vm_kkm g) = lx_current_mm E"
    "km_mem_slot (vm_kkm g) = km_mem_slot zero_kkm" "km_mem_slot_count (vm_kkm g) = km_mem_slot_count zero_kkm"
    by (simp_all add: k but_tables_def s5 del: replicate.simps) (simp_all add: zero_kkm_def)
  from f(1) show "km_kontext (vm_kkm g) = replicate KKM_MAX_CONTEXTS 0" by (simp add: zero_kkm_def del: replicate.simps)
  from f show "km_kontext_count (vm_kkm g) = 0" "km_mm (vm_kkm g) = lx_current_mm E" by simp_all
  show "slots_ok (vm_kkm g)" using slots_ok_zero by (simp add: slots_ok_def f)
  show "slot_map (vm_kkm g) = (\<lambda>_. None)" by (simp add: slot_map_def f fun_eq_iff) (simp add: zero_kkm_def)
qed

text \<open>Adding a kontext does not touch the memory slots.\<close>

lemma map_pages_kkm: "map_pages E a is g = (ok, g') \<Longrightarrow> vm_kkm g' = vm_kkm g"
proof (induction "is" arbitrary: g)
  case (Cons i "is")
  obtain p g1 where p: "alloc_pages E 0 g = (p, g1)" by fastforce
  note A = alloc_pages_guest(4) [OF p]
  show ?case
  proof (cases "p = 0")
    case True
    then show ?thesis using Cons.prems A by (auto simp: p Let_def)
  next
    case False
    then obtain g2 where "map_pages E a is g2 = (ok, g')" "vm_kkm g2 = vm_kkm g1" using Cons.prems by (simp add: p Let_def)
    with Cons.IH A show ?thesis by simp
  qed
qed simp

lemma start_slots:
  assumes "start_kontext E vid a g = Some (r, g')"
  shows "km_mem_slot (vm_kkm g') = km_mem_slot (vm_kkm g)"
  using assms
  by (auto simp: start_kontext_def kkm_statistics_defs kkm_reference_count_up_def Let_def dest!: map_pages_kkm kontext_init_keeps
      split: prod.splits option.splits if_splits)

lemma add_slots:
  assumes "kkm_add_execution_kontext E arg g = Some (r, g')"
  shows "slot_map (vm_kkm g') = slot_map (vm_kkm g)"
proof -
  have "km_mem_slot (vm_kkm g') = km_mem_slot (vm_kkm g)"
    using assms by (auto simp: kkm_add_execution_kontext_def Let_def dest!: start_slots split: if_splits)
  then show ?thesis by (simp add: slot_map_def fun_eq_iff)
qed

text \<open>An ioctl of a kontext.\<close>

lemma kontext_ioctl_ok:
  assumes P: "platform_calls P" and ok: "guest_ok E X b g" and ko: "gs_kontexts g a = Some ko"
    and turn: "turn_ok E (enter_kontext ko g)"
    and i: "kkm_execution_kontext_ioctl P im E n stack t arg (enter_kontext ko g) = Returns (r, v)"
  shows "guest_ok E X b (leave_kontext a v g) \<and> used_kontexts (leave_kontext a v g) = used_kontexts g"
proof -
  have "page_frame E v = page_frame E (enter_kontext ko g)" by (rule ioctl_contract [OF P turn i])
  then have v: "vm_kkm v = vm_kkm g" "outstanding E (klog v) = outstanding E (klog g)"
    "kontext_home (vc_kontext v) = kontext_home (ko_kontext ko)" by (simp_all add: page_frame_def)
  show ?thesis
  proof (rule same_guest_ok [OF ok])
    show "home_map (leave_kontext a v g) = home_map g" using v ko by (auto simp: home_map_def)
    show "slots_ok (vm_kkm (leave_kontext a v g))" using ok v by (simp add: guest_ok_def)
  qed (simp_all add: v)
qed

text \<open>The ioctls of the kontainer's own file that add no kontext.\<close>

lemma set_memory_frame:
  assumes s: "kkm_set_kontainer_memory E arg g = Some (r, g')"
  shows "vm.more g' = vm.more g \<and> outstanding E (klog g') = outstanding E (klog g)"
proof -
  obtain left bs g1 where c: "copy_from_user E arg 32 g = (left, bs, g1)" by (rule prod_cases3)
  note f = copy_from_user_frame(5,7) [OF c] more_vm [OF copy_from_user_frame(5) [OF c]]
  have m: "vm.more (snd (kkm_mmu_sync E a' b' c' d e h u)) = vm.more u" for a' b' c' d e h and u :: "'a guest_scheme"
    by (rule more_vm) simp
  show ?thesis
    using s c f by (auto simp: kkm_set_kontainer_memory_def sizeof_def shapes Let_def m split: if_splits prod.splits)
qed

lemma set_memory_ok:
  assumes ok: "slots_ok (vm_kkm g)" and s: "kkm_set_kontainer_memory E arg g = Some (r, g')"
  shows "slots_ok (vm_kkm g') \<and> but_slots (vm_kkm g') = but_slots (vm_kkm g)"
proof -
  obtain left bs g1 where c: "copy_from_user E arg 32 g = (left, bs, g1)" by (rule prod_cases3)
  show ?thesis
  proof (cases "left = 0")
    case True
    then show ?thesis using memory_map [OF ok s c [unfolded True]] by simp
  next
    case False
    then have "g' = g1" using s c by (simp add: kkm_set_kontainer_memory_def sizeof_def shapes)
    then show ?thesis using ok same_more_vm [OF copy_from_user_frame(5) [OF c]] by simp
  qed
qed

lemma kontainer_ioctl_ok:
  assumes ok: "guest_ok E X b g" and t: "t \<noteq> KKM_ADD_EXECUTION_CONTEXT" and i: "kkm_kontainer_ioctl E t arg g = Some (r, g')"
  shows "guest_ok E X b g' \<and> used_kontexts g' = used_kontexts g"
proof -
  have sl: "slots_ok (vm_kkm g)" using ok by (simp add: guest_ok_def)
  have keep: ?thesis if m: "vm.more g' = vm.more g" and o: "outstanding E (klog g') = outstanding E (klog g)"
    and k: "but_id_map (vm_kkm g') = but_id_map (vm_kkm g)" "slots_ok (vm_kkm g')"
    by (rule same_guest_ok [OF ok _ _ k]) (simp_all add: home_map_def vm_more_guest [OF m] o)
  consider (memory) "kkm_set_kontainer_memory E arg g = Some (r, g')" | (idmap) "kkm_set_id_map_addr E arg g = (r, g')" | (none) "g' = g"
    using i t by (auto simp: kkm_kontainer_ioctl_def split: if_splits)
  then show ?thesis
  proof cases
    case memory
    from set_memory_frame [OF this] set_memory_ok [OF sl this] show ?thesis
      by (intro keep) (auto simp: but_id_map_def)
  next
    case idmap
    obtain left bs g1 where c: "copy_from_user E arg 8 g = (left, bs, g1)" by (rule prod_cases3)
    note f = copy_from_user_frame(7) [OF c] more_vm [OF copy_from_user_frame(5) [OF c]] same_more_vm [OF copy_from_user_frame(5) [OF c]]
    show ?thesis
      using idmap c f sl by (intro keep) (auto simp: kkm_set_id_map_addr_def but_id_map_def but_slots_def slots_ok_def split: if_splits)
  next
    case none
    then show ?thesis using ok by simp
  qed
qed

subsection \<open>Histories\<close>

text \<open>
  \<open>own\<close>: the kontainer's own file is open; \<open>F\<close>: the kontexts whose files are open; \<open>X\<close>: the pages the module
  holds for other purposes. A kontext is added when the count of kontexts went up and a descriptor was installed;
  an attempt that changed no kontext is refused. (Attempts that fail half-way are not here: see the last property.)
\<close>

inductive guest_life :: "kkm_platform_calls \<Rightarrow> kx_image \<Rightarrow> linux \<Rightarrow> (u64 \<times> nat) multiset \<Rightarrow> bool \<Rightarrow> u64 set \<Rightarrow> guest \<Rightarrow> bool"
  for P im E where
  created: "kkm_create_kontainer E g0 = (fd, g) \<Longrightarrow> 0 \<le> fd \<Longrightarrow> pml4e_blocks (kkm_mmu_kx g0) \<subseteq># outstanding E (klog g0) \<Longrightarrow>
     guest_life P im E (outstanding E (klog g0)) True {} g"
| added: "guest_life P im E X True F g \<Longrightarrow> gs_kontexts g (lx_kzalloc E (klog (kcall (Ev_mutex_lock Kontext_lock) g))) = None \<Longrightarrow>
     kkm_kontainer_ioctl E KKM_ADD_EXECUTION_CONTEXT arg g = Some (fd, g') \<Longrightarrow>
     km_kontext_count (vm_kkm g') = km_kontext_count (vm_kkm g) + 1 \<Longrightarrow> a \<in> used_kontexts g' - F \<Longrightarrow>
     gs_kontexts g' a = Some ko \<Longrightarrow> 0 \<le> kn_kontext_fd (ko_kontext ko) \<Longrightarrow> guest_life P im E X True (insert a F) g'"
| refused: "guest_life P im E X True F g \<Longrightarrow> gs_kontexts g (lx_kzalloc E (klog (kcall (Ev_mutex_lock Kontext_lock) g))) = None \<Longrightarrow>
     kkm_kontainer_ioctl E KKM_ADD_EXECUTION_CONTEXT arg g = Some (r, g') \<Longrightarrow> used_kontexts g' = F \<Longrightarrow>
     guest_life P im E X True F g'"
| asked: "guest_life P im E X True F g \<Longrightarrow> t \<noteq> KKM_ADD_EXECUTION_CONTEXT \<Longrightarrow> kkm_kontainer_ioctl E t arg g = Some (r, g') \<Longrightarrow>
     guest_life P im E X True F g'"
| kontext_asked: "guest_life P im E X own F g \<Longrightarrow> a \<in> F \<Longrightarrow> gs_kontexts g a = Some ko \<Longrightarrow> turn_ok E (enter_kontext ko g) \<Longrightarrow>
     kkm_execution_kontext_ioctl P im E n stack t arg (enter_kontext ko g) = Returns (r, v) \<Longrightarrow>
     guest_life P im E X own F (leave_kontext a v g)"
| elsewhere: "guest_life P im E X own F g \<Longrightarrow> vm_kkm g' = vm_kkm g \<Longrightarrow> home_map g' = home_map g \<Longrightarrow> gs_freed g' = gs_freed g \<Longrightarrow>
     outstanding E (klog g') + X = outstanding E (klog g) + X' \<Longrightarrow> guest_life P im E X' own F g'"
| kontext_closed: "guest_life P im E X own F g \<Longrightarrow> a \<in> F \<Longrightarrow> kkm_execution_kontext_release a g = Some g' \<Longrightarrow>
     guest_life P im E X own (F - {a}) g'"
| closed: "guest_life P im E X True F g \<Longrightarrow> guest_life P im E X False F (kkm_kontainer_release g)"

lemma guest_life_ok:
  assumes life: "guest_life P im E X own F g" and P: "platform_calls P" and env: "lx_address_ok E"
  shows "if \<not> own \<and> F = {} then guest_gone E X g else guest_ok E X own g \<and> used_kontexts g = F"
  using life
proof induction
  case (created g0 fd g)
  then show ?case using create_ok [OF created(1,2) refl created(3)] by simp
next
  case (added X F g arg fd g' a ko)
  have i: "kkm_add_execution_kontext E arg g = Some (fd, g')" using added(3) by (simp add: kkm_kontainer_ioctl_def)
  have ok: "guest_ok E X True g" "used_kontexts g = F" using added.IH by simp_all
  from add_ok(2) [OF env added(2) ok(1) i added(4)] added(5) ok(2) show ?case by auto
next
  case (refused X F g arg r g')
  have i: "kkm_add_execution_kontext E arg g = Some (r, g')" using refused(3) by (simp add: kkm_kontainer_ioctl_def)
  have ok: "guest_ok E X True g" "used_kontexts g = F" using refused.IH by simp_all
  then show ?case using add_ok(1) [OF env refused(2) ok(1) i] refused(4) by simp
next
  case (asked X F g t arg r g')
  have ok: "guest_ok E X True g" "used_kontexts g = F" using asked.IH by simp_all
  then show ?case using kontainer_ioctl_ok [OF ok(1) asked(2,3)] by simp
next
  case (kontext_asked X own F g a ko n stack t arg r v)
  have ok: "guest_ok E X own g" "used_kontexts g = F" using kontext_asked.IH kontext_asked(2) by (auto split: if_splits)
  then show ?case using kontext_ioctl_ok [OF P ok(1) kontext_asked(3,4,5)] kontext_asked(2) by auto
next
  case (elsewhere X own F g g' X')
  show ?case
  proof (cases "\<not> own \<and> F = {}")
    case True
    then show ?thesis using same_guest_gone [OF _ elsewhere(3,4,5)] elsewhere.IH by simp
  next
    case False
    then have ok: "guest_ok E X own g" "used_kontexts g = F" using elsewhere.IH by auto
    then have "slots_ok (vm_kkm g')" using elsewhere(2) by (simp add: guest_ok_def)
    then show ?thesis using same_guest_ok [OF ok(1) elsewhere(3,4) _ _ elsewhere(5)] elsewhere(2) ok(2) False by auto
  qed
next
  case (kontext_closed X own F g a g')
  have ok: "guest_ok E X own g" "used_kontexts g = F" using kontext_closed.IH kontext_closed(2) by (auto split: if_splits)
  have a: "a \<in> used_kontexts g" using ok(2) kontext_closed(2) by simp
  note R = release_ok [OF ok(1) a kontext_closed(3), unfolded ok(2)]
  show ?case
  proof (cases "\<not> own \<and> F - {a} = {}")
    case True
    then have "guest_gone E X g'" using R(1) by blast
    then show ?thesis by (simp only: True simp_thms if_True)
  next
    case False
    then have "guest_ok E X own g' \<and> used_kontexts g' = F - {a}" using R(2) by blast
    then show ?thesis by (simp only: False if_False)
  qed
next
  case (closed X F g)
  have ok: "guest_ok E X True g" "used_kontexts g = F" using closed.IH by simp_all
  note G = ok(1) [unfolded guest_ok_def]
  have t: "table_ok (vm_kkm g) (gs_kontexts g)" using G by simp
  have z: "card (used_kontexts g) = 0 \<longleftrightarrow> F = {}" using used_finite [OF t] ok(2) by simp
  note D = down_ok [where open_file=False and n="card (used_kontexts g)" and X=X and E=E, OF t]
  show ?case
  proof (cases "F = {}")
    case True
    then show ?thesis using D(1) G z by (simp add: kkm_kontainer_release_def)
  next
    case False
    then show ?thesis using D(2) G z ok(2) by (simp add: kkm_kontainer_release_def)
  qed
qed

subsection \<open>Adding never leaves the table\<close>

lemma dom_map_update [simp]: "dom (m(a := map_option f (m a))) = dom m"
  by (auto simp: dom_def)

lemma map_pages_dom: "map_pages E a is g = (ok, g') \<Longrightarrow> dom (gs_kontexts g') = dom (gs_kontexts g)"
proof (induction "is" arbitrary: g)
  case (Cons i "is")
  obtain p g1 where p: "alloc_pages E 0 g = (p, g1)" by fastforce
  note A = alloc_pages_guest(1) [OF p]
  show ?case
  proof (cases "p = 0")
    case True
    then show ?thesis using Cons.prems A p by (auto simp: Let_def split: if_splits)
  next
    case False
    then have "\<exists>h. map_pages E a is h = (ok, g') \<and> dom (gs_kontexts h) = dom (gs_kontexts g)"
      using Cons.prems A p by (simp add: Let_def option.map_comp) (rule exI, rule conjI, assumption, auto simp: option.map_comp)
    then show ?thesis using Cons.IH by metis
  qed
qed simp

lemma start_defined:
  assumes "gs_kontexts g a \<noteq> None"
  shows "start_kontext E vid a g \<noteq> None"
proof -
  define g1 where "g1 = g\<lparr>kkm_object_id := kkm_object_id g + 1\<rparr>"
  define g2 where "g2 = on_object a (\<lambda>k. k\<lparr>kn_id := kkm_object_id g1, kn_index := ucast vid, kn_used := True,
                 kn_first_thread := (km_kontext_count (vm_kkm g1) = 0), kn_task := lx_current E, kn_kkm := gs_kkm_addr g1\<rparr>) g1"
  define fd where "fd = lx_anon_inode_getfd E (klog g2)"
  define g3 where "g3 = on_object a (\<lambda>k. k\<lparr>kn_kontext_fd := fd\<rparr>) (kcall (Ev_anon_inode_getfd fd) g2)"
  obtain ok g4 where m: "map_pages E a [0..<KKM_CONTEXT_MAP_PAGE_COUNT] g3 = (ok, g4)" by fastforce
  have "gs_kontexts g3 a \<noteq> None" using assms by (simp add: g3_def g2_def g1_def)
  then have "a \<in> dom (gs_kontexts g4)" using map_pages_dom [OF m] by auto
  then obtain ko where "gs_kontexts g4 a = Some ko" by auto
  then show ?thesis
    using m unfolding start_kontext_def Let_def g1_def [symmetric] g2_def [symmetric] fd_def [symmetric] g3_def [symmetric]
    by (auto split: prod.splits)
qed

lemma add_defined:
  assumes ok: "guest_ok E X True g"
  shows "kkm_add_execution_kontext E arg g \<noteq> None"
proof -
  have t: "table_ok (vm_kkm g) (gs_kontexts g)" and c: "km_kontext_count (vm_kkm g) = of_nat (card (used_kontexts g))"
    using ok by (simp_all add: guest_ok_def)
  define i where "i = find_slot (gs_kontexts g) (km_kontext (vm_kkm g)) 0"
  have room: "i < KKM_MAX_CONTEXTS" if "unat (km_kontext_count (vm_kkm g)) < KKM_MAX_CONTEXTS"
    using find_slot_room [OF t] used_card [OF t] that by (simp add: c i_def unat_of_nat take_bit_eq_mod)
  have m: "gs_kontexts g (km_kontext (vm_kkm g) ! i) \<noteq> None" if "i < KKM_MAX_CONTEXTS" "km_kontext (vm_kkm g) ! i \<noteq> 0"
  proof -
    have "km_kontext (vm_kkm g) ! i \<in> dom (gs_kontexts g)" using that t by (simp add: table_ok_def)
    then show ?thesis by auto
  qed
  have s: "start_kontext E vid (km_kontext (vm_kkm g) ! i) h \<noteq> None" if "i < KKM_MAX_CONTEXTS" "km_kontext (vm_kkm g) ! i \<noteq> 0"
      "gs_kontexts h = gs_kontexts g" for h :: "'a guest_scheme" and vid
    by (rule start_defined) (use m that in simp)
  have f: "start_kontext E vid b (set_kontext b ko h) \<noteq> None" for b ko vid and h :: "'a guest_scheme"
    by (rule start_defined) simp
  show ?thesis
    using room s f unfolding kkm_add_execution_kontext_def Let_def by (auto simp: i_def [symmetric] not_le)
qed

subsection \<open>Properties\<close>

lemma free_map_pages_kkm [simp]: "vm_kkm (free_map_pages a ko g) = vm_kkm g"
proof -
  have "vm_kkm (fold f is g) = vm_kkm g" if "\<And>i h. vm_kkm (f i h) = vm_kkm h" for f and "is" :: "nat list"
    using that by (induction "is" arbitrary: g) simp_all
  then show ?thesis by (simp add: free_map_pages_def Let_def)
qed

lemma release_last:
  assumes rel: "kkm_execution_kontext_release a g = Some g'" and r: "km_reference_count (vm_kkm g) = 1"
  shows "gs_freed g'"
  using rel r by (auto simp: kkm_execution_kontext_release_def Let_def kontext_cleanup_keeps kkm_reference_count_down_def
      refcount_dec_and_test_def kkm_destroy_app_def split: option.splits)

definition example_empty :: guest where
  "example_empty = example_guest\<lparr>kkm_mmu_kx := no_pml4e\<rparr>"

lemma example_empty_simps [simp]: "klog example_empty = []" "kkm_mmu_kx example_empty = no_pml4e"
  by (simp_all add: example_empty_def)

lemma example_address: "lx_address_ok example_linux"
  using example_alloc_word(4) by (simp add: lx_address_ok_def)

lemma example_create:
  assumes heap: "heap_top (klog g0) = 0x100000" and kz: "lx_kzalloc example_linux (klog g0) \<noteq> 0"
  shows "\<exists>fd g. kkm_create_kontainer example_linux g0 = (fd, g) \<and> 0 \<le> fd"
proof -
  obtain fd g where c: "kkm_create_kontainer example_linux g0 = (fd, g)" by fastforce
  define addr where "addr = lx_kzalloc example_linux (klog g0)"
  define g2 where "g2 = (on_kkm (\<lambda>_. zero_kkm) (kcall (Ev_kzalloc addr) g0))\<lparr>gs_kkm_addr := addr, gs_freed := False, gs_kontexts := (\<lambda>_. None)\<rparr>"
  define n where "n = lx_anon_inode_getfd example_linux (klog g2)"
  define g5 where "g5 = (let u = on_kkm (\<lambda>k. k\<lparr>km_kontainer_fd := n\<rparr>) (kcall (Ev_anon_inode_getfd n) g2); h = u\<lparr>kkm_object_id := kkm_object_id u + 1\<rparr>
    in on_kkm (\<lambda>k. k\<lparr>km_id := kkm_object_id h, km_mm := lx_current_mm example_linux\<rparr>) h)"
  have n: "0 \<le> n" "addr \<noteq> 0" using kz by (simp_all add: n_def addr_def g2_def example_linux_def on_kkm_def)
  have v: "vm_kkm g5 = zero_kkm\<lparr>km_kontainer_fd := n, km_id := kkm_object_id g0 + 1, km_mm := lx_current_mm example_linux\<rparr>"
    "heap_top (klog g5) = 0x100000" by (simp_all add: g5_def g2_def on_kkm_def Let_def heap)
  obtain g6 where i: "kkm_kontainer_init example_linux g5 = (0, g6)"
    using example_kontainer_init [of g5] v fresh_zero by auto
  have "but_tables (vm_kkm g6) = but_tables (vm_kkm g5)" using kontainer_init_frame [OF i] by simp
  then have "km_kontainer_fd (but_tables (vm_kkm g6)) = km_kontainer_fd (but_tables (vm_kkm g5))" by simp
  then have f: "km_kontainer_fd (vm_kkm g6) = n" by (simp add: but_tables_def v)
  have pgd: "lx_pgd_of_mm example_linux m \<noteq> 0" for m by (simp add: example_linux_def)
  have "fd = n"
    using c n pgd f i unfolding kkm_create_kontainer_def Let_def addr_def [symmetric] g2_def [symmetric] n_def [symmetric] g5_def [unfolded Let_def, symmetric]
    by (simp add: kkm_mmu_copy_kernel_pgd_def Let_def)
  then show ?thesis using c n by simp
qed

lemma example_alloc_pages:
  assumes a: "alloc_pages example_linux 0 g = (p, g1)" and room: "heap_top (klog g) + 8192 \<le> 2 ^ 40"
  shows "p \<noteq> 0" "heap_top (klog g1) \<le> heap_top (klog g) + 8192"
proof -
  define pi where "pi = no_page\<lparr>pi_page := p, pi_va := lx_page_address example_linux p\<rparr>"
  have "kkm_mm_allocate_pages example_linux True True False 1 no_page g = (if p = 0 then (- ENOMEM, no_page, g1) else (0, pi, g1))"
    using a by (auto simp: kkm_mm_allocate_pages_def pi_def no_page_def)
  then obtain r pi' where k: "kkm_mm_allocate_pages example_linux True True False 1 no_page g = (r, pi', g1)" "r \<noteq> 0 \<longleftrightarrow> p = 0"
    by (auto split: if_splits)
  from example_allocate [OF k(1)] room k(2) show "p \<noteq> 0" "heap_top (klog g1) \<le> heap_top (klog g) + 8192" by simp_all
qed

lemma example_map_pages:
  "map_pages example_linux a is g = (ok, g') \<Longrightarrow> heap_top (klog g) + 8192 * length is \<le> 2 ^ 39 \<Longrightarrow>
     ok \<and> heap_top (klog g') \<le> heap_top (klog g) + 8192 * length is"
proof (induction "is" arbitrary: g)
  case (Cons i "is")
  obtain p g1 where p: "alloc_pages example_linux 0 g = (p, g1)" by fastforce
  have b: "p \<noteq> 0" "heap_top (klog g1) \<le> heap_top (klog g) + 8192" using example_alloc_pages [OF p] Cons.prems(2) by simp_all
  from Cons.prems(1) b(1) obtain g2 where g2: "map_pages example_linux a is g2 = (ok, g')" "klog g2 = klog g1"
    by (simp add: p Let_def)
  from Cons.IH [OF g2(1)] b(2) Cons.prems(2) g2(2) show ?case by simp
qed simp

lemma example_kontext_init:
  assumes i: "kkm_kontext_init example_linux a (s :: 'a vcpu_scheme) = (r, s')" and room: "heap_top (klog s) \<le> 2 ^ 39"
  shows "r = 0"
proof -
  obtain r1 area s1 where a1: "kkm_mm_allocate_pages example_linux True True False KKM_GUEST_AREA_PAGES
      \<lparr>pi_page = kn_guest_area_page (vc_kontext s), pi_va = kn_guest_area (vc_kontext s), pi_pa = 0\<rparr> s = (r1, area, s1)" by (rule prod_cases3)
  have b1: "r1 = 0" "heap_top (klog s1) \<le> heap_top (klog s) + 16384" using example_allocate [OF a1] room by simp_all
  have fin: "r = 0" if "(case kkm_mm_allocate_pages example_linux True True True KKM_FPU_XSAVE_ALLOC_PAGES x h of (r2, xsave, s5) \<Rightarrow>
      if r2 \<noteq> 0 then (r2, f xsave s5) else (0, k xsave s5)) = (r, s')" "klog h = klog s1" for x h and f k :: "_ \<Rightarrow> _ \<Rightarrow> 'a vcpu_scheme"
  proof -
    obtain r2 xsave s5 where a2: "kkm_mm_allocate_pages example_linux True True True KKM_FPU_XSAVE_ALLOC_PAGES x h = (r2, xsave, s5)"
      by (rule prod_cases3)
    have "r2 = 0" using example_allocate(1) [OF a2] b1(2) room by (simp add: that(2))
    then show ?thesis using that(1) by (simp add: a2)
  qed
  show ?thesis using i unfolding kkm_kontext_init_def Let_def a1 by (simp add: b1(1)) (rule fin, assumption, simp)
qed

lemma example_start:
  assumes ko: "gs_kontexts g a = Some ko" "obj_ok ko" "\<not> kn_used (ko_kontext ko)" and room: "heap_top (klog g) \<le> 2 ^ 38"
  shows "\<exists>fd g' ko'. start_kontext example_linux vid a g = Some (fd, g') \<and> 0 \<le> fd \<and>
    km_kontext_count (vm_kkm g') = km_kontext_count (vm_kkm g) + 1 \<and> gs_kontexts g' a = Some ko' \<and> kn_used (ko_kontext ko') \<and>
    0 \<le> kn_kontext_fd (ko_kontext ko')"
proof -
  define g1 where "g1 = g\<lparr>kkm_object_id := kkm_object_id g + 1\<rparr>"
  define g2 where "g2 = on_object a (\<lambda>k. k\<lparr>kn_id := kkm_object_id g1, kn_index := ucast vid, kn_used := True,
                 kn_first_thread := (km_kontext_count (vm_kkm g1) = 0), kn_task := lx_current example_linux, kn_kkm := gs_kkm_addr g1\<rparr>) g1"
  define fd where "fd = lx_anon_inode_getfd example_linux (klog g2)"
  define g3 where "g3 = on_object a (\<lambda>k. k\<lparr>kn_kontext_fd := fd\<rparr>) (kcall (Ev_anon_inode_getfd fd) g2)"
  obtain ok g4 where m: "map_pages example_linux a [0..<KKM_CONTEXT_MAP_PAGE_COUNT] g3 = (ok, g4)" by fastforce
  obtain ko3 where g3: "klog g3 = Ev_anon_inode_getfd fd # klog g" "vm_kkm g3 = vm_kkm g" "gs_kontexts g3 a = Some ko3"
    and k3: "kn_kontext_fd (ko_kontext ko3) = fd" "kn_used (ko_kontext ko3)" "kn_mmap_area (ko_kontext ko3) = kn_mmap_area (ko_kontext ko)"
    using ko(1) by (simp add: g3_def g2_def g1_def)
  have pre: "\<forall>i \<in> set [0..<KKM_CONTEXT_MAP_PAGE_COUNT]. i < length (kn_mmap_area (ko_kontext ko3)) \<and>
      ma_kvaddr (kn_mmap_area (ko_kontext ko3) ! i) = 0" using ko by (simp add: k3 obj_ok_def)
  have ok: ok "heap_top (klog g4) \<le> 2 ^ 39" using example_map_pages [OF m] g3 room by auto
  obtain ko4 where ko4: "gs_kontexts g4 a = Some ko4" "but_map (ko_kontext ko4) = but_map (ko_kontext ko3)" "vm_kkm g4 = vm_kkm g"
    using map_pages_ok [OF example_address m g3(3) distinct_upt pre] g3(2) by auto
  have "kn_kontext_fd (but_map (ko_kontext ko4)) = kn_kontext_fd (but_map (ko_kontext ko3))"
    "kn_used (but_map (ko_kontext ko4)) = kn_used (but_map (ko_kontext ko3))" by (simp_all only: ko4(2))
  then have k4: "kn_kontext_fd (ko_kontext ko4) = fd" "kn_used (ko_kontext ko4)" by (simp_all add: but_map_def k3)
  obtain q v where i: "kkm_kontext_init example_linux a (enter_kontext ko4 g4) = (q, v)" by fastforce
  have q: "q = 0" by (rule example_kontext_init [OF i]) (use ok in simp)
  have "0 \<le> fd" by (simp add: fd_def example_linux_def)
  moreover note kontext_init_keeps [OF i]
  ultimately show ?thesis
    unfolding start_kontext_def Let_def g1_def [symmetric] g2_def [symmetric] fd_def [symmetric] g3_def [symmetric]
    by (simp add: m ko4 ok i q k4 kkm_statistics_defs kkm_reference_count_up_def)
qed

text \<open>A kontainer with one kontext.\<close>

lemma created_example:
  assumes c: "kkm_create_kontainer example_linux g0 = (fd, g)" "0 \<le> fd" and heap: "heap_top (klog g0) = 0x100000"
  shows "heap_top (klog g) \<le> 2 ^ 37"
proof -
  obtain g5 g6 g7 where
    s5: "vm_kkm g5 = zero_kkm\<lparr>km_kontainer_fd := fd, km_id := kkm_object_id g0 + 1, km_mm := lx_current_mm example_linux\<rparr>"
      "klog g5 = Ev_anon_inode_getfd fd # Ev_kzalloc (lx_kzalloc example_linux (klog g0)) # klog g0"
    and i: "kkm_kontainer_init example_linux g5 = (0, g6)"
    and cp: "kkm_mmu_copy_kernel_pgd example_linux (lx_pgd_of_mm example_linux (lx_current_mm example_linux)) (pi_va (km_gk_pgd (vm_kkm g6)))
       (pi_va (km_gp_pgd (vm_kkm g6))) (pi_va (km_gk_p4d (vm_kkm g6))) (pi_va (km_gp_p4d (vm_kkm g6))) g6 = (0, g7)"
    and g: "g = kkm_statistics_kontainer_count_inc (kkm_reference_count_init g7)"
    by (rule create_steps [OF c]) blast
  have "klog g7 = klog g6" using cp by (auto simp: kkm_mmu_copy_kernel_pgd_def Let_def split: if_splits)
  then have g7: "klog g = klog g6" by (simp add: g kkm_reference_count_init_def kkm_statistics_defs)
  obtain g8 kmu g9 where p: "kkm_kontainer_allocate_pgd_pages example_linux g5 = (0, g8)"
    and q: "kkm_create_pml4 example_linux False KKM_KM_GUEST_PRIVATE_MEM_START_VA g8 = (0, kmu, g9)" and k6: "klog g6 = klog g9"
    using i by (auto simp: kkm_kontainer_init_def Let_def split: if_splits prod.splits)
  obtain pi s1 where al: "kkm_mm_allocate_pages example_linux True True True KKM_KONTAINER_LVL_PAGE_COUNT no_page g5 = (0, pi, s1)"
    and k8: "klog g8 = klog s1"
    using p by (auto simp: kkm_kontainer_allocate_pgd_pages_def kkm_kontainer_allocate_lvl_pages_def s5 zero_kkm_def split: if_splits prod.splits)
  have "heap_top (klog g8) \<le> 0x104000" using example_allocate(2) [OF al] by (simp add: s5 heap k8)
  then show "heap_top (klog g) \<le> 2 ^ 37" using example_pml4_top [OF q] by (simp add: g7 k6)
qed

lemma example_add:
  assumes z: "gs_kontexts g = (\<lambda>_. None)" "km_kontext (vm_kkm g) = replicate KKM_MAX_CONTEXTS 0" "km_kontext_count (vm_kkm g) = 0"
    "km_mm (vm_kkm g) = lx_current_mm example_linux" and top: "heap_top (klog g) \<le> 2 ^ 38"
  shows "\<exists>n g' b ko. kkm_add_execution_kontext example_linux 0 g = Some (n, g') \<and> 0 \<le> n \<and> km_kontext_count (vm_kkm g') = 1 \<and>
    gs_kontexts g' b = Some ko \<and> kn_used (ko_kontext ko) \<and> 0 \<le> kn_kontext_fd (ko_kontext ko)"
proof -
  define h where "h = kcall (Ev_mutex_lock Kontext_lock) g"
  define b where "b = lx_kzalloc example_linux (klog h)"
  define h2 where "h2 = set_kontext b zero_obj (on_kkm (\<lambda>k. k\<lparr>km_kontext := (km_kontext k)[0 := b]\<rparr>) (kcall (Ev_kzalloc b) h))"
  obtain n h3 ko where s: "start_kontext example_linux 0 b h2 = Some (n, h3)" "0 \<le> n" "km_kontext_count (vm_kkm h3) = km_kontext_count (vm_kkm h2) + 1"
    "gs_kontexts h3 b = Some ko" "kn_used (ko_kontext ko)" "0 \<le> kn_kontext_fd (ko_kontext ko)"
    using example_start [of h2 b zero_obj 0] top by (auto simp: h2_def h_def)
  define g' where "g' = kcall (Ev_mutex_unlock Kontext_lock) h3"
  have f: "find_slot m (replicate KKM_MAX_CONTEXTS 0) 0 = 0" for m
    by (simp add: replicate_Suc [of 287, simplified])
  have b: "b \<noteq> 0" by (simp add: b_def example_linux_def or_eq_0_iff)
  have hz: "km_mm (vm_kkm h) = lx_current_mm example_linux" "km_kontext_count (vm_kkm h) = 0" "km_kontext (vm_kkm h) = replicate KKM_MAX_CONTEXTS 0"
    "gs_kontexts h = (\<lambda>_. None)" by (simp_all add: h_def z del: replicate.simps)
  have "find_slot (gs_kontexts h) (km_kontext (vm_kkm h)) 0 = 0" "km_kontext (vm_kkm h) ! 0 = 0" by (simp_all only: hz f) simp
  then have "kkm_add_execution_kontext example_linux 0 g = Some (n, g')"
    unfolding kkm_add_execution_kontext_def Let_def h_def [symmetric] b_def [symmetric]
    using s(1) [unfolded h2_def] b by (simp add: hz g'_def)
  moreover have "km_kontext_count (vm_kkm g') = 1" using s(3) hz by (simp add: g'_def h2_def)
  ultimately show ?thesis using s by (auto simp: g'_def)
qed

lemma example_life:
  "\<exists>g a. guest_life (kkm_platform Platform_native) example_image example_linux {#} True {a} g"
proof -
  obtain fd g where c: "kkm_create_kontainer example_linux example_empty = (fd, g)" "0 \<le> fd"
    using example_create [of example_empty] by (auto simp: example_linux_def)
  let ?L = "guest_life (kkm_platform Platform_native) example_image example_linux {#}"
  have l: "?L True {} g" using guest_life.created [OF c] by simp
  note z = created_fields [OF c]
  obtain n g' b ko where add: "kkm_add_execution_kontext example_linux 0 g = Some (n, g')" "0 \<le> n" "km_kontext_count (vm_kkm g') = 1"
    "gs_kontexts g' b = Some ko" "kn_used (ko_kontext ko)" "0 \<le> kn_kontext_fd (ko_kontext ko)"
    using example_add [OF z(1-4)] created_example [OF c] by auto
  have ok: "guest_ok example_linux {#} True g" "used_kontexts g = {}"
    using guest_life_ok [OF l platform_calls_kkm example_address] by simp_all
  have fresh: "gs_kontexts g (lx_kzalloc example_linux (klog (kcall (Ev_mutex_lock Kontext_lock) g))) = None" by (simp add: z(1))
  obtain a where u: "used_kontexts g' = {a}" using add_ok(2) [OF example_address fresh ok(1) add(1)] z(3) add(3) ok(2) by auto
  have "b = a" using u add(4,5) by (auto simp: used_kontexts_def)
  then have "?L True (insert a {}) g'"
    by (intro guest_life.added [OF l fresh, where arg=0 and fd=n and ko=ko])
      (use add u z(3) in \<open>auto simp: kkm_kontainer_ioctl_def\<close>)
  then show ?thesis by blast
qed




definition poor_linux :: linux where
  "poor_linux = example_linux\<lparr>lx_alloc_pages := \<lambda>_ _. 0\<rparr>"

definition example_idle :: guest where
  "example_idle = on_kkm (\<lambda>k. k\<lparr>km_reference_count := 1, km_mm := 2\<rparr>) example_empty"

lemma example_idle_simps [simp]:
  "vm_kkm example_idle = zero_kkm\<lparr>km_reference_count := 1, km_mm := 2\<rparr>" "klog example_idle = []"
  "gs_kontexts example_idle = (\<lambda>_. None)" "gs_freed example_idle = False"
  by (simp_all add: example_idle_def example_empty_def) (simp_all add: example_guest_def vm.defs guest.defs)

lemma example_idle_ok: "guest_ok poor_linux {#} True example_idle" "used_kontexts example_idle = {}"
proof -
  have "guest_ok poor_linux {#} True example_idle \<and> used_kontexts example_idle = {}"
    by (rule zero_guest_ok [where fd=0 and i=0 and mm=2])
       (simp_all add: but_tables_def zero_kkm_def kontainer_blocks_def page_block_def lvl_block_def)
  then show "guest_ok poor_linux {#} True example_idle" "used_kontexts example_idle = {}" by simp_all
qed

lemma example_failed_add:
  "\<exists>g' a g''. kkm_kontainer_ioctl poor_linux KKM_ADD_EXECUTION_CONTEXT 0 example_idle = Some (- ENOMEM, g') \<and>
     km_kontext_count (vm_kkm g') = km_kontext_count (vm_kkm example_idle) \<and> a \<in> used_kontexts g' \<and>
     kkm_execution_kontext_release a g' = Some g''"
proof -
  have head: "replicate 288 (0 :: u64) = 0 # replicate 287 0" using replicate_Suc [of 287 "0 :: u64"] by simp
  have f: "find_slot m (replicate 288 0) 0 = 0" for m by (simp only: head find_slot.simps simp_thms if_True)
  have z: "km_kontext zero_kkm = replicate 288 0" "km_kontext_count zero_kkm = 0" "km_mm zero_kkm = 0" by (simp_all add: zero_kkm_def)
  define a :: u64 where "a = 0x800000010000"
  have k: "lx_kzalloc poor_linux [e] = a" for e by (simp add: poor_linux_def example_linux_def a_def)
  have mm: "lx_current_mm poor_linux = 2" by (simp add: poor_linux_def example_linux_def)
  have al: "alloc_pages poor_linux n s = (0, kcall (Ev_alloc_pages n 0) s)" for n s
    by (simp add: alloc_pages_def poor_linux_def Let_def)
  have is3: "[0..<KKM_CONTEXT_MAP_PAGE_COUNT] = [0, 1, 2]" by (simp add: upt_rec)
  have "\<exists>g'. start_kontext poor_linux vid a (set_kontext a ko h) = Some (- ENOMEM, g') \<and> vm_kkm g' = vm_kkm h \<and>
      gs_kontexts g' a \<noteq> None \<and> (\<forall>ko. gs_kontexts g' a = Some ko \<longrightarrow> kn_used (ko_kontext ko))" for vid ko and h :: guest
    by (simp add: start_kontext_def Let_def is3 al)
  then obtain g' where s: "start_kontext poor_linux 0 a (set_kontext a zero_obj (on_kkm (\<lambda>k. k\<lparr>km_kontext := (km_kontext k)[0 := a]\<rparr>)
      (kcall (Ev_kzalloc a) (kcall (Ev_mutex_lock Kontext_lock) example_idle)))) = Some (- ENOMEM, g')"
    and g': "vm_kkm g' = (vm_kkm example_idle)\<lparr>km_kontext := (replicate 288 0)[0 := a]\<rparr>" "gs_kontexts g' a \<noteq> None"
      "\<forall>ko. gs_kontexts g' a = Some ko \<longrightarrow> kn_used (ko_kontext ko)" by (fastforce simp: z)
  have "kkm_kontainer_ioctl poor_linux KKM_ADD_EXECUTION_CONTEXT 0 example_idle = Some (- ENOMEM, kcall (Ev_mutex_unlock Kontext_lock) g')"
    using s by (simp add: kkm_kontainer_ioctl_def kkm_add_execution_kontext_def Let_def z f k mm a_def)
  moreover obtain ko where "gs_kontexts g' a = Some ko" using g'(2) by auto
  then have "\<exists>g''. kkm_execution_kontext_release a (kcall (Ev_mutex_unlock Kontext_lock) g') = Some g''"
    "a \<in> used_kontexts (kcall (Ev_mutex_unlock Kontext_lock) g')"
    using g'(3) by (simp_all add: kkm_execution_kontext_release_def Let_def used_kontexts_def)
  ultimately show ?thesis using g'(1) by (auto simp: z)
qed

text \<open>C38 An attempt to add a kontext that fails half-way still leaves a kontext whose file can be closed, without
  having counted it: in a kontainer without kontexts, closing it frees the kontainer while the kontainer's own file
  is open.\<close>

theorem failed_add_frees_kontainer:
  assumes "lx_address_ok E" "guest_ok E X True g" "used_kontexts g = {}"
    and "gs_kontexts g (lx_kzalloc E (klog (kcall (Ev_mutex_lock Kontext_lock) g))) = None"
    and "kkm_kontainer_ioctl E KKM_ADD_EXECUTION_CONTEXT arg g = Some (fd, g')"
    and "km_kontext_count (vm_kkm g') = km_kontext_count (vm_kkm g)" "a \<in> used_kontexts g'"
    and "kkm_execution_kontext_release a g' = Some g''"
  shows "gs_freed g''"
proof -
  have i: "kkm_add_execution_kontext E arg g = Some (fd, g')" using assms(5) by (simp add: kkm_kontainer_ioctl_def)
  have ok: "table_ok (vm_kkm g) (gs_kontexts g)" "km_kontext_count (vm_kkm g) = of_nat (card (used_kontexts g))"
    "km_reference_count (vm_kkm g) = 1" using assms(2,3) by (simp_all add: guest_ok_def)
  have r: "km_reference_count (vm_kkm g') = 1"
    using assms(1,4) ok(1,2) i
  proof (cases rule: add_cases)
    case refused
    then show ?thesis using ok by simp
  next
    case started
    then show ?thesis using ok assms(6) by (auto simp: counts_kept_def counts_raised_def)
  qed
  obtain ko where ko: "gs_kontexts g' a = Some ko" using assms(7) by (auto simp: used_kontexts_def)
  show ?thesis using release_last [OF assms(8)] r by simp
qed


theorem failed_add_frees_kontainer_witness:
  "\<exists>g' a g''. kkm_kontainer_ioctl poor_linux KKM_ADD_EXECUTION_CONTEXT 0 example_idle = Some (- ENOMEM, g') \<and>
     kkm_execution_kontext_release a g' = Some g'' \<and> gs_freed g''"
proof -
  have env: "lx_address_ok poor_linux" by (simp add: lx_address_ok_def poor_linux_def)
  obtain g' a g'' where "kkm_kontainer_ioctl poor_linux KKM_ADD_EXECUTION_CONTEXT 0 example_idle = Some (- ENOMEM, g')"
     "km_kontext_count (vm_kkm g') = km_kontext_count (vm_kkm example_idle)" "a \<in> used_kontexts g'"
     "kkm_execution_kontext_release a g' = Some g''" using example_failed_add by blast
  with failed_add_frees_kontainer [OF env example_idle_ok _ this] show ?thesis by auto
qed


text \<open>The files of kontexts closed one after the other.\<close>

fun close_kontexts :: "u64 list \<Rightarrow> 'a guest_scheme \<Rightarrow> 'a guest_scheme option" where
  "close_kontexts [] g = Some g"
| "close_kontexts (a # as) g = (case kkm_execution_kontext_release a g of None \<Rightarrow> None | Some g' \<Rightarrow> close_kontexts as g')"

lemma close_kontexts_life:
  assumes "guest_life P im E X own F g" "platform_calls P" "lx_address_ok E" "distinct as" "set as \<subseteq> F"
  shows "\<exists>g'. close_kontexts as g = Some g' \<and> guest_life P im E X own (F - set as) g'"
  using assms(1,4,5)
proof (induction as arbitrary: F g)
  case (Cons a as)
  then have a: "a \<in> F" by simp
  then have "used_kontexts g = F" using guest_life_ok [OF Cons.prems(1) assms(2,3)] by (auto split: if_splits)
  with a obtain ko where "gs_kontexts g a = Some ko" by (auto simp: used_kontexts_def)
  then obtain g1 where g1: "kkm_execution_kontext_release a g = Some g1" by (simp add: kkm_execution_kontext_release_def)
  have "guest_life P im E X own (F - {a}) g1" by (rule guest_life.kontext_closed [OF Cons.prems(1) a g1])
  from Cons.IH [OF this] Cons.prems obtain g' where "close_kontexts as g1 = Some g'" "guest_life P im E X own (F - {a} - set as) g'" by auto
  moreover have "F - {a} - set as = F - set (a # as)" by auto
  ultimately show ?case using g1 by simp
qed simp



end
