(* ===== verification/Kkm_Device.thy ===== *)
theory Kkm_Device
  imports Kkm_Files Kkm_Idt Kkm_Stats
begin

section \<open>The device and the module (\<open>kkm_main.c\<close>)\<close>

text \<open>
  \<open>/dev/kkm\<close>: the checks of the processor when the module is loaded, the calls of the device file, the module
  parameters, loading and unloading. What the processor and the kernel's configuration offer is the record
  \<open>device_env\<close>; \<open>misc_register\<close>, \<open>kstrtobool\<close> and the instruction \<open>cpuid\<close> are components of it.
\<close>

record device_env =
  config_page_table_isolation :: bool
  config_mitigation_page_table_isolation :: bool
  feature_pcid :: bool
  feature_invpcid :: bool
  feature_xsaves :: bool
  feature_xsave :: bool
  de_cpuid :: "u32 \<Rightarrow> u32 \<times> u32 \<times> u32 \<times> u32"
  de_misc_register :: int
  de_kstrtobool :: "string \<Rightarrow> int \<times> bool"

text \<open>The instructions behind \<open>kkm_fpu_save_xstate\<close> and \<open>kkm_fpu_restore_xstate\<close>.\<close>

datatype fpu_call = Fpu_xsaves | Fpu_xsave

record kmodule = guest +
  kkm_cpu_supported :: bool
  kkm_fpu_save_xstate :: fpu_call
  kkm_fpu_restore_xstate :: fpu_call
  platform_pv :: bool
  kkm_platform_ptr :: platform_choice
  kkm_idt :: kkm_idt_area
  kkm_device_registered :: bool

definition kkm_version :: int where "kkm_version = 12"
definition KKM_DEVICE_IDENTITY :: int where "KKM_DEVICE_IDENTITY = 0x6B6B6D"
definition KKM_CAP_SYNC_REGS :: u64 where "KKM_CAP_SYNC_REGS = 74"
definition KKM_CONTEXT_INFO_ENTRY_COUNT :: nat where "KKM_CONTEXT_INFO_ENTRY_COUNT = 6"

datatype cpu_supported = CPU_SUPPORTED | CPU_NOT_SUPPORTED

fun cpu_supported_code :: "cpu_supported \<Rightarrow> int" where
  "cpu_supported_code CPU_SUPPORTED = 0"
| "cpu_supported_code CPU_NOT_SUPPORTED = 1"

subsection \<open>The processor\<close>

definition kkm_check_cpu_support :: "device_env \<Rightarrow> 'a kmodule_scheme \<Rightarrow> 'a kmodule_scheme" where
  "kkm_check_cpu_support D m =
     (let m1 = m\<lparr>kkm_cpu_supported := False\<rparr>
      in if \<not> config_page_table_isolation D \<and> \<not> config_mitigation_page_table_isolation D then m1
      else
        let m2 = (if \<not> feature_pcid D then m1\<lparr>kkm_cpu_full_tlb_flush := True\<rparr> else m1);
            m3 = (if \<not> feature_invpcid D then m2\<lparr>kkm_cpu_full_tlb_flush := True\<rparr> else m2)
        in if \<not> feature_xsaves D
           then if \<not> feature_xsave D then m3
                else m3\<lparr>kkm_xs_format := KKM_XSAVE, kkm_fpu_save_xstate := Fpu_xsave, kkm_fpu_restore_xstate := Fpu_xsave,
                        kkm_cpu_supported := True\<rparr>
           else m3\<lparr>kkm_xs_format := KKM_XSAVES, kkm_fpu_save_xstate := Fpu_xsaves, kkm_fpu_restore_xstate := Fpu_xsaves,
                   kkm_cpu_supported := True\<rparr>)"

subsection \<open>Calls of the device file\<close>

definition kkm_check_extension :: "u64 \<Rightarrow> int" where
  "kkm_check_extension arg = (if arg = KKM_CAP_SYNC_REGS then uint (KKM_SYNC_X86_SREGS OR KKM_SYNC_X86_REGS :: u64) else 0)"

definition cpuid_functions :: "u32 list" where
  "cpuid_functions = [0x0, 0x80000001, 0x80000002, 0x80000003, 0x80000004, 0x80000008]"

text \<open>An entry as it is after the loop: \<open>index\<close>, \<open>flags\<close> and \<open>reserved\<close> keep the zeros of \<open>kzalloc\<close>.\<close>

definition ec_entry_bytes :: "device_env \<Rightarrow> u32 \<Rightarrow> u8 list" where
  "ec_entry_bytes D function =
     (case de_cpuid D function of (eax, ebx, ecx, edx) \<Rightarrow>
      concat (map (le_bytes 4) [function, 0, 0, eax, ebx, ecx, edx, 0, 0, 0]))"

definition kkm_get_native_cpuid :: "linux \<Rightarrow> device_env \<Rightarrow> u64 \<Rightarrow> 'a host_scheme \<Rightarrow> int \<times> 'a host_scheme" where
  "kkm_get_native_cpuid E D arg s =
     (case copy_from_user E arg (sizeof t_kkm_cpuid) s of (left, kcpuid, s1) \<Rightarrow>
      let entry_count = (of_le (take 4 kcpuid) :: u32)
      in if left \<noteq> 0 then (- EFAULT, s1)
      else if entry_count = 0 \<or> unat entry_count < KKM_CONTEXT_INFO_ENTRY_COUNT then (- EINVAL, s1)
      else
        let ec = lx_kzalloc E (klog s1);
            s2 = kcall (Ev_kzalloc ec) s1
        in if ec = 0 then (- ENOMEM, s2)
        else
          case copy_to_user E (arg + of_nat (the (offset_of t_kkm_cpuid [''entries'']))) (concat (map (ec_entry_bytes D) cpuid_functions)) s2 of
            (left1, s3) \<Rightarrow>
          case copy_to_user E arg (le_bytes 4 (of_nat KKM_CONTEXT_INFO_ENTRY_COUNT :: u32) @ le_bytes 4 (0 :: u32)) s3 of
            (left2, s4) \<Rightarrow>
          (if left1 \<noteq> 0 \<or> left2 \<noteq> 0 then - EFAULT else 0, kcall (Ev_kfree ec) s4))"

definition kkm_device_ioctl :: "linux \<Rightarrow> device_env \<Rightarrow> u32 \<Rightarrow> u64 \<Rightarrow> 'a kmodule_scheme \<Rightarrow> int \<times> 'a kmodule_scheme" where
  "kkm_device_ioctl E D ioctl_type arg m =
     (if kkm_cpu_supported m = False \<and> ioctl_type \<noteq> KKM_CPU_SUPPORTED \<and> ioctl_type \<noteq> KKM_GET_IDENTITY then (- EOPNOTSUPP, m)
      else if ioctl_type = KKM_GET_VERSION then (kkm_version, m)
      else if ioctl_type = KKM_CREATE_KONTAINER then kkm_create_kontainer E m
      else if ioctl_type = KKM_CHECK_EXTENSION then (kkm_check_extension arg, m)
      else if ioctl_type = KKM_GET_CONTEXT_MAP_SIZE then (KKM_CONTEXT_MAP_SIZE, m)
      else if ioctl_type = KKM_GET_SUPPORTED_CONTEXT_INFO then kkm_get_native_cpuid E D arg m
      else if ioctl_type = KKM_CPU_SUPPORTED
        then (cpu_supported_code (if kkm_cpu_supported m = True then CPU_SUPPORTED else CPU_NOT_SUPPORTED), m)
      else if ioctl_type = KKM_GET_IDENTITY then (KKM_DEVICE_IDENTITY, m)
      else (- EOPNOTSUPP, m))"

subsection \<open>Module parameters\<close>

definition kkm_clear_statistics :: "'a host_scheme \<Rightarrow> int \<times> 'a host_scheme" where
  "kkm_clear_statistics s = (0, kkm_statistics_init s)"

definition kkm_platform_pv_ops_set :: "device_env \<Rightarrow> string \<Rightarrow> 'a kmodule_scheme \<Rightarrow> int \<times> 'a kmodule_scheme" where
  "kkm_platform_pv_ops_set D s m =
     (case de_kstrtobool D s of (ret_val, set_pv) \<Rightarrow>
      (ret_val, if ret_val = 0
                then m\<lparr>platform_pv := set_pv, kkm_platform_ptr := (if set_pv then Platform_pv else Platform_native)\<rparr>
                else m))"

definition kkm_platform_pv_ops_get :: "'a kmodule_scheme \<Rightarrow> string" where
  "kkm_platform_pv_ops_get m = (if platform_pv m then ''1'' else ''0'')"

subsection \<open>Loading and unloading\<close>

definition kkm_init :: "linux \<Rightarrow> device_env \<Rightarrow> kx_image \<Rightarrow> 'a kmodule_scheme \<Rightarrow> int \<times> 'a kmodule_scheme" where
  "kkm_init E D im m =
     (let m1 = kkm_check_cpu_support D (m\<lparr>kkm_platform_ptr := Platform_native\<rparr>)
      in if de_misc_register D \<noteq> 0 then (de_misc_register D, m1)
      else
        let m2 = m1\<lparr>kkm_device_registered := True\<rparr>
        in case kkm_mmu_init E m2 of (r1, m3) \<Rightarrow>
        if r1 \<noteq> 0 then (r1, m3)
        else case kkm_idt_init E im m3 of (r2, area, m4) \<Rightarrow>
        let m5 = m4\<lparr>kkm_idt := area\<rparr>
        in if r2 \<noteq> 0 then (r2, m5)
        else (0, kkm_statistics_init (m5\<lparr>kkm_object_id := 1\<rparr>)))"

definition kkm_exit :: "'a kmodule_scheme \<Rightarrow> 'a kmodule_scheme" where
  "kkm_exit m =
     (case kkm_idt_cleanup (kkm_idt m) m of (area, m1) \<Rightarrow>
      (kkm_mmu_cleanup (m1\<lparr>kkm_idt := area\<rparr>))\<lparr>kkm_device_registered := False\<rparr>)"

subsection \<open>Frames\<close>

lemma mmu_init_more: "kkm_mmu_init E s = (r, s') \<Longrightarrow> host.more s' = host.more s"
  using create_pml4_more(1) by (auto simp: kkm_mmu_init_def split: prod.splits)

lemma kx_global_more [simp]: "host.more (kkm_mmu_set_kx_global_info a b c d s) = host.more s"
  by (simp add: kkm_mmu_set_kx_global_info_def Let_def)

lemma idt_init_more: "kkm_idt_init E im s = (r, area, s') \<Longrightarrow> host.more s' = host.more s"
  by (auto simp: kkm_idt_init_def kkm_idt_descr_init_def Let_def split: prod.splits if_splits dest!: allocate_pages_more)

lemma same_more_module:
  assumes "host.more m' = host.more (m :: 'a kmodule_scheme)"
  shows "kkm_cpu_supported m' = kkm_cpu_supported m" "kkm_fpu_save_xstate m' = kkm_fpu_save_xstate m"
    "kkm_fpu_restore_xstate m' = kkm_fpu_restore_xstate m" "platform_pv m' = platform_pv m" "kkm_platform_ptr m' = kkm_platform_ptr m"
    "kkm_idt m' = kkm_idt m" "kkm_device_registered m' = kkm_device_registered m"
  using assms by (cases m, cases m', simp)+

text \<open>The settings of the processor checks survive the rest of the initialisation.\<close>

lemma allocate_pages_cpu_mode:
  "kkm_mm_allocate_pages E pp vp ap n pi s = (r, pi', s') \<Longrightarrow> kkm_xs_format s' = kkm_xs_format s \<and> kkm_cpu_full_tlb_flush s' = kkm_cpu_full_tlb_flush s \<and>
     kkm_mmu_kx s' = kkm_mmu_kx s"
  by (auto simp: kkm_mm_allocate_pages_def alloc_pages_def kcall_def Let_def split: if_splits)

lemma mmu_cpu_mode [simp]:
  "kkm_xs_format (kkm_mmu_set_entry va i e s) = kkm_xs_format s" "kkm_xs_format (kkm_mmu_insert_page va i pa f s) = kkm_xs_format s"
  "kkm_xs_format (store_kx b kmu s) = kkm_xs_format s" "kkm_xs_format (kkm_mmu_cleanup s) = kkm_xs_format s"
  "kkm_cpu_full_tlb_flush (kkm_mmu_set_entry va i e s) = kkm_cpu_full_tlb_flush s"
  "kkm_cpu_full_tlb_flush (kkm_mmu_insert_page va i pa f s) = kkm_cpu_full_tlb_flush s"
  "kkm_cpu_full_tlb_flush (store_kx b kmu s) = kkm_cpu_full_tlb_flush s" "kkm_cpu_full_tlb_flush (kkm_mmu_cleanup s) = kkm_cpu_full_tlb_flush s"
  by (simp_all add: kkm_mmu_insert_page_def kkm_mmu_set_entry_def store_kx_def kkm_mmu_cleanup_def kkm_cleanup_pml4_def
      kkm_mm_free_page_def kkm_mm_free_pages_def free_pages_def kcall_def kkm_mmu_flush_tlb_def Let_def)

lemma init_cpu_mode:
  "kkm_mmu_init E s = (r, s') \<Longrightarrow> kkm_xs_format s' = kkm_xs_format s \<and> kkm_cpu_full_tlb_flush s' = kkm_cpu_full_tlb_flush s"
  "kkm_idt_init E im s = (r, area, s') \<Longrightarrow> kkm_xs_format s' = kkm_xs_format s \<and> kkm_cpu_full_tlb_flush s' = kkm_cpu_full_tlb_flush s"
proof -
  show "kkm_xs_format s' = kkm_xs_format s \<and> kkm_cpu_full_tlb_flush s' = kkm_cpu_full_tlb_flush s"
    if i: "kkm_mmu_init E s = (r, s')"
  proof -
    obtain kmu where "kkm_create_pml4 E True KKM_PRIVATE_START_VA s = (r, kmu, s')"
      using i by (auto simp: kkm_mmu_init_def split: prod.splits)
    then show ?thesis
      by (cases rule: create_pml4_cases) (auto simp: kkm_mm_allocate_page_def dest!: allocate_pages_cpu_mode)
  qed
  show "kkm_xs_format s' = kkm_xs_format s \<and> kkm_cpu_full_tlb_flush s' = kkm_cpu_full_tlb_flush s"
    if "kkm_idt_init E im s = (r, area, s')"
    using that by (auto simp: kkm_idt_init_def kkm_idt_descr_init_def kkm_mmu_set_kx_global_info_def Let_def
      split: prod.splits if_splits dest!: allocate_pages_cpu_mode)
qed

lemma check_cpu_frame [simp]:
  "klog (kkm_check_cpu_support D m) = klog m" "kkm_device_registered (kkm_check_cpu_support D m) = kkm_device_registered m"
  "platform_pv (kkm_check_cpu_support D m) = platform_pv m" "kkm_platform_ptr (kkm_check_cpu_support D m) = kkm_platform_ptr m"
  by (simp_all add: kkm_check_cpu_support_def Let_def)

lemma init_cases:
  assumes "kkm_init E D im m = (r, m')"
  obtains (no_device) "r = de_misc_register D" "r \<noteq> 0" "m' = kkm_check_cpu_support D (m\<lparr>kkm_platform_ptr := Platform_native\<rparr>)"
  | (no_mmu) "de_misc_register D = 0" "r \<noteq> 0"
      "kkm_mmu_init E ((kkm_check_cpu_support D (m\<lparr>kkm_platform_ptr := Platform_native\<rparr>))\<lparr>kkm_device_registered := True\<rparr>) = (r, m')"
  | (no_idt) m3 area m4 where "de_misc_register D = 0" "r \<noteq> 0"
      "kkm_mmu_init E ((kkm_check_cpu_support D (m\<lparr>kkm_platform_ptr := Platform_native\<rparr>))\<lparr>kkm_device_registered := True\<rparr>) = (0, m3)"
      "kkm_idt_init E im m3 = (r, area, m4)" "m' = m4\<lparr>kkm_idt := area\<rparr>"
  | (ok) m3 area m4 where "de_misc_register D = 0" "r = 0"
      "kkm_mmu_init E ((kkm_check_cpu_support D (m\<lparr>kkm_platform_ptr := Platform_native\<rparr>))\<lparr>kkm_device_registered := True\<rparr>) = (0, m3)"
      "kkm_idt_init E im m3 = (0, area, m4)" "m' = kkm_statistics_init (m4\<lparr>kkm_idt := area, kkm_object_id := 1\<rparr>)"
  using assms unfolding kkm_init_def Let_def
  by (auto split: prod.splits if_splits)

text \<open>Every way through the initialisation keeps what the checks decided, and forgets the platform parameter.\<close>

lemma init_frame:
  assumes "kkm_init E D im m = (r, m')"
  defines "c \<equiv> kkm_check_cpu_support D (m\<lparr>kkm_platform_ptr := Platform_native\<rparr>)"
  shows "kkm_cpu_supported m' = kkm_cpu_supported c" "kkm_fpu_save_xstate m' = kkm_fpu_save_xstate c"
    "kkm_fpu_restore_xstate m' = kkm_fpu_restore_xstate c" "kkm_xs_format m' = kkm_xs_format c"
    "kkm_cpu_full_tlb_flush m' = kkm_cpu_full_tlb_flush c" "platform_pv m' = platform_pv m" "kkm_platform_ptr m' = Platform_native"
    "kkm_device_registered m' = (kkm_device_registered m \<or> de_misc_register D = 0)"
proof -
  have "kkm_cpu_supported m' = kkm_cpu_supported c \<and> kkm_fpu_save_xstate m' = kkm_fpu_save_xstate c \<and>
    kkm_fpu_restore_xstate m' = kkm_fpu_restore_xstate c \<and> kkm_xs_format m' = kkm_xs_format c \<and>
    kkm_cpu_full_tlb_flush m' = kkm_cpu_full_tlb_flush c \<and> platform_pv m' = platform_pv m \<and> kkm_platform_ptr m' = Platform_native \<and>
    kkm_device_registered m' = (kkm_device_registered m \<or> de_misc_register D = 0)"
    using assms(1)
  proof (cases rule: init_cases)
    case no_device
    then show ?thesis by (simp add: c_def)
  next
    case no_mmu
    then show ?thesis using same_more_module [OF mmu_init_more [OF no_mmu(3)]] init_cpu_mode(1) [OF no_mmu(3)] by (simp add: c_def)
  next
    case (no_idt m3 area m4)
    then show ?thesis using same_more_module [OF mmu_init_more [OF no_idt(3)]] init_cpu_mode(1) [OF no_idt(3)]
        same_more_module [OF idt_init_more [OF no_idt(4)]] init_cpu_mode(2) [OF no_idt(4)] by (simp add: c_def)
  next
    case (ok m3 area m4)
    then show ?thesis using same_more_module [OF mmu_init_more [OF ok(3)]] init_cpu_mode(1) [OF ok(3)]
        same_more_module [OF idt_init_more [OF ok(4)]] init_cpu_mode(2) [OF ok(4)] by (simp add: c_def kkm_statistics_init_def)
  qed
  then show "kkm_cpu_supported m' = kkm_cpu_supported c" "kkm_fpu_save_xstate m' = kkm_fpu_save_xstate c"
    "kkm_fpu_restore_xstate m' = kkm_fpu_restore_xstate c" "kkm_xs_format m' = kkm_xs_format c"
    "kkm_cpu_full_tlb_flush m' = kkm_cpu_full_tlb_flush c" "platform_pv m' = platform_pv m" "kkm_platform_ptr m' = Platform_native"
    "kkm_device_registered m' = (kkm_device_registered m \<or> de_misc_register D = 0)" by simp_all
qed

lemma mmu_init_owns:
  assumes "kkm_mmu_init E s = (0, s')"
  shows "outstanding E (klog s') = pml4e_blocks (kkm_mmu_kx s') + outstanding E (klog s)"
proof -
  obtain kmu where c: "kkm_create_pml4 E True KKM_PRIVATE_START_VA s = (0, kmu, s')"
    using assms by (auto simp: kkm_mmu_init_def split: prod.splits)
  from create_pml4_ledger [OF c] create_pml4_kx [OF c] show ?thesis by simp
qed

lemma idt_init_kx:
  assumes "kkm_idt_init E im s = (r, area, s')"
  shows "kkm_mmu_kx s' = kkm_mmu_kx s" "r = 0 \<Longrightarrow> kkm_idt_get_id c s' = KKM_INVALID_ID"
  using assms idt_init_descriptors [of E im s area s']
  by (auto simp: kkm_idt_init_def kkm_idt_descr_init_def kkm_idt_get_id_def Let_def split: prod.splits if_splits
      dest!: allocate_pages_cpu_mode)

subsection \<open>Memory read and written in parts\<close>

lemma mem_load_append: "mem_load m a (n + k) = mem_load m a n @ mem_load m (a + of_nat n) k"
proof (rule nth_equalityI)
  fix i assume "i < length (mem_load m a (n + k))"
  then show "mem_load m a (n + k) ! i = (mem_load m a n @ mem_load m (a + of_nat n) k) ! i"
    by (auto simp: nth_append add.assoc simp flip: of_nat_add)
qed simp

lemma mem_load_store_below:
  assumes "unat d = length bs" "length bs + n \<le> 2 ^ 64"
  shows "mem_load (mem_store a bs m) (a + d) n = mem_load m (a + d) n"
proof (rule nth_equalityI)
  fix i assume "i < length (mem_load (mem_store a bs m) (a + d) n)"
  then have i: "i < n" by simp
  have "unat (d + of_nat i) = length bs + i"
    using assms i by (simp add: unat_word_ariths unat_of_nat take_bit_eq_mod)
  then have "length bs \<le> unat (a + d + of_nat i - a)" by (simp add: algebra_simps)
  then show "mem_load (mem_store a bs m) (a + d) n ! i = mem_load m (a + d) n ! i" using i by (simp add: mem_store_other)
qed simp

lemma length_ec_entries [simp]: "length (concat (map (ec_entry_bytes D) cpuid_functions)) = 240"
  by (simp add: ec_entry_bytes_def cpuid_functions_def split: prod.split)

lemma ioctl_context_info:
  "kkm_cpu_supported m \<Longrightarrow> kkm_device_ioctl E D KKM_GET_SUPPORTED_CONTEXT_INFO arg m = kkm_get_native_cpuid E D arg m"
  by (simp add: kkm_device_ioctl_def ioctl_values)

lemma offset_of_entries [simp]: "offset_of t_kkm_cpuid [''entries''] = Some 8"
  by (simp add: t_kkm_cpuid_def offset_of_def member_offsets_def shapes align_up_def)

lemma native_cpuid_ok:
  assumes "kkm_get_native_cpuid E D arg s = (0, s')"
  defines "entries \<equiv> concat (map (ec_entry_bytes D) cpuid_functions)"
  shows "um s' = mem_store arg (le_bytes 4 (6 :: u32) @ le_bytes 4 (0 :: u32)) (mem_store (arg + 8) entries (um s))"
    "6 \<le> unat (of_le (mem_load (um s) arg 4) :: u32)" "outstanding E (klog s') = outstanding E (klog s)" "host.more s' = host.more s"
proof -
  obtain left bs s1 where c: "copy_from_user E arg (sizeof t_kkm_cpuid) s = (left, bs, s1)" by (rule prod_cases3)
  have sz: "sizeof t_kkm_cpuid = 8" by (simp add: sizeof_def shapes)
  have l0: "left = 0" using assms(1) c by (auto simp: kkm_get_native_cpuid_def Let_def split: if_splits)
  then have "bs = mem_load (um s) arg (4 + 4)" using copy_from_user_ok [OF c [unfolded l0]] by (simp add: sz)
  then have take: "take 4 bs = mem_load (um s) arg 4" by (simp only: mem_load_append) simp
  define ec where "ec = lx_kzalloc E (klog s1)"
  obtain l1 s3 where c1: "copy_to_user E (arg + 8) entries (kcall (Ev_kzalloc ec) s1) = (l1, s3)" by fastforce
  obtain l2 s4 where c2: "copy_to_user E arg (le_bytes 4 (6 :: u32) @ le_bytes 4 (0 :: u32)) s3 = (l2, s4)" by fastforce
  have "kkm_get_native_cpuid E D arg s = (if of_le (take 4 bs) = (0 :: u32) \<or> unat (of_le (take 4 bs) :: u32) < 6 then (- EINVAL, s1)
     else if ec = 0 then (- ENOMEM, kcall (Ev_kzalloc ec) s1)
     else (if l1 \<noteq> 0 \<or> l2 \<noteq> 0 then - EFAULT else 0, kcall (Ev_kfree ec) s4))"
    using c c1 c2 by (simp add: kkm_get_native_cpuid_def Let_def l0 ec_def [symmetric] entries_def KKM_CONTEXT_INFO_ENTRY_COUNT_def)
  with assms(1) have ok: "6 \<le> unat (of_le (take 4 bs) :: u32)" "l1 = 0" "l2 = 0" "s' = kcall (Ev_kfree ec) s4"
    by (auto split: if_splits)
  note F = copy_from_user_frame [OF c] copy_to_user_state [OF c1 [unfolded ok(2)]] copy_to_user_state [OF c2 [unfolded ok(3)]]
  show "6 \<le> unat (of_le (mem_load (um s) arg 4) :: u32)" using ok(1) take by simp
  show "um s' = mem_store arg (le_bytes 4 (6 :: u32) @ le_bytes 4 (0 :: u32)) (mem_store (arg + 8) entries (um s))"
    using F by (simp add: ok(4))
  show "outstanding E (klog s') = outstanding E (klog s)" "host.more s' = host.more s" using F by (simp_all add: ok(4))
qed

subsection \<open>Properties\<close>


definition example_env :: device_env where
  "example_env = \<lparr>config_page_table_isolation = False, config_mitigation_page_table_isolation = True, feature_pcid = True,
     feature_invpcid = False, feature_xsaves = False, feature_xsave = True,
     de_cpuid = (\<lambda>f. (f + 1, f + 2, f + 3, f + 4)), de_misc_register = 0, de_kstrtobool = (\<lambda>s. (0, s = ''1''))\<rparr>"

definition example_module :: kmodule where
  "example_module = guest.extend (example_empty\<lparr>um := \<lambda>x. if x = 0x5000 then 6 else 0\<rparr>)
     (kmodule.fields False Fpu_xsaves Fpu_xsaves False Platform_native no_idt_area False)"

lemma example_module_simps [simp]:
  "klog example_module = []" "um example_module = (\<lambda>x. if x = 0x5000 then 6 else 0)" "kkm_mmu_kx example_module = no_pml4e"
  "kkm_device_registered example_module = False" "kkm_cpu_full_tlb_flush example_module = kkm_cpu_full_tlb_flush example_empty"
  by (simp_all add: example_module_def guest.defs kmodule.defs)

lemma example_env_simps:
  "config_mitigation_page_table_isolation example_env" "feature_invpcid example_env = False" "feature_xsaves example_env = False"
  "feature_xsave example_env" "de_misc_register example_env = 0"
  by (simp_all add: example_env_def)

lemma example_flush_mode: "kkm_cpu_full_tlb_flush example_module = False"
  by (simp add: example_empty_def) (simp add: example_guest_def vm.defs example_vm_def host.defs example_host_def on_kkm_def)


text \<open>C12 The module serves exactly the processors it was checked for: after loading, kontainers can be created when and
  only when page-table isolation is configured and the processor has xsaves or at least xsave; on any other
  processor every call but the two inquiries is refused and changes nothing. On a served processor translations are
  flushed one by one only with both pcid and invpcid, and the recorded format, the save and the restore
  instruction of the extended state are of one kind.\<close>

theorem device_serves_supported_cpu:
  assumes "kkm_init E D im m = (r, m')" "\<not> kkm_cpu_full_tlb_flush m"
  shows "(kkm_cpu_supported m' \<longleftrightarrow> (config_page_table_isolation D \<or> config_mitigation_page_table_isolation D) \<and>
        (feature_xsaves D \<or> feature_xsave D)) \<and>
    (if kkm_cpu_supported m'
     then (kkm_cpu_full_tlb_flush m' \<longleftrightarrow> \<not> (feature_pcid D \<and> feature_invpcid D)) \<and>
        kkm_xs_format m' = (if feature_xsaves D then KKM_XSAVES else KKM_XSAVE) \<and>
        kkm_fpu_save_xstate m' = (if feature_xsaves D then Fpu_xsaves else Fpu_xsave) \<and>
        kkm_fpu_restore_xstate m' = kkm_fpu_save_xstate m' \<and>
        kkm_device_ioctl E D KKM_CREATE_KONTAINER arg m' = kkm_create_kontainer E m'
     else kkm_device_ioctl E D t arg m' =
        (if t = KKM_CPU_SUPPORTED then 1 else if t = KKM_GET_IDENTITY then KKM_DEVICE_IDENTITY else - EOPNOTSUPP, m'))"
proof -
  note F = init_frame [OF assms(1)]
  have create: "kkm_device_ioctl E D KKM_CREATE_KONTAINER arg m' = kkm_create_kontainer E m'" if "kkm_cpu_supported m'"
    using that by (simp add: kkm_device_ioctl_def ioctl_values)
  have refuse: "kkm_device_ioctl E D t arg m' =
        (if t = KKM_CPU_SUPPORTED then 1 else if t = KKM_GET_IDENTITY then KKM_DEVICE_IDENTITY else - EOPNOTSUPP, m')"
    if "\<not> kkm_cpu_supported m'" using that by (auto simp: kkm_device_ioctl_def ioctl_values)
  show ?thesis
    using create refuse assms(2) unfolding F by (auto simp: kkm_check_cpu_support_def Let_def)
qed

text \<open>Loading the module succeeds on the example.\<close>

lemma example_init: "\<exists>m'. kkm_init example_linux example_env example_image example_module = (0, m')"
proof -
  let ?m2 = "(kkm_check_cpu_support example_env (example_module\<lparr>kkm_platform_ptr := Platform_native\<rparr>))\<lparr>kkm_device_registered := True\<rparr>"
  obtain r kmu m3 where k: "kkm_create_pml4 example_linux True KKM_PRIVATE_START_VA ?m2 = (r, kmu, m3)" by (rule prod_cases3)
  have r: "r = 0" by (rule example_create_pml4 [OF k]) simp
  have top: "heap_top (klog m3) \<le> 2 ^ 39" using example_pml4_top [OF k] by simp
  let ?s = "m3\<lparr>idt_native_desc := \<lparr>desc_size = 0, desc_address = 0\<rparr>,
    idt_guest_desc := \<lparr>desc_size = 0, desc_address = 0\<rparr>, idt_last_id := (\<lambda>_. KKM_INVALID_ID)\<rparr>"
  obtain r1 pi s1 where a: "kkm_mm_allocate_pages example_linux True True True KKM_IDT_ALLOCATION_PAGES no_page ?s = (r1, pi, s1)"
    by (rule prod_cases3)
  have "r1 = 0" by (rule example_allocate(1) [OF a]) (use top in simp_all)
  then have "\<exists>area m4. kkm_idt_init example_linux example_image m3 = (0, area, m4)"
    using a by (simp add: kkm_idt_init_def kkm_idt_descr_init_def Let_def example_image_def)
  then show ?thesis
    using k r by (auto simp: kkm_init_def Let_def kkm_mmu_init_def example_env_def)
qed

theorem device_serves_supported_cpu_witness:
  "\<exists>m'. kkm_init example_linux example_env example_image example_module = (0, m') \<and> kkm_cpu_supported m' \<and>
     kkm_cpu_full_tlb_flush m' \<and> kkm_xs_format m' = KKM_XSAVE"
proof -
  obtain m' where m': "kkm_init example_linux example_env example_image example_module = (0, m')" using example_init by blast
  have fl: "\<not> kkm_cpu_full_tlb_flush example_module" by (simp only: example_flush_mode simp_thms)
  from device_serves_supported_cpu [OF m' fl] m' show ?thesis by (auto simp: example_env_simps)
qed

text \<open>C13 Loading and unloading. When loading succeeds the device is registered, no processor is recorded as holding
  translations of a kontainer, and unloading gives back every page and the device. When it fails, the code does
  not undo what it did: the device stays registered unless registering it was what failed, and after a failed
  descriptor table the pages of the kx area stay allocated.\<close>

theorem module_load_unload:
  assumes "kkm_init E D im m = (r, m')" "\<not> kkm_device_registered m"
  shows "if r = 0
    then kkm_device_registered m' \<and> kkm_idt_get_id c m' = KKM_INVALID_ID \<and> kkm_object_id m' = 1 \<and>
      outstanding E (klog (kkm_exit m')) = outstanding E (klog m) \<and> \<not> kkm_device_registered (kkm_exit m')
    else (kkm_device_registered m' \<longleftrightarrow> de_misc_register D = 0) \<and>
      (outstanding E (klog m') = outstanding E (klog m) \<or>
       de_misc_register D = 0 \<and> outstanding E (klog m') = pml4e_blocks (kkm_mmu_kx m') + outstanding E (klog m))"
  using assms(1)
proof (cases rule: init_cases)
  case no_device
  then show ?thesis using assms(2) by simp
next
  case no_mmu
  then show ?thesis using same_more_module [OF mmu_init_more [OF no_mmu(3)]] kx_area.acquire_failed [OF TrueI no_mmu(3)] by simp
next
  case (no_idt m3 area m4)
  then show ?thesis
    using same_more_module [OF mmu_init_more [OF no_idt(3)]] same_more_module [OF idt_init_more [OF no_idt(4)]]
      mmu_init_owns [OF no_idt(3)] idt_init_ledger(1) [OF no_idt(4)] idt_init_kx [OF no_idt(4)] by simp
next
  case (ok m3 area m4)
  then show ?thesis
    using same_more_module [OF mmu_init_more [OF ok(3)]] same_more_module [OF idt_init_more [OF ok(4)]]
      mmu_init_owns [OF ok(3)] idt_init_ledger(2) [OF ok(4)] idt_init_kx [OF ok(4)]
    by (simp add: kkm_statistics_init_def kkm_exit_def kkm_idt_cleanup_def mmu_cleanup_ledger kkm_idt_get_id_def free_pages_ledger)
qed


theorem module_load_unload_witness:
  "\<exists>m'. kkm_init example_linux example_env example_image example_module = (0, m') \<and> kkm_device_registered m' \<and>
     outstanding example_linux (klog (kkm_exit m')) = {#} \<and> \<not> kkm_device_registered (kkm_exit m')"
proof -
  obtain m' where m': "kkm_init example_linux example_env example_image example_module = (0, m')" using example_init by blast
  from module_load_unload [OF m', of 0] m' show ?thesis by simp
qed

text \<open>A value of the platform parameter given when the module is loaded is forgotten by the initialisation, but still
  shown: the parameter reads 1 and the native calls are used.\<close>

lemma platform_parameter_forgotten:
  assumes "kkm_platform_pv_ops_set D v m = (0, m1)" "de_kstrtobool D v = (0, True)" "kkm_init E D im m1 = (r, m2)"
  shows "kkm_platform_ptr m1 = Platform_pv" "kkm_platform_pv_ops_get m2 = ''1''" "kkm_platform_ptr m2 = Platform_native"
  using assms(1,2) init_frame(6,7) [OF assms(3)] by (auto simp: kkm_platform_pv_ops_set_def kkm_platform_pv_ops_get_def)

end
