(* ===== verification/Kkm_Attach.thy ===== *)
theory Kkm_Attach
  imports Kkm_Files
begin

section \<open>From a new kontainer to shared memory\<close>

text \<open>
  The calls of the device and of the kontainer file together with the page tables they leave: what the two
  top-level tables of a new kontainer hold, and that after the first memory region is attached the payload
  reaches the memory of the monitor.
\<close>

subsection \<open>The tables of a new kontainer\<close>

lemma distinct_tables_sub: "distinct_tables ts \<Longrightarrow> distinct us \<Longrightarrow> set us \<subseteq> set ts \<Longrightarrow> distinct_tables us"
  by (auto simp: distinct_tables_def)

text \<open>A page that Linux has handed out to somebody else, such as the top-level table of the monitor, is apart from the
  tables of a new kontainer, and keeps its contents.\<close>

lemma allocate_pgd_keeps:
  assumes env: "lx_alloc_fresh E" and p: "kkm_kontainer_allocate_pgd_pages E s = (0, s')" and z: "km_gk_pgd (vm_kkm s) = no_page"
    and b: "(va, k) \<in># outstanding E (klog s)"
  shows "blocks_disjoint (va, k) (pi_va (km_gk_pgd (vm_kkm s')), 1)" "(va, k) \<in># outstanding E (klog s')"
    "unat (a - va) < 4096 * 2 ^ k \<Longrightarrow> kmem s' a = kmem s a" "um s' = um s"
proof -
  obtain gk gp s1 where l: "kkm_kontainer_allocate_lvl_pages E no_page (km_gp_pgd (vm_kkm s)) s = (0, gk, gp, s1)"
    and s': "s' = on_kkm (\<lambda>kkm. kkm\<lparr>km_gk_pgd := gk, km_gp_pgd := gp\<rparr>) s1"
    using p z by (auto simp: kkm_kontainer_allocate_pgd_pages_def split: prod.splits)
  have al: "kkm_mm_allocate_pages E True True True KKM_KONTAINER_LVL_PAGE_COUNT no_page s = (0, gk, s1)"
    using l by (auto simp: kkm_kontainer_allocate_lvl_pages_def split: prod.splits if_splits)
  have d: "blocks_disjoint (va, k) (pi_va gk, 1)"
    using al b env by (fastforce simp: kkm_mm_allocate_pages_def alloc_pages_def lx_alloc_fresh_def Let_def split: if_splits)
  then show "blocks_disjoint (va, k) (pi_va (km_gk_pgd (vm_kkm s')), 1)" by (simp add: s')
  show "(va, k) \<in># outstanding E (klog s')" using allocate_lvl_ledger(1) [OF l] b by (simp add: s')
  show "kmem s' a = kmem s a" if "unat (a - va) < 4096 * 2 ^ k"
    using disjoint_offset [OF d that] by (simp add: s' allocate_lvl_zeroed [OF l] zero_block_def)
  show "um s' = um s" using al by (auto simp: s' kkm_mm_allocate_pages_def alloc_pages_def Let_def split: if_splits)
qed

lemma create_pml4_um: "kkm_create_pml4 E is_kx address s = (0, kmu, s') \<Longrightarrow> um s' = um s"
  by (auto simp: kkm_create_pml4_def kkm_mm_allocate_page_def kkm_mm_allocate_pages_def alloc_pages_def store_kx_def Let_def
      kkm_mmu_insert_page_def kkm_mmu_set_entry_def split: if_splits prod.splits)

lemma kontainer_init_keeps:
  assumes env: "lx_paging_ok E" "lx_alloc_fresh E" and l4: "\<not> lx_pgtable_l5_enabled E"
    and init: "kkm_kontainer_init E s = (0, s')" and fresh: "fresh_kontainer (vm_kkm s)"
    and b: "(va, k) \<in># outstanding E (klog s)"
  shows "va \<noteq> pi_va (km_gk_pgd (vm_kkm s'))" "va \<noteq> pi_va (km_gp_pgd (vm_kkm s'))"
    "unat (a - va) < 4096 * 2 ^ k \<Longrightarrow> kmem s' a = kmem s a" "um s' = um s"
proof -
  let ?A = KKM_KM_GUEST_PRIVATE_MEM_START_VA
  obtain s1 kmu s5 where p: "kkm_kontainer_allocate_pgd_pages E s = (0, s1)" and c: "kkm_create_pml4 E False ?A s1 = (0, kmu, s5)"
    and s': "s' = on_kkm (\<lambda>kkm. kkm\<lparr>km_guest_pml4e := kmu\<rparr>) s5"
    using init l4 by (auto simp: kkm_kontainer_init_def Let_def split: if_splits prod.splits)
  have z: "km_gk_pgd (vm_kkm s) = no_page" using fresh by (simp add: fresh_kontainer_def)
  note P = allocate_pgd_keeps [OF env(2) p z b]
  have v: "vm_kkm s' = (vm_kkm s1)\<lparr>km_guest_pml4e := kmu\<rparr>" by (simp add: s' create_pml4_kkm [OF c])
  have d: "8192 \<le> unat (va - pi_va (km_gk_pgd (vm_kkm s')))" using P(1) by (simp add: blocks_disjoint_def v)
  then show "va \<noteq> pi_va (km_gk_pgd (vm_kkm s'))" by auto
  show "va \<noteq> pi_va (km_gp_pgd (vm_kkm s'))" using d kontainer_init_tables(3) [OF env l4 init fresh] by auto
  show "kmem s' a = kmem s a" if "unat (a - va) < 4096 * 2 ^ k"
    using P(3) [OF that] create_pml4_keeps [OF env(2,1) c P(2) that] by (simp add: s')
  show "um s' = um s" using P(4) create_pml4_um [OF c] by (simp add: s')
qed

lemma created_tables:
  fixes g0 g :: "'a guest_scheme"
  assumes env: "lx_paging_ok E" "lx_alloc_fresh E" and l4: "\<not> lx_pgtable_l5_enabled E"
    and c: "kkm_create_kontainer E g0 = (fd, g)" and fd: "0 \<le> fd"
    and pgd: "pgd = lx_pgd_of_mm E (lx_current_mm E)" and al: "pgd AND 4095 = 0" and blk: "(pgd, n) \<in># outstanding E (klog g0)"
  defines "k \<equiv> vm_kkm g"
  shows "distinct_tables [pgd, pi_va (km_gk_pgd k), pi_va (km_gp_pgd k)]" "km_mm k = lx_current_mm E" "slots_ok k"
    "slot_map k = (\<lambda>_. None)" "um g = um g0" "j < 512 \<Longrightarrow> read_entry pgd j g = read_entry pgd j g0"
    and "\<lbrakk>t \<in> {pi_va (km_gk_pgd k), pi_va (km_gp_pgd k)}; j < 512\<rbrakk> \<Longrightarrow> read_entry t j g =
      (if j < 256 then 0 else if j = KKM_KX_PGD_INDEX then pml_pgd_entry (kkm_mmu_kx g0) else read_entry pgd j g0)"
proof -
  obtain g5 g6 g7 where
    s5: "vm_kkm g5 = zero_kkm\<lparr>km_kontainer_fd := fd, km_id := kkm_object_id g0 + 1, km_mm := lx_current_mm E\<rparr>"
      "outstanding E (klog g5) = outstanding E (klog g0)" "kkm_mmu_kx g5 = kkm_mmu_kx g0" "kmem g5 = kmem g0" "um g5 = um g0"
    and i: "kkm_kontainer_init E g5 = (0, g6)"
    and cp: "kkm_mmu_copy_kernel_pgd E pgd (pi_va (km_gk_pgd (vm_kkm g6))) (pi_va (km_gp_pgd (vm_kkm g6)))
       (pi_va (km_gk_p4d (vm_kkm g6))) (pi_va (km_gp_p4d (vm_kkm g6))) g6 = (0, g7)"
    and g: "g = kkm_statistics_kontainer_count_inc (kkm_reference_count_init g7)"
    by (rule create_steps [OF c fd]) (use pgd in blast)
  have f: "fresh_kontainer (vm_kkm g5)" by (simp add: s5 fresh_zero)
  note T = kontainer_init_tables [OF env l4 i f] and K = kontainer_init_keeps [OF env l4 i f blk [folded s5(2)]]
  have more: "host.more g7 = host.more g6" "kkm_mmu_kx g7 = kkm_mmu_kx g6" "um g7 = um g6"
    using cp by (auto simp: kkm_mmu_copy_kernel_pgd_def kkm_mmu_setup_one_pgd_def kkm_mmu_copy_range_def kkm_mmu_insert_page_def
        kkm_mmu_set_entry_def Let_def split: if_splits)
  have v7: "vm_kkm g7 = vm_kkm g6" by (rule same_more_vm [OF more(1)])
  have k: "km_gk_pgd k = km_gk_pgd (vm_kkm g6)" "km_gp_pgd k = km_gp_pgd (vm_kkm g6)" "km_mm k = km_mm (vm_kkm g6)"
    "read_entry u j g = read_entry u j g7" "kkm_mmu_kx g = kkm_mmu_kx g7" "um g = um g7" for u j
    by (simp_all add: k_def g kkm_reference_count_init_def kkm_statistics_defs v7 read_entry_def on_kkm_def)
  have p0: "pgd \<noteq> 0" using cp by (auto simp: kkm_mmu_copy_kernel_pgd_def)
  show d: "distinct_tables [pgd, pi_va (km_gk_pgd k), pi_va (km_gp_pgd k)]"
    using T(4) K(1,2) al by (auto simp: distinct_tables_def k)
  show "um g = um g0" by (simp add: k more K(4) s5)
  show "km_mm k = lx_current_mm E" "slots_ok k" "slot_map k = (\<lambda>_. None)"
    using created_fields [OF c fd] by (simp_all add: k_def)
  have native: "read_entry pgd j g6 = read_entry pgd j g0" if "j < 512" for j
  proof -
    have "(512 :: nat) * 1 \<le> 512 * 2 ^ n" by (rule mult_le_mono2) simp
    with that have "j < 512 * 2 ^ n" by linarith
    then have "unat (entry_addr pgd j - pgd) < 4096 * 2 ^ n" using that by (simp add: entry_addr_def unat_8_of_nat)
    then show ?thesis using K(3) by (simp add: read_entry_def s5)
  qed
  note C = copy_kernel_pgd_tables [OF l4 d [unfolded k] p0 cp]
  show "read_entry pgd j g = read_entry pgd j g0" if "j < 512" using C(3) [OF insertI1 that] native that by (simp add: k)
  assume t: "t \<in> {pi_va (km_gk_pgd k), pi_va (km_gp_pgd k)}" and j: "j < 512"
  show "read_entry t j g = (if j < 256 then 0 else if j = KKM_KX_PGD_INDEX then pml_pgd_entry (kkm_mmu_kx g0) else read_entry pgd j g0)"
    using C(2) [OF t [unfolded k] j] T(5) [OF t [unfolded k] j] native [OF j] T(6) by (simp add: k s5)
qed

subsection \<open>The first region\<close>

lemma set_memory_steps:
  fixes g g' :: "'a guest_scheme"
  assumes s: "kkm_set_kontainer_memory E arg g = Some (0, g')"
  obtains g1 g4 :: "'a guest_scheme" where "kmem g1 = kmem g"
    "g4 = snd (kkm_mmu_sync E (lx_pgd_of_mm E (km_mm (vm_kkm g))) (pi_va (km_gk_pgd (vm_kkm g))) (pi_va (km_gp_pgd (vm_kkm g)))
        (km_guest_pml4e (vm_kkm g)) (pi_va (km_low_p4d (vm_kkm g))) (pi_pa (km_low_p4d (vm_kkm g))) g1)"
    "kmem g' = kmem g4" "but_slots (vm_kkm g') = but_slots (vm_kkm g)"
proof -
  obtain left bs g1 where c: "copy_from_user E arg 32 g = (left, bs, g1)" by (rule prod_cases3)
  note f = copy_from_user_frame [OF c] same_more_vm [OF copy_from_user_frame(5) [OF c]]
  define mr where "mr = bytes_memory_region bs"
  define g2 where "g2 = kcall (Ev_mutex_lock Mem_lock) g1"
  obtain r k where ch: "change_slot mr (vm_kkm g) = (r, k)" by fastforce
  have k: "but_slots k = but_slots (vm_kkm g)" by (rule change_slot_fields [OF ch])
  then have kf: "km_mm k = km_mm (vm_kkm g)" "km_gk_pgd k = km_gk_pgd (vm_kkm g)" "km_gp_pgd k = km_gp_pgd (vm_kkm g)"
    "km_guest_pml4e k = km_guest_pml4e (vm_kkm g)" "km_low_p4d k = km_low_p4d (vm_kkm g)"
    by (cases k, cases "vm_kkm g", simp add: but_slots_def)+
  have refused: "slot_refused mr (vm_kkm g) \<Longrightarrow> r = - EINVAL"
    using ch by (auto simp: slot_refused_def change_slot_def Let_def split: if_splits)
  define g3 where "g3 = on_kkm (\<lambda>_. k) g2"
  define g4 where "g4 = snd (kkm_mmu_sync E (lx_pgd_of_mm E (km_mm k)) (pi_va (km_gk_pgd k)) (pi_va (km_gp_pgd k))
                              (km_guest_pml4e k) (pi_va (km_low_p4d k)) (pi_pa (km_low_p4d k)) g3)"
  have "r = 0 \<and> g' = kcall (Ev_mutex_unlock Mem_lock) g4"
    using s c ch f refused
    by (auto simp: kkm_set_kontainer_memory_def sizeof_def shapes Let_def mr_def [symmetric] g2_def [symmetric] g3_def [symmetric] g4_def
        split: if_splits prod.splits) (simp_all add: g3_def g2_def)
  then show thesis
    using k kf f by (intro that [of g3 g4]) (simp_all add: g4_def g3_def g2_def)
qed


lemma leaf_entry_kmem: "kmem s' = kmem s \<Longrightarrow> leaf_entry E t a s' = leaf_entry E t a s"
  using walk_tables_kmem [of s' s] by (simp add: leaf_entry_def read_entry_def)

lemma kx_entry_zero [simp]: "kkm_mmu_entry_pa E 0 = 0"
  by (simp add: kkm_mmu_entry_pa_def)

subsection \<open>Property\<close>

text \<open>C6 From the device to shared memory (four-level paging). The monitor's top-level table is a page that is in use
  when the kontainer is created, and maps the payload's memory. When a first region was then attached to the kontainer, an address
  of the shared windows reaches through either of the kontainer's tables the leaf entry that its conversion
  reaches through the monitor's table; the upper half of both tables is the native kernel's, with the kx area
  in its slot; the entry of the private area leads to the kontainer's own hierarchy; and the monitor's table is as it was.\<close>

theorem attached_memory_reaches_payload:
  fixes g0 g g' :: "'a guest_scheme"
  assumes "lx_paging_ok E" "lx_alloc_fresh E" "\<not> lx_pgtable_l5_enabled E"
    and "kkm_create_kontainer E g0 = (fd, g)" "0 \<le> fd"
    and "pgd = lx_pgd_of_mm E (lx_current_mm E)" "pgd AND 4095 = 0" "(pgd, n) \<in># outstanding E (klog g0)"
    and "kkm_mmu_entry_pa E (read_entry pgd 0 g0) \<noteq> 0"
    and "kkm_kontainer_ioctl E KKM_MEMORY arg g = Some (0, g')" "t \<in> {pi_va (km_gk_pgd (vm_kkm g)), pi_va (km_gp_pgd (vm_kkm g))}"
    and "kkm_guest_va_to_monitor_va v a = (True, m, False)" "256 \<le> j" "j < 512"
  shows "leaf_entry E t a g' = leaf_entry E pgd m g' \<and>
    read_entry t j g' = (if j = KKM_KX_PGD_INDEX then pml_pgd_entry (kkm_mmu_kx g0) else read_entry pgd j g0) \<and>
    read_entry t 1 g' = pml_pgd_entry (km_guest_pml4e (vm_kkm g)) \<and> read_entry pgd j g' = read_entry pgd j g0"
proof -
  let ?gk = "pi_va (km_gk_pgd (vm_kkm g))" and ?gp = "pi_va (km_gp_pgd (vm_kkm g))"
  note T = created_tables [OF assms(1-8)]
  have s: "kkm_set_kontainer_memory E arg g = Some (0, g')" using assms(10) by (simp add: ioctl_memory)
  obtain g1 g4 :: "'a guest_scheme" where k1: "kmem g1 = kmem g" and g4: "g4 = snd (kkm_mmu_sync E pgd ?gk ?gp
        (km_guest_pml4e (vm_kkm g)) (pi_va (km_low_p4d (vm_kkm g))) (pi_pa (km_low_p4d (vm_kkm g))) g1)" and k4: "kmem g' = kmem g4"
    by (rule set_memory_steps [OF s, unfolded T(2), folded assms(6)]) blast
  have r1: "read_entry u i g1 = read_entry u i g" "read_entry u i g' = read_entry u i g4" for u i
    by (simp_all add: read_entry_def k1 k4)
  obtain r where sync: "kkm_mmu_sync E pgd ?gk ?gp (km_guest_pml4e (vm_kkm g)) (pi_va (km_low_p4d (vm_kkm g)))
      (pi_pa (km_low_p4d (vm_kkm g))) g1 = (r, g4)" using g4 by (metis prod.collapse)
  have moved: "kkm_mmu_entry_pa E (native_payload_entry E pgd g1) \<noteq> kkm_mmu_entry_pa E (read_entry ?gp 0 g1)"
    using assms(3,9) T(6) [of 0] T(7) [of ?gp 0] by (simp add: native_payload_entry_def r1)
  note S = sync_l4 [OF assms(3) T(1) _ _ moved sync]
  have ne: "t \<noteq> pgd" "t \<in> {pgd, ?gk, ?gp}" using T(1) assms(11) by (auto simp: distinct_tables_def)
  have "leaf_entry E t a g4 = leaf_entry E pgd m g4"
    by (rule shared_window_walk_l4 [OF assms(1,3) T(1) moved sync assms(12,11)])
  then have "leaf_entry E t a g' = leaf_entry E pgd m g'" by (simp add: leaf_entry_kmem [OF k4])
  moreover have "read_entry t j g' = (if j = KKM_KX_PGD_INDEX then pml_pgd_entry (kkm_mmu_kx g0) else read_entry pgd j g0)"
    using S [OF ne(2) assms(14)] ne(1) assms(13,14) T(7) [OF assms(11,14)] by (auto simp: r1)
  moreover have "read_entry t 1 g' = pml_pgd_entry (km_guest_pml4e (vm_kkm g))" "read_entry pgd j g' = read_entry pgd j g0"
    using S [OF ne(2), of 1] S [of pgd j] T(6) [OF assms(14)] ne(1) assms(13,14) by (auto simp: r1)
  ultimately show ?thesis by blast
qed

text \<open>The monitor's table is in use, and maps the payload's memory.\<close>

definition example_monitor :: guest where
  "example_monitor = example_empty\<lparr>klog := [Ev_alloc_pages 1 0xF0000], kmem := (\<lambda>_. 0)(0xF0000 := 0x5067)\<rparr>"

lemma example_monitor_simps [simp]:
  "klog example_monitor = [Ev_alloc_pages 1 0xF0000]" "read_entry 0xF0000 0 example_monitor = 0x5067"
  "um example_monitor = um example_guest" "lx_pgd_of_mm example_linux m = 0xF0000"
  by (simp_all add: example_monitor_def example_empty_def read_entry_def entry_addr_def example_linux_def)

theorem attached_memory_reaches_payload_witness:
  "\<exists>fd g g'. kkm_create_kontainer example_linux example_monitor = (fd, g) \<and> 0 \<le> fd \<and>
     kkm_kontainer_ioctl example_linux KKM_MEMORY 0x5000 g = Some (0, g') \<and>
     leaf_entry example_linux (pi_va (km_gp_pgd (vm_kkm g))) 0x7F8000201000 g' = leaf_entry example_linux 0xF0000 0x201000 g'"
proof -
  obtain fd g where c: "kkm_create_kontainer example_linux example_monitor = (fd, g)" "0 \<le> fd"
    using example_create [of example_monitor] by (auto simp: example_linux_def)
  have o: "(0xF0000, 1) \<in># outstanding example_linux (klog example_monitor)" by simp
  note T = created_tables [OF example_paging_ok example_alloc_fresh _ c refl _ o [folded example_monitor_simps(4) [of "lx_current_mm example_linux"]], simplified]
  have u: "um g = um example_guest" using T(5) by simp
  obtain left bs g1 where f: "copy_from_user example_linux 0x5000 32 g = (left, bs, g1)" by (rule prod_cases3)
  have f0: "copy_from_user example_linux 0x5000 32 g = (0, bs, g1)" using f by (auto simp: copy_from_user_def Let_def)
  have b: "bytes_memory_region bs = example_region" using copied_region(1) [OF f0] by (simp add: u)
  have "kkm_kontainer_ioctl example_linux KKM_MEMORY 0x5000 g \<noteq> None"
    using memory_undefined_iff [OF f0 refl] by (simp add: u example_region_def)
  then obtain r g' where i: "kkm_kontainer_ioctl example_linux KKM_MEMORY 0x5000 g = Some (r, g')" by auto
  have "r = 0"
    using memory_map [OF T(3) i [unfolded ioctl_memory] f0] by (auto simp: b T(4) slot_spec_def Let_def example_region_def aligned_def split: if_splits)
  with i have i: "kkm_kontainer_ioctl example_linux KKM_MEMORY 0x5000 g = Some (0, g')" by simp
  have tr: "kkm_guest_va_to_monitor_va example_vm 0x7F8000201000 = (True, 0x201000, False)"
    by (simp add: kkm_guest_va_to_monitor_va_def kkm_consts)
  have "leaf_entry example_linux (pi_va (km_gp_pgd (vm_kkm g))) 0x7F8000201000 g' = leaf_entry example_linux 0xF0000 0x201000 g'"
    using attached_memory_reaches_payload [OF example_paging_ok example_alloc_fresh _ c _ _ o _ i _ tr, of _ 256]
    by (simp add: kkm_mmu_entry_pa_def)
  with c i show ?thesis by blast
qed

end
