(* ===== verification/Kkm_Client.thy ===== *)
theory Kkm_Client
  imports Kkm_Device
begin

section \<open>A client of the module (\<open>src/test_kkm/test_kkm.c\<close>)\<close>

text \<open>
  The test program of the repository, as a user of the device: the calls it makes, in its order, against the model of the
  module. A world is the module (with the program's memory, \<open>um\<close>) and the files of the process. \<open>open\<close>,
  \<open>close\<close> and \<open>ioctl\<close> are those of Linux: a negative result of the module is \<open>-1\<close> for the program, a descriptor that the module
  installs during a call is a file of the process from then on, even if the call fails. What the program prints is left out.
\<close>

datatype client_file = Root_file | Kontainer_file | Kontext_file

type_synonym world = "kmodule \<times> (int \<Rightarrow> client_file option)"

text \<open>What the process gets from its system: the number a successful \<open>open\<close> returns, the buffer of \<open>malloc\<close>, and the
  place of the local variable \<open>mm\<close>.\<close>

record process_env =
  pe_open :: "string \<Rightarrow> int"
  pe_malloc :: "nat \<Rightarrow> u64"
  pe_mm :: u64

record kkm_t =
  device_name :: string
  root_device_fd :: int
  cpu_supported :: bool
  driver_version :: u32
  driver_identity :: int
  kontain_device_fd :: int
  context_map_size :: int
  context_device_fd :: int

definition no_kkm_t :: kkm_t where
  "no_kkm_t = \<lparr>device_name = [], root_device_fd = 0, cpu_supported = False, driver_version = 0, driver_identity = 0,
     kontain_device_fd = 0, context_map_size = 0, context_device_fd = 0\<rparr>"

subsection \<open>System calls\<close>

definition sys_open :: "process_env \<Rightarrow> string \<Rightarrow> world \<Rightarrow> int \<times> world" where
  "sys_open P name w =
     (case w of (m, fs) \<Rightarrow>
      let fd = pe_open P name
      in if name = ''/dev/kkm'' \<and> kkm_device_registered m \<and> 0 \<le> fd then (fd, m, fs(fd \<mapsto> Root_file)) else (- 1, w))"

definition sys_close :: "int \<Rightarrow> world \<Rightarrow> world" where
  "sys_close fd w = (case w of (m, fs) \<Rightarrow> (m, fs(fd := None)))"

text \<open>The descriptors that the module installed, in the log, and those that a call installed.\<close>

fun getfds :: "kev list \<Rightarrow> int list" where
  "getfds [] = []"
| "getfds (Ev_anon_inode_getfd n # l) = n # getfds l"
| "getfds (_ # l) = getfds l"

definition installed :: "kev list \<Rightarrow> kev list \<Rightarrow> int set" where
  "installed l l' = {n \<in> set (take (length (getfds l') - length (getfds l)) (getfds l')). 0 \<le> n}"

definition add_files :: "int set \<Rightarrow> client_file \<Rightarrow> (int \<Rightarrow> client_file option) \<Rightarrow> int \<Rightarrow> client_file option" where
  "add_files N kind fs = (\<lambda>n. if n \<in> N then Some kind else fs n)"

definition user_result :: "int \<Rightarrow> int" where
  "user_result r = (if r < 0 then - 1 else r)"

text \<open>The program makes no call on the file of a kontext.\<close>

definition sys_ioctl :: "linux \<Rightarrow> device_env \<Rightarrow> int \<Rightarrow> u32 \<Rightarrow> u64 \<Rightarrow> world \<Rightarrow> (int \<times> world) option" where
  "sys_ioctl E D fd t arg w =
     (case w of (m, fs) \<Rightarrow>
      case fs fd of
        None \<Rightarrow> Some (- 1, w)
      | Some Root_file \<Rightarrow> (case kkm_device_ioctl E D t arg m of (r, m') \<Rightarrow>
          Some (user_result r, m', add_files (installed (klog m) (klog m')) Kontainer_file fs))
      | Some Kontainer_file \<Rightarrow> (case kkm_kontainer_ioctl E t arg m of
          None \<Rightarrow> None
        | Some (r, m') \<Rightarrow> Some (user_result r, m', add_files (installed (klog m) (klog m')) Kontext_file fs))
      | Some Kontext_file \<Rightarrow> None)"

definition user_store :: "u64 \<Rightarrow> u8 list \<Rightarrow> world \<Rightarrow> world" where
  "user_store a bs w = (case w of (m, fs) \<Rightarrow> (m\<lparr>um := mem_store a bs (um m)\<rparr>, fs))"

subsection \<open>The program\<close>

definition test_cleanup :: "kkm_t \<Rightarrow> world \<Rightarrow> world" where
  "test_cleanup k w = (if root_device_fd k \<ge> 0 then sys_close (root_device_fd k) w else w)"

definition test_init :: "process_env \<Rightarrow> linux \<Rightarrow> device_env \<Rightarrow> kkm_t \<Rightarrow> world \<Rightarrow> (int \<times> kkm_t \<times> world) option" where
  "test_init P E D k w =
     (let error = (\<lambda>k w. Some (1, k, test_cleanup k w));
          k1 = k\<lparr>device_name := ''/dev/'' @ ''kkm''\<rparr>
      in case sys_open P (device_name k1) w of (fd, w1) \<Rightarrow>
      let k2 = k1\<lparr>root_device_fd := fd\<rparr>
      in if fd < 0 then error k2 w1
      else case sys_ioctl E D fd KKM_CPU_SUPPORTED 0 w1 of None \<Rightarrow> None | Some (r1, w2) \<Rightarrow>
      if r1 < 0 then error k2 w2
      else let k3 = k2\<lparr>cpu_supported := (r1 \<noteq> 0)\<rparr>
      in case sys_ioctl E D fd KKM_GET_VERSION 0 w2 of None \<Rightarrow> None | Some (r2, w3) \<Rightarrow>
      if r2 < 0 then error k3 w3
      else let k4 = k3\<lparr>driver_version := of_int r2\<rparr>
      in case sys_ioctl E D fd KKM_GET_IDENTITY 0 w3 of None \<Rightarrow> None | Some (r3, w4) \<Rightarrow>
      if r3 < 0 then error k4 w4
      else if KKM_DEVICE_IDENTITY \<noteq> r3 then error k4 w4
      else Some (0, k4\<lparr>driver_identity := r3\<rparr>, w4))"

definition test_create_kontainer :: "linux \<Rightarrow> device_env \<Rightarrow> kkm_t \<Rightarrow> world \<Rightarrow> (kkm_t \<times> world) option" where
  "test_create_kontainer E D k w =
     (case sys_ioctl E D (root_device_fd k) KKM_CREATE_KONTAINER 0 w of None \<Rightarrow> None | Some (ret_val, w1) \<Rightarrow>
      if ret_val < 0 then Some (k, w1) else Some (k\<lparr>kontain_device_fd := ret_val\<rparr>, w1))"

definition test_get_mapsize :: "linux \<Rightarrow> device_env \<Rightarrow> kkm_t \<Rightarrow> world \<Rightarrow> (kkm_t \<times> world) option" where
  "test_get_mapsize E D k w =
     (case sys_ioctl E D (root_device_fd k) KKM_GET_CONTEXT_MAP_SIZE 0 w of None \<Rightarrow> None | Some (ret_val, w1) \<Rightarrow>
      if ret_val < 0 then Some (k, w1) else Some (k\<lparr>context_map_size := ret_val\<rparr>, w1))"

definition cpuid_alloc_size :: nat where
  "cpuid_alloc_size = sizeof t_kkm_cpuid + sizeof t_kkm_ec_entry * KKM_CONTEXT_INFO_ENTRY_COUNT"

definition test_get_cpuid :: "process_env \<Rightarrow> linux \<Rightarrow> device_env \<Rightarrow> kkm_t \<Rightarrow> world \<Rightarrow> (kkm_t \<times> world) option" where
  "test_get_cpuid P E D k w =
     (let buf = pe_malloc P cpuid_alloc_size;
          w1 = user_store buf (replicate cpuid_alloc_size 0xA5) w;
          w2 = user_store buf (le_bytes 4 (of_nat KKM_CONTEXT_INFO_ENTRY_COUNT :: u32)) w1
      in map_option (\<lambda>(ret_val, w3). (k, w3)) (sys_ioctl E D (root_device_fd k) KKM_GET_SUPPORTED_CONTEXT_INFO buf w2))"

definition test_region :: kkm_memory_region where
  "test_region = \<lparr>mr_slot = 0, mr_flags = 0, guest_phys_addr = 0x1000, memory_size = 63 * 0x1000, userspace_addr = 0x100000001000\<rparr>"

definition test_add_memory :: "process_env \<Rightarrow> linux \<Rightarrow> device_env \<Rightarrow> kkm_t \<Rightarrow> world \<Rightarrow> (kkm_t \<times> world) option" where
  "test_add_memory P E D k w =
     (let w1 = user_store (pe_mm P) (memory_region_bytes test_region) w
      in map_option (\<lambda>(ret_val, w2). (k, w2)) (sys_ioctl E D (kontain_device_fd k) KKM_MEMORY (pe_mm P) w1))"

definition test_create_context :: "linux \<Rightarrow> device_env \<Rightarrow> kkm_t \<Rightarrow> world \<Rightarrow> (kkm_t \<times> world) option" where
  "test_create_context E D k w =
     (case sys_ioctl E D (kontain_device_fd k) KKM_ADD_EXECUTION_CONTEXT 0 w of None \<Rightarrow> None | Some (ret_val, w1) \<Rightarrow>
      if ret_val < 0 then Some (k, w1) else Some (k\<lparr>context_device_fd := ret_val\<rparr>, w1))"

text \<open>\<open>main\<close> goes on whatever its steps return.\<close>

definition test_main :: "process_env \<Rightarrow> linux \<Rightarrow> device_env \<Rightarrow> kkm_t \<Rightarrow> world \<Rightarrow> (kkm_t \<times> world) option" where
  "test_main P E D k w =
     (case test_init P E D k w of None \<Rightarrow> None | Some (r, k1, w1) \<Rightarrow>
      case test_create_kontainer E D k1 w1 of None \<Rightarrow> None | Some (k2, w2) \<Rightarrow>
      case test_get_mapsize E D k2 w2 of None \<Rightarrow> None | Some (k3, w3) \<Rightarrow>
      case test_get_cpuid P E D k3 w3 of None \<Rightarrow> None | Some (k4, w4) \<Rightarrow>
      case test_add_memory P E D k4 w4 of None \<Rightarrow> None | Some (k5, w5) \<Rightarrow>
      case test_create_context E D k5 w5 of None \<Rightarrow> None | Some (k6, w6) \<Rightarrow>
      Some (k6, test_cleanup k6 w6))"

subsection \<open>Logs without new descriptors\<close>

fun quiet_event :: "kev \<Rightarrow> bool" where
  "quiet_event (Ev_anon_inode_getfd n) = False"
| "quiet_event e = (\<not> page_event e)"

definition quiet_log :: "kev list \<Rightarrow> kev list \<Rightarrow> bool" where
  "quiet_log l l' \<longleftrightarrow> (\<exists>es. l' = es @ l \<and> (\<forall>e \<in> set es. quiet_event e))"

lemma quiet_refl [simp]: "quiet_log l l"
  by (simp add: quiet_log_def)

lemma quiet_step: "quiet_event e \<Longrightarrow> quiet_log l l' \<Longrightarrow> quiet_log l (e # l')"
  unfolding quiet_log_def by (metis append_Cons set_ConsD)

lemma quiet_keeps:
  assumes "quiet_log l l'"
  shows "getfds l' = getfds l" "heap_top l' = heap_top l" "outstanding E l' = outstanding E l"
proof -
  have step: "quiet_event e \<Longrightarrow> getfds (e # l) = getfds l \<and> heap_top (e # l) = heap_top l \<and> outstanding E (e # l) = outstanding E l" for e l
    by (cases e) simp_all
  have "\<forall>e \<in> set es. quiet_event e \<Longrightarrow> getfds (es @ l) = getfds l \<and> heap_top (es @ l) = heap_top l \<and> outstanding E (es @ l) = outstanding E l" for es
    using step by (induction es) simp_all
  then show "getfds l' = getfds l" "heap_top l' = heap_top l" "outstanding E l' = outstanding E l"
    using assms unfolding quiet_log_def by blast+
qed

lemma cpuid_quiet:
  assumes "kkm_get_native_cpuid E D arg s = (r, s')"
  shows "quiet_log (klog s) (klog s')" "host.more s' = host.more s" "kkm_mmu_kx s' = kkm_mmu_kx s"
proof -
  obtain left bs s1 where c: "copy_from_user E arg (sizeof t_kkm_cpuid) s = (left, bs, s1)" by (rule prod_cases3)
  define ec where "ec = lx_kzalloc E (klog s1)"
  obtain l1 s3 where c1: "copy_to_user E (arg + 8) (concat (map (ec_entry_bytes D) cpuid_functions)) (kcall (Ev_kzalloc ec) s1) = (l1, s3)" by fastforce
  obtain l2 s4 where c2: "copy_to_user E arg (le_bytes 4 (of_nat KKM_CONTEXT_INFO_ENTRY_COUNT :: u32) @ le_bytes 4 (0 :: u32)) s3 = (l2, s4)" by fastforce
  have "s' = s1 \<or> s' = kcall (Ev_kzalloc ec) s1 \<or> s' = kcall (Ev_kfree ec) s4"
    using assms c c1 c2 by (auto simp: kkm_get_native_cpuid_def Let_def ec_def [symmetric] split: if_splits)
  moreover note F = copy_from_user_state [OF c] copy_to_user_state [OF c1] copy_to_user_state [OF c2]
  ultimately show "quiet_log (klog s) (klog s')" "host.more s' = host.more s" "kkm_mmu_kx s' = kkm_mmu_kx s"
    by (auto intro!: quiet_step)
qed

lemma set_memory_quiet:
  assumes "kkm_set_kontainer_memory E arg g = Some (r, g')"
  shows "quiet_log (klog g) (klog g')"
proof -
  obtain left bs g1 where c: "copy_from_user E arg 32 g = (left, bs, g1)" by (rule prod_cases3)
  show ?thesis
    using assms c by (auto simp: kkm_set_kontainer_memory_def sizeof_def shapes Let_def copy_from_user_state [OF c]
        split: if_splits prod.splits intro!: quiet_step)
qed

text \<open>Creating a kontainer installs one descriptor.\<close>

lemma allocate_pages_getfds: "kkm_mm_allocate_pages E pp vp ap n pi s = (r, pi', s') \<Longrightarrow> getfds (klog s') = getfds (klog s)"
  by (auto simp: kkm_mm_allocate_pages_def alloc_pages_def Let_def split: if_splits)

lemma create_pml4_getfds: "kkm_create_pml4 E is_kx a s = (0, kmu, s') \<Longrightarrow> getfds (klog s') = getfds (klog s)"
  by (cases rule: create_pml4_cases) (auto simp: kkm_mm_allocate_page_def dest!: allocate_pages_getfds)

lemma kontainer_init_getfds:
  assumes "kkm_kontainer_init E s = (0, s')"
  shows "getfds (klog s') = getfds (klog s)"
  using assms
  by (auto simp: kkm_kontainer_init_def kkm_kontainer_allocate_pgd_pages_def kkm_kontainer_allocate_p4d_pages_def
      kkm_kontainer_allocate_lvl_pages_def Let_def split: if_splits prod.splits dest!: allocate_pages_getfds create_pml4_getfds)

lemma create_getfds:
  assumes "kkm_create_kontainer E g0 = (fd, g)" "0 \<le> fd"
  shows "getfds (klog g) = fd # getfds (klog g0)"
proof -
  obtain g5 g6 g7 where l: "klog g5 = Ev_anon_inode_getfd fd # Ev_kzalloc (lx_kzalloc E (klog g0)) # klog g0"
    and i: "kkm_kontainer_init E g5 = (0, g6)"
    and cp: "kkm_mmu_copy_kernel_pgd E (lx_pgd_of_mm E (lx_current_mm E)) (pi_va (km_gk_pgd (vm_kkm g6))) (pi_va (km_gp_pgd (vm_kkm g6)))
       (pi_va (km_gk_p4d (vm_kkm g6))) (pi_va (km_gp_p4d (vm_kkm g6))) g6 = (0, g7)"
    and g: "g = kkm_statistics_kontainer_count_inc (kkm_reference_count_init g7)"
    by (rule create_steps [OF assms]) blast
  have "klog g7 = klog g6" using cp by (auto simp: kkm_mmu_copy_kernel_pgd_def Let_def split: if_splits)
  then show ?thesis using kontainer_init_getfds [OF i] l by (simp add: g kkm_reference_count_init_def kkm_statistics_defs)
qed

subsection \<open>The calls of the program\<close>

lemma add_files_none [simp]: "add_files {} kind fs = fs"
  by (simp add: add_files_def)

lemma installed_quiet: "quiet_log l l' \<Longrightarrow> installed l l' = {}"
  using quiet_keeps(1) [of l l'] by (simp add: installed_def)

text \<open>The calls on the device that change nothing.\<close>

lemma quiet_ioctls:
  assumes "fs fd = Some Root_file" "kkm_cpu_supported m"
  shows "sys_ioctl E D fd KKM_CPU_SUPPORTED a (m, fs) = Some (0, m, fs)" "sys_ioctl E D fd KKM_GET_VERSION a (m, fs) = Some (12, m, fs)"
    "sys_ioctl E D fd KKM_GET_IDENTITY a (m, fs) = Some (KKM_DEVICE_IDENTITY, m, fs)"
    "sys_ioctl E D fd KKM_GET_CONTEXT_MAP_SIZE a (m, fs) = Some (12288, m, fs)"
  using assms installed_quiet [of "klog m" "klog m"]
  by (simp_all add: sys_ioctl_def kkm_device_ioctl_def ioctl_values user_result_def kkm_version_def KKM_DEVICE_IDENTITY_def add_files_def)

lemma init_supported:
  assumes "kkm_device_registered m" "kkm_cpu_supported m" "fd = pe_open P ''/dev/kkm''" "0 \<le> fd"
  shows "test_init P E D k (m, fs) = Some (0, k\<lparr>device_name := ''/dev/kkm'', root_device_fd := fd, cpu_supported := False,
     driver_version := 12, driver_identity := KKM_DEVICE_IDENTITY\<rparr>, m, fs(fd \<mapsto> Root_file))"
  using assms quiet_ioctls [of "fs(fd \<mapsto> Root_file)" fd m] by (simp add: test_init_def sys_open_def Let_def KKM_DEVICE_IDENTITY_def)

lemma create_call:
  assumes "fs root = Some Root_file" "kkm_cpu_supported m" "sys_ioctl E D root KKM_CREATE_KONTAINER a (m, fs) = Some (n, m1, fs1)" "0 \<le> n"
  shows "kkm_create_kontainer E m = (n, m1)" "fs1 = fs(n \<mapsto> Kontainer_file)"
proof -
  obtain r where c: "kkm_create_kontainer E m = (r, m1)" "n = user_result r"
    and f: "fs1 = add_files (installed (klog m) (klog m1)) Kontainer_file fs"
    using assms(1-3) by (auto simp: sys_ioctl_def kkm_device_ioctl_def ioctl_values split: prod.splits)
  have r: "r = n" "0 \<le> r" using c(2) assms(4) by (auto simp: user_result_def split: if_splits)
  then show "kkm_create_kontainer E m = (n, m1)" using c by simp
  have "installed (klog m) (klog m1) = {n}" using create_getfds [OF c(1) r(2)] r by (auto simp: installed_def)
  then show "fs1 = fs(n \<mapsto> Kontainer_file)" by (auto simp: f add_files_def)
qed

lemma cpuid_call:
  assumes "fs root = Some Root_file" "kkm_cpu_supported m" "sys_ioctl E D root KKM_GET_SUPPORTED_CONTEXT_INFO a (m, fs) = Some (n, m1, fs1)"
  shows "fs1 = fs" "quiet_log (klog m) (klog m1)" "host.more m1 = host.more m"
proof -
  obtain r where c: "kkm_get_native_cpuid E D a m = (r, m1)"
    and f: "fs1 = add_files (installed (klog m) (klog m1)) Kontainer_file fs"
    using assms by (auto simp: sys_ioctl_def ioctl_context_info split: prod.splits)
  note Q = cpuid_quiet [OF c]
  from Q show "quiet_log (klog m) (klog m1)" "host.more m1 = host.more m" by simp_all
  show "fs1 = fs" using installed_quiet [OF Q(1)] by (simp add: f)
qed

lemma memory_call:
  assumes "fs kd = Some Kontainer_file" "sys_ioctl E D kd KKM_MEMORY a (m, fs) = Some (n, m1, fs1)"
  shows "\<exists>r. kkm_set_kontainer_memory E a m = Some (r, m1)" "fs1 = fs"
proof -
  obtain r where c: "kkm_set_kontainer_memory E a m = Some (r, m1)"
    and f: "fs1 = add_files (installed (klog m) (klog m1)) Kontext_file fs"
    using assms by (auto simp: sys_ioctl_def ioctl_memory split: option.splits)
  from c show "\<exists>r. kkm_set_kontainer_memory E a m = Some (r, m1)" by blast
  show "fs1 = fs" using installed_quiet [OF set_memory_quiet [OF c]] by (simp add: f)
qed

lemma context_call:
  assumes "fs kd = Some Kontainer_file" "sys_ioctl E D kd KKM_ADD_EXECUTION_CONTEXT a (m, fs) = Some (n, m1, fs1)"
  shows "\<exists>r. kkm_add_execution_kontext E a m = Some (r, m1)"
  using assms by (auto simp: sys_ioctl_def kkm_kontainer_ioctl_def split: option.splits)

lemma same_supported: "guest.more m' = guest.more (m :: kmodule) \<Longrightarrow> kkm_cpu_supported m' = kkm_cpu_supported m"
  by (cases m, cases m') simp

lemma created_number: "kkm_create_kontainer E g0 = (fd, g) \<Longrightarrow> 0 \<le> fd \<Longrightarrow> \<exists>l. fd = lx_anon_inode_getfd E l"
  by (erule (1) create_steps) blast

text \<open>The steps of a run that created its kontainer.\<close>

lemma main_steps:
  assumes dev: "kkm_device_registered m" "kkm_cpu_supported m" "root = pe_open P ''/dev/kkm''" "0 \<le> root" "\<forall>l. lx_anon_inode_getfd E l \<noteq> root"
    and main: "test_main P E D no_kkm_t (m, fs) = Some (k, m', fs')" and kd: "0 < kontain_device_fd k"
  obtains m1 m2 m3 r3 r4 where "kkm_create_kontainer E m = (kontain_device_fd k, m1)"
    "quiet_log (klog m1) (klog m2)" "host.more m2 = host.more m1"
    "kkm_set_kontainer_memory E (pe_mm P) (m2\<lparr>um := mem_store (pe_mm P) (memory_region_bytes test_region) (um m2)\<rparr>) = Some (r3, m3)"
    "kkm_add_execution_kontext E 0 m3 = Some (r4, m')" "fs' root = None" "context_map_size k = 12288" "\<not> cpu_supported k" "driver_version k = 12"
proof -
  define k1 where "k1 = no_kkm_t\<lparr>device_name := ''/dev/kkm'', root_device_fd := root, cpu_supported := False,
     driver_version := 12, driver_identity := KKM_DEVICE_IDENTITY\<rparr>"
  define f1 where "f1 = fs(root \<mapsto> Root_file)"
  have i: "test_init P E D no_kkm_t (m, fs) = Some (0, k1, m, f1)"
    using init_supported [OF dev(1-4)] by (simp add: k1_def f1_def)
  have r1: "root_device_fd k1 = root" "kontain_device_fd k1 = 0" "f1 root = Some Root_file" by (simp_all add: k1_def no_kkm_t_def f1_def)
  obtain k2 w2 k3 w3 k4 w4 k5 w5 w6 where
    c: "test_create_kontainer E D k1 (m, f1) = Some (k2, w2)" and z: "test_get_mapsize E D k2 w2 = Some (k3, w3)"
    and q: "test_get_cpuid P E D k3 w3 = Some (k4, w4)" and a: "test_add_memory P E D k4 w4 = Some (k5, w5)"
    and x: "test_create_context E D k5 w5 = Some (k, w6)" and w': "(m', fs') = test_cleanup k w6"
    using main by (auto simp: test_main_def i split: option.splits)
  obtain n m1 f2 where n: "sys_ioctl E D root KKM_CREATE_KONTAINER 0 (m, f1) = Some (n, m1, f2)" "w2 = (m1, f2)"
    and k2: "k2 = (if n < 0 then k1 else k1\<lparr>kontain_device_fd := n\<rparr>)"
    using c by (auto simp: test_create_kontainer_def r1 split: option.splits if_splits)
  have k3: "kontain_device_fd k3 = kontain_device_fd k2" "root_device_fd k3 = root_device_fd k2"
    using z by (auto simp: test_get_mapsize_def split: option.splits if_splits)
  have k4: "k4 = k3" "k5 = k4" using q a by (auto simp: test_get_cpuid_def test_add_memory_def Let_def)
  have k6: "kontain_device_fd k = kontain_device_fd k5" "root_device_fd k = root_device_fd k5" "context_map_size k = context_map_size k5"
    "cpu_supported k = cpu_supported k5" "driver_version k = driver_version k5"
    using x by (auto simp: test_create_context_def split: option.splits if_splits)
  have n0: "0 < n" "kontain_device_fd k = n" using kd k3 k4 k6 k2 r1 by (auto split: if_splits)
  then have k2: "k2 = k1\<lparr>kontain_device_fd := n\<rparr>" using k2 by simp
  note C = create_call [OF r1(3) dev(2) n(1)]
  have cr: "kkm_create_kontainer E m = (n, m1)" and f2: "f2 = f1(n \<mapsto> Kontainer_file)" using C n0 by simp_all
  note F = created_fields [OF cr]
  have ne: "n \<noteq> root" using created_number [OF cr] dev(5) n0 by auto
  have r2: "f2 root = Some Root_file" "f2 n = Some Kontainer_file" using ne by (simp_all add: f2 r1)
  have sup: "kkm_cpu_supported m1" using same_supported [OF F(7)] dev(2) n0 by simp
  have w3: "k3 = k2\<lparr>context_map_size := 12288\<rparr>" "w3 = (m1, f2)"
    using z quiet_ioctls(4) [where fs=f2 and fd=root, OF r2(1) sup] by (simp_all add: test_get_mapsize_def n(2) k2 r1)
  obtain a2 b2 m2 f4 q4 where q4: "sys_ioctl E D root KKM_GET_SUPPORTED_CONTEXT_INFO a2 (m1\<lparr>um := b2\<rparr>, f2) = Some (q4, m2, f4)" "w4 = (m2, f4)"
    using q by (auto simp: test_get_cpuid_def Let_def w3 k2 r1 user_store_def)
  note Q = cpuid_call [where fs=f2 and root=root, OF r2(1) _ q4(1)]
  have Q: "f4 = f2" "quiet_log (klog m1) (klog m2)" "host.more m2 = host.more m1" using Q sup by simp_all
  let ?m2 = "m2\<lparr>um := mem_store (pe_mm P) (memory_region_bytes test_region) (um m2)\<rparr>"
  obtain m3 f5 q5 where q5: "sys_ioctl E D n KKM_MEMORY (pe_mm P) (?m2, f2) = Some (q5, m3, f5)" "w5 = (m3, f5)"
    using a by (auto simp: test_add_memory_def Let_def q4(2) Q(1) user_store_def w3 k4 k2)
  note M = memory_call [where fs=f2 and kd=n, OF r2(2) q5(1)]
  obtain m4 f6 q6 where q6: "sys_ioctl E D n KKM_ADD_EXECUTION_CONTEXT 0 (m3, f2) = Some (q6, m4, f6)" "w6 = (m4, f6)"
    using x by (auto simp: test_create_context_def q5(2) M(2) w3 k4 k2 split: option.splits if_splits)
  note A = context_call [where fs=f2 and kd=n, OF r2(2) q6(1)]
  have fin: "m' = m4" "fs' root = None"
    using w' by (simp_all add: test_cleanup_def k6 k4 k3 k2 r1 dev(4) q6(2) sys_close_def)
  from M(1) A cr Q(2,3) fin show thesis
    using k6 k4 n0 by (auto simp: w3 k2 k1_def no_kkm_t_def intro!: that)
qed

subsection \<open>Properties\<close>

lemma same_host_more_ok:
  assumes "guest_ok E X b g" "host.more g' = host.more g" "outstanding E (klog g') = outstanding E (klog g)"
  shows "guest_ok E X b g'" "used_kontexts g' = used_kontexts g" "vm_kkm g' = vm_kkm g" "gs_kontexts g' = gs_kontexts g"
proof -
  note S = same_more_guest [OF assms(2)]
  then show "vm_kkm g' = vm_kkm g" "gs_kontexts g' = gs_kontexts g" by simp_all
  show "guest_ok E X b g'" "used_kontexts g' = used_kontexts g"
    using assms(1,3) S by (simp_all add: guest_ok_def used_kontexts_def)
qed

text \<open>C7 The test program on a loaded module and a supported processor: when its kontainer and its kontext were made, the
  device told it version, identity and map size, and it leaves a well-formed kontainer that owns all that the module
  allocated, with exactly one kontext and exactly the memory region it asked for; the device file is closed.\<close>

theorem test_program_session:
  assumes "lx_address_ok E" "\<forall>l a n. lx_copy_from_user E l a n = 0" "\<forall>l. lx_anon_inode_getfd E l \<noteq> root"
    and "pml4e_blocks (kkm_mmu_kx m) \<subseteq># outstanding E (klog m)" "kkm_device_registered m" "kkm_cpu_supported m"
    and "root = pe_open P ''/dev/kkm''" "0 \<le> root" "test_main P E D no_kkm_t (m, fs) = Some (k, m', fs')"
    and "0 < kontain_device_fd k" "km_kontext_count (vm_kkm m') = 1"
  shows "guest_ok E (outstanding E (klog m)) True m' \<and> (\<exists>a. used_kontexts m' = {a}) \<and> slot_map (vm_kkm m') = [0 \<mapsto> test_region] \<and>
    fs' root = None \<and> context_map_size k = 12288 \<and> driver_version k = 12 \<and> \<not> cpu_supported k"
proof -
  obtain m1 m2 m3 r3 r4 where c: "kkm_create_kontainer E m = (kontain_device_fd k, m1)"
    and q: "quiet_log (klog m1) (klog m2)" "host.more m2 = host.more m1"
    and s: "kkm_set_kontainer_memory E (pe_mm P) (m2\<lparr>um := mem_store (pe_mm P) (memory_region_bytes test_region) (um m2)\<rparr>) = Some (r3, m3)"
    and x: "kkm_add_execution_kontext E 0 m3 = Some (r4, m')"
    and last: "fs' root = None" "context_map_size k = 12288" "\<not> cpu_supported k" "driver_version k = 12"
    by (rule main_steps [OF assms(5-8,3,9,10)])
  have fd: "0 \<le> kontain_device_fd k" using assms(10) by simp
  note F = created_fields [OF c fd] and G1 = create_ok [OF c fd refl assms(4)]
  define h where "h = m2\<lparr>um := mem_store (pe_mm P) (memory_region_bytes test_region) (um m2)\<rparr>"
  have h: "host.more h = host.more m1" "outstanding E (klog h) = outstanding E (klog m1)"
    using q(2) quiet_keeps(3) [OF q(1)] by (simp_all add: h_def)
  note H = same_host_more_ok [OF conjunct1 [OF G1] h]
  obtain left bs g1 where cp: "copy_from_user E (pe_mm P) 32 h = (left, bs, g1)" by (rule prod_cases3)
  have cp: "copy_from_user E (pe_mm P) 32 h = (0, bs, g1)" using cp assms(2) by (auto simp: copy_from_user_def Let_def)
  have "mem_load (um h) (pe_mm P) 32 = memory_region_bytes test_region"
    using mem_load_mem_store [of "memory_region_bytes test_region" "pe_mm P" "um m2"] by (simp add: h_def memory_region_enc)
  then have bs: "bytes_memory_region bs = test_region" using copied_region(1) [OF cp] by (simp add: memory_region_enc)
  note s = s [folded h_def]
  have G3: "guest_ok E (outstanding E (klog m)) True m3 \<and> used_kontexts m3 = used_kontexts h"
    by (rule kontainer_ioctl_ok [OF H(1) _ s [folded ioctl_memory]]) (simp add: ioctl_values)
  have "(r3, slot_map (vm_kkm m3)) = slot_spec test_region (slot_map (vm_kkm h))"
    using memory_map [OF _ s cp] F(5) H(3) by (simp add: bs)
  then have sl: "slot_map (vm_kkm m3) = [0 \<mapsto> test_region]"
    by (simp add: H(3) F(6) slot_spec_def test_region_def aligned_def Let_def)
  have gs: "gs_kontexts m3 = (\<lambda>_. None)"
    using set_memory_frame [OF s] vm_more_guest(1) [of m3 h] H(4) F(1) by simp
  have u3: "used_kontexts m3 = {}" using gs by (simp add: used_kontexts_def)
  have "km_kontext_count (vm_kkm m3) = 0" using G3 u3 by (simp add: guest_ok_def)
  then have up: "km_kontext_count (vm_kkm m') = km_kontext_count (vm_kkm m3) + 1" using assms(11) by simp
  have "guest_ok E (outstanding E (klog m)) True m' \<and> (\<exists>a. a \<notin> used_kontexts m3 \<and> used_kontexts m' = insert a (used_kontexts m3))"
    by (rule add_ok(2) [OF assms(1) _ conjunct1 [OF G3] x up]) (simp add: gs)
  then show ?thesis using u3 sl add_slots [OF x] last by auto
qed

definition example_process :: process_env where
  "example_process = \<lparr>pe_open = (\<lambda>_. 1), pe_malloc = (\<lambda>_. 0x10000), pe_mm = 0x20000\<rparr>"

definition loaded_module :: kmodule where
  "loaded_module = example_module\<lparr>kkm_cpu_supported := True, kkm_device_registered := True\<rparr>"

lemma loaded_module_simps [simp]:
  "kkm_cpu_supported loaded_module" "kkm_device_registered loaded_module" "klog loaded_module = []" "kkm_mmu_kx loaded_module = no_pml4e"
  by (simp_all add: loaded_module_def)

theorem test_program_session_witness:
  "\<exists>k m' fs'. test_main example_process example_linux example_env no_kkm_t (loaded_module, \<lambda>_. None) = Some (k, m', fs') \<and>
     guest_ok example_linux {#} True m' \<and> slot_map (vm_kkm m') = [0 \<mapsto> test_region] \<and> fs' 1 = None"
proof -
  let ?E = example_linux
  define k1 where "k1 = no_kkm_t\<lparr>device_name := ''/dev/kkm'', root_device_fd := 1, cpu_supported := False,
     driver_version := 12, driver_identity := KKM_DEVICE_IDENTITY\<rparr>"
  define f1 where "f1 = ((\<lambda>_. None)(1 \<mapsto> Root_file) :: int \<Rightarrow> client_file option)"
  have i: "test_init example_process ?E example_env no_kkm_t (loaded_module, \<lambda>_. None) = Some (0, k1, loaded_module, f1)"
    by (subst init_supported [where fd=1]) (simp_all add: example_process_def k1_def f1_def)
  obtain n m1 where c: "kkm_create_kontainer ?E loaded_module = (n, m1)" "0 \<le> n"
    using example_create [of loaded_module] by (auto simp: example_linux_def)
  have n: "3 \<le> n" using created_number [OF c] by (auto simp: example_linux_def)
  note F = created_fields [OF c]
  define k2 where "k2 = k1\<lparr>kontain_device_fd := n\<rparr>"
  define f2 where "f2 = f1(n \<mapsto> Kontainer_file)"
  have r: "f2 1 = Some Root_file" "f2 n = Some Kontainer_file" "root_device_fd k2 = 1" "root_device_fd k1 = 1" "f1 1 = Some Root_file"
    "kontain_device_fd k2 = n" using n by (simp_all add: f2_def f1_def k2_def k1_def)
  have sup: "kkm_cpu_supported m1" using same_supported [OF F(7)] by simp
  have "installed (klog loaded_module) (klog m1) = {n}" using create_getfds [OF c] c(2) by (auto simp: installed_def)
  then have s1: "test_create_kontainer ?E example_env k1 (loaded_module, f1) = Some (k2, m1, f2)"
    using c by (auto simp: test_create_kontainer_def sys_ioctl_def r kkm_device_ioctl_def ioctl_values user_result_def k2_def f2_def add_files_def)
  define k3 where "k3 = k2\<lparr>context_map_size := 12288\<rparr>"
  have s2: "test_get_mapsize ?E example_env k2 (m1, f2) = Some (k3, m1, f2)"
    using quiet_ioctls(4) [where fs=f2 and fd=1, OF r(1) sup] by (simp add: test_get_mapsize_def r k3_def)
  define b2 where "b2 = mem_store 0x10000 (le_bytes 4 (of_nat KKM_CONTEXT_INFO_ENTRY_COUNT :: u32))
      (mem_store 0x10000 (replicate cpuid_alloc_size 0xA5) (um m1))"
  obtain q m2 where q1: "kkm_get_native_cpuid ?E example_env 0x10000 (m1\<lparr>um := b2\<rparr>) = (q, m2)" by fastforce
  then have q: "kkm_get_native_cpuid ?E example_env 0x10000 (m1\<lparr>um := b2\<rparr>) = (q, m2)"
      "test_get_cpuid example_process ?E example_env k3 (m1, f2) = Some (k3, m2, add_files (installed (klog m1) (klog m2)) Kontainer_file f2)"
    using sup by (simp_all add: test_get_cpuid_def Let_def user_store_def example_process_def sys_ioctl_def k3_def r ioctl_context_info b2_def)
  note Q = cpuid_quiet [OF q(1)]
  have Q: "quiet_log (klog m1) (klog m2)" "host.more m2 = host.more m1" using Q by simp_all
  have s3: "test_get_cpuid example_process ?E example_env k3 (m1, f2) = Some (k3, m2, f2)" using q(2) installed_quiet [OF Q(1)] by simp
  define h where "h = m2\<lparr>um := mem_store (pe_mm example_process) (memory_region_bytes test_region) (um m2)\<rparr>"
  have h: "host.more h = host.more m1" "klog h = klog m2" using Q(2) by (simp_all add: h_def)
  note H = same_more_guest [OF h(1)]
  obtain left bs g1 where cp: "copy_from_user ?E (pe_mm example_process) 32 h = (left, bs, g1)" by (rule prod_cases3)
  have cp: "copy_from_user ?E (pe_mm example_process) 32 h = (0, bs, g1)" using cp by (auto simp: copy_from_user_def Let_def)
  have "mem_load (um h) (pe_mm example_process) 32 = memory_region_bytes test_region"
    using mem_load_mem_store [of "memory_region_bytes test_region" "pe_mm example_process" "um m2"] by (simp add: h_def memory_region_enc)
  then have "kkm_kontainer_ioctl ?E KKM_MEMORY (pe_mm example_process) h \<noteq> None"
    using memory_undefined_iff [OF cp refl] by (simp add: memory_region_enc test_region_def)
  then obtain r3 m3 where m3: "kkm_set_kontainer_memory ?E (pe_mm example_process) h = Some (r3, m3)" by (auto simp: ioctl_memory)
  note S = set_memory_quiet [OF m3] set_memory_frame [OF m3]
  have s4: "test_add_memory example_process ?E example_env k3 (m2, f2) = Some (k3, m3, f2)"
    using m3 installed_quiet [OF S(1)] r by (simp add: test_add_memory_def user_store_def h_def [symmetric] sys_ioctl_def k3_def ioctl_memory)
  have b: "but_slots (vm_kkm m3) = but_slots (vm_kkm m1)" using set_memory_ok [OF _ m3] F(5) H(4) by simp
  have "km_kontext (but_slots (vm_kkm m3)) = km_kontext (but_slots (vm_kkm m1))" "km_mm (but_slots (vm_kkm m3)) = km_mm (but_slots (vm_kkm m1))"
    "km_kontext_count (but_slots (vm_kkm m3)) = km_kontext_count (but_slots (vm_kkm m1))" by (simp_all only: b)
  then have v: "km_kontext (vm_kkm m3) = replicate KKM_MAX_CONTEXTS 0" "km_kontext_count (vm_kkm m3) = 0" "km_mm (vm_kkm m3) = lx_current_mm ?E"
    "gs_kontexts m3 = (\<lambda>_. None)" "heap_top (klog m3) \<le> 2 ^ 38"
    using F H S(2) vm_more_guest(1) [of m3 h] quiet_keeps(2) [OF S(1)] quiet_keeps(2) [OF Q(1)] created_example [OF c] h(2)
    by (simp_all add: but_slots_def del: replicate.simps)
  obtain q6 m4 where x: "kkm_add_execution_kontext ?E 0 m3 = Some (q6, m4)" "0 \<le> q6" "km_kontext_count (vm_kkm m4) = 1"
    using example_add [OF v(4,1,2,3,5)] by blast
  define f4 where "f4 = add_files (installed (klog m3) (klog m4)) Kontext_file f2"
  define k4 where "k4 = k3\<lparr>context_device_fd := q6\<rparr>"
  have s5: "test_create_context ?E example_env k3 (m3, f2) = Some (k4, m4, f4)"
    using x by (simp add: test_create_context_def sys_ioctl_def k3_def r kkm_kontainer_ioctl_def user_result_def f4_def k4_def)
  have cl: "test_cleanup k4 w = sys_close 1 w" for w by (simp add: test_cleanup_def k4_def k3_def r)
  have m: "test_main example_process ?E example_env no_kkm_t (loaded_module, \<lambda>_. None) = Some (k4, m4, f4(1 := None))"
    by (simp add: test_main_def i s1 s2 s3 s4 s5 cl sys_close_def)
  have "0 < kontain_device_fd k4" using n by (simp add: k4_def k3_def r)
  from test_program_session [OF example_address _ _ _ _ _ _ _ m this x(3), of 1] m show ?thesis
    by (auto simp: example_linux_def example_process_def)
qed

text \<open>On a processor that is not supported the initialisation fails and closes the device; \<open>main\<close> goes on with the
  closed descriptor and with descriptor 0, and nothing happens to the module.\<close>

theorem test_program_unsupported:
  assumes "kkm_device_registered m" "\<not> kkm_cpu_supported m" "root = pe_open P ''/dev/kkm''" "0 \<le> root" "fs 0 = None"
    and "test_main P E D no_kkm_t (m, fs) = Some (k, m', fs')"
  shows "m' = m\<lparr>um := um m'\<rparr> \<and> fs' = fs(root := None) \<and> kontain_device_fd k = 0 \<and> context_map_size k = 0 \<and> cpu_supported k"
proof -
  define f1 where "f1 = fs(root \<mapsto> Root_file)"
  define f2 where "f2 = fs(root := None)"
  define k2 where "k2 = no_kkm_t\<lparr>device_name := ''/dev/kkm'', root_device_fd := root, cpu_supported := True\<rparr>"
  have k2: "root_device_fd k2 = root" "kontain_device_fd k2 = 0" "context_map_size k2 = 0" "cpu_supported k2"
    by (simp_all add: k2_def no_kkm_t_def)
  have none: "f2 root = None" "f2 0 = None" "f1(root := None) = f2" "f2(root := None) = f2"
    using assms(5) by (auto simp: f1_def f2_def)
  have io: "sys_ioctl E D root KKM_CPU_SUPPORTED 0 (m, f1) = Some (1, m, f1)"
    "sys_ioctl E D root KKM_GET_VERSION 0 (m, f1) = Some (- 1, m, f1)"
    using assms(2) installed_quiet [of "klog m" "klog m"]
    by (simp_all add: sys_ioctl_def f1_def kkm_device_ioctl_def ioctl_values user_result_def)
  have op: "sys_open P ''/dev/kkm'' (m, fs) = (root, m, f1)"
    using assms(1,3,4) by (simp add: sys_open_def f1_def Let_def)
  have closed: "sys_ioctl E D d t a (m1, f2) = Some (- 1, m1, f2)" if "d = root \<or> d = 0" for d t a m1
    using none that by (auto simp: sys_ioctl_def)
  have i: "test_init P E D no_kkm_t (m, fs) = Some (1, k2, m, f2)"
    using assms(4) by (simp add: test_init_def op io Let_def test_cleanup_def sys_close_def none k2_def)
  have "test_create_kontainer E D k2 (m, f2) = Some (k2, m, f2)" "test_get_mapsize E D k2 (m, f2) = Some (k2, m, f2)"
    by (simp_all add: test_create_kontainer_def test_get_mapsize_def closed k2)
  moreover obtain b where "test_get_cpuid P E D k2 (m, f2) = Some (k2, m\<lparr>um := b\<rparr>, f2)"
    by (simp add: test_get_cpuid_def Let_def user_store_def closed k2)
  moreover obtain c where "test_add_memory P E D k2 (m\<lparr>um := b\<rparr>, f2) = Some (k2, m\<lparr>um := c\<rparr>, f2)"
    by (simp add: test_add_memory_def Let_def user_store_def closed k2)
  moreover have "test_create_context E D k2 (m\<lparr>um := c\<rparr>, f2) = Some (k2, m\<lparr>um := c\<rparr>, f2)"
    by (simp add: test_create_context_def closed k2)
  ultimately have "test_main P E D no_kkm_t (m, fs) = Some (k2, m\<lparr>um := c\<rparr>, f2)"
    using assms(4) by (simp add: test_main_def i test_cleanup_def k2 sys_close_def none)
  then show ?thesis using assms(6) k2 by (auto simp: f2_def)
qed

end
