(* ===== verification/Kkm_Fpu.thy ===== *)
theory Kkm_Fpu
  imports Kkm_Device
begin

section \<open>Saving and restoring the extended state (\<open>kkm_fpu.S\<close>)\<close>

text \<open>
  The four routines that the run loop calls through \<open>kkm_fpu_save_xstate\<close> and \<open>kkm_fpu_restore_xstate\<close>, instruction by
  instruction. What the instructions store and load is the processor's: the record \<open>xsave_unit\<close>. The run loop itself copies
  whole images (\<open>Kkm_Switch\<close>); here is what that rests on.
\<close>

record fpu_cpu =
  f_rax :: u64
  f_rdx :: u64
  f_rdi :: u64
  f_stack :: "u64 list"
  f_xstate :: "u8 list"
  f_mem :: "u64 \<Rightarrow> u8"

text \<open>\<open>xu_store\<close> is the image that a save instruction leaves in a buffer, given the mask of requested components, the state
  and what the buffer held; \<open>xu_load\<close> the state that a restore instruction leaves, given the mask, the image and the old state.\<close>

record xsave_unit =
  xu_size :: nat
  xu_store :: "fpu_call \<Rightarrow> u64 \<Rightarrow> u8 list \<Rightarrow> u8 list \<Rightarrow> u8 list"
  xu_load :: "fpu_call \<Rightarrow> u64 \<Rightarrow> u8 list \<Rightarrow> u8 list \<Rightarrow> u8 list"

text \<open>The documented behaviour used: an image of all components restores the state, when it is loaded by the instruction
  that belongs to the one that stored it.\<close>

definition xsave_unit_ok :: "xsave_unit \<Rightarrow> bool" where
  "xsave_unit_ok U \<longleftrightarrow> xu_size U \<le> 2 ^ 32 \<and>
     (\<forall>c x buf. length x = xu_size U \<and> length buf = xu_size U \<longrightarrow> length (xu_store U c (- 1) x buf) = xu_size U) \<and>
     (\<forall>c x buf y. length x = xu_size U \<and> length buf = xu_size U \<longrightarrow> xu_load U c (- 1) (xu_store U c (- 1) x buf) y = x)"

subsection \<open>Instructions\<close>

definition pushq :: "u64 \<Rightarrow> fpu_cpu \<Rightarrow> fpu_cpu" where
  "pushq v s = s\<lparr>f_stack := v # f_stack s\<rparr>"

definition popq_rdx :: "fpu_cpu \<Rightarrow> fpu_cpu" where
  "popq_rdx s = s\<lparr>f_rdx := hd (f_stack s), f_stack := tl (f_stack s)\<rparr>"

definition popq_rax :: "fpu_cpu \<Rightarrow> fpu_cpu" where
  "popq_rax s = s\<lparr>f_rax := hd (f_stack s), f_stack := tl (f_stack s)\<rparr>"

text \<open>The requested components: \<open>edx:eax\<close>.\<close>

definition requested :: "fpu_cpu \<Rightarrow> u64" where
  "requested s = push_bit 32 (ucast (ucast (f_rdx s) :: u32)) OR ucast (ucast (f_rax s) :: u32)"

definition save_insn :: "xsave_unit \<Rightarrow> fpu_call \<Rightarrow> fpu_cpu \<Rightarrow> fpu_cpu" where
  "save_insn U c s = s\<lparr>f_mem := mem_store (f_rdi s)
     (xu_store U c (requested s) (f_xstate s) (mem_load (f_mem s) (f_rdi s) (xu_size U))) (f_mem s)\<rparr>"

definition restore_insn :: "xsave_unit \<Rightarrow> fpu_call \<Rightarrow> fpu_cpu \<Rightarrow> fpu_cpu" where
  "restore_insn U c s = s\<lparr>f_xstate := xu_load U c (requested s) (mem_load (f_mem s) (f_rdi s) (xu_size U)) (f_xstate s)\<rparr>"

subsection \<open>The routines\<close>

definition kkm_fpu_save_xstate_xsaves :: "xsave_unit \<Rightarrow> fpu_cpu \<Rightarrow> fpu_cpu" where
  "kkm_fpu_save_xstate_xsaves U s =
     (let s1 = pushq (f_rax s) s; s2 = pushq (f_rdx s1) s1;
          s3 = s2\<lparr>f_rax := - 1\<rparr>; s4 = s3\<lparr>f_rdx := f_rax s3\<rparr>;
          s5 = save_insn U Fpu_xsaves s4
      in popq_rax (popq_rdx s5))"

definition kkm_fpu_restore_xstate_xsaves :: "xsave_unit \<Rightarrow> fpu_cpu \<Rightarrow> fpu_cpu" where
  "kkm_fpu_restore_xstate_xsaves U s =
     (let s1 = pushq (f_rax s) s; s2 = pushq (f_rdx s1) s1;
          s3 = s2\<lparr>f_rax := - 1\<rparr>; s4 = s3\<lparr>f_rdx := f_rax s3\<rparr>;
          s5 = restore_insn U Fpu_xsaves s4
      in popq_rax (popq_rdx s5))"

definition kkm_fpu_save_xstate_xsave :: "xsave_unit \<Rightarrow> fpu_cpu \<Rightarrow> fpu_cpu" where
  "kkm_fpu_save_xstate_xsave U s =
     (let s1 = pushq (f_rax s) s; s2 = pushq (f_rdx s1) s1;
          s3 = s2\<lparr>f_rax := - 1\<rparr>; s4 = s3\<lparr>f_rdx := f_rax s3\<rparr>;
          s5 = save_insn U Fpu_xsave s4
      in popq_rax (popq_rdx s5))"

definition kkm_fpu_restore_xstate_xsave :: "xsave_unit \<Rightarrow> fpu_cpu \<Rightarrow> fpu_cpu" where
  "kkm_fpu_restore_xstate_xsave U s =
     (let s1 = pushq (f_rax s) s; s2 = pushq (f_rdx s1) s1;
          s3 = s2\<lparr>f_rax := - 1\<rparr>; s4 = s3\<lparr>f_rdx := f_rax s3\<rparr>;
          s5 = restore_insn U Fpu_xsave s4
      in popq_rax (popq_rdx s5))"

text \<open>The calls through the two pointers of the module.\<close>

fun fpu_save :: "fpu_call \<Rightarrow> xsave_unit \<Rightarrow> fpu_cpu \<Rightarrow> fpu_cpu" where
  "fpu_save Fpu_xsaves = kkm_fpu_save_xstate_xsaves"
| "fpu_save Fpu_xsave = kkm_fpu_save_xstate_xsave"

fun fpu_restore :: "fpu_call \<Rightarrow> xsave_unit \<Rightarrow> fpu_cpu \<Rightarrow> fpu_cpu" where
  "fpu_restore Fpu_xsaves = kkm_fpu_restore_xstate_xsaves"
| "fpu_restore Fpu_xsave = kkm_fpu_restore_xstate_xsave"

lemma all_requested: "f_rax s = - 1 \<Longrightarrow> f_rdx s = - 1 \<Longrightarrow> requested s = - 1"
proof -
  have "push_bit 32 (ucast (ucast (- 1 :: u64) :: u32) :: u64) OR ucast (ucast (- 1 :: u64) :: u32) = - 1"
    by (rule bit_word_eqI) (auto simp: bit_simps)
  then show "f_rax s = - 1 \<Longrightarrow> f_rdx s = - 1 \<Longrightarrow> requested s = - 1" by (simp add: requested_def)
qed

lemma save_effect:
  "fpu_save c U s = s\<lparr>f_mem := mem_store (f_rdi s)
     (xu_store U c (- 1) (f_xstate s) (mem_load (f_mem s) (f_rdi s) (xu_size U))) (f_mem s)\<rparr>"
  by (cases c) (simp_all add: kkm_fpu_save_xstate_xsaves_def kkm_fpu_save_xstate_xsave_def Let_def save_insn_def all_requested
      pushq_def popq_rax_def popq_rdx_def)

lemma restore_effect:
  "fpu_restore c U s = s\<lparr>f_xstate := xu_load U c (- 1) (mem_load (f_mem s) (f_rdi s) (xu_size U)) (f_xstate s)\<rparr>"
  by (cases c) (simp_all add: kkm_fpu_restore_xstate_xsaves_def kkm_fpu_restore_xstate_xsave_def Let_def restore_insn_def all_requested
      pushq_def popq_rax_def popq_rdx_def)

subsection \<open>Property\<close>


text \<open>A unit whose images are the states themselves.\<close>

definition example_unit :: xsave_unit where
  "example_unit = \<lparr>xu_size = 4, xu_store = (\<lambda>c mask x buf. if mask = - 1 then x else buf),
     xu_load = (\<lambda>c mask img y. if mask = - 1 then img else y)\<rparr>"

definition example_fpu :: fpu_cpu where
  "example_fpu = \<lparr>f_rax = 1, f_rdx = 2, f_rdi = 0x9000, f_stack = [], f_xstate = [3, 1, 4, 1], f_mem = (\<lambda>_. 0)\<rparr>"


end
